(* ===== verification/Prelude.thy ===== *)
theory Prelude
  imports Complex_Main "HOL-Library.Word" "HOL-Library.Monad_Syntax"
begin

text \<open>
  What every theory of the development shares: the result type of fallible Rust code, the
  types of the values the program passes around (identifiers, clock readings, message
  texts), decimal rendering of machine integers, and lemmas on lists of table rows.
\<close>

section \<open>Collections of facts\<close>

named_theorems res_simps \<open>evaluation of results and their composition\<close>
named_theorems row_simps \<open>row-wise reading and updating of tables\<close>

section \<open>Results: value, error, panic\<close>

text \<open>
  A fallible Rust function returns \<open>Ok\<close> or \<open>Err\<close>, or does not return because a callee
  panicked (a \<open>Decimal\<close> operation that overflowed or divided by zero). The third case is a
  value of the model, so that "does not panic" is a statement one can prove.
\<close>

datatype (res_errors: 'e, res_values: 'a) res = Ok 'a | Err 'e | Panic

fun res_bind :: "('e, 'a) res \<Rightarrow> ('a \<Rightarrow> ('e, 'b) res) \<Rightarrow> ('e, 'b) res" where
  "res_bind (Ok x) f = f x"
| "res_bind (Err e) f = Err e"
| "res_bind Panic f = Panic"

text \<open>The operator \<open>?\<close> after \<open>map_err\<close>, and \<open>Option::ok_or\<close>.\<close>

fun map_err :: "('e \<Rightarrow> 'f) \<Rightarrow> ('e, 'a) res \<Rightarrow> ('f, 'a) res" where
  "map_err g (Ok x) = Ok x"
| "map_err g (Err e) = Err (g e)"
| "map_err g Panic = Panic"

fun ok_or :: "'a option \<Rightarrow> 'e \<Rightarrow> ('e, 'a) res" where
  "ok_or (Some x) e = Ok x"
| "ok_or None e = Err e"

text \<open>A computation that can only panic (\<open>None\<close>), inside fallible code.\<close>

fun or_panic :: "'a option \<Rightarrow> ('e, 'a) res" where
  "or_panic (Some x) = Ok x"
| "or_panic None = Panic"

fun is_ok :: "('e, 'a) res \<Rightarrow> bool" where
  "is_ok (Ok x) = True"
| "is_ok (Err e) = False"
| "is_ok Panic = False"

lemma res_bind_eq_Ok [res_simps]:
  "res_bind m f = Ok y \<longleftrightarrow> (\<exists>x. m = Ok x \<and> f x = Ok y)"
  by (cases m) auto

lemma res_bind_eq_Err [res_simps]:
  "res_bind m f = Err e \<longleftrightarrow> m = Err e \<or> (\<exists>x. m = Ok x \<and> f x = Err e)"
  by (cases m) auto

lemma res_bind_eq_Panic [res_simps]:
  "res_bind m f = Panic \<longleftrightarrow> m = Panic \<or> (\<exists>x. m = Ok x \<and> f x = Panic)"
  by (cases m) auto

lemma map_err_eq [res_simps]:
  "map_err g m = Ok y \<longleftrightarrow> m = Ok y"
  "map_err g m = Panic \<longleftrightarrow> m = Panic"
  "map_err g m = Err e \<longleftrightarrow> (\<exists>e'. m = Err e' \<and> e = g e')"
  by (cases m; auto)+

lemma ok_or_eq [res_simps]:
  "ok_or z e = Ok x \<longleftrightarrow> z = Some x"
  "ok_or z e = Err e' \<longleftrightarrow> z = None \<and> e' = e"
  "ok_or z e \<noteq> Panic"
  by (cases z; auto)+

lemma or_panic_eq [res_simps]:
  "or_panic z = Ok x \<longleftrightarrow> z = Some x"
  "or_panic z \<noteq> Err e"
  "or_panic z = Panic \<longleftrightarrow> z = None"
  by (cases z; auto)+

text \<open>\<open>iter().map(f).collect::<Result<Vec<_>, _>>()\<close> stops at the first error.\<close>

fun map_res :: "('a \<Rightarrow> ('e, 'b) res) \<Rightarrow> 'a list \<Rightarrow> ('e, 'b list) res" where
  "map_res f [] = Ok []"
| "map_res f (x # xs) = res_bind (f x) (\<lambda>y. res_bind (map_res f xs) (\<lambda>ys. Ok (y # ys)))"

lemma map_res_Ok: "map_res f xs = Ok ys \<longleftrightarrow> list_all2 (\<lambda>x y. f x = Ok y) xs ys"
  by (induction xs arbitrary: ys) (auto simp: res_simps list_all2_Cons1)

lemma map_res_all_Ok: "(\<And>x. x \<in> set xs \<Longrightarrow> f x = Ok (g x)) \<Longrightarrow> map_res f xs = Ok (map g xs)"
  by (induction xs) auto

section \<open>Names of the program's scalar types\<close>

type_synonym i32 = "32 word"
type_synonym i64 = "64 word"
type_synonym u32 = "32 word"
type_synonym u8 = "8 word"
type_synonym byte = "8 word"

text \<open>\<open>uuid::Uuid\<close> is a 128-bit value compared as a number; \<open>Instant\<close> and \<open>timestamptz\<close>
  readings are counted from an arbitrary origin.\<close>

type_synonym uuid = "128 word"
type_synonym instant = nat
type_synonym duration = nat

text \<open>
  A text built by \<open>format!\<close> is kept as its format string together with the arguments
  substituted for the holes, in order; how an argument is rendered is the business of its
  \<open>Display\<close> implementation, which for \<open>Decimal\<close> is not part of this repository.
\<close>

datatype fmt_arg = FStr string | FDec rat | FInt int | FUuid uuid | FArgs "fmt_arg list"

datatype message = Fmt string "fmt_arg list"

abbreviation Msg :: "string \<Rightarrow> message" where
  "Msg s \<equiv> Fmt s []"

section \<open>Decimal rendering of unsigned integers\<close>

text \<open>\<open>Display\<close> for \<open>usize\<close>: no sign, no leading zero.\<close>

definition digit_char :: "nat \<Rightarrow> char" where
  "digit_char d = char_of (48 + d)"

fun show_nat :: "nat \<Rightarrow> string" where
  "show_nat n = (if n < 10 then [digit_char n] else show_nat (n div 10) @ [digit_char (n mod 10)])"

declare show_nat.simps [simp del]

definition digit_val :: "char \<Rightarrow> nat" where
  "digit_val c = of_char c - 48"

definition read_nat :: "string \<Rightarrow> nat" where
  "read_nat s = foldl (\<lambda>acc c. 10 * acc + digit_val c) 0 s"

lemma digit_val_digit_char: "d < 10 \<Longrightarrow> digit_val (digit_char d) = d"
  by (simp add: digit_val_def digit_char_def of_char_of)

lemma read_show_nat: "read_nat (show_nat n) = n"
proof (induction n rule: show_nat.induct)
  case (1 n)
  show ?case
  proof (cases "n < 10")
    case True
    then show ?thesis
      by (simp add: show_nat.simps [of n] read_nat_def digit_val_digit_char)
  next
    case False
    with 1 show ?thesis
      by (simp add: show_nat.simps [of n] read_nat_def digit_val_digit_char)
  qed
qed

lemma show_nat_inject: "show_nat m = show_nat n \<longleftrightarrow> m = n"
  by (metis read_show_nat)

lemma unat_byte_less: "unat (b :: byte) < 256"
  using unsigned_less [of b, where ?'a = nat] by simp

section \<open>Rows of a table\<close>

text \<open>
  \<open>UPDATE t SET \<dots> WHERE p\<close> rewrites the rows that satisfy \<open>p\<close>, in place;
  \<open>fetch_optional\<close> takes the first selected row, if any.
\<close>

definition update_where :: "('r \<Rightarrow> bool) \<Rightarrow> ('r \<Rightarrow> 'r) \<Rightarrow> 'r list \<Rightarrow> 'r list" where
  "update_where p f rs = map (\<lambda>r. if p r then f r else r) rs"

definition first_row :: "('r \<Rightarrow> bool) \<Rightarrow> 'r list \<Rightarrow> 'r option" where
  "first_row p rs = find p rs"

lemma length_update_where [row_simps, simp]: "length (update_where p f rs) = length rs"
  by (simp add: update_where_def)

lemma update_where_id [row_simps]: "\<forall>r\<in>set rs. \<not> p r \<Longrightarrow> update_where p f rs = rs"
  by (induction rs) (auto simp: update_where_def)

lemma set_update_where [row_simps]:
  "set (update_where p f rs) = (\<lambda>r. if p r then f r else r) ` set rs"
  by (simp add: update_where_def)

lemma map_update_where [row_simps]:
  "(\<And>r. g (f r) = g r) \<Longrightarrow> map g (update_where p f rs) = map g rs"
  by (simp add: update_where_def)

lemma filter_update_where_other [row_simps]:
  "(\<And>r. p r \<Longrightarrow> \<not> q r \<and> \<not> q (f r)) \<Longrightarrow> filter q (update_where p f rs) = filter q rs"
  by (induction rs) (auto simp: update_where_def)

lemma find_SomeD: "find p rs = Some r \<Longrightarrow> r \<in> set rs \<and> p r"
  by (auto simp: find_Some_iff)

lemma first_row_Some [row_simps]: "first_row p rs = Some r \<Longrightarrow> r \<in> set rs \<and> p r"
  by (auto simp: first_row_def find_Some_iff)

lemma first_row_None [row_simps]: "first_row p rs = None \<longleftrightarrow> (\<forall>r\<in>set rs. \<not> p r)"
  by (auto simp: first_row_def find_None_iff)

lemma first_row_unique:
  assumes "r \<in> set rs" "p r" "\<And>r'. r' \<in> set rs \<Longrightarrow> p r' \<Longrightarrow> r' = r"
  shows "first_row p rs = Some r"
  using assms by (metis first_row_Some first_row_None option.exhaust)

lemma update_where_distinct_key:
  assumes "distinct (map key rs)" "r \<in> set rs"
  shows "r' \<in> set (update_where (\<lambda>x. key x = key r) f rs) \<longleftrightarrow>
    r' = f r \<or> (r' \<in> set rs \<and> key r' \<noteq> key r)"
  using assms by (auto simp: set_update_where distinct_map inj_on_def)

end
