(* ===== verification/Decimal.thy ===== *)
theory Decimal
  imports Prelude
begin

text \<open>
  The interface of \<open>rust_decimal::Decimal\<close>, which is a crate outside this repository. A
  \<open>Decimal\<close> value is identified with the rational number it denotes (its comparison
  operators are numeric). The operations that may round or panic are a parameter of the model: a
  record \<open>dec_ops\<close>, passed to every definition that uses them. What a proof relies on is
  the predicate \<open>decimal_laws\<close>, which states the documented behaviour.
\<close>

section \<open>Operations\<close>

text \<open>
  \<open>None\<close> is a panic (overflow, division by zero). \<open>dnumeric\<close> is what reading a database
  \<open>NUMERIC\<close> into a \<open>Decimal\<close> gives; \<open>Row::get\<close> panics where the value does not convert.
\<close>

record dec_ops =
  dadd :: "rat \<Rightarrow> rat \<Rightarrow> rat option"
  dsub :: "rat \<Rightarrow> rat \<Rightarrow> rat option"
  dmul :: "rat \<Rightarrow> rat \<Rightarrow> rat option"
  ddiv :: "rat \<Rightarrow> rat \<Rightarrow> rat option"
  dfloor :: "rat \<Rightarrow> rat"
  dfract :: "rat \<Rightarrow> rat"
  dparse :: "string \<Rightarrow> rat option"
  dmax :: "rat"
  dnumeric :: "rat \<Rightarrow> rat option"

text \<open>\<open>Iterator::sum\<close> on decimals adds from the left, starting at zero.\<close>

fun d_sum_from :: "dec_ops \<Rightarrow> rat \<Rightarrow> rat list \<Rightarrow> rat option" where
  "d_sum_from D acc [] = Some acc"
| "d_sum_from D acc (x # xs) = do { a \<leftarrow> dadd D acc x; d_sum_from D a xs }"

definition d_sum :: "dec_ops \<Rightarrow> rat list \<Rightarrow> rat option" where
  "d_sum D xs = d_sum_from D 0 xs"

section \<open>Documented behaviour\<close>

text \<open>
  A \<open>Decimal\<close> is \<open>m / 10^e\<close> with \<open>\<bar>m\<bar> < 2^96\<close> and \<open>e \<le> 28\<close>.
\<close>

definition is_dec :: "rat \<Rightarrow> bool" where
  "is_dec x \<longleftrightarrow> (\<exists>(m::int) (e::nat). \<bar>m\<bar> < 2 ^ 96 \<and> e \<le> 28 \<and> x = of_int m / 10 ^ e)"

text \<open>
  An operation gives the exact result whenever that result is a \<open>Decimal\<close>; dividing by zero
  panics; \<open>floor\<close> and \<open>fract\<close> are the mathematical functions (\<open>fract\<close> truncates towards zero).
\<close>

definition decimal_laws :: "dec_ops \<Rightarrow> bool" where
  "decimal_laws D \<longleftrightarrow>
     (\<forall>x y. is_dec x \<longrightarrow> is_dec y \<longrightarrow>
        (is_dec (x + y) \<longrightarrow> dadd D x y = Some (x + y)) \<and>
        (is_dec (x - y) \<longrightarrow> dsub D x y = Some (x - y)) \<and>
        (is_dec (x * y) \<longrightarrow> dmul D x y = Some (x * y)) \<and>
        (y \<noteq> 0 \<longrightarrow> is_dec (x / y) \<longrightarrow> ddiv D x y = Some (x / y)) \<and>
        ddiv D x 0 = None) \<and>
     (\<forall>x. is_dec x \<longrightarrow> dnumeric D x = Some x) \<and>
     (\<forall>x. is_dec x \<longrightarrow> dfloor D x = of_int \<lfloor>x\<rfloor>) \<and>
     (\<forall>x. is_dec x \<longrightarrow>
        dfract D x = x - (if 0 \<le> x then of_int \<lfloor>x\<rfloor> else - of_int \<lfloor>- x\<rfloor>))"

lemma decimal_lawsD:
  assumes "decimal_laws D" "is_dec x" "is_dec y"
  shows "is_dec (x + y) \<Longrightarrow> dadd D x y = Some (x + y)"
    "is_dec (x - y) \<Longrightarrow> dsub D x y = Some (x - y)"
    "is_dec (x * y) \<Longrightarrow> dmul D x y = Some (x * y)"
    "y \<noteq> 0 \<Longrightarrow> is_dec (x / y) \<Longrightarrow> ddiv D x y = Some (x / y)"
    "ddiv D x 0 = None"
    "dfloor D x = of_int \<lfloor>x\<rfloor>"
    "dfract D x = x - (if 0 \<le> x then of_int \<lfloor>x\<rfloor> else - of_int \<lfloor>- x\<rfloor>)"
    "dnumeric D x = Some x"
  using assms unfolding decimal_laws_def by blast+

lemma is_decI: "\<bar>m\<bar> < 2 ^ 96 \<Longrightarrow> e \<le> 28 \<Longrightarrow> x = of_int m / 10 ^ e \<Longrightarrow> is_dec x"
  unfolding is_dec_def by blast

lemma is_dec_int: "\<bar>m\<bar> < 2 ^ 96 \<Longrightarrow> is_dec (of_int m)"
  by (rule is_decI [of m 0]) simp_all

lemma is_dec_0 [simp]: "is_dec 0"
  using is_dec_int [of 0] by simp

lemma is_dec_1 [simp]: "is_dec 1"
  using is_dec_int [of 1] by simp

lemma is_dec_100 [simp]: "is_dec 100"
  using is_dec_int [of 100] by simp

lemma is_dec_numeral [simp]: "(numeral k :: int) < 2 ^ 96 \<Longrightarrow> is_dec (numeral k)"
  using is_dec_int [of "numeral k"] by simp

lemma is_dec_uminus [simp]: "is_dec (- x) \<longleftrightarrow> is_dec x"
proof -
  have "is_dec (- x)" if "is_dec x" for x
  proof -
    from that obtain m :: int and e where "\<bar>m\<bar> < 2 ^ 96" "e \<le> 28" "x = of_int m / 10 ^ e"
      unfolding is_dec_def by blast
    then show ?thesis by (intro is_decI [of "- m" e]) auto
  qed
  from this [of x] this [of "- x"] show ?thesis by auto
qed

lemma is_dec_bound: "is_dec x \<Longrightarrow> \<bar>x\<bar> < 2 ^ 96"
proof -
  assume "is_dec x"
  then obtain m :: int and e where m: "\<bar>m\<bar> < 2 ^ 96" and x: "x = of_int m / 10 ^ e"
    unfolding is_dec_def by blast
  have "\<bar>of_int m / 10 ^ e\<bar> \<le> \<bar>of_int m :: rat\<bar>"
    by (simp add: abs_divide divide_le_eq mult_le_cancel_left1)
  also have "\<dots> = of_int \<bar>m\<bar>" by simp
  also have "(of_int \<bar>m\<bar> :: rat) < of_int (2 ^ 96)"
    using m by (subst of_int_less_iff)
  finally show ?thesis using x by simp
qed

section \<open>Multiples of a power of ten\<close>

text \<open>
  The amounts the database stores are integer multiples of \<open>10^-10\<close>; those below
  \<open>2^96 / 10^10\<close> are decimals, so sums of them are exact.
\<close>

definition on_grid :: "rat \<Rightarrow> bool" where
  "on_grid x \<longleftrightarrow> (\<exists>k::int. x = of_int k / 10 ^ 10)"

definition grid_bound :: rat where
  "grid_bound = 2 ^ 96 / 10 ^ 10"

lemma on_grid_0 [simp]: "on_grid 0"
  unfolding on_grid_def by (rule exI [of _ 0]) simp

lemma on_grid_add [intro]: "on_grid x \<Longrightarrow> on_grid y \<Longrightarrow> on_grid (x + y)"
  unfolding on_grid_def by (metis add_divide_distrib of_int_add)

lemma on_grid_uminus [simp]: "on_grid (- x) \<longleftrightarrow> on_grid x"
  unfolding on_grid_def
  by (metis minus_divide_left minus_equation_iff of_int_minus)

lemma on_grid_diff [intro]: "on_grid x \<Longrightarrow> on_grid y \<Longrightarrow> on_grid (x - y)"
  using on_grid_add [of x "- y"] by simp

lemma on_grid_sum: "(\<And>x. x \<in> set xs \<Longrightarrow> on_grid x) \<Longrightarrow> on_grid (sum_list xs)"
  by (induction xs) auto

lemma on_grid_numeral [simp]: "on_grid (numeral k)"
  unfolding on_grid_def by (rule exI [of _ "numeral k * 10 ^ 10"]) simp

lemma on_grid_is_dec: "on_grid x \<Longrightarrow> \<bar>x\<bar> < grid_bound \<Longrightarrow> is_dec x"
proof -
  assume "on_grid x" and b: "\<bar>x\<bar> < grid_bound"
  then obtain k :: int where x: "x = of_int k / 10 ^ 10"
    unfolding on_grid_def by blast
  from b have "\<bar>of_int k :: rat\<bar> < 2 ^ 96"
    by (simp add: x grid_bound_def abs_divide divide_less_cancel)
  then have "of_int \<bar>k\<bar> < (of_int (2 ^ 96) :: rat)" by simp
  then have "\<bar>k\<bar> < 2 ^ 96" by (subst (asm) of_int_less_iff)
  then show ?thesis using x by (intro is_decI [of k 10]) auto
qed

lemma d_sum_from_snoc:
  "d_sum_from D acc (xs @ [x]) = do { a \<leftarrow> d_sum_from D acc xs; dadd D a x }"
  by (induction xs arbitrary: acc) (auto split: Option.bind_splits)

lemma d_sum_simps [simp]: "d_sum D [] = Some 0"
  by (simp add: d_sum_def)

lemma d_sum_snoc: "d_sum D (xs @ [x]) = do { a \<leftarrow> d_sum D xs; dadd D a x }"
  by (simp add: d_sum_def d_sum_from_snoc)

lemma d_sum_from_exact:
  assumes "decimal_laws D" "0 \<le> acc" "on_grid acc" "\<forall>x\<in>set xs. 0 \<le> x \<and> on_grid x"
    "acc + sum_list xs < grid_bound"
  shows "d_sum_from D acc xs = Some (acc + sum_list xs)"
  using assms
proof (induction xs arbitrary: acc)
  case Nil
  then show ?case by simp
next
  case (Cons x xs)
  have nn: "0 \<le> sum_list xs" using Cons.prems(4) by (auto intro!: sum_list_nonneg)
  have g: "on_grid (acc + x)" "0 \<le> acc + x" using Cons.prems by auto
  have "is_dec acc" "is_dec x" "is_dec (acc + x)"
    using Cons.prems nn by (auto intro!: on_grid_is_dec)
  then have "dadd D acc x = Some (acc + x)"
    using Cons.prems(1) by (auto dest: decimal_lawsD(1))
  moreover have "d_sum_from D (acc + x) xs = Some (acc + x + sum_list xs)"
    using Cons.prems g by (intro Cons.IH) (auto simp: algebra_simps)
  ultimately show ?case by (simp add: algebra_simps)
qed

text \<open>Summing stored amounts is exact.\<close>

lemma d_sum_exact:
  assumes "decimal_laws D" "\<forall>x\<in>set xs. 0 \<le> x \<and> on_grid x" "sum_list xs < grid_bound"
  shows "d_sum D xs = Some (sum_list xs)"
  using d_sum_from_exact [of D 0 xs] assms by (simp add: d_sum_def)

lemma d_sum_from_prefixes:
  assumes "decimal_laws D" "\<forall>x\<in>set xs. is_dec x" "is_dec acc"
    "\<forall>n. is_dec (acc + sum_list (take n xs))"
  shows "d_sum_from D acc xs = Some (acc + sum_list xs)"
  using assms(2-)
proof (induction xs arbitrary: acc)
  case Nil
  then show ?case by simp
next
  case (Cons x xs)
  have one: "is_dec (acc + x)" using Cons.prems(3)[rule_format, of 1] by simp
  have rest: "\<forall>n. is_dec (acc + x + sum_list (take n xs))"
  proof
    fix n
    show "is_dec (acc + x + sum_list (take n xs))"
      using Cons.prems(3)[rule_format, of "Suc n"] by (simp add: add.assoc)
  qed
  have "dadd D acc x = Some (acc + x)"
    using assms(1) Cons.prems one by (intro decimal_lawsD(1)) auto
  then show ?case using Cons.IH [of "acc + x"] Cons.prems one rest by (simp add: add.assoc)
qed

lemma d_sum_prefixes:
  assumes "decimal_laws D" "\<forall>x\<in>set xs. is_dec x" "\<forall>n. is_dec (sum_list (take n xs))"
  shows "d_sum D xs = Some (sum_list xs)"
  using d_sum_from_prefixes [of D xs 0] assms by (simp add: d_sum_def)

section \<open>A concrete instance\<close>

text \<open>
  An executable set of operations with the documented behaviour: a result keeps as many
  fractional digits, up to 28, as a mantissa below \<open>2^96\<close> allows, and panics where not even its
  integer part fits. It serves to evaluate the model at concrete inputs; no theorem about the program depends on it.
\<close>

primrec fit_at :: "nat \<Rightarrow> rat \<Rightarrow> rat option" where
  "fit_at 0 x = (if \<bar>\<lfloor>x\<rfloor>\<bar> < 2 ^ 96 then Some (of_int \<lfloor>x\<rfloor>) else None)"
| "fit_at (Suc e) x =
     (if \<bar>\<lfloor>x * 10 ^ Suc e\<rfloor>\<bar> < 2 ^ 96 then Some (of_int \<lfloor>x * 10 ^ Suc e\<rfloor> / 10 ^ Suc e)
      else fit_at e x)"

definition fit :: "rat \<Rightarrow> rat option" where
  "fit x = fit_at 28 x"

definition parse_unsigned :: "string \<Rightarrow> rat" where
  "parse_unsigned s =
     (let i = takeWhile (\<lambda>c. c \<noteq> CHR ''.'') s; f = drop (Suc (length i)) s
      in of_nat (read_nat (i @ f)) / 10 ^ length f)"

definition ref_dec :: dec_ops where
  "ref_dec = \<lparr>
     dadd = (\<lambda>x y. fit (x + y)),
     dsub = (\<lambda>x y. fit (x - y)),
     dmul = (\<lambda>x y. fit (x * y)),
     ddiv = (\<lambda>x y. if y = 0 then None else fit (x / y)),
     dfloor = (\<lambda>x. of_int \<lfloor>x\<rfloor>),
     dfract = (\<lambda>x. x - (if 0 \<le> x then of_int \<lfloor>x\<rfloor> else - of_int \<lfloor>- x\<rfloor>)),
     dparse = (\<lambda>s. if s \<noteq> [] \<and> list_all (\<lambda>c. c \<in> set ''0123456789.'') s
                   then Some (parse_unsigned s) else None),
     dmax = 2 ^ 96 - 1,
     dnumeric = fit \<rparr>"

lemma fit_at_numeral [simp]:
  "fit_at (numeral k) x =
     (if \<bar>\<lfloor>x * 10 ^ numeral k\<rfloor>\<bar> < 2 ^ 96
      then Some (of_int \<lfloor>x * 10 ^ numeral k\<rfloor> / 10 ^ numeral k)
      else fit_at (pred_numeral k) x)"
  by (simp only: numeral_eq_Suc fit_at.simps)

lemma fit_at_exact:
  assumes "\<bar>m\<bar> < 2 ^ 96" "e \<le> n" "x = of_int m / 10 ^ e"
  shows "fit_at n x = Some x"
  using assms(2)
proof (induction n)
  case 0
  then show ?case using assms by simp
next
  case (Suc n)
  show ?case
  proof (cases "e = Suc n")
    case True
    then have "x * 10 ^ Suc n = of_int m" using assms(3) by simp
    with assms(1) show ?thesis unfolding fit_at.simps
      by (metis floor_of_int nonzero_mult_div_cancel_right power_not_zero zero_neq_numeral)
  next
    case False
    with Suc.prems have le: "e \<le> Suc n" "e \<le> n" by auto
    have "(10::rat) ^ Suc n = 10 ^ e * 10 ^ (Suc n - e)"
      using le by (simp only: power_add [symmetric] le_add_diff_inverse)
    moreover have "x * (10 ^ e * 10 ^ (Suc n - e)) = of_int (m * 10 ^ (Suc n - e))"
      by (simp add: assms(3))
    ultimately have int: "x * 10 ^ Suc n = of_int (m * 10 ^ (Suc n - e))"
      by (simp only:)
    then have "of_int \<lfloor>x * 10 ^ Suc n\<rfloor> / 10 ^ Suc n = x"
      by (metis floor_of_int nonzero_mult_div_cancel_right power_not_zero zero_neq_numeral)
    with Suc.IH le show ?thesis by (simp only: fit_at.simps if_cancel split: if_split)
  qed
qed

lemma fit_dec: "is_dec x \<Longrightarrow> fit x = Some x"
  unfolding is_dec_def fit_def using fit_at_exact by blast

lemma fit_at_is_dec: "fit_at n x = Some y \<Longrightarrow> n \<le> 28 \<Longrightarrow> is_dec y"
proof (induction n)
  case 0
  then show ?case by (auto split: if_splits intro: is_dec_int)
next
  case (Suc n)
  then show ?case
    by (simp only: fit_at.simps split: if_splits) (auto intro: is_decI [of _ "Suc n"])
qed

lemma fit_at_nonneg: "fit_at n x = Some y \<Longrightarrow> 0 \<le> x \<Longrightarrow> 0 \<le> y"
proof (induction n)
  case 0
  then show ?case by (auto split: if_splits)
next
  case (Suc n)
  then show ?case by (simp only: fit_at.simps split: if_splits) auto
qed

lemma ref_dec_laws: "decimal_laws ref_dec"
  unfolding decimal_laws_def by (simp add: ref_dec_def fit_dec)

lemma ref_dec_exact:
  "is_dec (x + y) \<Longrightarrow> dadd ref_dec x y = Some (x + y)"
  "is_dec (x - y) \<Longrightarrow> dsub ref_dec x y = Some (x - y)"
  "is_dec (x * y) \<Longrightarrow> dmul ref_dec x y = Some (x * y)"
  "y \<noteq> 0 \<Longrightarrow> is_dec (x / y) \<Longrightarrow> ddiv ref_dec x y = Some (x / y)"
  "is_dec x \<Longrightarrow> dnumeric ref_dec x = Some x"
  by (simp_all add: ref_dec_def fit_dec)

lemma is_dec_cents:
  "\<bar>m\<bar> < 2 ^ 96 \<Longrightarrow> is_dec (of_int m / 100)"
  by (rule is_decI [of m 2]) simp_all

end
