(* ===== verification/Risk_Engine.thy ===== *)
theory Risk_Engine
  imports Decimal
begin

text \<open>
  \<open>crates/core\<close>: the data types of \<open>types.rs\<close> and the risk evaluation of \<open>engine.rs\<close>.
  The code is a pure function from a trade intent, an account snapshot and the account's limits
  to a decision. Arithmetic on decimals may panic, so every step that computes is in the option
  monad. The second half gives the reference predicate \<open>approved_spec\<close> over exact
  rationals and shows that the code computes it.
\<close>

section \<open>Data\<close>

datatype trade_side = TBuy | TSell

datatype position_side = Long | Short

record trade_intent =
  ti_symbol :: string
  ti_side :: trade_side
  ti_quantity :: rat
  ti_price :: rat

record open_position =
  op_symbol :: string
  op_side :: position_side
  op_quantity :: rat
  op_notional :: rat

record risk_config =
  daily_max_loss_pct :: rat
  max_position_pct_equity :: rat
  max_concurrent_positions :: i32
  max_correlated_exposure_pct :: rat

record account_snapshot =
  as_equity :: rat
  as_today_realized_loss :: rat
  as_kill_switch_engaged :: bool
  as_circuit_breaker_tripped :: bool
  as_open_positions :: "open_position list"
  as_correlation_groups :: "string \<rightharpoonup> string"

datatype violation =
    KillSwitchEngaged
  | InvalidIntent rat rat
  | CircuitBreakerTripped rat rat
  | NonPositiveEquity rat
  | PositionSizeExceeded rat rat rat
  | MaxConcurrentPositionsExceeded i64 i32
  | CorrelatedExposureExceeded string rat rat rat

datatype decision = Approved | Rejected "violation list"

fun is_approved :: "decision \<Rightarrow> bool" where
  "is_approved Approved = True"
| "is_approved (Rejected vs) = False"

definition intent_notional :: "dec_ops \<Rightarrow> trade_intent \<Rightarrow> rat option" where
  "intent_notional D i = dmul D (ti_quantity i) (ti_price i)"

section \<open>The checks\<close>

text \<open>\<open>a * pct / HUNDRED\<close>, the shape of every percentage limit.\<close>

definition pct_of :: "dec_ops \<Rightarrow> rat \<Rightarrow> rat \<Rightarrow> rat option" where
  "pct_of D a pct = do { x \<leftarrow> dmul D a pct; ddiv D x 100 }"

definition circuit_breaker_should_trip ::
    "dec_ops \<Rightarrow> account_snapshot \<Rightarrow> risk_config \<Rightarrow> bool option" where
  "circuit_breaker_should_trip D s cfg =
     (if as_equity s \<le> 0 then Some (as_today_realized_loss s > 0)
      else do {
        lim \<leftarrow> pct_of D (as_equity s) (daily_max_loss_pct cfg);
        Some (as_today_realized_loss s \<ge> lim) })"

fun opposes :: "trade_side \<Rightarrow> position_side \<Rightarrow> bool" where
  "opposes TSell Long = True"
| "opposes TBuy Short = True"
| "opposes _ _ = False"

definition reduces_existing_position :: "trade_intent \<Rightarrow> account_snapshot \<Rightarrow> bool" where
  "reduces_existing_position i s =
     list_ex (\<lambda>p. op_symbol p = ti_symbol i \<and> opposes (ti_side i) (op_side p)
                   \<and> ti_quantity i \<le> op_quantity p) (as_open_positions s)"

definition check_position_size ::
    "dec_ops \<Rightarrow> trade_intent \<Rightarrow> account_snapshot \<Rightarrow> risk_config \<Rightarrow> violation list \<Rightarrow> violation list option"
where
  "check_position_size D i s cfg vs =
     (if as_equity s \<le> 0 then Some (vs @ [NonPositiveEquity (as_equity s)])
      else do {
        limit_notional \<leftarrow> pct_of D (as_equity s) (max_position_pct_equity cfg);
        trade_notional \<leftarrow> intent_notional D i;
        Some (if trade_notional > limit_notional
              then vs @ [PositionSizeExceeded trade_notional limit_notional (max_position_pct_equity cfg)]
              else vs) })"

definition check_concurrent_positions ::
    "trade_intent \<Rightarrow> account_snapshot \<Rightarrow> risk_config \<Rightarrow> violation list \<Rightarrow> violation list" where
  "check_concurrent_positions i s cfg vs =
     (if list_ex (\<lambda>p. op_symbol p = ti_symbol i) (as_open_positions s) then vs
      else let open_count = (word_of_nat (length (as_open_positions s)) :: i64) in
        if sint open_count \<ge> sint (max_concurrent_positions cfg)
        then vs @ [MaxConcurrentPositionsExceeded open_count (max_concurrent_positions cfg)]
        else vs)"

text \<open>The notionals of the open positions in the group of the intent's symbol.\<close>

definition group_notionals :: "account_snapshot \<Rightarrow> string \<Rightarrow> rat list" where
  "group_notionals s g =
     map op_notional
       (filter (\<lambda>p. as_correlation_groups s (op_symbol p) = Some g) (as_open_positions s))"

definition check_correlated_exposure ::
    "dec_ops \<Rightarrow> trade_intent \<Rightarrow> account_snapshot \<Rightarrow> risk_config \<Rightarrow> violation list \<Rightarrow> violation list option"
where
  "check_correlated_exposure D i s cfg vs =
     (case as_correlation_groups s (ti_symbol i) of
        None \<Rightarrow> Some vs
      | Some g \<Rightarrow>
         if as_equity s \<le> 0 then Some vs
         else do {
           existing \<leftarrow> d_sum D (group_notionals s g);
           n \<leftarrow> intent_notional D i;
           combined \<leftarrow> dadd D existing n;
           limit_notional \<leftarrow> pct_of D (as_equity s) (max_correlated_exposure_pct cfg);
           Some (if combined > limit_notional
                 then vs @ [CorrelatedExposureExceeded g combined limit_notional
                              (max_correlated_exposure_pct cfg)]
                 else vs) })"

section \<open>Evaluation\<close>

definition evaluate ::
    "dec_ops \<Rightarrow> trade_intent \<Rightarrow> account_snapshot \<Rightarrow> risk_config \<Rightarrow> decision option" where
  "evaluate D i s cfg =
     (if as_kill_switch_engaged s then Some (Rejected [KillSwitchEngaged])
      else if ti_quantity i < 0 \<or> ti_price i < 0
      then Some (Rejected [InvalidIntent (ti_quantity i) (ti_price i)])
      else do {
        daily_loss_limit \<leftarrow>
          (if as_equity s > 0 then pct_of D (as_equity s) (daily_max_loss_pct cfg) else Some 0);
        trip \<leftarrow>
          (if as_circuit_breaker_tripped s then Some True else circuit_breaker_should_trip D s cfg);
        let v0 = (if trip then [CircuitBreakerTripped (as_today_realized_loss s) daily_loss_limit]
                  else []);
        vs \<leftarrow>
          (if \<not> reduces_existing_position i s then do {
             v1 \<leftarrow> check_position_size D i s cfg v0;
             check_correlated_exposure D i s cfg (check_concurrent_positions i s cfg v1) }
           else Some v0);
        Some (if vs = [] then Approved else Rejected vs) })"

section \<open>The rules over exact numbers\<close>

text \<open>
  What the module's documentation promises, rule by rule: the kill switch is absolute; a tripped
  breaker halts everything, closes included; the sizing rules bind every trade that is not a pure
  reduction.
\<close>

definition breaker_spec :: "account_snapshot \<Rightarrow> risk_config \<Rightarrow> bool" where
  "breaker_spec s cfg \<longleftrightarrow>
     as_circuit_breaker_tripped s \<or>
     (if as_equity s \<le> 0 then as_today_realized_loss s > 0
      else as_today_realized_loss s \<ge> as_equity s * daily_max_loss_pct cfg / 100)"

definition size_spec :: "trade_intent \<Rightarrow> account_snapshot \<Rightarrow> risk_config \<Rightarrow> bool" where
  "size_spec i s cfg \<longleftrightarrow>
     as_equity s > 0 \<and>
     ti_quantity i * ti_price i \<le> as_equity s * max_position_pct_equity cfg / 100"

definition count_spec :: "trade_intent \<Rightarrow> account_snapshot \<Rightarrow> risk_config \<Rightarrow> bool" where
  "count_spec i s cfg \<longleftrightarrow>
     (\<exists>p\<in>set (as_open_positions s). op_symbol p = ti_symbol i) \<or>
     int (length (as_open_positions s)) < sint (max_concurrent_positions cfg)"

definition exposure_spec :: "trade_intent \<Rightarrow> account_snapshot \<Rightarrow> risk_config \<Rightarrow> bool" where
  "exposure_spec i s cfg \<longleftrightarrow>
     (\<forall>g. as_correlation_groups s (ti_symbol i) = Some g \<longrightarrow>
        sum_list (group_notionals s g) + ti_quantity i * ti_price i
          \<le> as_equity s * max_correlated_exposure_pct cfg / 100)"

definition approved_spec :: "trade_intent \<Rightarrow> account_snapshot \<Rightarrow> risk_config \<Rightarrow> bool" where
  "approved_spec i s cfg \<longleftrightarrow>
     \<not> as_kill_switch_engaged s \<and> 0 \<le> ti_quantity i \<and> 0 \<le> ti_price i \<and>
     \<not> breaker_spec s cfg \<and>
     (reduces_existing_position i s \<or>
       (size_spec i s cfg \<and> count_spec i s cfg \<and> exposure_spec i s cfg))"

text \<open>The report: one entry per broken rule, in the order of the rules.\<close>

definition breaker_violations :: "account_snapshot \<Rightarrow> risk_config \<Rightarrow> violation list" where
  "breaker_violations s cfg =
     (if breaker_spec s cfg
      then [CircuitBreakerTripped (as_today_realized_loss s)
              (if as_equity s > 0 then as_equity s * daily_max_loss_pct cfg / 100 else 0)]
      else [])"

definition size_violations :: "trade_intent \<Rightarrow> account_snapshot \<Rightarrow> risk_config \<Rightarrow> violation list" where
  "size_violations i s cfg =
     (if as_equity s \<le> 0 then [NonPositiveEquity (as_equity s)]
      else if size_spec i s cfg then []
      else [PositionSizeExceeded (ti_quantity i * ti_price i)
              (as_equity s * max_position_pct_equity cfg / 100) (max_position_pct_equity cfg)])"

definition count_violations :: "trade_intent \<Rightarrow> account_snapshot \<Rightarrow> risk_config \<Rightarrow> violation list" where
  "count_violations i s cfg =
     (if count_spec i s cfg then []
      else [MaxConcurrentPositionsExceeded (word_of_nat (length (as_open_positions s)))
              (max_concurrent_positions cfg)])"

definition exposure_violations :: "trade_intent \<Rightarrow> account_snapshot \<Rightarrow> risk_config \<Rightarrow> violation list" where
  "exposure_violations i s cfg =
     (case as_correlation_groups s (ti_symbol i) of
        None \<Rightarrow> []
      | Some g \<Rightarrow>
          if as_equity s \<le> 0 \<or> exposure_spec i s cfg then []
          else [CorrelatedExposureExceeded g
                  (sum_list (group_notionals s g) + ti_quantity i * ti_price i)
                  (as_equity s * max_correlated_exposure_pct cfg / 100)
                  (max_correlated_exposure_pct cfg)])"

definition violations_spec :: "trade_intent \<Rightarrow> account_snapshot \<Rightarrow> risk_config \<Rightarrow> violation list" where
  "violations_spec i s cfg =
     (if as_kill_switch_engaged s then [KillSwitchEngaged]
      else if ti_quantity i < 0 \<or> ti_price i < 0 then [InvalidIntent (ti_quantity i) (ti_price i)]
      else breaker_violations s cfg @
        (if reduces_existing_position i s then []
         else size_violations i s cfg @ count_violations i s cfg @ exposure_violations i s cfg))"

text \<open>
  The numbers that occur while one intent is evaluated are decimals, and the position count fits
  the \<open>i64\<close> it is cast to.
\<close>

definition pct_representable :: "rat \<Rightarrow> rat \<Rightarrow> bool" where
  "pct_representable a pct \<longleftrightarrow> is_dec a \<and> is_dec pct \<and> is_dec (a * pct) \<and> is_dec (a * pct / 100)"

definition engine_representable :: "trade_intent \<Rightarrow> account_snapshot \<Rightarrow> risk_config \<Rightarrow> bool" where
  "engine_representable i s cfg \<longleftrightarrow>
     pct_representable (as_equity s) (daily_max_loss_pct cfg) \<and>
     pct_representable (as_equity s) (max_position_pct_equity cfg) \<and>
     pct_representable (as_equity s) (max_correlated_exposure_pct cfg) \<and>
     is_dec (ti_quantity i) \<and> is_dec (ti_price i) \<and> is_dec (ti_quantity i * ti_price i) \<and>
     (\<forall>g. as_correlation_groups s (ti_symbol i) = Some g \<longrightarrow>
        (\<forall>x\<in>set (group_notionals s g). is_dec x) \<and>
        (\<forall>n. is_dec (sum_list (take n (group_notionals s g)))) \<and>
        is_dec (sum_list (group_notionals s g) + ti_quantity i * ti_price i)) \<and>
     length (as_open_positions s) < 2 ^ 63"

section \<open>Lemmas\<close>

lemma pct_of_exact:
  assumes "decimal_laws D" "pct_representable a pct"
  shows "pct_of D a pct = Some (a * pct / 100)"
proof -
  have "dmul D a pct = Some (a * pct)"
    using assms by (auto simp: pct_representable_def dest: decimal_lawsD(3))
  moreover have "ddiv D (a * pct) 100 = Some (a * pct / 100)"
    using assms by (intro decimal_lawsD(4)) (auto simp: pct_representable_def)
  ultimately show ?thesis by (simp add: pct_of_def)
qed

lemma intent_notional_exact:
  assumes "decimal_laws D" "engine_representable i s cfg"
  shows "intent_notional D i = Some (ti_quantity i * ti_price i)"
  using assms by (auto simp: intent_notional_def engine_representable_def dest: decimal_lawsD(3))

lemma should_trip_exact:
  assumes "decimal_laws D" "engine_representable i s cfg"
  shows "(if as_circuit_breaker_tripped s then Some True else circuit_breaker_should_trip D s cfg)
    = Some (breaker_spec s cfg)"
  using assms
  by (auto simp: circuit_breaker_should_trip_def breaker_spec_def engine_representable_def pct_of_exact)

lemma check_position_size_exact:
  assumes "decimal_laws D" "engine_representable i s cfg"
  shows "check_position_size D i s cfg vs = Some (vs @ size_violations i s cfg)"
  using assms pct_of_exact [of D "as_equity s" "max_position_pct_equity cfg"]
  by (auto simp: check_position_size_def size_violations_def size_spec_def intent_notional_exact
      engine_representable_def)

lemma check_concurrent_positions_exact:
  assumes "engine_representable i s cfg"
  shows "check_concurrent_positions i s cfg vs = vs @ count_violations i s cfg"
proof -
  let ?n = "length (as_open_positions s)"
  have "?n < 2 ^ 63" using assms by (simp add: engine_representable_def)
  then have "sint (word_of_nat ?n :: i64) = int ?n"
    by (simp add: signed_of_nat signed_take_bit_int_eq_self)
  then show ?thesis
    by (auto simp: check_concurrent_positions_def count_violations_def count_spec_def list_ex_iff Let_def)
qed

lemma check_correlated_exposure_exact:
  assumes "decimal_laws D" "engine_representable i s cfg"
  shows "check_correlated_exposure D i s cfg vs = Some (vs @ exposure_violations i s cfg)"
proof (cases "as_correlation_groups s (ti_symbol i)")
  case None
  then show ?thesis by (simp add: check_correlated_exposure_def exposure_violations_def)
next
  case (Some g)
  let ?e = "sum_list (group_notionals s g)" and ?n = "ti_quantity i * ti_price i"
  note rep = assms(2)[unfolded engine_representable_def]
  have dec: "is_dec ?e" using rep Some by (metis order_refl take_all)
  have "d_sum D (group_notionals s g) = Some ?e"
    using rep Some assms(1) by (intro d_sum_prefixes) auto
  moreover have "dadd D ?e ?n = Some (?e + ?n)"
    using rep Some assms(1) dec by (intro decimal_lawsD(1)) auto
  moreover have "pct_of D (as_equity s) (max_correlated_exposure_pct cfg)
      = Some (as_equity s * max_correlated_exposure_pct cfg / 100)"
    using rep assms(1) by (intro pct_of_exact) auto
  ultimately show ?thesis
    using Some assms
    by (auto simp: check_correlated_exposure_def exposure_violations_def exposure_spec_def intent_notional_exact)
qed

text \<open>The code computes the report.\<close>

lemma evaluate_exact:
  assumes "decimal_laws D" "engine_representable i s cfg"
  shows "evaluate D i s cfg =
    Some (if violations_spec i s cfg = [] then Approved else Rejected (violations_spec i s cfg))"
proof -
  have limit: "(if as_equity s > 0 then pct_of D (as_equity s) (daily_max_loss_pct cfg) else Some 0)
      = Some (if as_equity s > 0 then as_equity s * daily_max_loss_pct cfg / 100 else 0)"
    using assms by (auto simp: engine_representable_def pct_of_exact)
  show ?thesis
    unfolding evaluate_def limit should_trip_exact [OF assms] check_position_size_exact [OF assms]
      check_concurrent_positions_exact [OF assms(2)] check_correlated_exposure_exact [OF assms]
      bind.bind_lunit Let_def violations_spec_def breaker_violations_def [symmetric]
    by (simp split: if_split)
qed

lemma violations_spec_Nil: "violations_spec i s cfg = [] \<longleftrightarrow> approved_spec i s cfg"
  by (auto simp: violations_spec_def approved_spec_def breaker_violations_def size_violations_def
      count_violations_def exposure_violations_def size_spec_def exposure_spec_def
      split: option.splits)


text \<open>Whatever the decimals do, an approval means that nothing was halted.\<close>

lemma approved_not_halted:
  assumes "evaluate D i s cfg = Some Approved"
  shows "\<not> as_kill_switch_engaged s \<and> \<not> as_circuit_breaker_tripped s \<and>
    circuit_breaker_should_trip D s cfg = Some False \<and> 0 \<le> ti_quantity i \<and> 0 \<le> ti_price i"
proof -
  have grow: "check_position_size D i s cfg vs = Some ws \<Longrightarrow> vs \<noteq> [] \<Longrightarrow> ws \<noteq> []"
    "check_concurrent_positions i s cfg vs = ws \<Longrightarrow> vs \<noteq> [] \<Longrightarrow> ws \<noteq> []"
    "check_correlated_exposure D i s cfg vs = Some ws \<Longrightarrow> vs \<noteq> [] \<Longrightarrow> ws \<noteq> []" for vs ws
    by (auto simp: check_position_size_def check_concurrent_positions_def Let_def
        check_correlated_exposure_def split: if_splits option.splits Option.bind_splits)
  show ?thesis
    using assms
    by (auto simp: evaluate_def Let_def not_less split: if_splits Option.bind_splits dest: grow)
qed

end
