(* ===== verification/Exchange_Types.thy ===== *)
theory Exchange_Types
  imports Decimal
begin

text \<open>
  \<open>crates/exchange\<close>: the data of \<open>types.rs\<close>, the errors of \<open>error.rs\<close> and the plain-data
  snapshots and results that cross the \<open>ExchangeAdapter\<close> trait boundary (\<open>adapter.rs\<close>).
\<close>

section \<open>Orders and fills\<close>

datatype order_side = Buy | Sell

datatype order_type = Limit | Market

datatype order_status =
    Pending | Submitted | PartiallyFilled | Filled | CancelRequested | Cancelled | RejectedStatus

fun is_terminal :: "order_status \<Rightarrow> bool" where
  "is_terminal Filled = True"
| "is_terminal Cancelled = True"
| "is_terminal RejectedStatus = True"
| "is_terminal _ = False"

datatype exchange_mode = Paper | Live

record fill =
  fl_exchange_trade_id :: string
  fl_quantity :: rat
  fl_price :: rat
  fl_fee :: rat
  fl_fee_asset :: string

text \<open>The \<open>Debug\<close> rendering derived for enums without payload is the variant's name.\<close>

fun debug_status :: "order_status \<Rightarrow> string" where
  "debug_status Pending = ''Pending''"
| "debug_status Submitted = ''Submitted''"
| "debug_status PartiallyFilled = ''PartiallyFilled''"
| "debug_status Filled = ''Filled''"
| "debug_status CancelRequested = ''CancelRequested''"
| "debug_status Cancelled = ''Cancelled''"
| "debug_status RejectedStatus = ''Rejected''"

fun debug_order_type :: "order_type \<Rightarrow> string" where
  "debug_order_type Limit = ''Limit''"
| "debug_order_type Market = ''Market''"

fun debug_side :: "order_side \<Rightarrow> string" where
  "debug_side Buy = ''Buy''"
| "debug_side Sell = ''Sell''"

section \<open>Symbol metadata\<close>

record lot_size_filter =
  ls_min_qty :: rat
  ls_max_qty :: rat
  ls_step_size :: rat

record price_filter =
  pf_min_price :: rat
  pf_max_price :: rat
  pf_tick_size :: rat

record notional_filter =
  nf_min_notional :: "rat option"
  nf_max_notional :: "rat option"
  nf_apply_min_to_market :: bool
  nf_apply_max_to_market :: bool
  nf_avg_price_mins :: u32

text \<open>\<open>General up down mins\<close> and \<open>BySide bid_up bid_down ask_up ask_down mins\<close>.\<close>

datatype percent_price_rule =
    General rat rat u32
  | BySide rat rat rat rat u32

datatype symbol_status = Trading | Break | Halt | AuctionMatch

fun debug_symbol_status :: "symbol_status \<Rightarrow> string" where
  "debug_symbol_status Trading = ''Trading''"
| "debug_symbol_status Break = ''Break''"
| "debug_symbol_status Halt = ''Halt''"
| "debug_symbol_status AuctionMatch = ''AuctionMatch''"

record symbol_meta =
  sm_symbol :: string
  sm_base_asset :: string
  sm_quote_asset :: string
  sm_status :: symbol_status
  sm_allowed_order_types :: "order_type list"
  sm_lot_size :: lot_size_filter
  sm_market_lot_size :: lot_size_filter
  sm_price_filter :: price_filter
  sm_notional :: notional_filter
  sm_percent_price :: percent_price_rule

section \<open>Price estimates and intents\<close>

datatype price_source = BestBid | BestAsk | LastTrade

record price_estimate =
  pe_price :: rat
  pe_source :: price_source
  pe_is_fresh :: bool

record conservative_price_estimate =
  ce_price :: rat
  ce_is_fresh :: bool

record order_intent =
  oi_symbol :: string
  oi_side :: order_side
  oi_order_type :: order_type
  oi_quantity :: rat
  oi_price :: "rat option"

section \<open>Errors\<close>

datatype exchange_error =
    FillExceedsRemaining string rat rat
  | InsufficientBalance string rat rat
  | MarketDataError message
  | InvalidTransition string string
  | SymbolNotFound string
  | FilterViolation message
  | EncryptionError message

section \<open>What crosses the adapter boundary\<close>

text \<open>Values of \<open>serde_json::Value\<close>; numbers are kept as rationals.\<close>

datatype json =
    JNull
  | JBool bool
  | JNum rat
  | JStr string
  | JArr "json list"
  | JObj "(string \<times> json) list"

record order_snapshot =
  os_order_id :: uuid
  os_client_order_id :: string
  os_symbol :: string
  os_side :: order_side
  os_order_type :: order_type
  os_quantity :: rat
  os_price :: "rat option"
  os_status :: order_status

record fill_snapshot =
  fs_exchange_trade_id :: string
  fs_quantity :: rat
  fs_price :: rat

record position_snapshot =
  ps_symbol :: string
  ps_quantity :: rat

record reconcile_snapshot =
  rs_order :: order_snapshot
  rs_fills :: "fill_snapshot list"
  rs_positions :: "position_snapshot list"

record position_delta =
  pd_symbol :: string
  pd_quantity_delta :: rat

record risk_event =
  re_event_type :: string
  re_payload :: json

record exchange_command =
  xc_command_type :: string
  xc_idempotency_key :: string
  xc_payload :: json

record reconcile_result =
  rr_new_status :: "order_status option"
  rr_fills_to_add :: "fill list"
  rr_positions_delta :: "position_delta list"
  rr_events :: "risk_event list"
  rr_command :: "exchange_command option"

text \<open>\<open>ReconcileResult::default()\<close>.\<close>

definition no_result :: reconcile_result where
  "no_result = \<lparr>rr_new_status = None, rr_fills_to_add = [], rr_positions_delta = [],
     rr_events = [], rr_command = None\<rparr>"

record submit_result =
  sr_accepted :: bool
  sr_events :: "risk_event list"

text \<open>
  The trait \<open>ExchangeAdapter\<close>: one entry per method. An \<open>Arc<dyn ExchangeAdapter>\<close> is a value of this
  type. The server calls the first four while it dispatches a command; nothing calls the others.
\<close>

record adapter =
  ad_mode :: exchange_mode
  ad_submit :: "order_snapshot \<Rightarrow> (exchange_error, submit_result) res"
  ad_cancel :: "order_snapshot \<Rightarrow> (exchange_error, unit) res"
  ad_reconcile_order :: "reconcile_snapshot \<Rightarrow> (exchange_error, reconcile_result) res"
  ad_reconcile_account :: "uuid \<Rightarrow> (exchange_error, unit) res"
  ad_start :: "(exchange_error, unit) res"
  ad_shutdown :: "(exchange_error, unit) res"

text \<open>
  The trait \<open>CommandDispatcher\<close> of \<open>outbox.rs\<close>, which nothing implements: account, command type and
  payload. The server dispatches with \<open>Outbox_Worker.dispatch\<close> instead.
\<close>

record command_dispatcher =
  cd_dispatch :: "uuid \<Rightarrow> string \<Rightarrow> json \<Rightarrow> (exchange_error, unit) res"

section \<open>Identifiers and payloads\<close>

text \<open>
  The \<open>uuid\<close> crate's rendering and parsing are parameters; \<open>uuid_laws\<close> is their documented
  round trip. \<open>Decimal\<close>'s serializer is a parameter as well.
\<close>

record uuid_ops =
  uuid_str :: "uuid \<Rightarrow> string"
  uuid_parse :: "string \<Rightarrow> uuid option"
  ser_dec :: "rat \<Rightarrow> json"

definition uuid_laws :: "uuid_ops \<Rightarrow> bool" where
  "uuid_laws U \<longleftrightarrow> (\<forall>u. uuid_parse U (uuid_str U u) = Some u)"

lemma uuid_str_inject: "uuid_laws U \<Longrightarrow> uuid_str U a = uuid_str U b \<longleftrightarrow> a = b"
  unfolding uuid_laws_def by (metis option.inject)

text \<open>\<open>json!({ "order_id": \<dots>, "new_status": \<dots> })\<close>.\<close>

definition order_event_payload :: "uuid_ops \<Rightarrow> uuid \<Rightarrow> string \<Rightarrow> string \<Rightarrow> json" where
  "order_event_payload U oid key val =
     JObj [(''order_id'', JStr (uuid_str U oid)), (key, JStr val)]"

section \<open>A concrete instance\<close>

text \<open>Identifiers rendered in decimal, to evaluate the model at concrete inputs.\<close>

definition ref_uuid :: uuid_ops where
  "ref_uuid = \<lparr>uuid_str = (\<lambda>u. show_nat (unat u)), uuid_parse = (\<lambda>s. Some (word_of_nat (read_nat s))),
     ser_dec = JNum\<rparr>"

lemma ref_uuid_laws: "uuid_laws ref_uuid"
  by (simp add: uuid_laws_def ref_uuid_def read_show_nat)

end
