(* ===== verification/Lifecycle.thy ===== *)
theory Lifecycle
  imports Prelude
begin

text \<open>
  The contract of a status column: a relation of legal changes and a set of final values that
  nothing leaves. Orders and outbox commands are two instances.
\<close>

text \<open>A history \<open>s, t1, t2, \<dots>\<close> in which every entry is a legal change of the one before.\<close>

fun chain :: "('s \<Rightarrow> 's \<Rightarrow> bool) \<Rightarrow> 's \<Rightarrow> 's list \<Rightarrow> bool" where
  "chain legal s [] = True"
| "chain legal s (t # ts) = (legal s t \<and> chain legal t ts)"

locale lifecycle =
  fixes legal :: "'s \<Rightarrow> 's \<Rightarrow> bool"
    and final :: "'s \<Rightarrow> bool"
    and start :: 's
  assumes final_stuck: "final s \<Longrightarrow> \<not> legal s t"
    and start_unreached: "\<not> legal s start"
    and start_open: "\<not> final start"
begin

lemma final_absorbing: "legal\<^sup>*\<^sup>* s t \<Longrightarrow> final s \<Longrightarrow> t = s"
  by (induction rule: rtranclp_induct) (auto simp: final_stuck)

lemma final_chain: "chain legal s ts \<Longrightarrow> final s \<Longrightarrow> ts = []"
  by (cases ts) (auto simp: final_stuck)

lemma final_last: "chain legal s ts \<Longrightarrow> final t \<Longrightarrow> t \<in> set ts \<Longrightarrow> t = last ts"
proof (induction ts arbitrary: s)
  case Nil
  then show ?case by simp
next
  case (Cons u us)
  then show ?case
    by (cases us) (auto simp: final_stuck)
qed

lemma start_not_again: "chain legal s ts \<Longrightarrow> start \<notin> set ts"
  by (induction ts arbitrary: s) (auto simp: start_unreached)

lemma chain_rtranclp: "chain legal s ts \<Longrightarrow> t \<in> set ts \<Longrightarrow> legal\<^sup>*\<^sup>* s t"
proof (induction ts arbitrary: s)
  case Nil
  then show ?case by simp
next
  case (Cons u us)
  then show ?case by (auto intro: converse_rtranclp_into_rtranclp)
qed

end

end
