(* ===== verification/Order_State.thy ===== *)
theory Order_State
  imports Exchange_Types Lifecycle
begin

text \<open>
  \<open>crates/exchange/src/order_state.rs\<close>: the validated order lifecycle.
\<close>

fun legal_transition :: "order_status \<Rightarrow> order_status \<Rightarrow> bool" where
  "legal_transition Pending Submitted = True"
| "legal_transition Pending RejectedStatus = True"
| "legal_transition Pending CancelRequested = True"
| "legal_transition Submitted PartiallyFilled = True"
| "legal_transition Submitted Filled = True"
| "legal_transition Submitted RejectedStatus = True"
| "legal_transition Submitted CancelRequested = True"
| "legal_transition PartiallyFilled PartiallyFilled = True"
| "legal_transition PartiallyFilled Filled = True"
| "legal_transition PartiallyFilled CancelRequested = True"
| "legal_transition CancelRequested Cancelled = True"
| "legal_transition CancelRequested Filled = True"
| "legal_transition CancelRequested PartiallyFilled = True"
| "legal_transition _ _ = False"

definition transition :: "order_status \<Rightarrow> order_status \<Rightarrow> (exchange_error, order_status) res" where
  "transition from_s to_s =
     (if legal_transition from_s to_s then Ok to_s
      else Err (InvalidTransition (debug_status from_s) (debug_status to_s)))"

lemma transition_simps [simp]:
  "is_ok (transition a b) = legal_transition a b"
  "transition a b = Ok c \<longleftrightarrow> legal_transition a b \<and> c = b"
  "transition a b \<noteq> Panic"
  by (auto simp: transition_def)

interpretation order_life: lifecycle legal_transition is_terminal Pending
proof unfold_locales
  show "is_terminal s \<Longrightarrow> \<not> legal_transition s t" for s t
    by (cases s; cases t) auto
  show "\<not> legal_transition s Pending" for s
    by (cases s) auto
  show "\<not> is_terminal Pending" by simp
qed

text \<open>How far an order has come: every legal change except between partial fills and a cancel
  request raises it.\<close>

fun progress :: "order_status \<Rightarrow> nat" where
  "progress Pending = 0"
| "progress Submitted = 1"
| "progress PartiallyFilled = 2"
| "progress CancelRequested = 2"
| "progress _ = 3"

lemma progress_mono: "legal_transition s t \<Longrightarrow> progress s \<le> progress t"
  by (cases s; cases t) auto

lemma progress_top: "progress s = 3 \<longleftrightarrow> is_terminal s"
  by (cases s) auto

lemma open_can_finish: "\<not> is_terminal s \<Longrightarrow> \<exists>t. is_terminal t \<and> legal_transition\<^sup>*\<^sup>* s t"
proof -
  assume "\<not> is_terminal s"
  then have "legal_transition s Filled \<or> legal_transition s RejectedStatus"
    by (cases s) auto
  then show ?thesis by (metis is_terminal.simps(1,3) r_into_rtranclp)
qed

lemma filled_only_from_live:
  "legal_transition s Filled \<Longrightarrow> s \<in> {Submitted, PartiallyFilled, CancelRequested}"
  by (cases s) auto

lemma cancelled_only_from_request: "legal_transition s Cancelled \<longleftrightarrow> s = CancelRequested"
  by (cases s) auto

end
