(* ===== verification/Quantize.thy ===== *)
theory Quantize
  imports Decimal
begin

text \<open>
  \<open>crates/exchange/src/quantize.rs\<close>: alignment of a quantity or price to a step.
\<close>

definition is_aligned :: "dec_ops \<Rightarrow> rat \<Rightarrow> rat \<Rightarrow> bool option" where
  "is_aligned D v step =
     (if step = 0 then Some False
      else do { q \<leftarrow> ddiv D v step; Some (dfract D q = 0) })"

definition qdown :: "dec_ops \<Rightarrow> rat \<Rightarrow> rat \<Rightarrow> rat option" where
  "qdown D v step =
     (if step = 0 then Some 0
      else do { q \<leftarrow> ddiv D v step; dmul D (dfloor D q) step })"

definition multiple_of :: "rat \<Rightarrow> rat \<Rightarrow> bool" where
  "multiple_of v step \<longleftrightarrow> (\<exists>k::int. v = of_int k * step)"

lemma floor_fixpoint_iff: "of_int \<lfloor>x\<rfloor> = (x::rat) \<longleftrightarrow> x \<in> \<int>"
  by (simp add: Ints_def image_iff)

lemma fract_zero_iff:
  "(x::rat) - (if 0 \<le> x then of_int \<lfloor>x\<rfloor> else - of_int \<lfloor>- x\<rfloor>) = 0 \<longleftrightarrow> x \<in> \<int>"
proof (cases "0 \<le> x")
  case True
  have "x - of_int \<lfloor>x\<rfloor> = 0 \<longleftrightarrow> of_int \<lfloor>x\<rfloor> = x"
    by (simp only: right_minus_eq eq_commute [of x])
  with True show ?thesis by (simp only: if_True floor_fixpoint_iff)
next
  case False
  have "x - - of_int \<lfloor>- x\<rfloor> = 0 \<longleftrightarrow> of_int \<lfloor>- x\<rfloor> = - x"
    by (simp only: diff_minus_eq_add add_eq_0_iff eq_commute [of "- x"])
  with False show ?thesis by (simp only: if_False floor_fixpoint_iff minus_in_Ints_iff)
qed

lemma is_aligned_quotient:
  assumes "decimal_laws D" "is_dec v" "is_dec step" "step \<noteq> 0" "is_dec (v / step)"
  shows "is_aligned D v step = Some (v / step \<in> \<int>)"
proof -
  have "ddiv D v step = Some (v / step)"
    using assms by (intro decimal_lawsD(4))
  moreover have "dfract D (v / step) = 0 \<longleftrightarrow> v / step \<in> \<int>"
    using decimal_lawsD(7) [OF assms(1,5,5)] fract_zero_iff by simp
  ultimately show ?thesis using assms(4) by (simp add: is_aligned_def)
qed

lemma quotient_in_Ints: "step \<noteq> 0 \<Longrightarrow> v / step \<in> \<int> \<longleftrightarrow> multiple_of v step"
  unfolding multiple_of_def by (auto simp: Ints_def field_simps)

lemma is_aligned_exact:
  assumes "decimal_laws D" "is_dec v" "is_dec step" "step \<noteq> 0" "is_dec (v / step)"
  shows "is_aligned D v step = Some (multiple_of v step)"
  using is_aligned_quotient [OF assms] quotient_in_Ints [OF assms(4)] by simp

lemma qdown_exact:
  assumes "decimal_laws D" "is_dec v" "is_dec step" "0 < step" "is_dec (v / step)"
    "is_dec (of_int \<lfloor>v / step\<rfloor>)" "is_dec (of_int \<lfloor>v / step\<rfloor> * step)"
  shows "qdown D v step = Some (of_int \<lfloor>v / step\<rfloor> * step)"
proof -
  have "ddiv D v step = Some (v / step)"
    using assms by (intro decimal_lawsD(4)) auto
  moreover have "dfloor D (v / step) = of_int \<lfloor>v / step\<rfloor>"
    using assms by (intro decimal_lawsD(6)) auto
  moreover have "dmul D (of_int \<lfloor>v / step\<rfloor>) step = Some (of_int \<lfloor>v / step\<rfloor> * step)"
    using assms by (intro decimal_lawsD(3)) auto
  ultimately show ?thesis using assms(4) by (simp add: qdown_def)
qed

lemma floor_step_bracket:
  fixes v step :: rat
  assumes "0 < step"
  shows "of_int \<lfloor>v / step\<rfloor> * step \<le> v" "v < of_int \<lfloor>v / step\<rfloor> * step + step"
proof -
  have "of_int \<lfloor>v / step\<rfloor> \<le> v / step" by (rule of_int_floor_le)
  then show "of_int \<lfloor>v / step\<rfloor> * step \<le> v"
    using assms by (simp only: pos_le_divide_eq)
  have "v / step < of_int \<lfloor>v / step\<rfloor> + 1" by linarith
  then show "v < of_int \<lfloor>v / step\<rfloor> * step + step"
    using assms by (simp add: pos_divide_less_eq algebra_simps)
qed

lemma qdown_greatest:
  fixes v step :: rat
  assumes "0 < step" "multiple_of w step" "w \<le> v"
  shows "w \<le> of_int \<lfloor>v / step\<rfloor> * step"
proof -
  obtain k :: int where k: "w = of_int k * step" using assms(2) by (auto simp: multiple_of_def)
  with assms have "of_int k \<le> v / step" by (simp add: pos_le_divide_eq)
  then have "k \<le> \<lfloor>v / step\<rfloor>" by (simp add: le_floor_iff)
  then show ?thesis using assms(1) k by simp
qed

end
