(* ===== verification/Validators.thy ===== *)
theory Validators
  imports Quantize Exchange_Types
begin

text \<open>
  \<open>crates/server/src/validators.rs\<close>: validation of an order intent against the exchange filters,
  and the reference predicate \<open>valid_spec\<close> over exact rationals. A \<open>ValidationError\<close> is its
  message.
\<close>

section \<open>The code\<close>

type_synonym validation = "(message, unit) res"

definition check_percent_price ::
    "dec_ops \<Rightarrow> order_side \<Rightarrow> rat \<Rightarrow> percent_price_rule \<Rightarrow> price_estimate option \<Rightarrow> validation" where
  "check_percent_price D side price rule price_est =
     (case price_est of
        None \<Rightarrow> Ok ()
      | Some est \<Rightarrow>
         let reference = pe_price est in
         (case rule of
            General multiplier_up multiplier_down _ \<Rightarrow>
              res_bind (or_panic (dmul D reference multiplier_up)) (\<lambda>upper.
              res_bind (or_panic (dmul D reference multiplier_down)) (\<lambda>lower.
              if price > upper \<or> price < lower
              then Err (Fmt ''price {price} outside PERCENT_PRICE bounds [{lower}, {upper}]''
                          [FDec price, FDec lower, FDec upper])
              else Ok ()))
          | BySide bid_multiplier_up bid_multiplier_down ask_multiplier_up ask_multiplier_down _ \<Rightarrow>
              let up = (case side of Buy \<Rightarrow> bid_multiplier_up | Sell \<Rightarrow> ask_multiplier_up);
                  down = (case side of Buy \<Rightarrow> bid_multiplier_down | Sell \<Rightarrow> ask_multiplier_down)
              in res_bind (or_panic (dmul D reference up)) (\<lambda>upper.
                 res_bind (or_panic (dmul D reference down)) (\<lambda>lower.
                 if price > upper \<or> price < lower
                 then Err (Fmt ''price {price} outside PERCENT_PRICE_BY_SIDE bounds [{lower}, {upper}] for {side:?}''
                             [FDec price, FDec lower, FDec upper, FStr (debug_side side)])
                 else Ok ()))))"

definition check_notional ::
    "dec_ops \<Rightarrow> order_side \<Rightarrow> rat \<Rightarrow> rat \<Rightarrow> bool \<Rightarrow> notional_filter \<Rightarrow> validation" where
  "check_notional D side quantity price is_market nf =
     res_bind (or_panic (dmul D quantity price)) (\<lambda>notional.
     res_bind
       (case nf_min_notional nf of
          None \<Rightarrow> Ok ()
        | Some mn \<Rightarrow>
            if (\<not> is_market \<or> nf_apply_min_to_market nf) \<and> notional < mn
            then Err (Fmt ''notional {notional} below MIN_NOTIONAL {min}'' [FDec notional, FDec mn])
            else Ok ()) (\<lambda>_.
     case nf_max_notional nf of
       None \<Rightarrow> Ok ()
     | Some mx \<Rightarrow>
         if (\<not> is_market \<or> nf_apply_max_to_market nf) \<and> notional > mx
         then Err (Fmt ''notional {notional} above MAX_NOTIONAL {max}'' [FDec notional, FDec mx])
         else Ok ()))"

definition validate_limit ::
    "dec_ops \<Rightarrow> order_intent \<Rightarrow> symbol_meta \<Rightarrow> price_estimate option \<Rightarrow> validation" where
  "validate_limit D intent symbol price_est =
     res_bind (ok_or (oi_price intent) (Msg ''limit order requires a price'')) (\<lambda>price.
     let pf = sm_price_filter symbol in
     if price < pf_min_price pf \<or> price > pf_max_price pf
     then Err (Fmt ''price {} outside [{}, {}] for {}''
                 [FDec price, FDec (pf_min_price pf), FDec (pf_max_price pf), FStr (sm_symbol symbol)])
     else
       res_bind (or_panic (is_aligned D price (pf_tick_size pf))) (\<lambda>aligned.
       if \<not> aligned
       then res_bind (or_panic (qdown D price (pf_tick_size pf))) (\<lambda>q.
            Err (Fmt ''price {} not aligned to tick size {}; nearest valid price is {}''
                   [FDec price, FDec (pf_tick_size pf), FDec q]))
       else
         res_bind (check_percent_price D (oi_side intent) price (sm_percent_price symbol) price_est) (\<lambda>_.
         check_notional D (oi_side intent) (oi_quantity intent) price False (sm_notional symbol))))"

definition validate_market ::
    "dec_ops \<Rightarrow> order_intent \<Rightarrow> symbol_meta \<Rightarrow> price_estimate option \<Rightarrow> validation" where
  "validate_market D intent symbol price_est =
     res_bind (ok_or price_est (Msg ''no price estimate available for market order'')) (\<lambda>est.
     if \<not> pe_is_fresh est
     then Err (Msg ''market data feed is stale; market order rejected'')
     else check_notional D (oi_side intent) (oi_quantity intent) (pe_price est) True (sm_notional symbol))"

definition order_lot :: "symbol_meta \<Rightarrow> order_type \<Rightarrow> lot_size_filter" where
  "order_lot symbol otype = (case otype of Market \<Rightarrow> sm_market_lot_size symbol | Limit \<Rightarrow> sm_lot_size symbol)"

definition validate_order ::
    "dec_ops \<Rightarrow> order_intent \<Rightarrow> symbol_meta \<Rightarrow> price_estimate option \<Rightarrow> validation" where
  "validate_order D intent symbol price_est =
     (if sm_status symbol \<noteq> Trading
      then Err (Fmt ''symbol {} is not currently trading (status: {:?})''
                  [FStr (sm_symbol symbol), FStr (debug_symbol_status (sm_status symbol))])
      else if oi_order_type intent \<notin> set (sm_allowed_order_types symbol)
      then Err (Fmt ''order type {:?} not allowed for {}''
                  [FStr (debug_order_type (oi_order_type intent)), FStr (sm_symbol symbol)])
      else
        let lot = order_lot symbol (oi_order_type intent) in
        if oi_quantity intent < ls_min_qty lot \<or> oi_quantity intent > ls_max_qty lot
        then Err (Fmt ''quantity {} outside [{}, {}] for {}''
                    [FDec (oi_quantity intent), FDec (ls_min_qty lot), FDec (ls_max_qty lot),
                     FStr (sm_symbol symbol)])
        else
          res_bind (or_panic (is_aligned D (oi_quantity intent) (ls_step_size lot))) (\<lambda>aligned.
          if \<not> aligned
          then res_bind (or_panic (qdown D (oi_quantity intent) (ls_step_size lot))) (\<lambda>q.
               Err (Fmt ''quantity {} not aligned to step size {}; nearest valid quantity is {}''
                      [FDec (oi_quantity intent), FDec (ls_step_size lot), FDec q]))
          else (case oi_order_type intent of
                  Limit \<Rightarrow> validate_limit D intent symbol price_est
                | Market \<Rightarrow> validate_market D intent symbol price_est)))"

section \<open>The filters over exact numbers\<close>

definition lot_ok :: "rat \<Rightarrow> lot_size_filter \<Rightarrow> bool" where
  "lot_ok q lot \<longleftrightarrow>
     ls_min_qty lot \<le> q \<and> q \<le> ls_max_qty lot \<and> ls_step_size lot \<noteq> 0 \<and> multiple_of q (ls_step_size lot)"

definition price_ok :: "rat \<Rightarrow> price_filter \<Rightarrow> bool" where
  "price_ok p pf \<longleftrightarrow>
     pf_min_price pf \<le> p \<and> p \<le> pf_max_price pf \<and> pf_tick_size pf \<noteq> 0 \<and> multiple_of p (pf_tick_size pf)"

text \<open>A buy is bounded by the bid multipliers, a sell by the ask multipliers.\<close>

fun percent_band :: "order_side \<Rightarrow> percent_price_rule \<Rightarrow> rat \<times> rat" where
  "percent_band side (General up down mins) = (down, up)"
| "percent_band Buy (BySide bid_up bid_down ask_up ask_down mins) = (bid_down, bid_up)"
| "percent_band Sell (BySide bid_up bid_down ask_up ask_down mins) = (ask_down, ask_up)"

definition percent_ok :: "order_side \<Rightarrow> rat \<Rightarrow> percent_price_rule \<Rightarrow> price_estimate option \<Rightarrow> bool" where
  "percent_ok side p rule est \<longleftrightarrow>
     (\<forall>e. est = Some e \<longrightarrow>
        pe_price e * fst (percent_band side rule) \<le> p \<and> p \<le> pe_price e * snd (percent_band side rule))"

definition notional_ok :: "rat \<Rightarrow> bool \<Rightarrow> notional_filter \<Rightarrow> bool" where
  "notional_ok n is_market nf \<longleftrightarrow>
     (\<forall>mn. nf_min_notional nf = Some mn \<longrightarrow> is_market \<longrightarrow> nf_apply_min_to_market nf \<longrightarrow> mn \<le> n) \<and>
     (\<forall>mn. nf_min_notional nf = Some mn \<longrightarrow> \<not> is_market \<longrightarrow> mn \<le> n) \<and>
     (\<forall>mx. nf_max_notional nf = Some mx \<longrightarrow> is_market \<longrightarrow> nf_apply_max_to_market nf \<longrightarrow> n \<le> mx) \<and>
     (\<forall>mx. nf_max_notional nf = Some mx \<longrightarrow> \<not> is_market \<longrightarrow> n \<le> mx)"

definition limit_spec :: "order_intent \<Rightarrow> symbol_meta \<Rightarrow> price_estimate option \<Rightarrow> bool" where
  "limit_spec i m est \<longleftrightarrow>
     (\<exists>p. oi_price i = Some p \<and> price_ok p (sm_price_filter m) \<and>
        percent_ok (oi_side i) p (sm_percent_price m) est \<and>
        notional_ok (oi_quantity i * p) False (sm_notional m))"

definition market_spec :: "order_intent \<Rightarrow> symbol_meta \<Rightarrow> price_estimate option \<Rightarrow> bool" where
  "market_spec i m est \<longleftrightarrow>
     (\<exists>e. est = Some e \<and> pe_is_fresh e \<and> notional_ok (oi_quantity i * pe_price e) True (sm_notional m))"

definition valid_spec :: "order_intent \<Rightarrow> symbol_meta \<Rightarrow> price_estimate option \<Rightarrow> bool" where
  "valid_spec i m est \<longleftrightarrow>
     sm_status m = Trading \<and> oi_order_type i \<in> set (sm_allowed_order_types m) \<and>
     lot_ok (oi_quantity i) (order_lot m (oi_order_type i)) \<and>
     (case oi_order_type i of Limit \<Rightarrow> limit_spec i m est | Market \<Rightarrow> market_spec i m est)"

text \<open>The numbers that occur while one intent is validated are decimals.\<close>

definition step_representable :: "rat \<Rightarrow> rat \<Rightarrow> bool" where
  "step_representable v step \<longleftrightarrow>
     is_dec v \<and> is_dec step \<and> is_dec (v / step) \<and>
     is_dec (of_int \<lfloor>v / step\<rfloor>) \<and> is_dec (of_int \<lfloor>v / step\<rfloor> * step)"

definition validation_representable :: "order_intent \<Rightarrow> symbol_meta \<Rightarrow> price_estimate option \<Rightarrow> bool" where
  "validation_representable i m est \<longleftrightarrow>
     step_representable (oi_quantity i) (ls_step_size (order_lot m (oi_order_type i))) \<and>
     (\<forall>p. oi_price i = Some p \<longrightarrow>
        step_representable p (pf_tick_size (sm_price_filter m)) \<and> is_dec (oi_quantity i * p)) \<and>
     (\<forall>e. est = Some e \<longrightarrow> is_dec (pe_price e) \<and> is_dec (oi_quantity i * pe_price e) \<and>
        is_dec (fst (percent_band (oi_side i) (sm_percent_price m))) \<and>
        is_dec (snd (percent_band (oi_side i) (sm_percent_price m))) \<and>
        is_dec (pe_price e * fst (percent_band (oi_side i) (sm_percent_price m))) \<and>
        is_dec (pe_price e * snd (percent_band (oi_side i) (sm_percent_price m))))"

section \<open>Lemmas\<close>

lemma check_notional_Ok:
  assumes "dmul D q p = Some n"
  shows "check_notional D side q p mkt nf = Ok () \<longleftrightarrow> notional_ok n mkt nf"
  using assms
  by (cases mkt) (auto simp: check_notional_def notional_ok_def res_simps not_less
      split: option.splits if_splits)

lemma check_percent_price_Ok:
  assumes "\<And>e. est = Some e \<Longrightarrow>
      dmul D (pe_price e) (fst (percent_band side rule)) = Some (pe_price e * fst (percent_band side rule)) \<and>
      dmul D (pe_price e) (snd (percent_band side rule)) = Some (pe_price e * snd (percent_band side rule))"
  shows "check_percent_price D side p rule est = Ok () \<longleftrightarrow> percent_ok side p rule est"
  using assms
  by (cases rule; cases side)
    (auto simp: check_percent_price_def percent_ok_def res_simps not_less Let_def split: option.splits if_splits)

lemma aligned_step:
  assumes "decimal_laws D" "step_representable v step"
  shows "is_aligned D v step = Some (step \<noteq> 0 \<and> multiple_of v step)"
proof (cases "step = 0")
  case True
  then show ?thesis by (simp add: is_aligned_def)
next
  case False
  with assms show ?thesis by (simp add: is_aligned_exact step_representable_def)
qed

lemma validate_limit_Ok:
  assumes "decimal_laws D" "validation_representable i m est"
  shows "validate_limit D i m est = Ok () \<longleftrightarrow> limit_spec i m est"
proof (cases "oi_price i")
  case None
  then show ?thesis by (simp add: validate_limit_def limit_spec_def)
next
  case (Some p)
  note rep = assms(2)[unfolded validation_representable_def]
  have al: "is_aligned D p (pf_tick_size (sm_price_filter m)) =
      Some (pf_tick_size (sm_price_filter m) \<noteq> 0 \<and> multiple_of p (pf_tick_size (sm_price_filter m)))"
    using aligned_step assms(1) rep Some by blast
  have nt: "check_notional D (oi_side i) (oi_quantity i) p False (sm_notional m) = Ok () \<longleftrightarrow>
      notional_ok (oi_quantity i * p) False (sm_notional m)"
    using rep Some assms(1)
    by (intro check_notional_Ok decimal_lawsD(3)) (auto simp: step_representable_def)
  have pc: "check_percent_price D (oi_side i) p (sm_percent_price m) est = Ok () \<longleftrightarrow>
      percent_ok (oi_side i) p (sm_percent_price m) est"
    using rep assms(1) by (intro check_percent_price_Ok conjI decimal_lawsD(3)) auto
  show ?thesis
    using Some al nt pc
    by (auto simp: validate_limit_def limit_spec_def price_ok_def Let_def res_simps not_less split: if_splits)
qed

lemma validate_market_Ok:
  assumes "decimal_laws D" "validation_representable i m est"
  shows "validate_market D i m est = Ok () \<longleftrightarrow> market_spec i m est"
proof (cases est)
  case None
  then show ?thesis by (simp add: validate_market_def market_spec_def)
next
  case (Some e)
  have "check_notional D (oi_side i) (oi_quantity i) (pe_price e) True (sm_notional m) = Ok () \<longleftrightarrow>
      notional_ok (oi_quantity i * pe_price e) True (sm_notional m)"
    using assms Some
    by (intro check_notional_Ok decimal_lawsD(3)) (auto simp: validation_representable_def step_representable_def)
  with Some show ?thesis by (auto simp: validate_market_def market_spec_def)
qed

lemma validate_order_Ok:
  assumes "decimal_laws D" "validation_representable i m est"
  shows "validate_order D i m est = Ok () \<longleftrightarrow> valid_spec i m est"
proof -
  have al: "is_aligned D (oi_quantity i) (ls_step_size (order_lot m (oi_order_type i))) =
      Some (ls_step_size (order_lot m (oi_order_type i)) \<noteq> 0 \<and>
        multiple_of (oi_quantity i) (ls_step_size (order_lot m (oi_order_type i))))"
    using assms by (intro aligned_step) (auto simp: validation_representable_def)
  show ?thesis
    using al validate_limit_Ok [OF assms] validate_market_Ok [OF assms]
    by (auto simp: validate_order_def valid_spec_def lot_ok_def Let_def res_simps not_less
        split: if_splits order_type.splits)
qed

text \<open>Without a usable price, a market order never passes, whatever the arithmetic does.\<close>

lemma validate_market_closed:
  assumes "oi_order_type i = Market" "validate_order D i m est = Ok ()"
  shows "\<exists>e. est = Some e \<and> pe_is_fresh e"
  using assms
  by (auto simp: validate_order_def validate_market_def Let_def res_simps split: if_splits)

text \<open>A zero step refuses every quantity.\<close>

lemma validate_zero_step:
  "ls_step_size (order_lot m (oi_order_type i)) = 0 \<Longrightarrow> validate_order D i m est \<noteq> Ok ()"
  by (auto simp: validate_order_def is_aligned_def Let_def res_simps)

end
