(* ===== verification/Adapter_Contract.thy ===== *)
theory Adapter_Contract
  imports Order_State
begin

text \<open>
  What the server relies on when it persists the result of \<open>ExchangeAdapter::reconcile_order\<close>:
  the locale \<open>adapter_contract\<close>. Both adapters of the repository are instances of it, and the
  outbox worker's theorems hold for every instance.
\<close>

text \<open>The whitelist of \<open>risk_events.event_type\<close> after the last migration.\<close>

definition risk_event_types :: "string list" where
  "risk_event_types =
    [''trade_evaluated'', ''circuit_breaker_tripped'', ''kill_switch_engaged'',
     ''kill_switch_released'', ''risk_config_changed'', ''equity_changed'', ''account_created'',
     ''order_placed'', ''order_rejected'', ''order_filled'', ''order_partially_filled'',
     ''order_cancel_requested'', ''order_cancelled'', ''exchange_reconciliation_required'',
     ''exchange_mode_switched'', ''exchange_credentials_rotated'']"

text \<open>A fill of a buy adds to the position, a fill of a sell subtracts.\<close>

definition signed_qty :: "order_side \<Rightarrow> rat \<Rightarrow> rat" where
  "signed_qty side q = (case side of Buy \<Rightarrow> q | Sell \<Rightarrow> - q)"

definition fill_delta :: "order_snapshot \<Rightarrow> fill \<Rightarrow> position_delta" where
  "fill_delta ord f =
     \<lparr>pd_symbol = os_symbol ord, pd_quantity_delta = signed_qty (os_side ord) (fl_quantity f)\<rparr>"

locale adapter_contract =
  fixes reconcile :: "reconcile_snapshot \<Rightarrow> (exchange_error, reconcile_result) res"
    and tag :: string
  assumes terminal_noop:
      "is_terminal (os_status (rs_order s)) \<Longrightarrow> reconcile s = Ok no_result"
    and at_most_one_fill: "reconcile s = Ok r \<Longrightarrow> length (rr_fills_to_add r) \<le> 1"
    and fill_positive: "reconcile s = Ok r \<Longrightarrow> f \<in> set (rr_fills_to_add r) \<Longrightarrow> 0 < fl_quantity f"
    and deltas_match: "reconcile s = Ok r \<Longrightarrow>
      rr_positions_delta r = map (fill_delta (rs_order s)) (rr_fills_to_add r)"
    and trade_id_ordinal: "reconcile s = Ok r \<Longrightarrow> f \<in> set (rr_fills_to_add r) \<Longrightarrow>
      fl_exchange_trade_id f =
        os_client_order_id (rs_order s) @ tag @ show_nat (length (rs_fills s))"
    and fill_moves_status: "reconcile s = Ok r \<Longrightarrow> rr_new_status r = None \<Longrightarrow> r = no_result"
    and events_audited: "reconcile s = Ok r \<Longrightarrow> rr_new_status r \<noteq> None \<Longrightarrow>
      length (rr_events r) = 1 \<and> set (map re_event_type (rr_events r)) \<subseteq> set risk_event_types"
begin

lemma single_fill:
  assumes "reconcile s = Ok r"
  obtains "rr_fills_to_add r = []" "rr_positions_delta r = []"
  | f where "rr_fills_to_add r = [f]" "rr_positions_delta r = [fill_delta (rs_order s) f]"
      "0 < fl_quantity f" "rr_new_status r \<noteq> None"
proof (cases "rr_fills_to_add r")
  case Nil
  then show ?thesis using that(1) deltas_match [OF assms] by simp
next
  case (Cons f fs)
  with at_most_one_fill [OF assms] have "rr_fills_to_add r = [f]" by simp
  moreover have "rr_new_status r \<noteq> None"
  proof
    assume "rr_new_status r = None"
    then have "r = no_result" by (rule fill_moves_status [OF assms])
    with Cons show False by (simp add: no_result_def)
  qed
  ultimately show ?thesis
    using that(2) deltas_match [OF assms] fill_positive [OF assms] by simp
qed

text \<open>
  The trade id depends on the number of fills in the snapshot only, so repeating a pass on the
  same fills repeats the id, and a pass with one more fill uses a new one.
\<close>

lemma trade_id_repeats:
  assumes "reconcile s = Ok r" "reconcile s' = Ok r'" "f \<in> set (rr_fills_to_add r)"
    "f' \<in> set (rr_fills_to_add r')"
    "os_client_order_id (rs_order s) = os_client_order_id (rs_order s')"
  shows "fl_exchange_trade_id f = fl_exchange_trade_id f' \<longleftrightarrow>
    length (rs_fills s) = length (rs_fills s')"
  using assms trade_id_ordinal by (simp add: show_nat_inject)

end

end
