(* ===== verification/Market_Data.thy ===== *)
theory Market_Data
  imports Exchange_Types
begin

text \<open>
  \<open>crates/exchange/src/paper/market_data.rs\<close> (the book-top cache with its freshness window) and
  \<open>paper/matching_engine.rs\<close> (the single conservative fill). The interface that both the order
  route and the paper adapter rely on is the locale \<open>quote_feed\<close>.
\<close>

section \<open>The cache\<close>

record book_top =
  bt_bid :: rat
  bt_ask :: rat
  bt_last_update :: instant

record market_data_provider =
  md_books :: "string \<rightharpoonup> book_top"
  md_max_age :: duration

definition md_new :: "duration \<Rightarrow> market_data_provider" where
  "md_new max_age = \<lparr>md_books = Map.empty, md_max_age = max_age\<rparr>"

definition md_update ::
    "market_data_provider \<Rightarrow> string \<Rightarrow> rat \<Rightarrow> rat \<Rightarrow> instant \<Rightarrow> market_data_provider" where
  "md_update md symbol bid ask t =
     md\<lparr>md_books := (md_books md)(symbol \<mapsto> \<lparr>bt_bid = bid, bt_ask = ask, bt_last_update = t\<rparr>)\<rparr>"

definition md_top :: "market_data_provider \<Rightarrow> string \<Rightarrow> book_top option" where
  "md_top md symbol = md_books md symbol"

text \<open>\<open>Instant::duration_since\<close> saturates at zero, as subtraction on \<open>nat\<close> does.\<close>

definition md_is_fresh :: "market_data_provider \<Rightarrow> book_top \<Rightarrow> instant \<Rightarrow> bool" where
  "md_is_fresh md bt now \<longleftrightarrow> now - bt_last_update bt \<le> md_max_age md"

definition conservative_estimate ::
    "market_data_provider \<Rightarrow> string \<Rightarrow> bool \<Rightarrow> instant \<Rightarrow> conservative_price_estimate option" where
  "conservative_estimate md symbol is_buy now = do {
     bt \<leftarrow> md_top md symbol;
     let price = (if is_buy then bt_ask bt else bt_bid bt);
     Some \<lparr>ce_price = price, ce_is_fresh = md_is_fresh md bt now\<rparr> }"

section \<open>What a price feed promises\<close>

text \<open>
  \<open>feed_batch\<close> is the body of the poller's loop: every quote of a tradable symbol is stored with
  the time of the batch.
\<close>

definition feed_batch ::
    "('m \<Rightarrow> string \<Rightarrow> rat \<Rightarrow> rat \<Rightarrow> instant \<Rightarrow> 'm) \<Rightarrow> (string \<Rightarrow> bool) \<Rightarrow> instant \<Rightarrow>
     'm \<Rightarrow> (string \<times> rat \<times> rat) list \<Rightarrow> 'm" where
  "feed_batch upd tradable now m ts =
     foldl (\<lambda>m (symbol, bid, ask). if tradable symbol then upd m symbol bid ask now else m) m ts"

lemma feed_batch_simps [simp]:
  "feed_batch upd tr now m [] = m"
  "feed_batch upd tr now m ((s, b, a) # ts) =
     feed_batch upd tr now (if tr s then upd m s b a now else m) ts"
  by (simp_all add: feed_batch_def)

lemma feed_batch_snoc:
  "feed_batch upd tr now m (ts @ [(s, b, a)]) =
     (let m' = feed_batch upd tr now m ts in if tr s then upd m' s b a now else m')"
  by (simp add: feed_batch_def)

locale quote_feed =
  fixes upd :: "'m \<Rightarrow> string \<Rightarrow> rat \<Rightarrow> rat \<Rightarrow> instant \<Rightarrow> 'm"
    and est :: "'m \<Rightarrow> string \<Rightarrow> bool \<Rightarrow> instant \<Rightarrow> conservative_price_estimate option"
    and window :: "'m \<Rightarrow> duration"
  assumes est_upd_same: "est (upd m s bid ask t) s is_buy now =
      Some \<lparr>ce_price = (if is_buy then ask else bid), ce_is_fresh = (now - t \<le> window m)\<rparr>"
    and est_upd_other: "s' \<noteq> s \<Longrightarrow> est (upd m s bid ask t) s' is_buy now = est m s' is_buy now"
    and window_upd: "window (upd m s bid ask t) = window m"
begin

lemma window_batch: "window (feed_batch upd tr t m ts) = window m"
  by (induction ts arbitrary: m) (auto simp: window_upd)

text \<open>A batch leaves every symbol alone that it does not quote or that is not tradable.\<close>

lemma est_batch_other:
  "\<not> tr s \<or> s \<notin> fst ` set ts \<Longrightarrow> est (feed_batch upd tr t m ts) s b now = est m s b now"
proof (induction ts arbitrary: m)
  case Nil
  then show ?case by simp
next
  case (Cons q ts)
  obtain s' bid ask where q: "q = (s', bid, ask)" by (cases q) auto
  have "est (if tr s' then upd m s' bid ask t else m) s b now = est m s b now"
    using Cons.prems q by (cases "s = s'") (auto simp: est_upd_other)
  with Cons q show ?case by auto
qed

text \<open>A tradable symbol ends with its last quote, fresh for exactly the window after the batch.\<close>

lemma est_batch_last:
  assumes "tr s" "s \<notin> fst ` set post"
  shows "est (feed_batch upd tr t m (pre @ (s, bid, ask) # post)) s b now =
    Some \<lparr>ce_price = (if b then ask else bid), ce_is_fresh = (now - t \<le> window m)\<rparr>"
proof -
  let ?m = "upd (feed_batch upd tr t m pre) s bid ask t"
  have "feed_batch upd tr t m (pre @ (s, bid, ask) # post) = feed_batch upd tr t ?m post"
    using assms(1) by (simp add: feed_batch_def)
  then show ?thesis
    using assms by (simp add: est_batch_other est_upd_same window_batch)
qed

end

interpretation feed: quote_feed md_update conservative_estimate md_max_age
  by unfold_locales
    (auto simp: md_update_def conservative_estimate_def md_top_def md_is_fresh_def)

section \<open>Matching\<close>

definition touched :: "order_side \<Rightarrow> rat \<Rightarrow> rat \<Rightarrow> bool" where
  "touched side price limit = (case side of Buy \<Rightarrow> price \<le> limit | Sell \<Rightarrow> price \<ge> limit)"

definition try_fill ::
    "order_type \<Rightarrow> order_side \<Rightarrow> rat \<Rightarrow> rat option \<Rightarrow> conservative_price_estimate option \<Rightarrow> string
     \<Rightarrow> fill option" where
  "try_fill otype side quantity limit_price estimate trade_id =
     (case otype of
        Market \<Rightarrow> do {
          est \<leftarrow> estimate;
          if \<not> ce_is_fresh est then None
          else Some \<lparr>fl_exchange_trade_id = trade_id, fl_quantity = quantity,
                     fl_price = ce_price est, fl_fee = 0, fl_fee_asset = []\<rparr> }
      | Limit \<Rightarrow> do {
          est \<leftarrow> estimate;
          if \<not> ce_is_fresh est then None
          else do {
            limit \<leftarrow> limit_price;
            if \<not> touched side (ce_price est) limit then None
            else Some \<lparr>fl_exchange_trade_id = trade_id, fl_quantity = quantity,
                       fl_price = ce_price est, fl_fee = 0, fl_fee_asset = []\<rparr> } })"

text \<open>Exactly when an order fills, and with what.\<close>

definition fillable ::
    "order_type \<Rightarrow> order_side \<Rightarrow> rat option \<Rightarrow> conservative_price_estimate \<Rightarrow> bool" where
  "fillable otype side limit_price est \<longleftrightarrow>
     ce_is_fresh est \<and>
     (otype = Limit \<longrightarrow> (\<exists>l. limit_price = Some l \<and> touched side (ce_price est) l))"

lemma try_fill_Some:
  "try_fill otype side q lp est tid = Some f \<longleftrightarrow>
     (\<exists>e. est = Some e \<and> fillable otype side lp e \<and>
       f = \<lparr>fl_exchange_trade_id = tid, fl_quantity = q, fl_price = ce_price e,
            fl_fee = 0, fl_fee_asset = []\<rparr>)"
  by (cases otype) (auto simp: try_fill_def fillable_def split: Option.bind_splits if_splits)

lemma try_fill_None:
  "try_fill otype side q lp est tid = None \<longleftrightarrow>
     (\<forall>e. est = Some e \<longrightarrow> \<not> fillable otype side lp e)"
  by (cases otype) (auto simp: try_fill_def fillable_def split: Option.bind_splits if_splits)

end
