(* ===== verification/Paper_Adapter.thy ===== *)
theory Paper_Adapter
  imports Adapter_Contract Market_Data
begin

text \<open>
  \<open>crates/exchange/src/paper/mod.rs\<close>: the paper-trading adapter. Its one substantial method,
  \<open>reconcile_order\<close>, works on the snapshot it is given, the shared quote cache and the clock.
\<close>

definition paper_submit :: "order_snapshot \<Rightarrow> (exchange_error, submit_result) res" where
  "paper_submit order = Ok \<lparr>sr_accepted = True, sr_events = []\<rparr>"

definition paper_cancel :: "order_snapshot \<Rightarrow> (exchange_error, unit) res" where
  "paper_cancel order = Ok ()"

definition paper_reconcile_order ::
    "dec_ops \<Rightarrow> uuid_ops \<Rightarrow> market_data_provider \<Rightarrow> instant \<Rightarrow> reconcile_snapshot \<Rightarrow>
     (exchange_error, reconcile_result) res" where
  "paper_reconcile_order D U md now snapshot =
     (let order = rs_order snapshot in
      if is_terminal (os_status order) then Ok no_result
      else if os_status order = CancelRequested then
        Ok (no_result\<lparr>rr_new_status := Some Cancelled,
              rr_events := [\<lparr>re_event_type = ''order_cancelled'',
                re_payload = order_event_payload U (os_order_id order) ''new_status'' ''Cancelled''\<rparr>]\<rparr>)
      else
        res_bind (or_panic (d_sum D (map fs_quantity (rs_fills snapshot)))) (\<lambda>already_filled.
        res_bind (or_panic (dsub D (os_quantity order) already_filled)) (\<lambda>remaining.
        if remaining \<le> 0 then Ok no_result
        else
          let is_buy = (os_side order = Buy);
              estimate = conservative_estimate md (os_symbol order) is_buy now;
              trade_id = os_client_order_id order @ '':paper:'' @ show_nat (length (rs_fills snapshot))
          in case try_fill (os_order_type order) (os_side order) remaining (os_price order)
                    estimate trade_id of
               None \<Rightarrow> Ok no_result
             | Some fl \<Rightarrow>
                 res_bind (or_panic (dadd D already_filled (fl_quantity fl))) (\<lambda>new_filled.
                 let new_status = (if new_filled \<ge> os_quantity order then Filled else PartiallyFilled);
                     position_qty_delta = (if is_buy then fl_quantity fl else - fl_quantity fl)
                 in Ok \<lparr>rr_new_status = Some new_status,
                        rr_fills_to_add = [fl],
                        rr_positions_delta = [\<lparr>pd_symbol = os_symbol order,
                                               pd_quantity_delta = position_qty_delta\<rparr>],
                        rr_events = [\<lparr>re_event_type =
                            (if new_status = Filled then ''order_filled'' else ''order_partially_filled''),
                          re_payload = order_event_payload U (os_order_id order) ''new_status''
                            (debug_status new_status)\<rparr>],
                        rr_command = None\<rparr>))))"

text \<open>Neither an account reconciliation nor a start or a shutdown does anything.\<close>

definition paper_reconcile_account :: "uuid \<Rightarrow> (exchange_error, unit) res" where
  "paper_reconcile_account account_id = Ok ()"

definition paper_start :: "(exchange_error, unit) res" where
  "paper_start = Ok ()"

definition paper_shutdown :: "(exchange_error, unit) res" where
  "paper_shutdown = Ok ()"

definition paper_adapter ::
    "dec_ops \<Rightarrow> uuid_ops \<Rightarrow> market_data_provider \<Rightarrow> instant \<Rightarrow> adapter" where
  "paper_adapter D U md now =
     \<lparr>ad_mode = Paper, ad_submit = paper_submit, ad_cancel = paper_cancel,
      ad_reconcile_order = paper_reconcile_order D U md now,
      ad_reconcile_account = paper_reconcile_account, ad_start = paper_start, ad_shutdown = paper_shutdown\<rparr>"

text \<open>A pass over an order that is neither terminal nor to be cancelled fills it or does nothing.\<close>

lemma paper_reconcile_live:
  assumes run: "paper_reconcile_order D U md now s = Ok r"
    and live: "\<not> is_terminal (os_status (rs_order s))" "os_status (rs_order s) \<noteq> CancelRequested"
  obtains (nothing) "r = no_result"
  | (filled) already remaining f new_filled e where
      "d_sum D (map fs_quantity (rs_fills s)) = Some already"
      "dsub D (os_quantity (rs_order s)) already = Some remaining" "0 < remaining"
      "conservative_estimate md (os_symbol (rs_order s)) (os_side (rs_order s) = Buy) now = Some e"
      "fillable (os_order_type (rs_order s)) (os_side (rs_order s)) (os_price (rs_order s)) e"
      "fl_quantity f = remaining" "fl_price f = ce_price e"
      "fl_exchange_trade_id f =
        os_client_order_id (rs_order s) @ '':paper:'' @ show_nat (length (rs_fills s))"
      "dadd D already remaining = Some new_filled"
      "rr_fills_to_add r = [f]" "rr_positions_delta r = [fill_delta (rs_order s) f]"
      "rr_new_status r =
        Some (if os_quantity (rs_order s) \<le> new_filled then Filled else PartiallyFilled)"
      "map re_event_type (rr_events r) =
        [if os_quantity (rs_order s) \<le> new_filled then ''order_filled'' else ''order_partially_filled'']"
proof -
  let ?o = "rs_order s"
  obtain already remaining where sums: "d_sum D (map fs_quantity (rs_fills s)) = Some already"
      "dsub D (os_quantity ?o) already = Some remaining"
    using run live by (auto simp: paper_reconcile_order_def Let_def res_simps)
  show ?thesis
  proof (cases "remaining \<le> 0")
    case True
    with run live sums have "r = no_result" by (simp add: paper_reconcile_order_def Let_def)
    then show ?thesis by (rule nothing)
  next
    case pos: False
    let ?fill = "try_fill (os_order_type ?o) (os_side ?o) remaining (os_price ?o)
      (conservative_estimate md (os_symbol ?o) (os_side ?o = Buy) now)
      (os_client_order_id ?o @ '':paper:'' @ show_nat (length (rs_fills s)))"
    show ?thesis
    proof (cases ?fill)
      case None
      with run live sums pos have "r = no_result" by (simp add: paper_reconcile_order_def Let_def)
      then show ?thesis by (rule nothing)
    next
      case (Some f)
      then obtain e where e: "conservative_estimate md (os_symbol ?o) (os_side ?o = Buy) now = Some e"
          "fillable (os_order_type ?o) (os_side ?o) (os_price ?o) e" "fl_quantity f = remaining"
          "fl_price f = ce_price e" "fl_exchange_trade_id f =
            os_client_order_id ?o @ '':paper:'' @ show_nat (length (rs_fills s))"
        by (auto simp: try_fill_Some)
      with run live sums pos Some obtain new_filled where nf: "dadd D already remaining = Some new_filled"
        by (auto simp: paper_reconcile_order_def Let_def res_simps)
      have "(if os_side ?o = Buy then remaining else - remaining) = signed_qty (os_side ?o) remaining"
        by (cases "os_side ?o") (simp_all add: signed_qty_def)
      with run live sums pos Some nf e(3) filled [OF sums _ e nf] show ?thesis
        by (auto simp: paper_reconcile_order_def Let_def fill_delta_def split: if_splits)
    qed
  qed
qed

text \<open>The three ways a pass over a live order ends.\<close>

lemma paper_reconcile_cases:
  assumes "paper_reconcile_order D U md now s = Ok r"
  obtains (nothing) "r = no_result"
  | (cancelled) "os_status (rs_order s) = CancelRequested" "rr_new_status r = Some Cancelled"
      "rr_fills_to_add r = []" "rr_positions_delta r = []"
      "map re_event_type (rr_events r) = [''order_cancelled'']"
  | (filled) already remaining f new_filled e where
      "\<not> is_terminal (os_status (rs_order s))" "os_status (rs_order s) \<noteq> CancelRequested"
      "d_sum D (map fs_quantity (rs_fills s)) = Some already"
      "dsub D (os_quantity (rs_order s)) already = Some remaining" "0 < remaining"
      "conservative_estimate md (os_symbol (rs_order s)) (os_side (rs_order s) = Buy) now = Some e"
      "fillable (os_order_type (rs_order s)) (os_side (rs_order s)) (os_price (rs_order s)) e"
      "fl_quantity f = remaining" "fl_price f = ce_price e"
      "fl_exchange_trade_id f =
        os_client_order_id (rs_order s) @ '':paper:'' @ show_nat (length (rs_fills s))"
      "dadd D already remaining = Some new_filled"
      "rr_fills_to_add r = [f]" "rr_positions_delta r = [fill_delta (rs_order s) f]"
      "rr_new_status r =
        Some (if os_quantity (rs_order s) \<le> new_filled then Filled else PartiallyFilled)"
      "map re_event_type (rr_events r) =
        [if os_quantity (rs_order s) \<le> new_filled then ''order_filled'' else ''order_partially_filled'']"
proof (cases "is_terminal (os_status (rs_order s))")
  case True
  with assms have "r = no_result" by (simp add: paper_reconcile_order_def)
  then show ?thesis by (rule nothing)
next
  case live: False
  show ?thesis
  proof (cases "os_status (rs_order s) = CancelRequested")
    case True
    with assms have "r = no_result\<lparr>rr_new_status := Some Cancelled,
        rr_events := [\<lparr>re_event_type = ''order_cancelled'', re_payload =
          order_event_payload U (os_order_id (rs_order s)) ''new_status'' ''Cancelled''\<rparr>]\<rparr>"
      by (simp add: paper_reconcile_order_def Let_def)
    with True cancelled show ?thesis by (simp add: no_result_def)
  next
    case False
    show ?thesis
    proof (rule paper_reconcile_live [OF assms live False], goal_cases)
      case 1
      then show ?case by (rule nothing)
    next
      case (2 already remaining f new_filled e)
      from filled [OF live False 2] show ?case .
    qed
  qed
qed

interpretation paper: adapter_contract "paper_reconcile_order D U md now" "'':paper:''"
proof unfold_locales
  fix s r f
  show "is_terminal (os_status (rs_order s)) \<Longrightarrow> paper_reconcile_order D U md now s = Ok no_result"
    by (simp add: paper_reconcile_order_def)
  assume r: "paper_reconcile_order D U md now s = Ok r"
  from r show "length (rr_fills_to_add r) \<le> 1"
    by (rule paper_reconcile_cases) (auto simp: no_result_def)
  from r show "rr_positions_delta r = map (fill_delta (rs_order s)) (rr_fills_to_add r)"
    by (rule paper_reconcile_cases) (auto simp: no_result_def)
  from r show "rr_new_status r = None \<Longrightarrow> r = no_result"
    by (rule paper_reconcile_cases) auto
  from r show "rr_new_status r \<noteq> None \<Longrightarrow> length (rr_events r) = 1 \<and>
      set (map re_event_type (rr_events r)) \<subseteq> set risk_event_types"
    by (rule paper_reconcile_cases)
      (auto simp: no_result_def risk_event_types_def dest: arg_cong [where f = length])
  assume f: "f \<in> set (rr_fills_to_add r)"
  from r show "0 < fl_quantity f"
    by (rule paper_reconcile_cases) (use f in \<open>auto simp: no_result_def\<close>)
  from r show "fl_exchange_trade_id f =
      os_client_order_id (rs_order s) @ '':paper:'' @ show_nat (length (rs_fills s))"
    by (rule paper_reconcile_cases) (use f in \<open>auto simp: no_result_def\<close>)
qed

text \<open>A pass never overfills: the one fill it may add completes the order.\<close>

lemma paper_completes:
  assumes "decimal_laws D" "paper_reconcile_order D U md now s = Ok r"
    "\<forall>f\<in>set (rs_fills s). 0 \<le> fs_quantity f \<and> on_grid (fs_quantity f)"
    "on_grid (os_quantity (rs_order s))" "os_quantity (rs_order s) < grid_bound"
    "sum_list (map fs_quantity (rs_fills s)) \<le> os_quantity (rs_order s)"
  shows "(rr_fills_to_add r = [] \<and> rr_positions_delta r = []) \<or>
    (\<exists>f. rr_fills_to_add r = [f] \<and> 0 < fl_quantity f \<and>
       sum_list (map fs_quantity (rs_fills s)) + fl_quantity f = os_quantity (rs_order s) \<and>
       rr_new_status r = Some Filled \<and> rr_positions_delta r = [fill_delta (rs_order s) f] \<and>
       (os_order_type (rs_order s) = Limit \<longrightarrow> (\<exists>l. os_price (rs_order s) = Some l \<and>
          touched (os_side (rs_order s)) (fl_price f) l)))"
  using assms(2)
proof (cases rule: paper_reconcile_cases)
  case (filled already remaining f new_filled e)
  let ?q = "os_quantity (rs_order s)" and ?a = "sum_list (map fs_quantity (rs_fills s))"
  have grid: "on_grid ?a"
    using assms(3) by (intro on_grid_sum) auto
  have "0 \<le> ?a" using assms(3) by (auto intro!: sum_list_nonneg)
  then have dec: "is_dec ?a" "is_dec ?q" "is_dec (?q - ?a)"
    using grid assms(4-6) by (auto intro!: on_grid_is_dec)
  have "d_sum D (map fs_quantity (rs_fills s)) = Some ?a"
    using assms by (intro d_sum_exact) auto
  then have a: "already = ?a" using filled(3) by simp
  have rem: "remaining = ?q - ?a"
    using filled(4) decimal_lawsD(2) [OF assms(1) dec(2,1,3)] a by simp
  have "new_filled = ?q"
    using filled(11) decimal_lawsD(1) [OF assms(1) dec(1,3)] dec(2) a rem by simp
  with filled a rem show ?thesis by (auto simp: fillable_def)
qed (auto simp: no_result_def)

end
