(* ===== verification/Paper_Account.thy ===== *)
theory Paper_Account
  imports Exchange_Types
begin

text \<open>
  \<open>crates/exchange/src/paper/paper_account.rs\<close>: the per-asset ledger of free balances.
\<close>

type_synonym paper_account = "string \<rightharpoonup> rat"

definition free_balance :: "paper_account \<Rightarrow> string \<Rightarrow> rat" where
  "free_balance acct asset = (case acct asset of Some b \<Rightarrow> b | None \<Rightarrow> 0)"

definition with_balance :: "paper_account \<Rightarrow> string \<Rightarrow> rat \<Rightarrow> paper_account" where
  "with_balance acct asset amount = acct(asset \<mapsto> amount)"

definition reserve ::
    "dec_ops \<Rightarrow> paper_account \<Rightarrow> string \<Rightarrow> rat \<Rightarrow> (exchange_error, paper_account) res" where
  "reserve D acct asset amount =
     (let available = free_balance acct asset in
      if amount > available then Err (InsufficientBalance asset amount available)
      else res_bind (or_panic (dsub D available amount)) (\<lambda>b. Ok (acct(asset \<mapsto> b))))"

definition release :: "dec_ops \<Rightarrow> paper_account \<Rightarrow> string \<Rightarrow> rat \<Rightarrow> paper_account option" where
  "release D acct asset amount = do {
     b \<leftarrow> dadd D (free_balance acct asset) amount;
     Some (acct(asset \<mapsto> b)) }"

definition credit :: "dec_ops \<Rightarrow> paper_account \<Rightarrow> string \<Rightarrow> rat \<Rightarrow> paper_account option" where
  "credit D acct asset amount = do {
     b \<leftarrow> dadd D (free_balance acct asset) amount;
     Some (acct(asset \<mapsto> b)) }"

text \<open>A sequence of calls on one ledger; a refused reservation leaves it as it was.\<close>

datatype ledger_op = Reserve string rat | Release string rat | Credit string rat

fun ledger_step :: "dec_ops \<Rightarrow> paper_account \<Rightarrow> ledger_op \<Rightarrow> paper_account option" where
  "ledger_step D acct (Reserve a x) =
     (case reserve D acct a x of Ok acct' \<Rightarrow> Some acct' | Err e \<Rightarrow> Some acct | Panic \<Rightarrow> None)"
| "ledger_step D acct (Release a x) = release D acct a x"
| "ledger_step D acct (Credit a x) = credit D acct a x"

fun ledger_run :: "dec_ops \<Rightarrow> paper_account \<Rightarrow> ledger_op list \<Rightarrow> paper_account option" where
  "ledger_run D acct [] = Some acct"
| "ledger_run D acct (x # xs) = do { a \<leftarrow> ledger_step D acct x; ledger_run D a xs }"

fun op_amount :: "ledger_op \<Rightarrow> rat" where
  "op_amount (Reserve a x) = x"
| "op_amount (Release a x) = x"
| "op_amount (Credit a x) = x"

definition solvent :: "paper_account \<Rightarrow> bool" where
  "solvent acct \<longleftrightarrow> (\<forall>a. 0 \<le> free_balance acct a \<and> is_dec (free_balance acct a))"

text \<open>An addition either panics or is exact where the sum is a decimal, and never makes a sum of
  two non-negative amounts negative: the one fact about rounding the ledger needs.\<close>

definition sign_safe :: "dec_ops \<Rightarrow> bool" where
  "sign_safe D \<longleftrightarrow>
     (\<forall>x y z. is_dec x \<longrightarrow> is_dec y \<longrightarrow> 0 \<le> x \<longrightarrow> 0 \<le> y \<longrightarrow> dadd D x y = Some z \<longrightarrow> 0 \<le> z \<and> is_dec z) \<and>
     (\<forall>x y z. is_dec x \<longrightarrow> is_dec y \<longrightarrow> y \<le> x \<longrightarrow> dsub D x y = Some z \<longrightarrow> 0 \<le> z \<and> is_dec z)"

lemma free_balance_upd: "free_balance (acct(a \<mapsto> b)) a' = (if a' = a then b else free_balance acct a')"
  by (simp add: free_balance_def)

lemma reserve_cases:
  "reserve D acct a x = Ok acct' \<longleftrightarrow>
     x \<le> free_balance acct a \<and> (\<exists>b. dsub D (free_balance acct a) x = Some b \<and> acct' = acct(a \<mapsto> b))"
  "reserve D acct a x = Err e \<longleftrightarrow>
     free_balance acct a < x \<and> e = InsufficientBalance a x (free_balance acct a)"
  by (auto simp: reserve_def Let_def res_simps not_less)

lemma sign_safeD:
  assumes "sign_safe D" "is_dec x" "is_dec y"
  shows "0 \<le> x \<Longrightarrow> 0 \<le> y \<Longrightarrow> dadd D x y = Some z \<Longrightarrow> 0 \<le> z \<and> is_dec z"
    "y \<le> x \<Longrightarrow> dsub D x y = Some z \<Longrightarrow> 0 \<le> z \<and> is_dec z"
  using assms unfolding sign_safe_def by blast+

lemma solvent_upd: "solvent acct \<Longrightarrow> 0 \<le> b \<and> is_dec b \<Longrightarrow> solvent (acct(a \<mapsto> b))"
  unfolding solvent_def by (simp add: free_balance_upd)

lemma solventD: "solvent acct \<Longrightarrow> 0 \<le> free_balance acct a" "solvent acct \<Longrightarrow> is_dec (free_balance acct a)"
  by (simp_all add: solvent_def)

lemma deposit_solvent:
  assumes "sign_safe D" "solvent acct" "0 \<le> y" "is_dec y"
    "dadd D (free_balance acct a) y = Some b"
  shows "solvent (acct(a \<mapsto> b))"
  using assms by (intro solvent_upd sign_safeD(1) [of D "free_balance acct a" y b]) (auto dest: solventD)

lemma reserve_solvent:
  assumes "sign_safe D" "solvent acct" "is_dec y" "reserve D acct a y = Ok acct'"
  shows "solvent acct'"
proof -
  obtain b where b: "y \<le> free_balance acct a" "dsub D (free_balance acct a) y = Some b"
      "acct' = acct(a \<mapsto> b)"
    using assms(4) by (auto simp: reserve_cases)
  have "0 \<le> b \<and> is_dec b"
    using sign_safeD(2) [OF assms(1) solventD(2) [OF assms(2)] assms(3)] b by blast
  with assms(2) b(3) show ?thesis by (simp add: solvent_upd)
qed

lemma ledger_step_solvent:
  assumes "sign_safe D" "solvent acct" "0 \<le> op_amount x" "is_dec (op_amount x)"
    "ledger_step D acct x = Some acct'"
  shows "solvent acct'"
  using assms
  by (cases x)
    (auto simp: release_def credit_def split: res.splits Option.bind_splits
      intro: reserve_solvent deposit_solvent)

lemma ledger_run_solvent:
  assumes "sign_safe D" "solvent acct" "\<forall>x\<in>set xs. 0 \<le> op_amount x \<and> is_dec (op_amount x)"
    "ledger_run D acct xs = Some acct'"
  shows "solvent acct'"
  using assms(2-)
proof (induction xs arbitrary: acct)
  case Nil
  then show ?case by simp
next
  case (Cons x xs)
  then show ?case
    using ledger_step_solvent [OF assms(1)] by (auto split: Option.bind_splits)
qed

end
