(* ===== verification/Json_Ops.thy ===== *)
theory Json_Ops
  imports Exchange_Types
begin

text \<open>
  The accessors of \<open>serde_json::Value\<close> (a crate outside the repository) that the parsers call.
  They are a parameter; \<open>json_laws\<close> is what the crate documents of them.
\<close>

record json_ops =
  j_get :: "json \<Rightarrow> string \<Rightarrow> json option"
  j_as_str :: "json \<Rightarrow> string option"
  j_as_array :: "json \<Rightarrow> json list option"
  j_as_bool :: "json \<Rightarrow> bool option"
  j_as_u64 :: "json \<Rightarrow> nat option"
  j_parse :: "string \<Rightarrow> (string, json) res"

definition json_laws :: "json_ops \<Rightarrow> bool" where
  "json_laws J \<longleftrightarrow>
     (\<forall>kvs k. distinct (map fst kvs) \<longrightarrow> j_get J (JObj kvs) k = map_of kvs k) \<and>
     (\<forall>v k. (\<nexists>kvs. v = JObj kvs) \<longrightarrow> j_get J v k = None) \<and>
     (\<forall>v s. j_as_str J v = Some s \<longleftrightarrow> v = JStr s) \<and>
     (\<forall>v vs. j_as_array J v = Some vs \<longleftrightarrow> v = JArr vs) \<and>
     (\<forall>v b. j_as_bool J v = Some b \<longleftrightarrow> v = JBool b) \<and>
     (\<forall>v n. j_as_u64 J v = Some n \<longrightarrow> v = JNum (of_nat n))"

text \<open>\<open>v.get(key).and_then(|x| x.as_str())\<close> and its relatives.\<close>

definition str_field :: "json_ops \<Rightarrow> json \<Rightarrow> string \<Rightarrow> string option" where
  "str_field J v key = do { x \<leftarrow> j_get J v key; j_as_str J x }"

definition array_field :: "json_ops \<Rightarrow> json \<Rightarrow> string \<Rightarrow> json list option" where
  "array_field J v key = do { x \<leftarrow> j_get J v key; j_as_array J x }"

definition bool_field_or_false :: "json_ops \<Rightarrow> json \<Rightarrow> string \<Rightarrow> bool" where
  "bool_field_or_false J v key =
     (case do { x \<leftarrow> j_get J v key; j_as_bool J x } of Some b \<Rightarrow> b | None \<Rightarrow> False)"

definition u32_field_or_zero :: "json_ops \<Rightarrow> json \<Rightarrow> string \<Rightarrow> u32" where
  "u32_field_or_zero J v key =
     (case do { x \<leftarrow> j_get J v key; j_as_u64 J x } of Some n \<Rightarrow> word_of_nat n | None \<Rightarrow> 0)"

text \<open>\<open>.and_then(|s| s.parse().ok()).unwrap_or(Decimal::ZERO)\<close>.\<close>

definition dec_field_opt :: "dec_ops \<Rightarrow> json_ops \<Rightarrow> json \<Rightarrow> string \<Rightarrow> rat option" where
  "dec_field_opt D J v key = do { s \<leftarrow> str_field J v key; dparse D s }"

definition dec_field_or_zero :: "dec_ops \<Rightarrow> json_ops \<Rightarrow> json \<Rightarrow> string \<Rightarrow> rat" where
  "dec_field_or_zero D J v key = (case dec_field_opt D J v key of Some x \<Rightarrow> x | None \<Rightarrow> 0)"

section \<open>A concrete instance\<close>

definition ref_json :: json_ops where
  "ref_json = \<lparr>
     j_get = (\<lambda>v k. case v of JObj kvs \<Rightarrow> map_of kvs k | _ \<Rightarrow> None),
     j_as_str = (\<lambda>v. case v of JStr s \<Rightarrow> Some s | _ \<Rightarrow> None),
     j_as_array = (\<lambda>v. case v of JArr vs \<Rightarrow> Some vs | _ \<Rightarrow> None),
     j_as_bool = (\<lambda>v. case v of JBool b \<Rightarrow> Some b | _ \<Rightarrow> None),
     j_as_u64 = (\<lambda>v. case v of
        JNum q \<Rightarrow> (if 0 \<le> q \<and> of_int \<lfloor>q\<rfloor> = q then Some (nat \<lfloor>q\<rfloor>) else None) | _ \<Rightarrow> None),
     j_parse = (\<lambda>s. Err ''not a document'')\<rparr>"

lemma ref_json_laws: "json_laws ref_json"
  by (auto simp: json_laws_def ref_json_def of_nat_nat split: json.splits if_splits)

end
