(* ===== verification/Binance_Ws.thy ===== *)
theory Binance_Ws
  imports Json_Ops
begin

text \<open>
  \<open>crates/exchange/src/binance/ws.rs\<close>: stream URLs, the parser of public events, and the socket
  functions over the WebSocket library, which is a parameter.
\<close>

definition ws_base_url :: "bool \<Rightarrow> string" where
  "ws_base_url testnet =
     (if testnet then ''wss://testnet.binance.vision'' else ''wss://stream.binance.com:9443'')"

text \<open>\<open>[String]::join("/")\<close>.\<close>

fun join_slash :: "string list \<Rightarrow> string" where
  "join_slash [] = []"
| "join_slash [s] = s"
| "join_slash (s # ss) = s @ ''/'' @ join_slash ss"

definition public_stream_url :: "bool \<Rightarrow> string list \<Rightarrow> string" where
  "public_stream_url testnet streams = ws_base_url testnet @ ''/stream?streams='' @ join_slash streams"

definition ws_user_data_stream_url :: "bool \<Rightarrow> string \<Rightarrow> string" where
  "ws_user_data_stream_url testnet listen_key = ws_base_url testnet @ ''/ws/'' @ listen_key"

datatype public_event =
    BookTicker string rat rat
  | Trade string rat
  | Unrecognized

definition parse_decimal_field :: "dec_ops \<Rightarrow> json_ops \<Rightarrow> json \<Rightarrow> string \<Rightarrow> (exchange_error, rat) res" where
  "parse_decimal_field D J v key =
     res_bind (ok_or (str_field J v key) (MarketDataError (Fmt ''missing field {key}'' [FStr key])))
       (\<lambda>s. ok_or (dparse D s) (MarketDataError (Fmt ''bad decimal for {key}'' [FStr key])))"

definition symbol_or_empty :: "json_ops \<Rightarrow> json \<Rightarrow> string" where
  "symbol_or_empty J data = (case str_field J data ''s'' of Some s \<Rightarrow> s | None \<Rightarrow> [])"

definition parse_book_ticker :: "dec_ops \<Rightarrow> json_ops \<Rightarrow> json \<Rightarrow> (exchange_error, public_event) res" where
  "parse_book_ticker D J data =
     res_bind (parse_decimal_field D J data ''b'') (\<lambda>bid.
     res_bind (parse_decimal_field D J data ''a'') (\<lambda>ask.
     Ok (BookTicker (symbol_or_empty J data) bid ask)))"

definition parse_trade :: "dec_ops \<Rightarrow> json_ops \<Rightarrow> json \<Rightarrow> (exchange_error, public_event) res" where
  "parse_trade D J data =
     res_bind (parse_decimal_field D J data ''p'') (\<lambda>price.
     Ok (Trade (symbol_or_empty J data) price))"

definition parse_public_event :: "dec_ops \<Rightarrow> json_ops \<Rightarrow> string \<Rightarrow> (exchange_error, public_event) res" where
  "parse_public_event D J raw =
     res_bind (map_err (\<lambda>e. MarketDataError (Fmt ''invalid ws json: {e}'' [FStr e])) (j_parse J raw)) (\<lambda>v.
     let data = (case j_get J v ''data'' of Some d \<Rightarrow> d | None \<Rightarrow> v);
         event_type = str_field J data ''e'';
         is_book_ticker_shape = (j_get J data ''b'' \<noteq> None \<and> j_get J data ''a'' \<noteq> None)
     in if event_type = Some ''bookTicker'' then parse_book_ticker D J data
        else if event_type = Some ''trade'' then parse_trade D J data
        else if event_type = None \<and> is_book_ticker_shape then parse_book_ticker D J data
        else Ok Unrecognized)"

section \<open>The socket\<close>

text \<open>
  What the functions use of the library: \<open>'s\<close> is the open stream, \<open>'m\<close> a message. A connection also
  gives a response, which is dropped; a send and a read return the stream they leave behind.
\<close>

record ('s, 'm) ws_ops =
  ws_connect_async :: "string \<Rightarrow> (string, 's) res"
  ws_ping :: "byte list \<Rightarrow> 'm"
  ws_send :: "'m \<Rightarrow> 's \<Rightarrow> (string, unit) res \<times> 's"
  ws_next :: "'s \<Rightarrow> (string + 'm) option \<times> 's"

definition connect :: "('s, 'm) ws_ops \<Rightarrow> string \<Rightarrow> (exchange_error, 's) res" where
  "connect W url =
     map_err (\<lambda>e. MarketDataError (Fmt ''ws connect failed: {e}'' [FStr e])) (ws_connect_async W url)"

definition send_ping :: "('s, 'm) ws_ops \<Rightarrow> 's \<Rightarrow> (exchange_error, unit) res \<times> 's" where
  "send_ping W stream =
     (let (r, stream') = ws_send W (ws_ping W []) stream in
      (map_err (\<lambda>e. MarketDataError (Fmt ''ws ping failed: {e}'' [FStr e])) r, stream'))"

text \<open>\<open>transpose().ok().flatten()\<close>: the end of the stream and an error are both no message.\<close>

definition drain_one :: "('s, 'm) ws_ops \<Rightarrow> 's \<Rightarrow> 'm option \<times> 's" where
  "drain_one W stream =
     (let (r, stream') = ws_next W stream in
      (case r of Some (Inr m) \<Rightarrow> Some m | _ \<Rightarrow> None, stream'))"

section \<open>Lemmas\<close>

text \<open>An event is only ever read off the inner object, and only with parsed numbers.\<close>

lemma parse_book_ticker_Ok:
  "parse_book_ticker D J data = Ok ev \<longleftrightarrow>
     (\<exists>b a. dec_field_opt D J data ''b'' = Some b \<and> dec_field_opt D J data ''a'' = Some a \<and>
        ev = BookTicker (symbol_or_empty J data) b a)"
  by (auto simp: parse_book_ticker_def parse_decimal_field_def dec_field_opt_def res_simps
      split: Option.bind_splits)

lemma parse_trade_Ok:
  "parse_trade D J data = Ok ev \<longleftrightarrow>
     (\<exists>p. dec_field_opt D J data ''p'' = Some p \<and> ev = Trade (symbol_or_empty J data) p)"
  by (auto simp: parse_trade_def parse_decimal_field_def dec_field_opt_def res_simps
      split: Option.bind_splits)

end
