(* ===== verification/Binance_Rest.thy ===== *)
theory Binance_Rest
  imports Json_Ops
begin

text \<open>
  \<open>crates/exchange/src/binance/rest.rs\<close>: URLs, request signing, and the parsers of the two public
  endpoints. The HTTP client (\<open>reqwest\<close>) and the HMAC are parameters.
\<close>

section \<open>Configuration and URLs\<close>

record binance_config =
  bc_base_url :: string
  bc_api_key :: string
  bc_api_secret :: string

definition binance_testnet :: "string \<Rightarrow> string \<Rightarrow> binance_config" where
  "binance_testnet api_key api_secret =
     \<lparr>bc_base_url = ''https://testnet.binance.vision'', bc_api_key = api_key, bc_api_secret = api_secret\<rparr>"

definition binance_live :: "string \<Rightarrow> string \<Rightarrow> binance_config" where
  "binance_live api_key api_secret =
     \<lparr>bc_base_url = ''https://api.binance.com'', bc_api_key = api_key, bc_api_secret = api_secret\<rparr>"

definition url :: "binance_config \<Rightarrow> string \<Rightarrow> string" where
  "url cfg path = bc_base_url cfg @ ''/api'' @ path"

definition exchange_info_url :: "binance_config \<Rightarrow> string" where
  "exchange_info_url cfg = url cfg ''/v3/exchangeInfo''"

definition order_url :: "binance_config \<Rightarrow> string" where
  "order_url cfg = url cfg ''/v3/order''"

definition open_orders_url :: "binance_config \<Rightarrow> string" where
  "open_orders_url cfg = url cfg ''/v3/openOrders''"

definition account_url :: "binance_config \<Rightarrow> string" where
  "account_url cfg = url cfg ''/v3/account''"

definition all_orders_url :: "binance_config \<Rightarrow> string" where
  "all_orders_url cfg = url cfg ''/v3/allOrders''"

definition my_trades_url :: "binance_config \<Rightarrow> string" where
  "my_trades_url cfg = url cfg ''/v3/myTrades''"

definition user_data_stream_url :: "binance_config \<Rightarrow> string" where
  "user_data_stream_url cfg = url cfg ''/v3/userDataStream''"

definition book_ticker_url :: "binance_config \<Rightarrow> string \<Rightarrow> string" where
  "book_ticker_url cfg symbol = url cfg ''/v3/ticker/bookTicker'' @ ''?symbol='' @ symbol"

definition all_book_tickers_url :: "binance_config \<Rightarrow> string" where
  "all_book_tickers_url cfg = url cfg ''/v3/ticker/bookTicker''"

section \<open>Signing\<close>

definition hex_digit :: "nat \<Rightarrow> char" where
  "hex_digit d = (if d < 10 then char_of (48 + d) else char_of (87 + d))"

text \<open>\<open>format!("{b:02x}")\<close> for each byte.\<close>

definition hex_byte :: "byte \<Rightarrow> string" where
  "hex_byte b = [hex_digit (unat b div 16), hex_digit (unat b mod 16)]"

definition hex_encode :: "byte list \<Rightarrow> string" where
  "hex_encode bytes = concat (map hex_byte bytes)"

type_synonym hmac = "string \<Rightarrow> string \<Rightarrow> (string, byte list) res"

definition sign_query :: "hmac \<Rightarrow> string \<Rightarrow> string \<Rightarrow> (exchange_error, string) res" where
  "sign_query H secret query =
     res_bind (map_err (\<lambda>e. MarketDataError (Fmt ''hmac key error: {e}'' [FStr e])) (H secret query))
       (\<lambda>mac. Ok (hex_encode mac))"

section \<open>Parsers\<close>

definition dec_field :: "dec_ops \<Rightarrow> json_ops \<Rightarrow> json \<Rightarrow> string \<Rightarrow> (exchange_error, rat) res" where
  "dec_field D J v key =
     res_bind (ok_or (str_field J v key) (FilterViolation (Fmt ''missing field {key}'' [FStr key])))
       (\<lambda>s. ok_or (dparse D s) (FilterViolation (Fmt ''bad decimal for {key}'' [FStr key])))"

definition parse_ticker :: "dec_ops \<Rightarrow> json_ops \<Rightarrow> json \<Rightarrow> (string \<times> rat \<times> rat) option" where
  "parse_ticker D J e = do {
     symbol \<leftarrow> str_field J e ''symbol'';
     bid \<leftarrow> (case dec_field D J e ''bidPrice'' of Ok x \<Rightarrow> Some x | _ \<Rightarrow> None);
     ask \<leftarrow> (case dec_field D J e ''askPrice'' of Ok x \<Rightarrow> Some x | _ \<Rightarrow> None);
     if bid > 0 \<and> ask \<ge> bid then Some (symbol, bid, ask) else None }"

definition parse_all_book_tickers ::
    "dec_ops \<Rightarrow> json_ops \<Rightarrow> json \<Rightarrow> (exchange_error, (string \<times> rat \<times> rat) list) res" where
  "parse_all_book_tickers D J body =
     res_bind (ok_or (j_as_array J body) (MarketDataError (Msg ''bookTicker response is not an array'')))
       (\<lambda>arr. Ok (List.map_filter (parse_ticker D J) arr))"

text \<open>The mutable filter variables of \<open>parse_symbol_meta\<close>.\<close>

record filter_vars =
  fv_lot_size :: lot_size_filter
  fv_market_lot_size :: lot_size_filter
  fv_price_filter :: price_filter
  fv_notional :: notional_filter
  fv_percent_price :: percent_price_rule

definition initial_filters :: "dec_ops \<Rightarrow> filter_vars" where
  "initial_filters D =
     (let lot = \<lparr>ls_min_qty = 0, ls_max_qty = dmax D, ls_step_size = 0\<rparr> in
      \<lparr>fv_lot_size = lot,
       fv_market_lot_size = lot,
       fv_price_filter = \<lparr>pf_min_price = 0, pf_max_price = dmax D, pf_tick_size = 0\<rparr>,
       fv_notional = \<lparr>nf_min_notional = None, nf_max_notional = None, nf_apply_min_to_market = False,
                      nf_apply_max_to_market = False, nf_avg_price_mins = 0\<rparr>,
       fv_percent_price = General (dmax D) 0 0\<rparr>)"

definition parse_lot :: "dec_ops \<Rightarrow> json_ops \<Rightarrow> json \<Rightarrow> (exchange_error, lot_size_filter) res" where
  "parse_lot D J f =
     res_bind (dec_field D J f ''minQty'') (\<lambda>a.
     res_bind (dec_field D J f ''maxQty'') (\<lambda>b.
     res_bind (dec_field D J f ''stepSize'') (\<lambda>c.
     Ok \<lparr>ls_min_qty = a, ls_max_qty = b, ls_step_size = c\<rparr>)))"

definition parse_price_filter :: "dec_ops \<Rightarrow> json_ops \<Rightarrow> json \<Rightarrow> (exchange_error, price_filter) res" where
  "parse_price_filter D J f =
     res_bind (dec_field D J f ''minPrice'') (\<lambda>a.
     res_bind (dec_field D J f ''maxPrice'') (\<lambda>b.
     res_bind (dec_field D J f ''tickSize'') (\<lambda>c.
     Ok \<lparr>pf_min_price = a, pf_max_price = b, pf_tick_size = c\<rparr>)))"

definition parse_notional :: "dec_ops \<Rightarrow> json_ops \<Rightarrow> json \<Rightarrow> notional_filter" where
  "parse_notional D J f =
     \<lparr>nf_min_notional = dec_field_opt D J f ''minNotional'',
      nf_max_notional = dec_field_opt D J f ''maxNotional'',
      nf_apply_min_to_market = bool_field_or_false J f ''applyMinToMarket'',
      nf_apply_max_to_market = bool_field_or_false J f ''applyMaxToMarket'',
      nf_avg_price_mins = u32_field_or_zero J f ''avgPriceMins''\<rparr>"

definition parse_by_side :: "dec_ops \<Rightarrow> json_ops \<Rightarrow> json \<Rightarrow> (exchange_error, percent_price_rule) res" where
  "parse_by_side D J f =
     res_bind (dec_field D J f ''bidMultiplierUp'') (\<lambda>a.
     res_bind (dec_field D J f ''bidMultiplierDown'') (\<lambda>b.
     res_bind (dec_field D J f ''askMultiplierUp'') (\<lambda>c.
     res_bind (dec_field D J f ''askMultiplierDown'') (\<lambda>d.
     Ok (BySide a b c d (u32_field_or_zero J f ''avgPriceMins''))))))"

definition parse_general :: "dec_ops \<Rightarrow> json_ops \<Rightarrow> json \<Rightarrow> (exchange_error, percent_price_rule) res" where
  "parse_general D J f =
     res_bind (dec_field D J f ''multiplierUp'') (\<lambda>a.
     res_bind (dec_field D J f ''multiplierDown'') (\<lambda>b.
     Ok (General a b (u32_field_or_zero J f ''avgPriceMins''))))"

text \<open>One iteration of the loop over \<open>filters\<close>.\<close>

definition apply_filter ::
    "dec_ops \<Rightarrow> json_ops \<Rightarrow> filter_vars \<Rightarrow> json \<Rightarrow> (exchange_error, filter_vars) res" where
  "apply_filter D J fv f =
     (let ft = str_field J f ''filterType'' in
      if ft = Some ''LOT_SIZE'' then
        res_bind (parse_lot D J f) (\<lambda>x. Ok (fv\<lparr>fv_lot_size := x\<rparr>))
      else if ft = Some ''MARKET_LOT_SIZE'' then
        res_bind (parse_lot D J f) (\<lambda>x. Ok (fv\<lparr>fv_market_lot_size := x\<rparr>))
      else if ft = Some ''PRICE_FILTER'' then
        res_bind (parse_price_filter D J f) (\<lambda>x. Ok (fv\<lparr>fv_price_filter := x\<rparr>))
      else if ft = Some ''NOTIONAL'' then
        Ok (fv\<lparr>fv_notional := parse_notional D J f\<rparr>)
      else if ft = Some ''PERCENT_PRICE_BY_SIDE'' then
        res_bind (parse_by_side D J f) (\<lambda>x. Ok (fv\<lparr>fv_percent_price := x\<rparr>))
      else if ft = Some ''PERCENT_PRICE'' then
        res_bind (parse_general D J f) (\<lambda>x. Ok (fv\<lparr>fv_percent_price := x\<rparr>))
      else Ok fv)"

fun apply_filters ::
    "dec_ops \<Rightarrow> json_ops \<Rightarrow> filter_vars \<Rightarrow> json list \<Rightarrow> (exchange_error, filter_vars) res" where
  "apply_filters D J fv [] = Ok fv"
| "apply_filters D J fv (f # fs) = res_bind (apply_filter D J fv f) (\<lambda>fv'. apply_filters D J fv' fs)"

definition parse_symbol_status :: "string option \<Rightarrow> symbol_status" where
  "parse_symbol_status s =
     (if s = Some ''TRADING'' then Trading
      else if s = Some ''BREAK'' then Break
      else if s = Some ''HALT'' then Halt
      else if s = Some ''AUCTION_MATCH'' then AuctionMatch
      else Break)"

definition parse_order_types :: "json_ops \<Rightarrow> json list option \<Rightarrow> order_type list" where
  "parse_order_types J arr =
     (case arr of
        None \<Rightarrow> []
      | Some ts \<Rightarrow> List.map_filter
          (\<lambda>t. if j_as_str J t = Some ''LIMIT'' then Some Limit
               else if j_as_str J t = Some ''MARKET'' then Some Market
               else None) ts)"

definition parse_symbol_meta ::
    "dec_ops \<Rightarrow> json_ops \<Rightarrow> json \<Rightarrow> (exchange_error, symbol_meta) res" where
  "parse_symbol_meta D J entry =
     res_bind (ok_or (str_field J entry ''symbol'') (FilterViolation (Msg ''missing symbol''))) (\<lambda>symbol.
     let base_asset = (case str_field J entry ''baseAsset'' of Some s \<Rightarrow> s | None \<Rightarrow> []);
         quote_asset = (case str_field J entry ''quoteAsset'' of Some s \<Rightarrow> s | None \<Rightarrow> []);
         status = parse_symbol_status (str_field J entry ''status'');
         allowed = parse_order_types J (array_field J entry ''orderTypes'');
         filters = (case array_field J entry ''filters'' of Some fs \<Rightarrow> fs | None \<Rightarrow> [])
     in res_bind (apply_filters D J (initial_filters D) filters) (\<lambda>fv.
        Ok \<lparr>sm_symbol = symbol, sm_base_asset = base_asset, sm_quote_asset = quote_asset,
            sm_status = status, sm_allowed_order_types = allowed,
            sm_lot_size = fv_lot_size fv, sm_market_lot_size = fv_market_lot_size fv,
            sm_price_filter = fv_price_filter fv, sm_notional = fv_notional fv,
            sm_percent_price = fv_percent_price fv\<rparr>))"

section \<open>Requests\<close>

text \<open>
  A request is answered by a transport error, or by a response whose body decodes to JSON or not.
\<close>

type_synonym http_client = "string \<Rightarrow> (string \<times> string) list \<Rightarrow> (string, (string, json) res) res"

definition http_json ::
    "http_client \<Rightarrow> string \<Rightarrow> (string \<times> string) list \<Rightarrow> string \<Rightarrow> string \<Rightarrow> (exchange_error, json) res" where
  "http_json N u headers send_msg body_msg =
     res_bind (map_err (\<lambda>e. MarketDataError (Fmt send_msg [FStr e])) (N u headers))
       (\<lambda>resp. map_err (\<lambda>e. MarketDataError (Fmt body_msg [FStr e])) resp)"

definition fetch_exchange_info ::
    "dec_ops \<Rightarrow> json_ops \<Rightarrow> http_client \<Rightarrow> binance_config \<Rightarrow> (exchange_error, symbol_meta list) res" where
  "fetch_exchange_info D J N cfg =
     res_bind (http_json N (exchange_info_url cfg) [] ''exchangeInfo request failed: {e}''
                 ''bad exchangeInfo body: {e}'') (\<lambda>body.
     res_bind (ok_or (array_field J body ''symbols'')
                 (MarketDataError (Msg ''exchangeInfo missing symbols[]''))) (\<lambda>symbols.
     map_res (parse_symbol_meta D J) symbols))"

definition fetch_all_book_tickers ::
    "dec_ops \<Rightarrow> json_ops \<Rightarrow> http_client \<Rightarrow> binance_config \<Rightarrow>
     (exchange_error, (string \<times> rat \<times> rat) list) res" where
  "fetch_all_book_tickers D J N cfg =
     res_bind (http_json N (all_book_tickers_url cfg) [] ''bookTicker request failed: {e}''
                 ''bad bookTicker body: {e}'') (parse_all_book_tickers D J)"

definition fetch_book_ticker ::
    "dec_ops \<Rightarrow> json_ops \<Rightarrow> http_client \<Rightarrow> binance_config \<Rightarrow> string \<Rightarrow> (exchange_error, rat \<times> rat) res" where
  "fetch_book_ticker D J N cfg symbol =
     res_bind (http_json N (book_ticker_url cfg symbol) [] ''bookTicker request failed: {e}''
                 ''bad bookTicker body: {e}'') (\<lambda>body.
     res_bind (dec_field D J body ''bidPrice'') (\<lambda>bid.
     res_bind (dec_field D J body ''askPrice'') (\<lambda>ask. Ok (bid, ask))))"

section \<open>Lemmas\<close>

lemma parse_ticker_sane:
  "parse_ticker D J e = Some (s, bid, ask) \<Longrightarrow> 0 < bid \<and> bid \<le> ask \<and> str_field J e ''symbol'' = Some s"
  by (auto simp: parse_ticker_def split: Option.bind_splits res.splits if_splits)

lemma length_hex_encode: "length (hex_encode bs) = 2 * length bs"
  by (induction bs) (auto simp: hex_encode_def hex_byte_def)

text \<open>A filter entry changes at most the one variable its type names.\<close>

lemma apply_filter_other:
  assumes "apply_filter D J fv f = Ok fv'"
  shows "str_field J f ''filterType'' \<noteq> Some ''LOT_SIZE'' \<Longrightarrow> fv_lot_size fv' = fv_lot_size fv"
    "str_field J f ''filterType'' \<noteq> Some ''MARKET_LOT_SIZE'' \<Longrightarrow>
      fv_market_lot_size fv' = fv_market_lot_size fv"
    "str_field J f ''filterType'' \<noteq> Some ''PRICE_FILTER'' \<Longrightarrow> fv_price_filter fv' = fv_price_filter fv"
    "str_field J f ''filterType'' \<noteq> Some ''NOTIONAL'' \<Longrightarrow> fv_notional fv' = fv_notional fv"
    "str_field J f ''filterType'' \<notin> {Some ''PERCENT_PRICE'', Some ''PERCENT_PRICE_BY_SIDE''} \<Longrightarrow>
      fv_percent_price fv' = fv_percent_price fv"
  using assms by (auto simp: apply_filter_def Let_def res_simps split: if_splits)

lemma apply_filters_keep:
  assumes "apply_filters D J fv fs = Ok fv'"
  shows "\<forall>f\<in>set fs. str_field J f ''filterType'' \<noteq> Some ''LOT_SIZE'' \<Longrightarrow> fv_lot_size fv' = fv_lot_size fv"
    "\<forall>f\<in>set fs. str_field J f ''filterType'' \<noteq> Some ''MARKET_LOT_SIZE'' \<Longrightarrow>
      fv_market_lot_size fv' = fv_market_lot_size fv"
    "\<forall>f\<in>set fs. str_field J f ''filterType'' \<noteq> Some ''PRICE_FILTER'' \<Longrightarrow>
      fv_price_filter fv' = fv_price_filter fv"
  using assms
  by (induction fs arbitrary: fv) (auto simp: res_simps dest: apply_filter_other)

end
