(* ===== verification/Binance_Reconcile.thy ===== *)
theory Binance_Reconcile
  imports Adapter_Contract Binance_Rest
begin

text \<open>
  \<open>crates/exchange/src/binance/reconcile.rs\<close>: the live adapter. The exchange's answer to the
  order-status request is turned into a \<open>ReconcileResult\<close> by \<open>map_order_status_response\<close>.
\<close>

section \<open>The request\<close>

text \<open>\<open>Display\<close> for \<open>i64\<close>.\<close>

definition show_int :: "int \<Rightarrow> string" where
  "show_int i = (if i < 0 then ''-'' @ show_nat (nat (- i)) else show_nat (nat i))"

definition order_status_query ::
    "hmac \<Rightarrow> binance_config \<Rightarrow> string \<Rightarrow> string \<Rightarrow> int \<Rightarrow> (exchange_error, string) res" where
  "order_status_query H cfg symbol client_order_id timestamp =
     (let query = ''symbol='' @ symbol @ ''&origClientOrderId='' @ client_order_id
                  @ ''&timestamp='' @ show_int timestamp
      in res_bind (sign_query H (bc_api_secret cfg) query) (\<lambda>sig.
         Ok (query @ ''&signature='' @ sig)))"

section \<open>The response\<close>

definition parse_binance_status :: "string \<Rightarrow> (exchange_error, order_status) res" where
  "parse_binance_status s =
     (if s = ''NEW'' then Ok Submitted
      else if s = ''PARTIALLY_FILLED'' then Ok PartiallyFilled
      else if s = ''FILLED'' then Ok Filled
      else if s = ''CANCELED'' \<or> s = ''EXPIRED'' then Ok Cancelled
      else if s = ''REJECTED'' then Ok RejectedStatus
      else if s = ''PENDING_CANCEL'' then Ok CancelRequested
      else Err (MarketDataError (Fmt ''unrecognized Binance order status: {other}'' [FStr s])))"

text \<open>\<open>snapshot.fills.iter().map(|f| f.quantity * f.price).sum()\<close>.\<close>

fun quote_sum_from :: "dec_ops \<Rightarrow> rat \<Rightarrow> fill_snapshot list \<Rightarrow> rat option" where
  "quote_sum_from D acc [] = Some acc"
| "quote_sum_from D acc (f # fs) = do {
     x \<leftarrow> dmul D (fs_quantity f) (fs_price f);
     a \<leftarrow> dadd D acc x;
     quote_sum_from D a fs }"

text \<open>The price of the new quantity: incremental quote over \<open>delta\<close>, or the submitted price.\<close>

definition fill_price ::
    "dec_ops \<Rightarrow> json_ops \<Rightarrow> reconcile_snapshot \<Rightarrow> json \<Rightarrow> rat \<Rightarrow> rat option" where
  "fill_price D J snapshot resp delta = do {
     let cumulative_quote = dec_field_or_zero D J resp ''cummulativeQuoteQty'';
     recorded_quote \<leftarrow> quote_sum_from D 0 (rs_fills snapshot);
     incremental_quote \<leftarrow> dsub D cumulative_quote recorded_quote;
     let submitted_price = dec_field_or_zero D J resp ''price'';
     if incremental_quote > 0 then ddiv D incremental_quote delta else Some submitted_price }"

definition binance_event_type :: "order_status \<Rightarrow> string" where
  "binance_event_type st =
     (case st of
        Filled \<Rightarrow> ''order_filled''
      | PartiallyFilled \<Rightarrow> ''order_partially_filled''
      | Cancelled \<Rightarrow> ''order_cancelled''
      | RejectedStatus \<Rightarrow> ''order_rejected''
      | _ \<Rightarrow> ''exchange_reconciliation_required'')"

definition new_fills ::
    "dec_ops \<Rightarrow> json_ops \<Rightarrow> reconcile_snapshot \<Rightarrow> json \<Rightarrow> rat \<Rightarrow> fill list option" where
  "new_fills D J snapshot resp delta =
     (if delta > 0 then do {
        price \<leftarrow> fill_price D J snapshot resp delta;
        Some [\<lparr>fl_exchange_trade_id = os_client_order_id (rs_order snapshot) @ '':reconcile:''
                 @ show_nat (length (rs_fills snapshot)),
               fl_quantity = delta, fl_price = price, fl_fee = 0, fl_fee_asset = []\<rparr>] }
      else Some [])"

definition map_order_status_response ::
    "dec_ops \<Rightarrow> json_ops \<Rightarrow> uuid_ops \<Rightarrow> reconcile_snapshot \<Rightarrow> json \<Rightarrow>
     (exchange_error, reconcile_result) res" where
  "map_order_status_response D J U snapshot resp =
     (let order = rs_order snapshot in
      res_bind (ok_or (str_field J resp ''status'')
                  (MarketDataError (Msg ''missing status in order response''))) (\<lambda>status_str.
      res_bind (parse_binance_status status_str) (\<lambda>new_status.
      if new_status = os_status order then Ok no_result
      else
        let executed_qty = dec_field_or_zero D J resp ''executedQty'' in
        res_bind (or_panic (d_sum D (map fs_quantity (rs_fills snapshot)))) (\<lambda>already_recorded.
        res_bind (or_panic (dsub D executed_qty already_recorded)) (\<lambda>delta.
        res_bind (or_panic (new_fills D J snapshot resp delta)) (\<lambda>fills_to_add.
        let positions_delta =
              (if delta > 0
               then [\<lparr>pd_symbol = os_symbol order,
                      pd_quantity_delta = (if os_side order = Buy then delta else - delta)\<rparr>]
               else [])
        in Ok \<lparr>rr_new_status = Some new_status,
               rr_fills_to_add = fills_to_add,
               rr_positions_delta = positions_delta,
               rr_events = [\<lparr>re_event_type = binance_event_type new_status,
                 re_payload = order_event_payload U (os_order_id order) ''binance_status'' status_str\<rparr>],
               rr_command = None\<rparr>))))))"

definition binance_reconcile_order ::
    "dec_ops \<Rightarrow> json_ops \<Rightarrow> uuid_ops \<Rightarrow> hmac \<Rightarrow> http_client \<Rightarrow> binance_config \<Rightarrow> int \<Rightarrow>
     reconcile_snapshot \<Rightarrow> (exchange_error, reconcile_result) res" where
  "binance_reconcile_order D J U H N cfg timestamp snapshot =
     (if is_terminal (os_status (rs_order snapshot)) then Ok no_result
      else
        res_bind (order_status_query H cfg (os_symbol (rs_order snapshot))
                    (os_client_order_id (rs_order snapshot)) timestamp) (\<lambda>query.
        res_bind (http_json N (order_url cfg @ ''?'' @ query) [(''X-MBX-APIKEY'', bc_api_key cfg)]
                    ''order status request failed: {e}'' ''bad order status body: {e}'') (\<lambda>body.
        map_order_status_response D J U snapshot body)))"

definition binance_submit :: "order_snapshot \<Rightarrow> (exchange_error, submit_result) res" where
  "binance_submit order = Ok \<lparr>sr_accepted = True, sr_events = []\<rparr>"

definition binance_cancel :: "order_snapshot \<Rightarrow> (exchange_error, unit) res" where
  "binance_cancel order = Ok ()"

text \<open>Neither an account reconciliation nor a start or a shutdown does anything.\<close>

definition binance_reconcile_account :: "uuid \<Rightarrow> (exchange_error, unit) res" where
  "binance_reconcile_account account_id = Ok ()"

definition binance_start :: "(exchange_error, unit) res" where
  "binance_start = Ok ()"

definition binance_shutdown :: "(exchange_error, unit) res" where
  "binance_shutdown = Ok ()"

definition binance_adapter ::
    "dec_ops \<Rightarrow> json_ops \<Rightarrow> uuid_ops \<Rightarrow> hmac \<Rightarrow> http_client \<Rightarrow> binance_config \<Rightarrow> int \<Rightarrow> adapter" where
  "binance_adapter D J U H N cfg timestamp =
     \<lparr>ad_mode = Live, ad_submit = binance_submit, ad_cancel = binance_cancel,
      ad_reconcile_order = binance_reconcile_order D J U H N cfg timestamp,
      ad_reconcile_account = binance_reconcile_account, ad_start = binance_start, ad_shutdown = binance_shutdown\<rparr>"

section \<open>Lemmas\<close>

lemma map_response_cases:
  assumes "map_order_status_response D J U s resp = Ok r"
  obtains (unchanged) st where "str_field J resp ''status'' = Some st"
      "parse_binance_status st = Ok (os_status (rs_order s))" "r = no_result"
  | (changed) st new_status already delta where
      "str_field J resp ''status'' = Some st" "parse_binance_status st = Ok new_status"
      "new_status \<noteq> os_status (rs_order s)"
      "d_sum D (map fs_quantity (rs_fills s)) = Some already"
      "dsub D (dec_field_or_zero D J resp ''executedQty'') already = Some delta"
      "rr_new_status r = Some new_status"
      "new_fills D J s resp delta = Some (rr_fills_to_add r)"
      "rr_positions_delta r = map (fill_delta (rs_order s)) (rr_fills_to_add r)"
      "map re_event_type (rr_events r) = [binance_event_type new_status]"
proof -
  obtain st new_status where st: "str_field J resp ''status'' = Some st"
      "parse_binance_status st = Ok new_status"
    using assms by (auto simp: map_order_status_response_def Let_def res_simps)
  show ?thesis
  proof (cases "new_status = os_status (rs_order s)")
    case True
    with assms st have "r = no_result" by (simp add: map_order_status_response_def Let_def)
    with st True unchanged show ?thesis by simp
  next
    case False
    with assms st obtain already delta fills where
      n: "d_sum D (map fs_quantity (rs_fills s)) = Some already"
        "dsub D (dec_field_or_zero D J resp ''executedQty'') already = Some delta"
        "new_fills D J s resp delta = Some fills"
      by (auto simp: map_order_status_response_def Let_def res_simps)
    have "(if os_side (rs_order s) = Buy then delta else - delta)
        = signed_qty (os_side (rs_order s)) delta"
      by (cases "os_side (rs_order s)") (simp_all add: signed_qty_def)
    moreover have "map fl_quantity fills = (if 0 < delta then [delta] else [])"
      using n(3) by (auto simp: new_fills_def split: if_splits Option.bind_splits)
    ultimately have "(if 0 < delta then [\<lparr>pd_symbol = os_symbol (rs_order s), pd_quantity_delta =
          (if os_side (rs_order s) = Buy then delta else - delta)\<rparr>] else [])
        = map (fill_delta (rs_order s)) fills"
      by (auto simp: fill_delta_def split: if_splits)
    with assms st n False show ?thesis
      by (intro changed [OF st False n(1,2)]) (auto simp: map_order_status_response_def Let_def)
  qed
qed

lemma new_fills_form:
  assumes "new_fills D J s resp delta = Some fs"
  shows "map fl_quantity fs = (if 0 < delta then [delta] else [])"
    "f \<in> set fs \<Longrightarrow> fl_exchange_trade_id f =
      os_client_order_id (rs_order s) @ '':reconcile:'' @ show_nat (length (rs_fills s))"
    "f \<in> set fs \<Longrightarrow> fill_price D J s resp delta = Some (fl_price f)"
  using assms by (auto simp: new_fills_def split: if_splits Option.bind_splits)

lemma binance_event_type_listed: "binance_event_type st \<in> set risk_event_types"
  by (cases st) (simp_all add: binance_event_type_def risk_event_types_def)

text \<open>The contract holds of every response the exchange may give.\<close>

lemma map_response_contract:
  assumes "map_order_status_response D J U s resp = Ok r"
  shows "length (rr_fills_to_add r) \<le> 1"
    "f \<in> set (rr_fills_to_add r) \<Longrightarrow> 0 < fl_quantity f"
    "f \<in> set (rr_fills_to_add r) \<Longrightarrow> fl_exchange_trade_id f =
      os_client_order_id (rs_order s) @ '':reconcile:'' @ show_nat (length (rs_fills s))"
    "rr_positions_delta r = map (fill_delta (rs_order s)) (rr_fills_to_add r)"
    "rr_new_status r = None \<Longrightarrow> r = no_result"
    "rr_new_status r \<noteq> None \<Longrightarrow> length (rr_events r) = 1 \<and>
      set (map re_event_type (rr_events r)) \<subseteq> set risk_event_types"
proof -
  from assms consider (none) "r = no_result"
    | (some) st delta where "new_fills D J s resp delta = Some (rr_fills_to_add r)"
        "rr_new_status r = Some st"
        "rr_positions_delta r = map (fill_delta (rs_order s)) (rr_fills_to_add r)"
        "map re_event_type (rr_events r) = [binance_event_type st]"
    by (cases rule: map_response_cases) blast+
  note c = this
  show "length (rr_fills_to_add r) \<le> 1"
  proof (cases rule: c)
    case some
    from arg_cong [OF new_fills_form(1) [OF some(1)], of length] show ?thesis
      by (simp split: if_splits)
  qed (simp add: no_result_def)
  show "rr_positions_delta r = map (fill_delta (rs_order s)) (rr_fills_to_add r)"
    by (cases rule: c) (auto simp: no_result_def)
  show "rr_new_status r = None \<Longrightarrow> r = no_result"
    by (cases rule: c) auto
  show "rr_new_status r \<noteq> None \<Longrightarrow> length (rr_events r) = 1 \<and>
      set (map re_event_type (rr_events r)) \<subseteq> set risk_event_types"
  proof (cases rule: c)
    case some
    from arg_cong [OF some(4), of length] some(4) binance_event_type_listed show ?thesis by auto
  qed (simp add: no_result_def)
  assume f: "f \<in> set (rr_fills_to_add r)"
  show "0 < fl_quantity f"
  proof (cases rule: c)
    case some
    from f have "fl_quantity f \<in> set (map fl_quantity (rr_fills_to_add r))" by simp
    then show ?thesis unfolding new_fills_form(1) [OF some(1)] by (auto split: if_splits)
  qed (use f in \<open>simp add: no_result_def\<close>)
  show "fl_exchange_trade_id f =
      os_client_order_id (rs_order s) @ '':reconcile:'' @ show_nat (length (rs_fills s))"
  proof (cases rule: c)
    case some
    from new_fills_form(2) [OF some(1) f] show ?thesis .
  qed (use f in \<open>simp add: no_result_def\<close>)
qed

lemma binance_reconcile_Ok:
  assumes "binance_reconcile_order D J U H N cfg t s = Ok r"
  shows "r = no_result \<or> (\<exists>resp. map_order_status_response D J U s resp = Ok r)"
  using assms by (auto simp: binance_reconcile_order_def res_simps split: if_splits)

interpretation binance: adapter_contract "binance_reconcile_order D J U H N cfg t" "'':reconcile:''"
proof unfold_locales
  fix s r f
  show "is_terminal (os_status (rs_order s)) \<Longrightarrow> binance_reconcile_order D J U H N cfg t s = Ok no_result"
    by (simp add: binance_reconcile_order_def)
  assume "binance_reconcile_order D J U H N cfg t s = Ok r"
  then consider "r = no_result" | resp where "map_order_status_response D J U s resp = Ok r"
    using binance_reconcile_Ok by blast
  note r = this
  show "length (rr_fills_to_add r) \<le> 1"
    by (cases rule: r) (auto simp: no_result_def dest: map_response_contract(1))
  show "rr_positions_delta r = map (fill_delta (rs_order s)) (rr_fills_to_add r)"
    by (cases rule: r) (auto simp: no_result_def dest: map_response_contract(4))
  show "rr_new_status r = None \<Longrightarrow> r = no_result"
    by (cases rule: r) (auto dest: map_response_contract(5))
  show "rr_new_status r \<noteq> None \<Longrightarrow> length (rr_events r) = 1 \<and>
      set (map re_event_type (rr_events r)) \<subseteq> set risk_event_types"
    by (cases rule: r) (simp add: no_result_def, blast dest: map_response_contract(6))
  assume f: "f \<in> set (rr_fills_to_add r)"
  show "0 < fl_quantity f"
    by (cases rule: r) (use f in \<open>auto simp: no_result_def dest: map_response_contract(2)\<close>)
  show "fl_exchange_trade_id f =
      os_client_order_id (rs_order s) @ '':reconcile:'' @ show_nat (length (rs_fills s))"
    by (cases rule: r) (use f in \<open>auto simp: no_result_def dest: map_response_contract(3)\<close>)
qed

end
