(* ===== verification/Credentials.thy ===== *)
theory Credentials
  imports Binance_Rest
begin

text \<open>
  \<open>crates/exchange/src/config.rs\<close> (AES-256-GCM encryption of exchange credentials) and the key
  loading of \<open>crates/server/src/routes_exchange.rs\<close> with its \<open>hex\<close> module. The cipher is a
  parameter; \<open>aead_laws\<close> states what the crate documents of it.
\<close>

section \<open>Encryption\<close>

record aead =
  ae_encrypt :: "byte list \<Rightarrow> byte list \<Rightarrow> byte list \<Rightarrow> byte list \<Rightarrow> (string, byte list) res"
  ae_decrypt :: "byte list \<Rightarrow> byte list \<Rightarrow> byte list \<Rightarrow> byte list \<Rightarrow> (string, byte list) res"

text \<open>
  Arguments: key, nonce, message, associated data. What was encrypted decrypts under the same
  key, nonce and associated data, and under no other associated data.
\<close>

definition aead_laws :: "aead \<Rightarrow> bool" where
  "aead_laws A \<longleftrightarrow>
     (\<forall>k n m aad ct. ae_encrypt A k n m aad = Ok ct \<longrightarrow> ae_decrypt A k n ct aad = Ok m) \<and>
     (\<forall>k n m aad aad' ct. ae_encrypt A k n m aad = Ok ct \<longrightarrow> aad' \<noteq> aad \<longrightarrow>
        \<not> is_ok (ae_decrypt A k n ct aad') \<and> ae_decrypt A k n ct aad' \<noteq> Panic)"

definition NONCE_LEN :: nat where
  "NONCE_LEN = 12"

text \<open>The nonce has the type \<open>[u8; NONCE_LEN]\<close>.\<close>

definition encrypt ::
    "aead \<Rightarrow> byte list \<Rightarrow> byte list \<Rightarrow> byte list \<Rightarrow> byte list \<Rightarrow> (exchange_error, byte list) res" where
  "encrypt A key plaintext aad nonce =
     res_bind (map_err (\<lambda>e. EncryptionError (Msg e)) (ae_encrypt A key nonce plaintext aad))
       (\<lambda>ct. Ok (nonce @ ct))"

text \<open>\<open>encrypt_fresh\<close> draws the nonce from the operating system, here an argument.\<close>

definition encrypt_fresh ::
    "aead \<Rightarrow> byte list \<Rightarrow> byte list \<Rightarrow> byte list \<Rightarrow> byte list \<Rightarrow> (exchange_error, byte list) res" where
  "encrypt_fresh A os_nonce key plaintext aad = encrypt A key plaintext aad os_nonce"

definition decrypt ::
    "aead \<Rightarrow> byte list \<Rightarrow> byte list \<Rightarrow> byte list \<Rightarrow> (exchange_error, byte list) res" where
  "decrypt A key blob aad =
     (if length blob < NONCE_LEN then Err (EncryptionError (Msg ''ciphertext too short''))
      else
        let nonce = take NONCE_LEN blob; ct = drop NONCE_LEN blob
        in map_err (\<lambda>e. EncryptionError (Msg e)) (ae_decrypt A key nonce ct aad))"

section \<open>Hexadecimal keys\<close>

text \<open>\<open>char::to_digit(16)\<close>.\<close>

definition hex_value :: "char \<Rightarrow> nat option" where
  "hex_value c =
     (let n = (of_char c :: nat) in
      if 48 \<le> n \<and> n \<le> 57 then Some (n - 48)
      else if 97 \<le> n \<and> n \<le> 102 then Some (n - 87)
      else if 65 \<le> n \<and> n \<le> 70 then Some (n - 55)
      else None)"

fun digits16 :: "nat \<Rightarrow> string \<Rightarrow> nat option" where
  "digits16 acc [] = Some acc"
| "digits16 acc (c # cs) = do {
     d \<leftarrow> hex_value c;
     let acc' = 16 * acc + d;
     if acc' < 256 then digits16 acc' cs else None }"

text \<open>
  \<open>u8::from_str_radix(src, 16)\<close> of the standard library: an empty text and a lone sign are errors, a
  leading plus sign is skipped, overflow is an error.
\<close>

definition u8_from_str_radix16 :: "string \<Rightarrow> byte option" where
  "u8_from_str_radix16 src =
     (case src of
        [] \<Rightarrow> None
      | c # cs \<Rightarrow>
          if cs = [] \<and> (c = CHR ''+'' \<or> c = CHR ''-'') then None
          else map_option word_of_nat (digits16 0 (if c = CHR ''+'' then cs else src)))"

text \<open>
  \<open>&s[i..i + 2]\<close> panics where an end of the range is inside a multi-byte character; texts are kept
  as their UTF-8 bytes, of which the continuation bytes are 128 to 191.
\<close>

definition is_char_boundary :: "string \<Rightarrow> nat \<Rightarrow> bool" where
  "is_char_boundary s i \<longleftrightarrow>
     i = length s \<or> (i < length s \<and> \<not> (128 \<le> (of_char (s ! i) :: nat) \<and> (of_char (s ! i) :: nat) < 192))"

definition hex_pair_at :: "string \<Rightarrow> nat \<Rightarrow> (unit, byte) res" where
  "hex_pair_at s i =
     (if is_char_boundary s i \<and> is_char_boundary s (i + 2)
      then ok_or (u8_from_str_radix16 (take 2 (drop i s))) ()
      else Panic)"

definition hex_decode :: "string \<Rightarrow> (unit, byte list) res" where
  "hex_decode s =
     (if \<not> even (length s) then Err ()
      else map_res (\<lambda>k. hex_pair_at s (2 * k)) [0..<length s div 2])"

text \<open>\<open>encryption_key()\<close>: the value of the environment variable, if set, is an argument.\<close>

definition encryption_key :: "string option \<Rightarrow> (message, byte list) res" where
  "encryption_key env =
     res_bind (ok_or env (Msg ''EXCHANGE_ENCRYPTION_KEY not configured'')) (\<lambda>hex_key.
     res_bind (map_err (\<lambda>_. Msg ''EXCHANGE_ENCRYPTION_KEY must be 64 hex chars (32 bytes)'')
                 (hex_decode hex_key)) (\<lambda>bytes.
     if length bytes = 32 then Ok bytes
     else Err (Msg ''EXCHANGE_ENCRYPTION_KEY must be exactly 32 bytes'')))"

section \<open>Lemmas\<close>

lemma encrypt_layout:
  "encrypt A key m aad nonce = Ok blob \<longleftrightarrow> (\<exists>ct. ae_encrypt A key nonce m aad = Ok ct \<and> blob = nonce @ ct)"
  by (auto simp: encrypt_def res_simps)

lemma hex_value_hex_digit: "d < 16 \<Longrightarrow> hex_value (hex_digit d) = Some d"
proof -
  assume "d < 16"
  then have "d \<in> set [0..<16]" by simp
  then show ?thesis
    by (auto simp: upt_rec hex_value_def hex_digit_def)
qed

lemma of_char_hex_digit: "d < 16 \<Longrightarrow> (of_char (hex_digit d) :: nat) = (if d < 10 then 48 + d else 87 + d)"
  by (simp add: hex_digit_def of_char_of)

lemma hex_digit_ascii: "d < 16 \<Longrightarrow> hex_digit d \<noteq> CHR ''+'' \<and> hex_digit d \<noteq> CHR ''-'' \<and>
   (of_char (hex_digit d) :: nat) < 128"
proof -
  assume "d < 16"
  then have "(of_char (hex_digit d) :: nat) \<in> {48..<128}" by (simp add: of_char_hex_digit)
  moreover have "(of_char CHR ''+'' :: nat) \<notin> {48..<128}" "(of_char CHR ''-'' :: nat) \<notin> {48..<128}"
    by simp_all
  ultimately show ?thesis by (metis atLeastLessThan_iff)
qed

lemma u8_from_hex_byte: "u8_from_str_radix16 (hex_byte b) = Some b"
proof -
  have "unat b < 256" by (rule unat_byte_less)
  then have d: "unat b div 16 < 16" "unat b mod 16 < 16" by auto
  have "16 * (unat b div 16) + unat b mod 16 = unat b" by simp
  moreover have "16 * (unat b div 16) + unat b mod 16 < 256" using \<open>unat b < 256\<close> by simp
  ultimately show ?thesis
    using d hex_digit_ascii [OF d(1)]
    by (simp add: u8_from_str_radix16_def hex_byte_def hex_value_hex_digit word_unat_eq_iff unat_of_nat)
qed

lemma hex_encode_Cons: "hex_encode (b # bs) = hex_byte b @ hex_encode bs"
  by (simp add: hex_encode_def)

lemma length_hex_byte [simp]: "length (hex_byte b) = 2"
  by (simp add: hex_byte_def)

lemma hex_encode_pair:
  assumes "k < length bs"
  shows "take 2 (drop (2 * k) (hex_encode bs)) = hex_byte (bs ! k)"
  using assms
proof (induction bs arbitrary: k)
  case Nil
  then show ?case by simp
next
  case (Cons b bs)
  show ?case
  proof (cases k)
    case 0
    then show ?thesis by (simp add: hex_encode_Cons)
  next
    case (Suc j)
    with Cons.IH [of j] Cons.prems show ?thesis by (simp add: hex_encode_Cons)
  qed
qed

lemma hex_encode_ascii: "c \<in> set (hex_encode bs) \<Longrightarrow> (of_char c :: nat) < 128"
proof -
  assume "c \<in> set (hex_encode bs)"
  then obtain b where c: "c \<in> set (hex_byte b)" by (auto simp: hex_encode_def)
  have "unat b < 256" by (rule unat_byte_less)
  with c show ?thesis using hex_digit_ascii by (auto simp: hex_byte_def)
qed

lemma hex_encode_boundary: "i \<le> length (hex_encode bs) \<Longrightarrow> is_char_boundary (hex_encode bs) i"
  using hex_encode_ascii [of "hex_encode bs ! i" bs] by (force simp: is_char_boundary_def)

lemma hex_pair_at_encode: "k < length bs \<Longrightarrow> hex_pair_at (hex_encode bs) (2 * k) = Ok (bs ! k)"
proof -
  assume k: "k < length bs"
  then have "is_char_boundary (hex_encode bs) (2 * k)" "is_char_boundary (hex_encode bs) (2 * k + 2)"
    by (auto intro!: hex_encode_boundary simp: length_hex_encode)
  then show ?thesis
    by (simp add: hex_pair_at_def hex_encode_pair [OF k] u8_from_hex_byte)
qed

lemma hex_decode_encode: "hex_decode (hex_encode bs) = Ok bs"
proof -
  have "map_res (\<lambda>k. hex_pair_at (hex_encode bs) (2 * k)) [0..<length bs] = Ok (map ((!) bs) [0..<length bs])"
    by (rule map_res_all_Ok) (simp add: hex_pair_at_encode)
  then show ?thesis by (simp add: hex_decode_def length_hex_encode map_nth)
qed

text \<open>
  What is encrypted under associated data decrypts under it, and under no other: there the
  decryption is an error.
\<close>

lemma decrypt_encrypt:
  assumes "aead_laws A" "length nonce = NONCE_LEN" "encrypt A key secret aad nonce = Ok blob"
  shows "decrypt A key blob aad = Ok secret"
    "aad' \<noteq> aad \<Longrightarrow> \<exists>e. decrypt A key blob aad' = Err (EncryptionError e)"
proof -
  obtain ct where ct: "ae_encrypt A key nonce secret aad = Ok ct" "blob = nonce @ ct"
    using assms(3) by (auto simp: encrypt_layout)
  have dec: "decrypt A key blob a = map_err (\<lambda>e. EncryptionError (Msg e)) (ae_decrypt A key nonce ct a)" for a
    using ct(2) assms(2) by (simp add: decrypt_def Let_def)
  show "decrypt A key blob aad = Ok secret"
    using assms(1) ct(1) by (auto simp: aead_laws_def dec)
  assume "aad' \<noteq> aad"
  then have "\<exists>e. ae_decrypt A key nonce ct aad' = Err e"
    using assms(1) ct(1) unfolding aead_laws_def by (metis is_ok.simps(1) res.exhaust)
  then show "\<exists>e. decrypt A key blob aad' = Err (EncryptionError e)"
    by (auto simp: dec)
qed

section \<open>A concrete instance\<close>

text \<open>
  A cipher with the documented laws, to evaluate the model: the ciphertext carries its associated
  data. No theorem about the program depends on it.
\<close>

definition toy_aead :: aead where
  "toy_aead = \<lparr>
     ae_encrypt = (\<lambda>k n m aad. if length aad < 256 then Ok (word_of_nat (length aad) # aad @ m)
       else Err ''aead::Error''),
     ae_decrypt = (\<lambda>k n ct aad.
       if length aad < 256 \<and> take (Suc (length aad)) ct = word_of_nat (length aad) # aad
       then Ok (drop (Suc (length aad)) ct) else Err ''aead::Error'')\<rparr>"

lemma word_of_nat_byte_inject:
  "m < 256 \<Longrightarrow> n < 256 \<Longrightarrow> (word_of_nat m :: byte) = word_of_nat n \<longleftrightarrow> m = n"
  by (auto simp: word_unat_eq_iff unat_of_nat)

lemma toy_aead_laws: "aead_laws toy_aead"
  by (auto simp: aead_laws_def toy_aead_def word_of_nat_byte_inject split: if_splits)

end
