(* ===== verification/Symbol_Metadata.thy ===== *)
theory Symbol_Metadata
  imports Exchange_Types "HOL-Library.AList"
begin

text \<open>
  \<open>crates/server/src/symbol_metadata.rs\<close>: the refreshable store of exchange metadata. The map is an
  association list with distinct keys; the clock is an argument.
\<close>

record symbol_metadata_store =
  st_symbols :: "(string \<times> symbol_meta) list"
  st_last_refreshed :: "instant option"
  st_max_age :: duration

definition store_new :: "duration \<Rightarrow> symbol_metadata_store" where
  "store_new max_age = \<lparr>st_symbols = [], st_last_refreshed = None, st_max_age = max_age\<rparr>"

definition replace_all ::
    "symbol_metadata_store \<Rightarrow> symbol_meta list \<Rightarrow> instant \<Rightarrow> symbol_metadata_store" where
  "replace_all st metas now =
     st\<lparr>st_symbols := foldl (\<lambda>acc m. AList.update (sm_symbol m) m acc) [] metas,
        st_last_refreshed := Some now\<rparr>"

definition store_get :: "symbol_metadata_store \<Rightarrow> string \<Rightarrow> instant \<Rightarrow> symbol_meta option" where
  "store_get st symbol now = do {
     refreshed \<leftarrow> st_last_refreshed st;
     if now - refreshed > st_max_age st then None
     else map_of (st_symbols st) symbol }"

definition is_stale :: "symbol_metadata_store \<Rightarrow> instant \<Rightarrow> bool" where
  "is_stale st now =
     (case st_last_refreshed st of None \<Rightarrow> True | Some t \<Rightarrow> now - t > st_max_age st)"

definition tradable_symbols :: "symbol_metadata_store \<Rightarrow> instant \<Rightarrow> string list" where
  "tradable_symbols st now =
     (if is_stale st now then []
      else map fst (filter (\<lambda>(k, m). sm_status m = Trading) (st_symbols st)))"

definition store_wf :: "symbol_metadata_store \<Rightarrow> bool" where
  "store_wf st \<longleftrightarrow> distinct (map fst (st_symbols st)) \<and> (\<forall>(k, m)\<in>set (st_symbols st). sm_symbol m = k)"

section \<open>The contract of a fail-closed metadata cache\<close>

locale metadata_cache =
  fixes wf :: "'c \<Rightarrow> bool"
    and replace :: "'c \<Rightarrow> symbol_meta list \<Rightarrow> instant \<Rightarrow> 'c"
    and lookup :: "'c \<Rightarrow> string \<Rightarrow> instant \<Rightarrow> symbol_meta option"
    and stale :: "'c \<Rightarrow> instant \<Rightarrow> bool"
    and tradable :: "'c \<Rightarrow> instant \<Rightarrow> string list"
    and window :: "'c \<Rightarrow> duration"
  assumes wf_replace: "wf (replace c ms t)"
    and lookup_stale: "stale c now \<Longrightarrow> lookup c s now = None"
    and stale_replace: "stale (replace c ms t) now \<longleftrightarrow> window c < now - t"
    and window_replace: "window (replace c ms t) = window c"
    and lookup_replace: "now - t \<le> window c \<Longrightarrow>
      lookup (replace c ms t) s now = find (\<lambda>m. sm_symbol m = s) (rev ms)"
    and lookup_symbol: "wf c \<Longrightarrow> lookup c s now = Some m \<Longrightarrow> sm_symbol m = s"
    and tradable_lookup: "wf c \<Longrightarrow> s \<in> set (tradable c now) \<longleftrightarrow>
      (\<exists>m. lookup c s now = Some m \<and> sm_status m = Trading)"
begin

lemma tradable_stale: "wf c \<Longrightarrow> stale c now \<Longrightarrow> tradable c now = []"
  using tradable_lookup lookup_stale by (metis last_in_set option.distinct(1))

text \<open>Only the latest refresh counts: what an earlier one stored is gone.\<close>

lemma lookup_replace_twice:
  "lookup (replace (replace c ms t) ms' t') s now = lookup (replace c ms' t') s now"
proof (cases "now - t' \<le> window c")
  case True
  then show ?thesis by (simp add: lookup_replace window_replace)
next
  case False
  then show ?thesis by (simp add: lookup_stale stale_replace window_replace)
qed

lemma lookup_after:
  assumes "lookup (replace c ms t) s now = Some m"
  shows "m \<in> set ms \<and> sm_symbol m = s \<and> now - t \<le> window c"
proof -
  have "\<not> stale (replace c ms t) now" using assms lookup_stale by fastforce
  then have "now - t \<le> window c" by (simp add: stale_replace)
  with assms show ?thesis by (auto simp: lookup_replace dest: find_SomeD)
qed

end

lemma map_of_foldl_update:
  "map_of (foldl (\<lambda>acc m. AList.update (sm_symbol m) m acc) al ms) s =
     (case find (\<lambda>m. sm_symbol m = s) (rev ms) of Some m \<Rightarrow> Some m | None \<Rightarrow> map_of al s)"
proof (induction ms rule: rev_induct)
  case Nil
  then show ?case by simp
next
  case (snoc m ms)
  then show ?case by (simp add: update_conv')
qed

lemma distinct_foldl_update:
  "distinct (map fst al) \<Longrightarrow>
     distinct (map fst (foldl (\<lambda>acc m. AList.update (sm_symbol m) m acc) al ms))"
  by (induction ms arbitrary: al) (simp_all add: distinct_update)

lemma keys_foldl_update:
  assumes "\<forall>(k, m)\<in>set al. sm_symbol m = k" "distinct (map fst al)"
  shows "\<forall>(k, m)\<in>set (foldl (\<lambda>acc m. AList.update (sm_symbol m) m acc) al ms). sm_symbol m = k"
proof (clarify)
  fix k m
  assume "(k, m) \<in> set (foldl (\<lambda>acc m. AList.update (sm_symbol m) m acc) al ms)"
  then have "map_of (foldl (\<lambda>acc m. AList.update (sm_symbol m) m acc) al ms) k = Some m"
    using distinct_foldl_update [OF assms(2)] by simp
  then show "sm_symbol m = k"
    using assms(1) by (auto simp: map_of_foldl_update find_Some_iff split: option.splits dest: map_of_SomeD)
qed

interpretation metadata: metadata_cache store_wf replace_all store_get is_stale tradable_symbols st_max_age
proof unfold_locales
  show "store_wf (replace_all c ms t)" for c ms t
    using distinct_foldl_update [of "[]" ms] keys_foldl_update [of "[]" ms]
    by (simp add: store_wf_def replace_all_def)
  show "is_stale c now \<Longrightarrow> store_get c s now = None" for c now s
    by (auto simp: is_stale_def store_get_def split: option.splits)
  show "is_stale (replace_all c ms t) now \<longleftrightarrow> st_max_age c < now - t" for c ms t now
    by (simp add: is_stale_def replace_all_def)
  show "st_max_age (replace_all c ms t) = st_max_age c" for c ms t
    by (simp add: replace_all_def)
  show "now - t \<le> st_max_age c \<Longrightarrow>
      store_get (replace_all c ms t) s now = find (\<lambda>m. sm_symbol m = s) (rev ms)" for now t c ms s
    by (simp add: store_get_def replace_all_def map_of_foldl_update split: option.splits)
  show "store_wf c \<Longrightarrow> store_get c s now = Some m \<Longrightarrow> sm_symbol m = s" for c s now m
    by (auto simp: store_wf_def store_get_def split: Option.bind_splits if_splits dest: map_of_SomeD)
  fix c s now
  assume wf: "store_wf c"
  show "s \<in> set (tradable_symbols c now) \<longleftrightarrow> (\<exists>m. store_get c s now = Some m \<and> sm_status m = Trading)"
  proof (cases "is_stale c now")
    case True
    then show ?thesis
      by (auto simp: tradable_symbols_def is_stale_def store_get_def split: option.splits)
  next
    case False
    then have "store_get c s now = map_of (st_symbols c) s"
      by (auto simp: is_stale_def store_get_def split: option.splits)
    moreover have "map_of (st_symbols c) s = Some m \<longleftrightarrow> (s, m) \<in> set (st_symbols c)" for m
      using wf by (simp add: store_wf_def)
    ultimately show ?thesis using False by (force simp: tradable_symbols_def)
  qed
qed

end
