(* ===== verification/Exchange_Properties.thy ===== *)
theory Exchange_Properties
  imports Paper_Adapter Paper_Account Binance_Ws Binance_Reconcile Credentials Symbol_Metadata Validators
begin

text \<open>
  The properties of the exchange crate's adapters, caches and credentials, and of the server's
  symbol metadata. Each has a witness at a concrete input where it has hypotheses.
\<close>

section \<open>Quotes and matching\<close>

text \<open>
  C33: A paper fill is for the whole quantity at the conservative price of a fresh quote, and a limit
  order is never filled at a price worse than its limit: a buy not above it, a sell not below it.
\<close>

theorem try_fill_never_worse_than_limit:
  assumes "try_fill otype side q lp est tid = Some f"
  shows "\<exists>e. est = Some e \<and> ce_is_fresh e \<and> fl_quantity f = q \<and> fl_price f = ce_price e \<and>
    fl_exchange_trade_id f = tid \<and>
    (otype = Limit \<longrightarrow> (\<exists>l. lp = Some l \<and>
       (case side of Buy \<Rightarrow> fl_price f \<le> l | Sell \<Rightarrow> l \<le> fl_price f)))"
  using assms by (auto simp: try_fill_Some fillable_def touched_def split: order_side.splits)

theorem try_fill_never_worse_than_limit_witness:
  "\<exists>f. try_fill Limit Buy 3 (Some 100) (Some \<lparr>ce_price = 99, ce_is_fresh = True\<rparr>) ''t'' = Some f \<and>
     fl_price f \<le> 100"
proof -
  obtain f where f: "try_fill Limit Buy 3 (Some 100) (Some \<lparr>ce_price = 99, ce_is_fresh = True\<rparr>) ''t'' = Some f"
    by (simp add: try_fill_def touched_def)
  from try_fill_never_worse_than_limit [OF this] f show ?thesis by auto
qed

text \<open>
  After a batch of quotes, the estimate for a tradable symbol is its last quote of the batch, ask
  for a buy and bid for a sell, and counts as fresh exactly until the window has passed; a symbol the
  batch does not quote, or that is not tradable, keeps the estimate it had.
\<close>

theorem quote_batch_estimates:
  "(tr s \<and> s \<notin> fst ` set post \<longrightarrow>
      conservative_estimate (feed_batch md_update tr t md (pre @ (s, bid, ask) # post)) s b now =
        Some \<lparr>ce_price = (if b then ask else bid), ce_is_fresh = (now - t \<le> md_max_age md)\<rparr>) \<and>
   (\<not> tr s \<or> s \<notin> fst ` set qs \<longrightarrow>
      conservative_estimate (feed_batch md_update tr t md qs) s b now = conservative_estimate md s b now)"
  by (intro conjI impI; (elim conjE)?) (rule feed.est_batch_last feed.est_batch_other; assumption)+

theorem quote_batch_estimates_witness:
  "conservative_estimate (feed_batch md_update (\<lambda>s. s = ''BTC'') 7 (md_new 10) [(''BTC'', 99, 101), (''X'', 1, 2)])
     ''BTC'' True 17 = Some \<lparr>ce_price = 101, ce_is_fresh = True\<rparr>"
  using quote_batch_estimates [where tr = "\<lambda>s. s = ''BTC''" and s = "''BTC''" and pre = "[]"
    and post = "[(''X'', 1, 2)]" and md = "md_new 10" and t = 7 and bid = 99 and ask = 101 and b = True and now = 17]
  by (simp add: md_new_def)

section \<open>The paper ledger\<close>

text \<open>
  Reserving an amount and releasing it again restores every balance; a reservation beyond the free
  balance is refused.
\<close>

theorem reserve_release_roundtrip:
  assumes "decimal_laws D" "is_dec (free_balance acct a)" "is_dec x" "is_dec (free_balance acct a - x)"
  shows "if free_balance acct a < x
    then reserve D acct a x = Err (InsufficientBalance a x (free_balance acct a))
    else \<exists>acct' acct''. reserve D acct a x = Ok acct' \<and> free_balance acct' a = free_balance acct a - x \<and>
      release D acct' a x = Some acct'' \<and> free_balance acct'' = free_balance acct"
proof (cases "free_balance acct a < x")
  case True
  then show ?thesis by (simp add: reserve_cases)
next
  case False
  let ?b = "free_balance acct a - x"
  have "dsub D (free_balance acct a) x = Some ?b" "dadd D ?b x = Some (free_balance acct a)"
    using decimal_lawsD(2) [OF assms(1-3)] decimal_lawsD(1) [OF assms(1,4,3)] assms(2,4) by simp_all
  then have "reserve D acct a x = Ok (acct(a \<mapsto> ?b))"
    "release D (acct(a \<mapsto> ?b)) a x = Some (acct(a \<mapsto> free_balance acct a))"
    using False by (simp_all add: reserve_cases release_def free_balance_upd)
  moreover have "free_balance (acct(a \<mapsto> free_balance acct a)) = free_balance acct"
    by (auto simp: free_balance_def)
  ultimately show ?thesis using False by (auto simp: free_balance_upd)
qed

theorem reserve_release_roundtrip_witness:
  "\<exists>acct'. reserve ref_dec [''USDT'' \<mapsto> 100] ''USDT'' 30 = Ok acct' \<and> free_balance acct' ''USDT'' = 70"
  using reserve_release_roundtrip [OF ref_dec_laws, of "[''USDT'' \<mapsto> 100]" "''USDT''" 30]
  by (auto simp: free_balance_def)

text \<open>
  C40: No sequence of reservations, releases and credits of non-negative amounts, refused reservations
  included, ever makes a free balance negative.
\<close>

theorem ledger_stays_solvent:
  assumes "sign_safe D" "solvent acct" "\<forall>x\<in>set xs. 0 \<le> op_amount x \<and> is_dec (op_amount x)"
    "ledger_run D acct xs = Some acct'"
  shows "0 \<le> free_balance acct' a"
  using ledger_run_solvent [OF assms] by (rule solventD)

lemma ref_dec_sign_safe: "sign_safe ref_dec"
proof -
  have "is_dec z \<and> (0 \<le> x \<longrightarrow> 0 \<le> z)" if "fit x = Some z" for x z
    using that by (metis fit_at_is_dec fit_at_nonneg fit_def order_refl)
  moreover have "dadd ref_dec x y = fit (x + y)" "dsub ref_dec x y = fit (x - y)" for x y
    by (simp_all add: ref_dec_def)
  ultimately show ?thesis unfolding sign_safe_def
    by (metis add_nonneg_nonneg diff_ge_0_iff_ge)
qed

theorem ledger_stays_solvent_witness:
  "\<exists>acct'. ledger_run ref_dec Map.empty [Credit ''BTC'' 5, Reserve ''BTC'' 9, Reserve ''BTC'' 2] = Some acct' \<and>
     0 \<le> free_balance acct' ''BTC''"
proof -
  have "solvent Map.empty" by (simp add: solvent_def free_balance_def)
  moreover obtain acct' where
    "ledger_run ref_dec Map.empty [Credit ''BTC'' 5, Reserve ''BTC'' 9, Reserve ''BTC'' 2] = Some acct'"
    by (simp add: credit_def reserve_def free_balance_def ref_dec_exact)
  ultimately show ?thesis
    using ledger_stays_solvent [OF ref_dec_sign_safe, of Map.empty
        "[Credit ''BTC'' 5, Reserve ''BTC'' 9, Reserve ''BTC'' 2]"]
    by fastforce
qed

section \<open>The paper adapter\<close>

text \<open>
  C21: A reconcile pass of the paper adapter never overfills an order: either it adds no fill, or it adds
  exactly one, which completes the order to its quantity, moves it to \<open>Filled\<close>, moves the position by
  the signed quantity, and for a limit order is not worse than the limit.
\<close>

theorem paper_fills_complete_the_order:
  assumes "decimal_laws D" "paper_reconcile_order D U md now s = Ok r"
    "\<forall>f\<in>set (rs_fills s). 0 \<le> fs_quantity f \<and> on_grid (fs_quantity f)"
    "on_grid (os_quantity (rs_order s))" "os_quantity (rs_order s) < grid_bound"
    "sum_list (map fs_quantity (rs_fills s)) \<le> os_quantity (rs_order s)"
  shows "(rr_fills_to_add r = [] \<and> rr_positions_delta r = []) \<or>
    (\<exists>f. rr_fills_to_add r = [f] \<and> 0 < fl_quantity f \<and>
       sum_list (map fs_quantity (rs_fills s)) + fl_quantity f = os_quantity (rs_order s) \<and>
       rr_new_status r = Some Filled \<and> rr_positions_delta r = [fill_delta (rs_order s) f] \<and>
       (os_order_type (rs_order s) = Limit \<longrightarrow> (\<exists>l. os_price (rs_order s) = Some l \<and>
          touched (os_side (rs_order s)) (fl_price f) l)))"
  using assms by (rule paper_completes)

definition sample_snapshot :: "order_status \<Rightarrow> reconcile_snapshot" where
  "sample_snapshot st =
     \<lparr>rs_order = \<lparr>os_order_id = 1, os_client_order_id = ''c1'', os_symbol = ''BTC'', os_side = Buy,
        os_order_type = Limit, os_quantity = 5, os_price = Some 100, os_status = st\<rparr>,
      rs_fills = [\<lparr>fs_exchange_trade_id = ''c1:paper:0'', fs_quantity = 2, fs_price = 98\<rparr>],
      rs_positions = []\<rparr>"

lemma sample_terms:
  "map fs_quantity (rs_fills (sample_snapshot st)) = [2]" "os_quantity (rs_order (sample_snapshot st)) = 5"
  "f \<in> set (rs_fills (sample_snapshot st)) \<longleftrightarrow>
     f = \<lparr>fs_exchange_trade_id = ''c1:paper:0'', fs_quantity = 2, fs_price = 98\<rparr>"
  by (simp_all add: sample_snapshot_def)

definition sample_feed :: market_data_provider where
  "sample_feed = md_update (md_new 10) ''BTC'' 98 99 100"

lemma sample_recorded: "d_sum ref_dec (map fs_quantity (rs_fills (sample_snapshot st))) = Some 2"
  by (simp add: sample_snapshot_def d_sum_def ref_dec_exact)

lemma sample_quote: "conservative_estimate sample_feed ''BTC'' True 105 = Some \<lparr>ce_price = 99, ce_is_fresh = True\<rparr>"
  by (simp add: sample_feed_def feed.est_upd_same md_new_def)

lemma sample_paper_pass:
  obtains r where "paper_reconcile_order ref_dec U sample_feed 105 (sample_snapshot PartiallyFilled) = Ok r"
    "rr_fills_to_add r \<noteq> []"
  unfolding paper_reconcile_order_def Let_def sample_recorded
  by (simp add: sample_quote sample_snapshot_def try_fill_def touched_def ref_dec_exact)

theorem paper_fills_complete_the_order_witness:
  "\<exists>r. paper_reconcile_order ref_dec ref_uuid sample_feed 105 (sample_snapshot PartiallyFilled) = Ok r \<and>
     rr_new_status r = Some Filled"
proof -
  obtain r where r: "paper_reconcile_order ref_dec ref_uuid sample_feed 105 (sample_snapshot PartiallyFilled) = Ok r"
      "rr_fills_to_add r \<noteq> []"
    by (rule sample_paper_pass)
  have "\<forall>f\<in>set (rs_fills (sample_snapshot PartiallyFilled)). 0 \<le> fs_quantity f \<and> on_grid (fs_quantity f)"
    "(5::rat) < grid_bound"
    by (simp_all add: grid_bound_def sample_terms)
  then have "rr_new_status r = Some Filled"
    using paper_fills_complete_the_order [OF ref_dec_laws r(1), unfolded sample_terms] r(2) by auto
  with r(1) show ?thesis by blast
qed

section \<open>The Binance adapter\<close>

text \<open>The numbers that occur while a response is mapped are decimals.\<close>

definition response_representable :: "dec_ops \<Rightarrow> json_ops \<Rightarrow> reconcile_snapshot \<Rightarrow> json \<Rightarrow> bool" where
  "response_representable D J s resp \<longleftrightarrow>
     (let qs = map fs_quantity (rs_fills s); e = dec_field_or_zero D J resp ''executedQty'' in
      (\<forall>q\<in>set qs. is_dec q) \<and> (\<forall>n. is_dec (sum_list (take n qs))) \<and> is_dec e \<and> is_dec (e - sum_list qs))"

text \<open>
  C29: A response that changes the order's status brings the recorded fills up to the exchange's
  executed quantity: the new fill, if any, is exactly the executed quantity not yet recorded, and the
  position moves by it with the sign of the order's side.
\<close>

theorem binance_fill_accounting:
  assumes "decimal_laws D" "response_representable D J s resp"
    "map_order_status_response D J U s resp = Ok r" "rr_new_status r \<noteq> None"
  shows "sum_list (map fs_quantity (rs_fills s)) + sum_list (map fl_quantity (rr_fills_to_add r)) =
      max (sum_list (map fs_quantity (rs_fills s))) (dec_field_or_zero D J resp ''executedQty'') \<and>
    rr_positions_delta r = map (fill_delta (rs_order s)) (rr_fills_to_add r) \<and>
    length (rr_fills_to_add r) \<le> 1"
proof -
  let ?qs = "map fs_quantity (rs_fills s)" and ?e = "dec_field_or_zero D J resp ''executedQty''"
  note rep = assms(2)[unfolded response_representable_def Let_def]
  have dec: "is_dec (sum_list ?qs)" using rep by (metis order_refl take_all)
  have sum: "d_sum D ?qs = Some (sum_list ?qs)"
    using rep assms(1) by (intro d_sum_prefixes) auto
  from assms(3) obtain delta where delta: "dsub D ?e (sum_list ?qs) = Some delta"
      "new_fills D J s resp delta = Some (rr_fills_to_add r)"
    using assms(4) sum by (cases rule: map_response_cases) (auto simp: no_result_def)
  have "delta = ?e - sum_list ?qs"
    using delta(1) decimal_lawsD(2) [OF assms(1) _ dec] rep by auto
  with new_fills_form(1) [OF delta(2)] map_response_contract(1,4) [OF assms(3)] show ?thesis
    by (auto simp: max_def)
qed

definition sample_response :: json where
  "sample_response = JObj [(''status'', JStr ''FILLED''), (''executedQty'', JStr ''5''),
     (''cummulativeQuoteQty'', JStr ''496''), (''price'', JStr ''100'')]"

lemma sample_fields:
  "str_field ref_json sample_response ''status'' = Some ''FILLED''"
  "dec_field_or_zero ref_dec ref_json sample_response ''executedQty'' = 5"
  "dec_field_or_zero ref_dec ref_json sample_response ''cummulativeQuoteQty'' = 496"
  "dec_field_or_zero ref_dec ref_json sample_response ''price'' = 100"
  by (simp_all add: dec_field_or_zero_def dec_field_opt_def str_field_def ref_json_def sample_response_def
      ref_dec_def parse_unsigned_def read_nat_def digit_val_def)

lemma sample_mapped:
  obtains r where "map_order_status_response ref_dec ref_json U (sample_snapshot Submitted) sample_response = Ok r"
    "rr_new_status r = Some Filled" "map fl_price (rr_fills_to_add r) = [100]"
  unfolding map_order_status_response_def Let_def sample_recorded
  by (simp add: sample_fields parse_binance_status_def new_fills_def fill_price_def sample_snapshot_def
      ref_dec_exact)

theorem binance_fill_accounting_witness:
  "\<exists>r. map_order_status_response ref_dec ref_json ref_uuid (sample_snapshot Submitted) sample_response = Ok r \<and>
     2 + sum_list (map fl_quantity (rr_fills_to_add r)) = 5"
proof -
  obtain r where r: "map_order_status_response ref_dec ref_json ref_uuid (sample_snapshot Submitted) sample_response = Ok r"
      "rr_new_status r = Some Filled" "map fl_price (rr_fills_to_add r) = [100]"
    by (rule sample_mapped)
  have "is_dec (sum_list (take n [2]))" for n :: nat by (cases n) auto
  then have "response_representable ref_dec ref_json (sample_snapshot Submitted) sample_response"
    by (simp add: response_representable_def sample_fields) (simp add: sample_snapshot_def)
  from binance_fill_accounting [OF ref_dec_laws this r(1)] r show ?thesis
    by (simp add: sample_fields) (simp add: sample_snapshot_def)
qed

text \<open>
  C30: A repeated reconcile pass cannot be booked twice: two passes of the live adapter over snapshots of
  the same order, whatever the exchange answers each time, give their fill the same trade id if and
  only if both snapshots hold the same number of fills.
\<close>

theorem binance_replays_share_trade_id:
  assumes "binance_reconcile_order D J U H N cfg t s = Ok r" "f \<in> set (rr_fills_to_add r)"
    "binance_reconcile_order D' J' U' H' N' cfg' t' s' = Ok r'" "f' \<in> set (rr_fills_to_add r')"
    "os_client_order_id (rs_order s) = os_client_order_id (rs_order s')"
  shows "fl_exchange_trade_id f = fl_exchange_trade_id f' \<longleftrightarrow> length (rs_fills s) = length (rs_fills s')"
  using binance.trade_id_ordinal [OF assms(1,2)] binance.trade_id_ordinal [OF assms(3,4)] assms(5)
  by (simp add: show_nat_inject)

definition sample_client :: "json \<Rightarrow> http_client" where
  "sample_client body u headers = Ok (Ok body)"

lemma query_signed: "\<exists>q. order_status_query (\<lambda>k m. Ok []) cfg symbol c t = Ok q"
  by (simp add: order_status_query_def sign_query_def Let_def)

lemma answered_reconcile:
  "\<not> is_terminal (os_status (rs_order s)) \<Longrightarrow>
   binance_reconcile_order D J U (\<lambda>k m. Ok []) (sample_client body) cfg t s =
     map_order_status_response D J U s body"
  using query_signed [of cfg "os_symbol (rs_order s)" "os_client_order_id (rs_order s)" t]
  by (auto simp: binance_reconcile_order_def http_json_def sample_client_def)

lemma sample_binance_pass:
  obtains r f where "binance_reconcile_order ref_dec ref_json U (\<lambda>k m. Ok []) (sample_client sample_response)
      (binance_testnet [] []) t (sample_snapshot Submitted) = Ok r" "f \<in> set (rr_fills_to_add r)"
proof -
  obtain r where r: "map_order_status_response ref_dec ref_json U (sample_snapshot Submitted) sample_response = Ok r"
      "rr_new_status r = Some Filled" "map fl_price (rr_fills_to_add r) = [100]"
    by (rule sample_mapped)
  have "\<not> is_terminal (os_status (rs_order (sample_snapshot Submitted)))" by (simp add: sample_snapshot_def)
  from answered_reconcile [OF this] r(1) have "binance_reconcile_order ref_dec ref_json U (\<lambda>k m. Ok []) (sample_client sample_response)
      (binance_testnet [] []) t (sample_snapshot Submitted) = Ok r"
    by simp
  moreover obtain f where "f \<in> set (rr_fills_to_add r)" using r(3) by (cases "rr_fills_to_add r") auto
  ultimately show ?thesis by (rule that)
qed

theorem binance_replays_share_trade_id_witness:
  "\<exists>r r' f f'. f \<in> set (rr_fills_to_add r) \<and> f' \<in> set (rr_fills_to_add r') \<and>
     binance_reconcile_order ref_dec ref_json ref_uuid (\<lambda>k m. Ok []) (sample_client sample_response)
       (binance_testnet [] []) 1 (sample_snapshot Submitted) = Ok r \<and>
     binance_reconcile_order ref_dec ref_json ref_uuid (\<lambda>k m. Ok []) (sample_client sample_response)
       (binance_testnet [] []) 2 (sample_snapshot Submitted) = Ok r' \<and>
     fl_exchange_trade_id f = fl_exchange_trade_id f'"
proof -
  obtain r f where r: "binance_reconcile_order ref_dec ref_json ref_uuid (\<lambda>k m. Ok []) (sample_client sample_response)
      (binance_testnet [] []) 1 (sample_snapshot Submitted) = Ok r" "f \<in> set (rr_fills_to_add r)"
    by (rule sample_binance_pass)
  obtain r' f' where r': "binance_reconcile_order ref_dec ref_json ref_uuid (\<lambda>k m. Ok []) (sample_client sample_response)
      (binance_testnet [] []) 2 (sample_snapshot Submitted) = Ok r'" "f' \<in> set (rr_fills_to_add r')"
    by (rule sample_binance_pass)
  from binance_replays_share_trade_id [OF r r' refl] r r' show ?thesis by blast
qed

section \<open>Public market data\<close>

text \<open>
  A decoded all-symbols ticker response carries only sane books, a positive bid not above the ask:
  malformed, empty and crossed entries are dropped and never fail the batch.
\<close>

theorem tickers_are_sane:
  assumes "parse_all_book_tickers D J body = Ok ts"
  shows "\<forall>(s, bid, ask)\<in>set ts. 0 < bid \<and> bid \<le> ask \<and>
    (\<exists>arr e. j_as_array J body = Some arr \<and> e \<in> set arr \<and> str_field J e ''symbol'' = Some s)"
proof -
  obtain arr where arr: "j_as_array J body = Some arr" "ts = List.map_filter (parse_ticker D J) arr"
    using assms by (auto simp: parse_all_book_tickers_def res_simps)
  show ?thesis
  proof clarify
    fix s bid ask assume "(s, bid, ask) \<in> set ts"
    then obtain e where "e \<in> set arr" "parse_ticker D J e = Some (s, bid, ask)"
      unfolding arr(2) by (auto simp: List.map_filter_def)
    with parse_ticker_sane [OF this(2)] arr(1) show "0 < bid \<and> bid \<le> ask \<and>
        (\<exists>arr e. j_as_array J body = Some arr \<and> e \<in> set arr \<and> str_field J e ''symbol'' = Some s)"
      by blast
  qed
qed

definition sample_tickers :: json where
  "sample_tickers = JArr
     [JObj [(''symbol'', JStr ''BTC''), (''bidPrice'', JStr ''99''), (''askPrice'', JStr ''101'')],
      JObj [(''symbol'', JStr ''OLD''), (''bidPrice'', JStr ''0''), (''askPrice'', JStr ''0'')],
      JObj [(''symbol'', JStr ''BAD''), (''bidPrice'', JNum 7)]]"

lemma sample_tickers_parsed: "parse_all_book_tickers ref_dec ref_json sample_tickers = Ok [(''BTC'', 99, 101)]"
  by (simp add: parse_all_book_tickers_def sample_tickers_def ref_json_def parse_ticker_def str_field_def
      dec_field_def ref_dec_def parse_unsigned_def read_nat_def digit_val_def List.map_filter_def)

theorem tickers_are_sane_witness:
  "\<exists>ts. parse_all_book_tickers ref_dec ref_json sample_tickers = Ok ts \<and> ts \<noteq> [] \<and>
     (\<forall>(s, bid, ask)\<in>set ts. bid \<le> ask)"
  using tickers_are_sane [OF sample_tickers_parsed] sample_tickers_parsed by auto

text \<open>The filter that bounds the quantity of an order.\<close>

definition lot_filter_type :: "order_type \<Rightarrow> string" where
  "lot_filter_type t = (case t of Limit \<Rightarrow> ''LOT_SIZE'' | Market \<Rightarrow> ''MARKET_LOT_SIZE'')"

text \<open>
  C36: Metadata that lacks a filter trades nothing: if an exchange-info entry parses but has no lot-size
  filter for an order's type, or no price filter and the order is a limit order, or a status other than
  \<open>TRADING\<close>, then validation refuses every such order.
\<close>

theorem missing_filters_trade_nothing:
  assumes "parse_symbol_meta D J entry = Ok m"
    "(\<forall>f\<in>set (case array_field J entry ''filters'' of Some fs \<Rightarrow> fs | None \<Rightarrow> []).
        str_field J f ''filterType'' \<noteq> Some (lot_filter_type (oi_order_type i))) \<or>
     (oi_order_type i = Limit \<and>
      (\<forall>f\<in>set (case array_field J entry ''filters'' of Some fs \<Rightarrow> fs | None \<Rightarrow> []).
        str_field J f ''filterType'' \<noteq> Some ''PRICE_FILTER'')) \<or>
     str_field J entry ''status'' \<noteq> Some ''TRADING''"
  shows "validate_order D i m est \<noteq> Ok ()"
proof -
  let ?fs = "case array_field J entry ''filters'' of Some fs \<Rightarrow> fs | None \<Rightarrow> []"
  obtain fv where fv: "apply_filters D J (initial_filters D) ?fs = Ok fv"
      "sm_lot_size m = fv_lot_size fv" "sm_market_lot_size m = fv_market_lot_size fv"
      "sm_price_filter m = fv_price_filter fv"
      "sm_status m = parse_symbol_status (str_field J entry ''status'')"
    using assms(1) by (auto simp: parse_symbol_meta_def Let_def res_simps)
  note kept = apply_filters_keep [OF fv(1)]
  from assms(2) consider (lot) "\<forall>f\<in>set ?fs. str_field J f ''filterType'' \<noteq> Some (lot_filter_type (oi_order_type i))"
    | (price) "oi_order_type i = Limit" "\<forall>f\<in>set ?fs. str_field J f ''filterType'' \<noteq> Some ''PRICE_FILTER''"
    | (status) "str_field J entry ''status'' \<noteq> Some ''TRADING''"
    by blast
  then show ?thesis
  proof cases
    case lot
    then have "ls_step_size (order_lot m (oi_order_type i)) = 0"
      using kept fv(2,3)
      by (auto simp: order_lot_def lot_filter_type_def initial_filters_def Let_def split: order_type.splits)
    then show ?thesis by (rule validate_zero_step)
  next
    case price
    then have "pf_tick_size (sm_price_filter m) = 0"
      using kept fv(4) by (simp add: initial_filters_def Let_def)
    with price(1) show ?thesis
      by (auto simp: validate_order_def validate_limit_def is_aligned_def Let_def res_simps split: if_splits)
  next
    case status
    then have "sm_status m \<noteq> Trading" using fv(5) by (auto simp: parse_symbol_status_def)
    then show ?thesis by (simp add: validate_order_def)
  qed
qed

definition bare_entry :: json where
  "bare_entry = JObj [(''symbol'', JStr ''BTC''), (''status'', JStr ''TRADING''),
     (''orderTypes'', JArr [JStr ''LIMIT''])]"

theorem missing_filters_trade_nothing_witness:
  "\<exists>m. parse_symbol_meta ref_dec ref_json bare_entry = Ok m \<and>
     validate_order ref_dec \<lparr>oi_symbol = ''BTC'', oi_side = Buy, oi_order_type = Limit, oi_quantity = 1,
       oi_price = Some 1\<rparr> m None \<noteq> Ok ()"
proof -
  obtain m where m: "parse_symbol_meta ref_dec ref_json bare_entry = Ok m"
    by (auto simp: parse_symbol_meta_def bare_entry_def ref_json_def str_field_def array_field_def Let_def)
  show ?thesis
    using m missing_filters_trade_nothing [OF m] by (auto simp: bare_entry_def array_field_def ref_json_def)
qed

section \<open>Symbol metadata\<close>

text \<open>
  C37: The metadata store answers from its latest refresh only, and only inside the window: a lookup
  that succeeds returns an entry of that refresh, under its own symbol; once the window has passed, or
  before the first refresh, every lookup fails and no symbol counts as tradable.
\<close>

theorem metadata_fails_closed:
  "(store_get (replace_all st ms t) s now = Some m \<longrightarrow>
      m \<in> set ms \<and> sm_symbol m = s \<and> now - t \<le> st_max_age st) \<and>
   (is_stale st now \<longrightarrow> store_get st s now = None) \<and>
   (store_wf st \<and> is_stale st now \<longrightarrow> tradable_symbols st now = []) \<and>
   is_stale (store_new w) now"
  using metadata.lookup_after [of st ms t s now m] metadata.lookup_stale [of st now s]
    metadata.tradable_stale [of st now]
  by (simp add: store_new_def is_stale_def)

theorem metadata_fails_closed_witness: "store_get (store_new 60) ''BTC'' 5 = None"
  using metadata_fails_closed [of "store_new 60" "[]" 0 "''BTC''" 5 undefined 60] by simp

section \<open>Credentials\<close>

text \<open>
  C38: The encryption key is read from its 64-digit hexadecimal text byte for byte: the text that
  \<open>hex_encode\<close> writes for 32 bytes gives these bytes back, and for any other number of bytes the key is
  refused.
\<close>

theorem encryption_key_roundtrip:
  "encryption_key (Some (hex_encode bs)) =
     (if length bs = 32 then Ok bs else Err (Msg ''EXCHANGE_ENCRYPTION_KEY must be exactly 32 bytes''))"
  by (simp add: encryption_key_def hex_decode_encode)

end
