(* ===== verification/Schema.thy ===== *)
theory Schema
  imports Risk_Engine Adapter_Contract
begin

text \<open>
  The relational state: one record per table of \<open>crates/server/migrations\<close> with the columns the
  server reads or writes, the \<open>CHECK\<close> constraints, and the coercion of values to the declared
  \<open>NUMERIC\<close> columns. A table is the list of its rows in insertion order. Timestamps that only
  record when a row was touched (\<open>created_at\<close>, \<open>updated_at\<close>) are kept only where a query reads them.
\<close>

section \<open>Tables\<close>

record account_row =
  ac_id :: uuid
  ac_status :: string
  ac_equity :: rat
  ac_kill_switch_engaged_at :: "nat option"

record risk_config_row =
  rc_account_id :: uuid
  rc_cfg :: risk_config
  rc_version :: i32

record group_row =
  cg_id :: uuid
  cg_account_id :: uuid
  cg_name :: string

record group_asset_row =
  ga_group_id :: uuid
  ga_account_id :: uuid
  ga_symbol :: string

record position_row =
  po_id :: uuid
  po_account_id :: uuid
  po_symbol :: string
  po_side :: string
  po_quantity :: rat
  po_avg_entry_price :: rat
  po_status :: string
  po_closed_at :: "nat option"

record daily_pnl_row =
  dp_account_id :: uuid
  dp_trading_date :: nat
  dp_realized_loss :: rat
  dp_circuit_breaker_tripped_at :: "nat option"

record risk_event_row =
  ev_id :: uuid
  ev_account_id :: uuid
  ev_event_type :: string
  ev_payload :: json
  ev_created_at :: nat

record order_row =
  or_id :: uuid
  or_account_id :: uuid
  or_client_order_id :: string
  or_symbol :: string
  or_side :: string
  or_order_type :: string
  or_quantity :: rat
  or_price :: "rat option"
  or_status :: string
  or_exchange_mode :: string
  or_filled_quantity :: rat

record fill_row =
  fr_account_id :: uuid
  fr_order_id :: uuid
  fr_exchange_trade_id :: string
  fr_quantity :: rat
  fr_price :: rat
  fr_fee :: rat
  fr_fee_asset :: string

record exchange_config_row =
  ec_account_id :: uuid
  ec_mode :: string
  ec_testnet :: bool
  ec_api_key_ciphertext :: "byte list option"
  ec_api_secret_ciphertext :: "byte list option"
  ec_version :: i32

record command_row =
  cm_id :: uuid
  cm_account_id :: uuid
  cm_command_type :: string
  cm_exchange_mode :: string
  cm_status :: string
  cm_idempotency_key :: string
  cm_payload :: json
  cm_attempts :: i32
  cm_leased_until :: "nat option"
  cm_created_at :: nat

record db =
  t_accounts :: "account_row list"
  t_risk_configs :: "risk_config_row list"
  t_correlation_groups :: "group_row list"
  t_correlation_group_assets :: "group_asset_row list"
  t_positions :: "position_row list"
  t_daily_pnl :: "daily_pnl_row list"
  t_risk_events :: "risk_event_row list"
  t_orders :: "order_row list"
  t_order_fills :: "fill_row list"
  t_exchange_configs :: "exchange_config_row list"
  t_exchange_commands :: "command_row list"

definition empty_db :: db where
  "empty_db = \<lparr>t_accounts = [], t_risk_configs = [], t_correlation_groups = [],
     t_correlation_group_assets = [], t_positions = [], t_daily_pnl = [], t_risk_events = [],
     t_orders = [], t_order_fills = [], t_exchange_configs = [], t_exchange_commands = []\<rparr>"

section \<open>Numeric columns\<close>

text \<open>
  Storing into \<open>NUMERIC(p, s)\<close> rounds half away from zero to \<open>s\<close> fractional digits and fails
  where the result has more than \<open>p - s\<close> integer digits.
\<close>

definition round_half_away :: "rat \<Rightarrow> int" where
  "round_half_away x = (if 0 \<le> x then \<lfloor>x + 1 / 2\<rfloor> else - \<lfloor>- x + 1 / 2\<rfloor>)"

definition numeric :: "nat \<Rightarrow> nat \<Rightarrow> rat \<Rightarrow> rat option" where
  "numeric p s x =
     (let k = round_half_away (x * 10 ^ s) in
      if \<bar>k\<bar> < 10 ^ p then Some (of_int k / 10 ^ s) else None)"

abbreviation numeric_30_10 :: "rat \<Rightarrow> rat option" where
  "numeric_30_10 \<equiv> numeric 30 10"

abbreviation numeric_8_4 :: "rat \<Rightarrow> rat option" where
  "numeric_8_4 \<equiv> numeric 8 4"

lemma round_half_away_int [simp]: "round_half_away (of_int k) = k"
proof -
  have "\<lfloor>of_int k + 1 / 2 :: rat\<rfloor> = k" for k :: int by linarith
  from this [of k] this [of "- k"] show ?thesis by (simp add: round_half_away_def)
qed

lemma round_half_away_nonneg: "0 \<le> x \<Longrightarrow> 0 \<le> round_half_away x"
  by (simp add: round_half_away_def)

lemma numeric_grid:
  assumes "numeric_30_10 x = Some y"
  shows "on_grid y"
proof -
  have "y = of_int (round_half_away (x * 10 ^ 10)) / 10 ^ 10"
    using assms unfolding numeric_def Let_def by (metis option.distinct(1) option.inject)
  then show ?thesis unfolding on_grid_def by blast
qed

lemma numeric_on_grid:
  assumes "on_grid x" "\<bar>x\<bar> < 10 ^ 20"
  shows "numeric_30_10 x = Some x"
proof -
  obtain k :: int where x: "x = of_int k / 10 ^ 10" using assms(1) by (auto simp: on_grid_def)
  have "\<bar>of_int k :: rat\<bar> < 10 ^ 30"
    using assms(2) by (simp add: x abs_divide pos_divide_less_eq)
  then have "of_int \<bar>k\<bar> < (of_int (10 ^ 30) :: rat)" by simp
  then have "\<bar>k\<bar> < 10 ^ 30" by (subst (asm) of_int_less_iff)
  then show ?thesis by (simp add: numeric_def x)
qed

lemma numeric_nonneg: "numeric p s x = Some y \<Longrightarrow> 0 \<le> x \<Longrightarrow> 0 \<le> y"
  by (auto simp: numeric_def Let_def round_half_away_nonneg split: if_splits)

lemma round_half_away_0 [simp]: "round_half_away 0 = 0"
  using round_half_away_int [of 0] by simp

lemma numeric_0 [simp]: "numeric p s 0 = Some 0"
  by (simp add: numeric_def)

lemma round_half_away_uminus: "round_half_away (- x) = - round_half_away x"
proof (cases "x = 0")
  case True
  then show ?thesis by simp
next
  case False
  then show ?thesis by (auto simp: round_half_away_def)
qed

lemma numeric_uminus: "numeric p s (- x) = map_option uminus (numeric p s x)"
  by (simp add: numeric_def round_half_away_uminus Let_def)

section \<open>Constraints\<close>

text \<open>Migrations 0001, 0003, 0005.\<close>

definition account_check :: "account_row \<Rightarrow> bool" where
  "account_check r \<longleftrightarrow>
     ac_status r \<in> {''active'', ''killed'', ''suspended''} \<and>
     (ac_status r = ''killed'') = (ac_kill_switch_engaged_at r \<noteq> None) \<and>
     ac_equity r \<ge> 0"

definition pct_check :: "rat \<Rightarrow> bool" where
  "pct_check v \<longleftrightarrow> v > 0 \<and> v \<le> 100"

definition risk_config_check :: "risk_config_row \<Rightarrow> bool" where
  "risk_config_check r \<longleftrightarrow>
     pct_check (daily_max_loss_pct (rc_cfg r)) \<and>
     pct_check (max_position_pct_equity (rc_cfg r)) \<and>
     sint (max_concurrent_positions (rc_cfg r)) > 0 \<and>
     pct_check (max_correlated_exposure_pct (rc_cfg r))"

definition position_check :: "position_row \<Rightarrow> bool" where
  "position_check r \<longleftrightarrow>
     po_side r \<in> {''long'', ''short''} \<and> po_quantity r > 0 \<and> po_avg_entry_price r \<ge> 0 \<and>
     po_status r \<in> {''open'', ''closed''} \<and> (po_status r = ''closed'') = (po_closed_at r \<noteq> None)"

text \<open>Migration 0006.\<close>

definition order_check :: "order_row \<Rightarrow> bool" where
  "order_check r \<longleftrightarrow>
     or_side r \<in> {''buy'', ''sell''} \<and> or_order_type r \<in> {''limit'', ''market''} \<and>
     or_quantity r > 0 \<and> (case or_price r of None \<Rightarrow> True | Some p \<Rightarrow> p > 0) \<and>
     or_status r \<in> {''pending'', ''submitted'', ''partially_filled'', ''filled'',
                    ''cancel_requested'', ''cancelled'', ''rejected''} \<and>
     or_exchange_mode r \<in> {''paper'', ''live''} \<and>
     or_filled_quantity r \<ge> 0 \<and> or_filled_quantity r \<le> or_quantity r"

text \<open>Migration 0007.\<close>

definition fill_check :: "fill_row \<Rightarrow> bool" where
  "fill_check r \<longleftrightarrow> fr_quantity r > 0 \<and> fr_price r > 0 \<and> fr_fee r \<ge> 0"

text \<open>Migration 0009.\<close>

definition command_check :: "command_row \<Rightarrow> bool" where
  "command_check r \<longleftrightarrow>
     cm_command_type r \<in> {''submit_order'', ''cancel_order'', ''reconcile_order''} \<and>
     cm_exchange_mode r \<in> {''paper'', ''live''} \<and>
     cm_status r \<in> {''pending'', ''leased'', ''delivered'', ''reconciliation_required'',
                    ''permanently_rejected''}"

section \<open>Errors and transactions\<close>

datatype db_error =
    Io
  | InFailedTransaction
  | CheckViolation
  | UniqueViolation
  | ForeignKeyViolation
  | RlsViolation
  | NumericOverflow
  | TriggerException message

datatype api_error =
    NotFound
  | Conflict message
  | Invalid message
  | DbErr db_error
  | ExchangeErr exchange_error

text \<open>
  A database session. Statements work on \<open>c_db\<close>; \<open>COMMIT\<close> makes it durable, anything else leaves
  \<open>c_durable\<close> alone. After a failed statement the transaction is aborted: further statements
  fail and a commit rolls back. \<open>c_faults\<close> decides the fate of each round trip to the server: it
  arrives, it is lost, or its reply is lost. Clock readings and generated identifiers come with
  the session.
\<close>

datatype role = Owner | App "uuid option"

datatype io_fault = Fine | Lost | LostReply

record conn =
  c_role :: role
  c_db :: db
  c_durable :: db
  c_aborted :: bool
  c_faults :: "io_fault list"
  c_now :: nat
  c_today :: nat
  c_ids :: "nat \<Rightarrow> uuid"
  c_next :: nat

type_synonym ('e, 'a) tx_res = "conn \<Rightarrow> ('e, 'a) res \<times> conn"

type_synonym 'a tx = "(api_error, 'a) tx_res"

definition tx_return :: "'a \<Rightarrow> ('e, 'a) tx_res" where
  "tx_return x = (\<lambda>c. (Ok x, c))"

definition tx_fail :: "'e \<Rightarrow> ('e, 'a) tx_res" where
  "tx_fail e = (\<lambda>c. (Err e, c))"

text \<open>\<open>match m { Ok(x) => f x, Err(e) => g e }\<close>; a panic goes through.\<close>

definition tx_handle ::
    "('e, 'a) tx_res \<Rightarrow> ('a \<Rightarrow> ('f, 'b) tx_res) \<Rightarrow> ('e \<Rightarrow> ('f, 'b) tx_res) \<Rightarrow> ('f, 'b) tx_res" where
  "tx_handle m f g = (\<lambda>c. case m c of
     (Ok x, c') \<Rightarrow> f x c'
   | (Err e, c') \<Rightarrow> g e c'
   | (Panic, c') \<Rightarrow> (Panic, c'))"

text \<open>The operator \<open>?\<close>.\<close>

definition tx_bind :: "('e, 'a) tx_res \<Rightarrow> ('a \<Rightarrow> ('e, 'b) tx_res) \<Rightarrow> ('e, 'b) tx_res" where
  "tx_bind m f = tx_handle m f tx_fail"

definition tx_map_err :: "('e \<Rightarrow> 'f) \<Rightarrow> ('e, 'a) tx_res \<Rightarrow> ('f, 'a) tx_res" where
  "tx_map_err h m = tx_handle m tx_return (\<lambda>e. tx_fail (h e))"

text \<open>Code between the statements: a pure result in a transaction.\<close>

definition tx_lift :: "('e, 'a) res \<Rightarrow> ('e, 'a) tx_res" where
  "tx_lift r = (\<lambda>c. (r, c))"

text \<open>\<open>let _ = \<dots>\<close>: the result is dropped, an error too.\<close>

definition tx_ignore :: "('e, 'a) tx_res \<Rightarrow> ('f, unit) tx_res" where
  "tx_ignore m = tx_handle m (\<lambda>_. tx_return ()) (\<lambda>_. tx_return ())"

text \<open>\<open>if let Ok(x) = m { f x }\<close>.\<close>

definition tx_if_ok :: "('e, 'a) tx_res \<Rightarrow> ('a \<Rightarrow> ('f, unit) tx_res) \<Rightarrow> ('f, unit) tx_res" where
  "tx_if_ok m f = tx_handle m f (\<lambda>_. tx_return ())"

fun tx_each :: "('a \<Rightarrow> ('e, unit) tx_res) \<Rightarrow> 'a list \<Rightarrow> ('e, unit) tx_res" where
  "tx_each f [] = tx_return ()"
| "tx_each f (x # xs) = tx_bind (f x) (\<lambda>_. tx_each f xs)"

text \<open>One round trip.\<close>

definition io :: "'a tx \<Rightarrow> 'a tx" where
  "io m = (\<lambda>c. case c_faults c of
     [] \<Rightarrow> m c
   | Fine # fs \<Rightarrow> m (c\<lparr>c_faults := fs\<rparr>)
   | Lost # fs \<Rightarrow> (Err (DbErr Io), c\<lparr>c_faults := fs, c_aborted := True\<rparr>)
   | LostReply # fs \<Rightarrow>
       (case m (c\<lparr>c_faults := fs\<rparr>) of
          (Panic, c') \<Rightarrow> (Panic, c')
        | (_, c') \<Rightarrow> (Err (DbErr Io), c'\<lparr>c_aborted := True\<rparr>)))"

text \<open>One SQL statement inside a transaction.\<close>

type_synonym 'a sql = "role \<Rightarrow> db \<Rightarrow> (db_error, 'a \<times> db) res"

definition stmt :: "'a sql \<Rightarrow> 'a tx" where
  "stmt q = io (\<lambda>c.
     if c_aborted c then (Err (DbErr InFailedTransaction), c)
     else case q (c_role c) (c_db c) of
        Ok (x, d) \<Rightarrow> (Ok x, c\<lparr>c_db := d\<rparr>)
      | Err e \<Rightarrow> (Err (DbErr e), c\<lparr>c_aborted := True\<rparr>)
      | Panic \<Rightarrow> (Panic, c))"

definition begin_tx :: "role \<Rightarrow> unit tx" where
  "begin_tx r = io (\<lambda>c. (Ok (), c\<lparr>c_role := r, c_db := c_durable c, c_aborted := False\<rparr>))"

text \<open>The commit of an aborted transaction rolls it back, and reports success.\<close>

definition commit_tx :: "unit tx" where
  "commit_tx = io (\<lambda>c. (Ok (), if c_aborted c then c else c\<lparr>c_durable := c_db c\<rparr>))"

text \<open>A statement sent to the pool outside a transaction commits by itself.\<close>

definition auto_stmt :: "role \<Rightarrow> 'a sql \<Rightarrow> 'a tx" where
  "auto_stmt r q = io (\<lambda>c.
     case q r (c_durable c) of
        Ok (x, d) \<Rightarrow> (Ok x, c\<lparr>c_role := r, c_db := d, c_durable := d, c_aborted := False\<rparr>)
      | Err e \<Rightarrow> (Err (DbErr e), c)
      | Panic \<Rightarrow> (Panic, c))"

text \<open>\<open>Uuid::now_v7()\<close> and the database's \<open>gen_random_uuid()\<close>.\<close>

definition fresh_id :: "uuid tx" where
  "fresh_id = (\<lambda>c. (Ok (c_ids c (c_next c)), c\<lparr>c_next := Suc (c_next c)\<rparr>))"

definition get_now :: "nat tx" where
  "get_now = (\<lambda>c. (Ok (c_now c), c))"

definition get_today :: "nat tx" where
  "get_today = (\<lambda>c. (Ok (c_today c), c))"

text \<open>Row-level security: the owner sees every row, the application only its tenant's.\<close>

fun visible :: "role \<Rightarrow> uuid \<Rightarrow> bool" where
  "visible Owner a = True"
| "visible (App None) a = False"
| "visible (App (Some t)) a = (a = t)"

section \<open>Statements on one table\<close>

definition sql_read :: "(role \<Rightarrow> db \<Rightarrow> 'a) \<Rightarrow> 'a sql" where
  "sql_read f = (\<lambda>r d. Ok (f r d, d))"

text \<open>\<open>UPDATE\<close> of the rows that satisfy \<open>p\<close>; every new row must satisfy the table's checks.\<close>

definition checked_update ::
    "('r \<Rightarrow> bool) \<Rightarrow> ('r \<Rightarrow> 'r option) \<Rightarrow> ('r \<Rightarrow> bool) \<Rightarrow> 'r list \<Rightarrow> (db_error, 'r list) res" where
  "checked_update p f ok rs =
     (if list_ex (\<lambda>r. p r \<and> f r = None) rs then Err NumericOverflow
      else if list_ex (\<lambda>r. p r \<and> \<not> ok (the (f r))) rs then Err CheckViolation
      else Ok (update_where p (\<lambda>r. the (f r)) rs))"

lemma checked_update_Ok:
  "checked_update p f ok rs = Ok rs' \<longleftrightarrow>
     (\<forall>r\<in>set rs. p r \<longrightarrow> (\<exists>r'. f r = Some r' \<and> ok r')) \<and> rs' = update_where p (\<lambda>r. the (f r)) rs"
proof (cases "\<exists>r\<in>set rs. p r \<and> f r = None")
  case True
  then show ?thesis by (auto simp: checked_update_def list_ex_iff)
next
  case False
  then show ?thesis
    by (auto simp: checked_update_def list_ex_iff) (metis option.sel)+
qed

lemma checked_update_not_Panic [simp]: "checked_update p f ok rs \<noteq> Panic"
  by (simp add: checked_update_def)

section \<open>Reasoning about transactions\<close>

lemma tx_handle_eq:
  "tx_handle m f g c = (z, c') \<longleftrightarrow>
     (\<exists>x c1. m c = (Ok x, c1) \<and> f x c1 = (z, c')) \<or>
     (\<exists>e c1. m c = (Err e, c1) \<and> g e c1 = (z, c')) \<or> m c = (Panic, c') \<and> z = Panic"
  by (cases "m c"; cases "fst (m c)") (auto simp: tx_handle_def)

lemma tx_bind_eq:
  "tx_bind m f c = (z, c') \<longleftrightarrow>
     (\<exists>x c1. m c = (Ok x, c1) \<and> f x c1 = (z, c')) \<or>
     (\<exists>e. m c = (Err e, c') \<and> z = Err e) \<or> m c = (Panic, c') \<and> z = Panic"
  by (auto simp: tx_bind_def tx_handle_eq tx_fail_def)

lemma tx_map_err_eq:
  "tx_map_err h m c = (z, c') \<longleftrightarrow> (\<exists>y. m c = (y, c') \<and> z = map_err h y)"
  by (cases "m c"; cases "fst (m c)")
    (auto simp: tx_map_err_def tx_handle_eq tx_fail_def tx_return_def)

lemma tx_bind_map_err:
  "tx_bind (tx_map_err h m) f = tx_handle m f (\<lambda>e. tx_fail (h e))"
proof
  show "tx_bind (tx_map_err h m) f c = tx_handle m f (\<lambda>e. tx_fail (h e)) c" for c
    by (cases "m c"; cases "fst (m c)")
      (auto simp: tx_map_err_def tx_bind_def tx_handle_def tx_fail_def tx_return_def)
qed

text \<open>
  A predicate on database states is kept by a piece of a transaction if it holds of the working
  and of the durable state afterwards whenever it held of both before.
\<close>

definition tx_inv :: "role \<Rightarrow> (db \<Rightarrow> bool) \<Rightarrow> ('e, 'a) tx_res \<Rightarrow> bool" where
  "tx_inv r P m \<longleftrightarrow>
     (\<forall>c. c_role c = r \<longrightarrow> P (c_db c) \<longrightarrow> P (c_durable c) \<longrightarrow>
        c_role (snd (m c)) = r \<and> P (c_db (snd (m c))) \<and> P (c_durable (snd (m c))))"

lemma tx_inv_iff:
  "tx_inv r P m \<longleftrightarrow>
     (\<forall>c z c'. m c = (z, c') \<longrightarrow> c_role c = r \<and> P (c_db c) \<and> P (c_durable c) \<longrightarrow>
        c_role c' = r \<and> P (c_db c') \<and> P (c_durable c'))"
  unfolding tx_inv_def by (metis surjective_pairing snd_conv)

lemma io_cases:
  assumes "io m c = (z, c')"
  obtains fs w c'' where
    "c' = c\<lparr>c_faults := fs, c_aborted := True\<rparr> \<or>
     (m (c\<lparr>c_faults := fs\<rparr>) = (w, c'') \<and> (c' = c'' \<or> c' = c''\<lparr>c_aborted := True\<rparr>))"
proof (cases "c_faults c")
  case Nil
  then have same: "c\<lparr>c_faults := []\<rparr> = c" by (cases c) simp
  have "m c = (z, c')" using assms Nil by (simp add: io_def)
  then have "m (c\<lparr>c_faults := []\<rparr>) = (z, c')" by (simp only: same)
  then show ?thesis using that by blast
next
  case (Cons f fs)
  obtain w c'' where "m (c\<lparr>c_faults := fs\<rparr>) = (w, c'')" by fastforce
  then show ?thesis
    using Cons assms that [of fs w c''] by (cases f; cases w) (auto simp: io_def)
qed

text \<open>A round trip that succeeds was made, with one entry of the fault list used up.\<close>

lemma io_Ok:
  assumes "io m c = (Ok x, c')"
  obtains fs where "m (c\<lparr>c_faults := fs\<rparr>) = (Ok x, c')"
proof (cases "c_faults c")
  case Nil
  then have same: "c\<lparr>c_faults := []\<rparr> = c" by (cases c) simp
  have "m c = (Ok x, c')" using assms Nil by (simp add: io_def)
  then have "m (c\<lparr>c_faults := []\<rparr>) = (Ok x, c')" by (simp only: same)
  then show ?thesis by (rule that)
next
  case (Cons f fs)
  then show ?thesis using assms that [of fs]
    by (cases f) (auto simp: io_def split: prod.splits res.splits)
qed

named_theorems tx_inv_intros \<open>how an invariant is kept by the pieces of a transaction\<close>

lemma tx_inv_return [tx_inv_intros]: "tx_inv r P (tx_return x)"
  by (simp add: tx_inv_def tx_return_def)

lemma tx_inv_fail [tx_inv_intros]: "tx_inv r P (tx_fail e)"
  by (simp add: tx_inv_def tx_fail_def)

lemma tx_inv_lift [tx_inv_intros]: "tx_inv r P (tx_lift x)"
  by (simp add: tx_inv_def tx_lift_def)

lemma tx_inv_handle:
  "tx_inv r P m \<Longrightarrow> (\<And>x. tx_inv r P (f x)) \<Longrightarrow> (\<And>e. tx_inv r P (g e)) \<Longrightarrow> tx_inv r P (tx_handle m f g)"
  unfolding tx_inv_iff by (auto simp: tx_handle_eq)

lemma tx_inv_bind [tx_inv_intros]:
  "tx_inv r P m \<Longrightarrow> (\<And>x. tx_inv r P (f x)) \<Longrightarrow> tx_inv r P (tx_bind m f)"
  unfolding tx_bind_def by (intro tx_inv_handle tx_inv_fail)

lemma tx_inv_map_err [tx_inv_intros]: "tx_inv r P m \<Longrightarrow> tx_inv r P (tx_map_err h m)"
  unfolding tx_map_err_def by (intro tx_inv_handle tx_inv_fail tx_inv_return)

lemma tx_inv_ignore [tx_inv_intros]: "tx_inv r P m \<Longrightarrow> tx_inv r P (tx_ignore m)"
  unfolding tx_ignore_def by (intro tx_inv_handle tx_inv_return)

lemma tx_inv_if_ok [tx_inv_intros]:
  "tx_inv r P m \<Longrightarrow> (\<And>x. tx_inv r P (f x)) \<Longrightarrow> tx_inv r P (tx_if_ok m f)"
  unfolding tx_if_ok_def by (intro tx_inv_handle tx_inv_return)

lemma tx_inv_each [tx_inv_intros]: "(\<And>x. tx_inv r P (f x)) \<Longrightarrow> tx_inv r P (tx_each f xs)"
  by (induction xs) (auto intro: tx_inv_intros)

lemma tx_inv_if [tx_inv_intros]:
  "(b \<Longrightarrow> tx_inv r P m) \<Longrightarrow> (\<not> b \<Longrightarrow> tx_inv r P n) \<Longrightarrow> tx_inv r P (if b then m else n)"
  by simp

lemma tx_inv_case_option [tx_inv_intros]:
  "(z = None \<Longrightarrow> tx_inv r P m) \<Longrightarrow> (\<And>x. z = Some x \<Longrightarrow> tx_inv r P (f x)) \<Longrightarrow>
   tx_inv r P (case z of None \<Rightarrow> m | Some x \<Rightarrow> f x)"
  by (cases z) auto

lemma tx_inv_case_prod [tx_inv_intros]:
  "(\<And>x y. tx_inv r P (f x y)) \<Longrightarrow> tx_inv r P (case z of (x, y) \<Rightarrow> f x y)"
  by (cases z) auto

lemma tx_inv_let [tx_inv_intros]: "(\<And>x. tx_inv r P (f x)) \<Longrightarrow> tx_inv r P (let x = a in f x)"
  by simp

lemma tx_inv_io:
  assumes m: "tx_inv r P m"
  shows "tx_inv r P (io m)"
  unfolding tx_inv_iff
proof (intro allI impI)
  fix c z c' assume io: "io m c = (z, c')" and c: "c_role c = r \<and> P (c_db c) \<and> P (c_durable c)"
  from io obtain fs w c'' where
    "c' = c\<lparr>c_faults := fs, c_aborted := True\<rparr> \<or>
     (m (c\<lparr>c_faults := fs\<rparr>) = (w, c'') \<and> (c' = c'' \<or> c' = c''\<lparr>c_aborted := True\<rparr>))"
    by (rule io_cases)
  with c m show "c_role c' = r \<and> P (c_db c') \<and> P (c_durable c')"
    unfolding tx_inv_iff by fastforce
qed

text \<open>What a single statement keeps.\<close>

definition keeps :: "role \<Rightarrow> (db \<Rightarrow> bool) \<Rightarrow> 'a sql \<Rightarrow> bool" where
  "keeps r P q \<longleftrightarrow> (\<forall>d x d'. P d \<longrightarrow> q r d = Ok (x, d') \<longrightarrow> P d')"

lemma keepsI: "(\<And>d x d'. P d \<Longrightarrow> q r d = Ok (x, d') \<Longrightarrow> P d') \<Longrightarrow> keeps r P q"
  unfolding keeps_def by blast

lemma keepsD: "keeps r P q \<Longrightarrow> P d \<Longrightarrow> q r d = Ok (x, d') \<Longrightarrow> P d'"
  unfolding keeps_def by blast

lemma keeps_read [intro]: "keeps r P (sql_read f)"
  by (rule keepsI) (simp add: sql_read_def)

lemma tx_inv_stmt: "keeps r P q \<Longrightarrow> tx_inv r P (stmt q)"
  unfolding stmt_def
  by (rule tx_inv_io) (auto simp: tx_inv_def split: res.splits dest: keepsD)

lemma tx_inv_read [tx_inv_intros]: "tx_inv r P (stmt (sql_read f))"
  by (intro tx_inv_stmt keeps_read)

lemma tx_inv_commit [tx_inv_intros]: "tx_inv r P commit_tx"
  unfolding commit_tx_def by (rule tx_inv_io) (simp add: tx_inv_def)

lemma tx_inv_fresh [tx_inv_intros]: "tx_inv r P fresh_id"
  by (simp add: tx_inv_def fresh_id_def)

lemma tx_inv_clock [tx_inv_intros]: "tx_inv r P get_now" "tx_inv r P get_today"
  by (simp_all add: tx_inv_def get_now_def get_today_def)

text \<open>What a whole handler does to the durable state.\<close>

definition durable_inv :: "(db \<Rightarrow> bool) \<Rightarrow> ('e, 'a) tx_res \<Rightarrow> bool" where
  "durable_inv P m \<longleftrightarrow> (\<forall>c. P (c_durable c) \<longrightarrow> P (c_durable (snd (m c))))"

lemma durable_inv_iff:
  "durable_inv P m \<longleftrightarrow> (\<forall>c z c'. m c = (z, c') \<longrightarrow> P (c_durable c) \<longrightarrow> P (c_durable c'))"
  unfolding durable_inv_def by (metis surjective_pairing snd_conv)

named_theorems durable_intros \<open>how an invariant of the durable state is kept by handlers\<close>

lemma durable_inv_return [durable_intros]: "durable_inv P (tx_return x)"
  by (simp add: durable_inv_def tx_return_def)

lemma durable_inv_fail [durable_intros]: "durable_inv P (tx_fail e)"
  by (simp add: durable_inv_def tx_fail_def)

lemma durable_inv_lift [durable_intros]: "durable_inv P (tx_lift x)"
  by (simp add: durable_inv_def tx_lift_def)

lemma durable_inv_fresh [durable_intros]: "durable_inv P fresh_id"
  by (simp add: durable_inv_def fresh_id_def)

lemma durable_inv_clock [durable_intros]: "durable_inv P get_now" "durable_inv P get_today"
  by (simp_all add: durable_inv_def get_now_def get_today_def)

lemma durable_inv_handle:
  "durable_inv P m \<Longrightarrow> (\<And>x. durable_inv P (f x)) \<Longrightarrow> (\<And>e. durable_inv P (g e)) \<Longrightarrow>
   durable_inv P (tx_handle m f g)"
  unfolding durable_inv_iff by (auto simp: tx_handle_eq)

lemma durable_inv_bind [durable_intros]:
  "durable_inv P m \<Longrightarrow> (\<And>x. durable_inv P (f x)) \<Longrightarrow> durable_inv P (tx_bind m f)"
  unfolding tx_bind_def by (intro durable_inv_handle durable_inv_fail)

lemma durable_inv_map_err [durable_intros]: "durable_inv P m \<Longrightarrow> durable_inv P (tx_map_err h m)"
  unfolding tx_map_err_def by (intro durable_inv_handle durable_inv_fail durable_inv_return)

lemma durable_inv_ignore [durable_intros]: "durable_inv P m \<Longrightarrow> durable_inv P (tx_ignore m)"
  unfolding tx_ignore_def by (intro durable_inv_handle durable_inv_return)

lemma durable_inv_if_ok [durable_intros]:
  "durable_inv P m \<Longrightarrow> (\<And>x. durable_inv P (f x)) \<Longrightarrow> durable_inv P (tx_if_ok m f)"
  unfolding tx_if_ok_def by (intro durable_inv_handle durable_inv_return)

lemma durable_inv_if [durable_intros]:
  "(b \<Longrightarrow> durable_inv P m) \<Longrightarrow> (\<not> b \<Longrightarrow> durable_inv P n) \<Longrightarrow> durable_inv P (if b then m else n)"
  by simp

lemma durable_inv_case_option [durable_intros]:
  "(z = None \<Longrightarrow> durable_inv P m) \<Longrightarrow> (\<And>x. z = Some x \<Longrightarrow> durable_inv P (f x)) \<Longrightarrow>
   durable_inv P (case z of None \<Rightarrow> m | Some x \<Rightarrow> f x)"
  by (cases z) auto

lemma durable_inv_let [durable_intros]:
  "(\<And>x. durable_inv P (f x)) \<Longrightarrow> durable_inv P (let x = a in f x)"
  by simp

lemma durable_inv_each: "(\<And>x. durable_inv P (f x)) \<Longrightarrow> durable_inv P (tx_each f xs)"
  by (induction xs) (auto intro: durable_intros)

lemma durable_inv_io:
  assumes m: "durable_inv P m"
  shows "durable_inv P (io m)"
  unfolding durable_inv_iff
proof (intro allI impI)
  fix c z c' assume io: "io m c = (z, c')" and c: "P (c_durable c)"
  from io obtain fs w c'' where
    "c' = c\<lparr>c_faults := fs, c_aborted := True\<rparr> \<or>
     (m (c\<lparr>c_faults := fs\<rparr>) = (w, c'') \<and> (c' = c'' \<or> c' = c''\<lparr>c_aborted := True\<rparr>))"
    by (rule io_cases)
  with c m show "P (c_durable c')"
    unfolding durable_inv_iff by fastforce
qed

lemma durable_inv_begin [durable_intros]: "durable_inv P (begin_tx r)"
  unfolding begin_tx_def by (rule durable_inv_io) (simp add: durable_inv_def)

lemma durable_inv_stmt [durable_intros]: "durable_inv P (stmt q)"
  unfolding stmt_def by (rule durable_inv_io) (auto simp: durable_inv_def split: res.splits)

lemma durable_inv_auto: "keeps r P q \<Longrightarrow> durable_inv P (auto_stmt r q)"
  unfolding auto_stmt_def
  by (rule durable_inv_io) (auto simp: durable_inv_def split: res.splits dest: keepsD)

end
