(* ===== verification/Database.thy ===== *)
theory Database
  imports Schema
begin

text \<open>
  \<open>crates/server/src/db.rs\<close>: tenant-scoped data access. Every statement the file sends is a
  function \<open>sql_*\<close> on the state of the tables, with the row-level-security policy, the checks and
  the unique and foreign keys that apply to it; every function of the file is a transaction
  fragment of the same name built from them.
\<close>

section \<open>Transactions of one tenant\<close>

definition set_tenant :: "uuid \<Rightarrow> unit tx" where
  "set_tenant a = io (\<lambda>c.
     if c_aborted c then (Err (DbErr InFailedTransaction), c)
     else (Ok (), c\<lparr>c_role := App (Some a)\<rparr>))"

definition tenant_tx :: "uuid \<Rightarrow> unit tx" where
  "tenant_tx account_id = tx_bind (begin_tx (App None)) (\<lambda>_. set_tenant account_id)"

lemma begin_tx_Ok:
  assumes "begin_tx r c = (Ok x, c')"
  shows "c_role c' = r \<and> c_db c' = c_durable c \<and> c_durable c' = c_durable c \<and> \<not> c_aborted c'"
  using assms unfolding begin_tx_def by (elim io_Ok) auto

lemma tenant_tx_Ok:
  assumes "tenant_tx a c = (Ok x, c')"
  shows "c_role c' = App (Some a) \<and> c_db c' = c_durable c \<and> c_durable c' = c_durable c \<and>
    \<not> c_aborted c'"
proof -
  from assms obtain c1 where b: "begin_tx (App None) c = (Ok (), c1)" and "set_tenant a c1 = (Ok x, c')"
    by (auto simp: tenant_tx_def tx_bind_eq)
  from this(2) have "c_role c' = App (Some a) \<and> c_db c' = c_db c1 \<and> c_durable c' = c_durable c1 \<and>
      \<not> c_aborted c'"
    unfolding set_tenant_def by (elim io_Ok) (auto split: if_splits)
  with begin_tx_Ok [OF b] show ?thesis by simp
qed

lemma durable_inv_tenant_tx [durable_intros]: "durable_inv P (tenant_tx a)"
  unfolding tenant_tx_def set_tenant_def
  by (intro durable_intros durable_inv_io) (simp add: durable_inv_def)

text \<open>
  A handler runs inside the tenant's transaction: what every statement of its body keeps, the
  durable state keeps. The three shapes are \<open>?\<close>, \<open>map_err(\<dots>)?\<close> and \<open>if let Ok(\<dots>)\<close>.
\<close>

lemma durable_inv_tenant_handle:
  assumes m: "tx_inv (App (Some a)) P m" and g: "\<And>e. durable_inv P (g e)"
  shows "durable_inv P (tx_handle (tenant_tx a) (\<lambda>_. m) g)"
  unfolding durable_inv_iff
proof (intro allI impI)
  fix c z c' assume run: "tx_handle (tenant_tx a) (\<lambda>_. m) g c = (z, c')" and P: "P (c_durable c)"
  note keep = durable_inv_tenant_tx [of P a, unfolded durable_inv_iff, rule_format, OF _ P]
  from run consider (body) x c1 where "tenant_tx a c = (Ok x, c1)" "m c1 = (z, c')"
    | (stop) e c1 where "tenant_tx a c = (Err e, c1)" "g e c1 = (z, c')"
    | (panic) "tenant_tx a c = (Panic, c')"
    by (auto simp: tx_handle_eq)
  then show "P (c_durable c')"
  proof cases
    case body
    with tenant_tx_Ok [OF body(1)] P m show ?thesis unfolding tx_inv_iff by auto
  next
    case stop
    with keep [OF stop(1)] g show ?thesis unfolding durable_inv_iff by blast
  next
    case panic
    with keep show ?thesis by blast
  qed
qed

lemma durable_inv_tenant_bind:
  "tx_inv (App (Some a)) P m \<Longrightarrow> durable_inv P (tx_bind (tenant_tx a) (\<lambda>_. m))"
  unfolding tx_bind_def by (intro durable_inv_tenant_handle durable_intros)

lemma durable_inv_tenant_map_err:
  "tx_inv (App (Some a)) P m \<Longrightarrow> durable_inv P (tx_bind (tx_map_err h (tenant_tx a)) (\<lambda>_. m))"
  unfolding tx_bind_map_err by (intro durable_inv_tenant_handle durable_intros)

lemma durable_inv_tenant_if_ok:
  "tx_inv (App (Some a)) P m \<Longrightarrow> durable_inv P (tx_if_ok (tenant_tx a) (\<lambda>_. m))"
  unfolding tx_if_ok_def by (intro durable_inv_tenant_handle durable_intros)

lemmas durable_inv_tenant =
  durable_inv_tenant_bind durable_inv_tenant_map_err durable_inv_tenant_if_ok

definition guard :: "db_error \<Rightarrow> bool \<Rightarrow> (db_error, unit) res" where
  "guard e b = (if b then Ok () else Err e)"

definition account_exists :: "uuid \<Rightarrow> db \<Rightarrow> bool" where
  "account_exists a d \<longleftrightarrow> list_ex (\<lambda>x. ac_id x = a) (t_accounts d)"

section \<open>Audit log\<close>

definition sql_insert_risk_event :: "risk_event_row \<Rightarrow> unit sql" where
  "sql_insert_risk_event row r d =
     res_bind (guard RlsViolation (visible r (ev_account_id row))) (\<lambda>_.
     res_bind (guard CheckViolation (ev_event_type row \<in> set risk_event_types)) (\<lambda>_.
     res_bind (guard UniqueViolation (\<not> list_ex (\<lambda>x. ev_id x = ev_id row) (t_risk_events d))) (\<lambda>_.
     res_bind (guard ForeignKeyViolation (account_exists (ev_account_id row) d)) (\<lambda>_.
     Ok ((), d\<lparr>t_risk_events := t_risk_events d @ [row]\<rparr>)))))"

definition insert_risk_event :: "uuid \<Rightarrow> string \<Rightarrow> json \<Rightarrow> unit tx" where
  "insert_risk_event account_id event_type payload =
     tx_bind fresh_id (\<lambda>id.
     tx_bind get_now (\<lambda>now.
     stmt (sql_insert_risk_event
       \<lparr>ev_id = id, ev_account_id = account_id, ev_event_type = event_type,
        ev_payload = payload, ev_created_at = now\<rparr>)))"

section \<open>Accounts, limits, snapshot\<close>

record account_data =
  ad_status :: string
  ad_equity :: rat
  ad_kill_switch_engaged :: bool

definition find_account :: "uuid \<Rightarrow> role \<Rightarrow> db \<Rightarrow> account_row option" where
  "find_account a r d = first_row (\<lambda>x. visible r (ac_id x) \<and> ac_id x = a) (t_accounts d)"

definition lock_account :: "uuid \<Rightarrow> account_data tx" where
  "lock_account account_id =
     tx_bind (stmt (sql_read (find_account account_id))) (\<lambda>row.
     tx_bind (tx_lift (ok_or row NotFound)) (\<lambda>row.
     tx_return \<lparr>ad_status = ac_status row, ad_equity = ac_equity row,
       ad_kill_switch_engaged = (ac_kill_switch_engaged_at row \<noteq> None)\<rparr>))"

definition find_risk_config :: "uuid \<Rightarrow> role \<Rightarrow> db \<Rightarrow> risk_config_row option" where
  "find_risk_config a r d =
     first_row (\<lambda>x. visible r (rc_account_id x) \<and> rc_account_id x = a) (t_risk_configs d)"

definition load_risk_config :: "uuid \<Rightarrow> (risk_config \<times> i32) tx" where
  "load_risk_config account_id =
     tx_bind (stmt (sql_read (find_risk_config account_id))) (\<lambda>row.
     tx_bind (tx_lift (ok_or row NotFound)) (\<lambda>row.
     tx_return (rc_cfg row, rc_version row)))"

text \<open>\<open>row.get("notional")\<close> converts the product computed by the database.\<close>

definition row_to_position :: "dec_ops \<Rightarrow> position_row \<Rightarrow> (api_error, open_position) res" where
  "row_to_position D x =
     res_bind (or_panic (dnumeric D (po_quantity x * po_avg_entry_price x))) (\<lambda>notional.
     Ok \<lparr>op_symbol = po_symbol x, op_side = (if po_side x = ''short'' then Short else Long),
        op_quantity = po_quantity x, op_notional = notional\<rparr>)"

definition open_position_rows :: "uuid \<Rightarrow> role \<Rightarrow> db \<Rightarrow> position_row list" where
  "open_position_rows a r d =
     filter (\<lambda>x. visible r (po_account_id x) \<and> po_account_id x = a \<and> po_status x = ''open'')
       (t_positions d)"

definition group_pairs :: "uuid \<Rightarrow> role \<Rightarrow> db \<Rightarrow> (string \<times> string) list" where
  "group_pairs a r d =
     concat (map (\<lambda>x. map (\<lambda>g. (ga_symbol x, cg_name g))
         (filter (\<lambda>g. visible r (cg_account_id g) \<and> cg_id g = ga_group_id x) (t_correlation_groups d)))
       (filter (\<lambda>x. visible r (ga_account_id x) \<and> ga_account_id x = a) (t_correlation_group_assets d)))"

definition find_daily_pnl :: "uuid \<Rightarrow> nat \<Rightarrow> role \<Rightarrow> db \<Rightarrow> daily_pnl_row option" where
  "find_daily_pnl a day r d =
     first_row (\<lambda>x. visible r (dp_account_id x) \<and> dp_account_id x = a \<and> dp_trading_date x = day)
       (t_daily_pnl d)"

definition load_snapshot :: "dec_ops \<Rightarrow> uuid \<Rightarrow> account_data \<Rightarrow> account_snapshot tx" where
  "load_snapshot D account_id account =
     tx_bind (stmt (sql_read (open_position_rows account_id))) (\<lambda>rows.
     tx_bind (tx_lift (map_res (row_to_position D) rows)) (\<lambda>positions.
     tx_bind (stmt (sql_read (group_pairs account_id))) (\<lambda>pairs.
     tx_bind get_today (\<lambda>today.
     tx_bind (stmt (sql_read (find_daily_pnl account_id today))) (\<lambda>pnl.
     tx_return \<lparr>as_equity = ad_equity account,
       as_today_realized_loss = (case pnl of Some x \<Rightarrow> dp_realized_loss x | None \<Rightarrow> 0),
       as_kill_switch_engaged = ad_kill_switch_engaged account,
       as_circuit_breaker_tripped =
         (case pnl of Some x \<Rightarrow> dp_circuit_breaker_tripped_at x \<noteq> None | None \<Rightarrow> False),
       as_open_positions = positions,
       as_correlation_groups = map_of (rev pairs)\<rparr>)))))"

definition sql_trip_circuit_breaker :: "uuid \<Rightarrow> nat \<Rightarrow> nat \<Rightarrow> unit sql" where
  "sql_trip_circuit_breaker a day now r d =
     res_bind (guard RlsViolation (visible r a)) (\<lambda>_.
     if list_ex (\<lambda>x. dp_account_id x = a \<and> dp_trading_date x = day) (t_daily_pnl d)
     then Ok ((), d\<lparr>t_daily_pnl := update_where
            (\<lambda>x. dp_account_id x = a \<and> dp_trading_date x = day)
            (\<lambda>x. x\<lparr>dp_circuit_breaker_tripped_at :=
               (case dp_circuit_breaker_tripped_at x of None \<Rightarrow> Some now | t \<Rightarrow> t)\<rparr>) (t_daily_pnl d)\<rparr>)
     else
       res_bind (guard ForeignKeyViolation (account_exists a d)) (\<lambda>_.
       Ok ((), d\<lparr>t_daily_pnl := t_daily_pnl d @ [\<lparr>dp_account_id = a, dp_trading_date = day,
            dp_realized_loss = 0, dp_circuit_breaker_tripped_at = Some now\<rparr>]\<rparr>)))"

definition trip_circuit_breaker :: "uuid \<Rightarrow> unit tx" where
  "trip_circuit_breaker account_id =
     tx_bind get_today (\<lambda>today.
     tx_bind get_now (\<lambda>now.
     stmt (sql_trip_circuit_breaker account_id today now)))"

section \<open>Exchange mode\<close>

definition parse_mode :: "string \<Rightarrow> exchange_mode" where
  "parse_mode s = (if s = ''live'' then Live else Paper)"

fun mode_str :: "exchange_mode \<Rightarrow> string" where
  "mode_str Paper = ''paper''"
| "mode_str Live = ''live''"

definition find_exchange_config :: "uuid \<Rightarrow> role \<Rightarrow> db \<Rightarrow> exchange_config_row option" where
  "find_exchange_config a r d =
     first_row (\<lambda>x. visible r (ec_account_id x) \<and> ec_account_id x = a) (t_exchange_configs d)"

definition load_exchange_mode :: "uuid \<Rightarrow> exchange_mode tx" where
  "load_exchange_mode account_id =
     tx_bind (stmt (sql_read (find_exchange_config account_id))) (\<lambda>row.
     tx_return (case row of Some x \<Rightarrow> parse_mode (ec_mode x) | None \<Rightarrow> Paper))"

definition open_orders :: "uuid \<Rightarrow> role \<Rightarrow> db \<Rightarrow> order_row list" where
  "open_orders a r d =
     filter (\<lambda>x. visible r (or_account_id x) \<and> or_account_id x = a \<and>
               or_status x \<notin> {''filled'', ''cancelled'', ''rejected''}) (t_orders d)"

definition open_positions :: "uuid \<Rightarrow> role \<Rightarrow> db \<Rightarrow> position_row list" where
  "open_positions a r d =
     filter (\<lambda>x. visible r (po_account_id x) \<and> po_account_id x = a \<and>
               po_status x = ''open'' \<and> po_quantity x > 0) (t_positions d)"

definition has_open_activity :: "uuid \<Rightarrow> bool tx" where
  "has_open_activity account_id =
     tx_bind (stmt (sql_read (\<lambda>r d. length (open_orders account_id r d)))) (\<lambda>n.
     if n > 0 then tx_return True
     else tx_bind (stmt (sql_read (\<lambda>r d. length (open_positions account_id r d)))) (\<lambda>m.
       tx_return (m > 0)))"

section \<open>Orders\<close>

record order_data =
  od_id :: uuid
  od_client_order_id :: string
  od_symbol :: string
  od_side :: order_side
  od_order_type :: order_type
  od_quantity :: rat
  od_price :: "rat option"
  od_status :: order_status
  od_exchange_mode :: exchange_mode
  od_filled_quantity :: rat

fun side_str :: "order_side \<Rightarrow> string" where
  "side_str Buy = ''buy''"
| "side_str Sell = ''sell''"

definition parse_side :: "string \<Rightarrow> order_side" where
  "parse_side s = (if s = ''sell'' then Sell else Buy)"

fun order_type_str :: "order_type \<Rightarrow> string" where
  "order_type_str Limit = ''limit''"
| "order_type_str Market = ''market''"

definition parse_order_type :: "string \<Rightarrow> order_type" where
  "parse_order_type s = (if s = ''market'' then Market else Limit)"

fun status_str :: "order_status \<Rightarrow> string" where
  "status_str Pending = ''pending''"
| "status_str Submitted = ''submitted''"
| "status_str PartiallyFilled = ''partially_filled''"
| "status_str Filled = ''filled''"
| "status_str CancelRequested = ''cancel_requested''"
| "status_str Cancelled = ''cancelled''"
| "status_str RejectedStatus = ''rejected''"

definition parse_status :: "string \<Rightarrow> order_status" where
  "parse_status s =
     (if s = ''submitted'' then Submitted
      else if s = ''partially_filled'' then PartiallyFilled
      else if s = ''filled'' then Filled
      else if s = ''cancel_requested'' then CancelRequested
      else if s = ''cancelled'' then Cancelled
      else if s = ''rejected'' then RejectedStatus
      else Pending)"

definition row_to_order :: "order_row \<Rightarrow> order_data" where
  "row_to_order x =
     \<lparr>od_id = or_id x, od_client_order_id = or_client_order_id x, od_symbol = or_symbol x,
      od_side = parse_side (or_side x), od_order_type = parse_order_type (or_order_type x),
      od_quantity = or_quantity x, od_price = or_price x, od_status = parse_status (or_status x),
      od_exchange_mode = parse_mode (or_exchange_mode x), od_filled_quantity = or_filled_quantity x\<rparr>"

definition numeric_opt :: "rat option \<Rightarrow> rat option option" where
  "numeric_opt p = (case p of None \<Rightarrow> Some None | Some x \<Rightarrow> map_option Some (numeric_30_10 x))"

definition sql_insert_order :: "order_row \<Rightarrow> unit sql" where
  "sql_insert_order row r d =
     res_bind (ok_or (numeric_30_10 (or_quantity row)) NumericOverflow) (\<lambda>q.
     res_bind (ok_or (numeric_opt (or_price row)) NumericOverflow) (\<lambda>p.
     let row' = row\<lparr>or_quantity := q, or_price := p\<rparr> in
     res_bind (guard RlsViolation (visible r (or_account_id row))) (\<lambda>_.
     res_bind (guard CheckViolation (order_check row')) (\<lambda>_.
     res_bind (guard UniqueViolation (\<not> list_ex (\<lambda>x. or_id x = or_id row \<or>
          (or_account_id x = or_account_id row \<and> or_client_order_id x = or_client_order_id row))
        (t_orders d))) (\<lambda>_.
     res_bind (guard ForeignKeyViolation (account_exists (or_account_id row) d)) (\<lambda>_.
     Ok ((), d\<lparr>t_orders := t_orders d @ [row']\<rparr>)))))))"

definition insert_order ::
    "uuid \<Rightarrow> uuid \<Rightarrow> string \<Rightarrow> string \<Rightarrow> order_side \<Rightarrow> order_type \<Rightarrow> rat \<Rightarrow> rat option \<Rightarrow>
     exchange_mode \<Rightarrow> unit tx" where
  "insert_order order_id account_id client_order_id symbol side otype quantity price mode =
     stmt (sql_insert_order
       \<lparr>or_id = order_id, or_account_id = account_id, or_client_order_id = client_order_id,
        or_symbol = symbol, or_side = side_str side, or_order_type = order_type_str otype,
        or_quantity = quantity, or_price = price, or_status = ''pending'',
        or_exchange_mode = mode_str mode, or_filled_quantity = 0\<rparr>)"

definition find_order :: "uuid \<Rightarrow> uuid \<Rightarrow> role \<Rightarrow> db \<Rightarrow> order_row option" where
  "find_order a oid r d =
     first_row (\<lambda>x. visible r (or_account_id x) \<and> or_id x = oid \<and> or_account_id x = a) (t_orders d)"

definition lock_order :: "uuid \<Rightarrow> uuid \<Rightarrow> order_data tx" where
  "lock_order account_id order_id =
     tx_bind (stmt (sql_read (find_order account_id order_id))) (\<lambda>row.
     tx_bind (tx_lift (ok_or row NotFound)) (\<lambda>row.
     tx_return (row_to_order row)))"

definition sql_update_order_status :: "uuid \<Rightarrow> uuid \<Rightarrow> order_status \<Rightarrow> rat \<Rightarrow> unit sql" where
  "sql_update_order_status a oid status filled r d =
     res_bind (checked_update
        (\<lambda>x. visible r (or_account_id x) \<and> or_id x = oid \<and> or_account_id x = a)
        (\<lambda>x. map_option (\<lambda>q. x\<lparr>or_status := status_str status, or_filled_quantity := q\<rparr>)
               (numeric_30_10 filled)) order_check (t_orders d)) (\<lambda>rows.
     Ok ((), d\<lparr>t_orders := rows\<rparr>))"

definition update_order_status :: "uuid \<Rightarrow> uuid \<Rightarrow> order_status \<Rightarrow> rat \<Rightarrow> unit tx" where
  "update_order_status account_id order_id status filled_quantity =
     stmt (sql_update_order_status account_id order_id status filled_quantity)"

section \<open>Fills\<close>

definition fill_exists :: "uuid \<Rightarrow> string \<Rightarrow> bool tx" where
  "fill_exists account_id trade_id =
     stmt (sql_read (\<lambda>r d. list_ex (\<lambda>x. visible r (fr_account_id x) \<and>
       fr_account_id x = account_id \<and> fr_exchange_trade_id x = trade_id) (t_order_fills d)))"

definition row_to_fill :: "fill_row \<Rightarrow> fill" where
  "row_to_fill x =
     \<lparr>fl_exchange_trade_id = fr_exchange_trade_id x, fl_quantity = fr_quantity x,
      fl_price = fr_price x, fl_fee = fr_fee x, fl_fee_asset = fr_fee_asset x\<rparr>"

definition order_fill_rows :: "uuid \<Rightarrow> uuid \<Rightarrow> role \<Rightarrow> db \<Rightarrow> fill_row list" where
  "order_fill_rows a oid r d =
     filter (\<lambda>x. visible r (fr_account_id x) \<and> fr_account_id x = a \<and> fr_order_id x = oid)
       (t_order_fills d)"

definition load_fills_for_order :: "uuid \<Rightarrow> uuid \<Rightarrow> fill list tx" where
  "load_fills_for_order account_id order_id =
     tx_bind (stmt (sql_read (order_fill_rows account_id order_id))) (\<lambda>rows.
     tx_return (map row_to_fill rows))"

definition sql_insert_fill :: "uuid \<Rightarrow> uuid \<Rightarrow> fill \<Rightarrow> nat sql" where
  "sql_insert_fill a oid f r d =
     res_bind (ok_or (numeric_30_10 (fl_quantity f)) NumericOverflow) (\<lambda>q.
     res_bind (ok_or (numeric_30_10 (fl_price f)) NumericOverflow) (\<lambda>p.
     res_bind (ok_or (numeric_30_10 (fl_fee f)) NumericOverflow) (\<lambda>fee.
     let row = \<lparr>fr_account_id = a, fr_order_id = oid,
        fr_exchange_trade_id = fl_exchange_trade_id f, fr_quantity = q, fr_price = p,
        fr_fee = fee, fr_fee_asset = fl_fee_asset f\<rparr> in
     res_bind (guard RlsViolation (visible r a)) (\<lambda>_.
     res_bind (guard CheckViolation (fill_check row)) (\<lambda>_.
     if list_ex (\<lambda>x. fr_account_id x = a \<and> fr_exchange_trade_id x = fl_exchange_trade_id f)
          (t_order_fills d)
     then Ok (0, d)
     else
       res_bind (guard ForeignKeyViolation
          (account_exists a d \<and> list_ex (\<lambda>x. or_id x = oid) (t_orders d))) (\<lambda>_.
       Ok (1, d\<lparr>t_order_fills := t_order_fills d @ [row]\<rparr>)))))))"

definition insert_fill :: "uuid \<Rightarrow> uuid \<Rightarrow> fill \<Rightarrow> bool tx" where
  "insert_fill account_id order_id f =
     tx_bind (stmt (sql_insert_fill account_id order_id f)) (\<lambda>rows_affected.
     tx_return (rows_affected > 0))"

section \<open>The outbox of exchange commands\<close>

definition sql_insert_exchange_command :: "command_row \<Rightarrow> unit sql" where
  "sql_insert_exchange_command row r d =
     res_bind (guard RlsViolation (visible r (cm_account_id row))) (\<lambda>_.
     res_bind (guard CheckViolation (command_check row)) (\<lambda>_.
     if list_ex (\<lambda>x. cm_account_id x = cm_account_id row \<and>
                    cm_idempotency_key x = cm_idempotency_key row) (t_exchange_commands d)
     then Ok ((), d)
     else
       res_bind (guard UniqueViolation
         (\<not> list_ex (\<lambda>x. cm_id x = cm_id row) (t_exchange_commands d))) (\<lambda>_.
       res_bind (guard ForeignKeyViolation (account_exists (cm_account_id row) d)) (\<lambda>_.
       Ok ((), d\<lparr>t_exchange_commands := t_exchange_commands d @ [row]\<rparr>)))))"

definition insert_exchange_command ::
    "uuid \<Rightarrow> string \<Rightarrow> exchange_mode \<Rightarrow> string \<Rightarrow> json \<Rightarrow> unit tx" where
  "insert_exchange_command account_id command_type mode idempotency_key payload =
     tx_bind fresh_id (\<lambda>cid.
     tx_bind get_now (\<lambda>now.
     stmt (sql_insert_exchange_command
       \<lparr>cm_id = cid, cm_account_id = account_id, cm_command_type = command_type,
        cm_exchange_mode = mode_str mode, cm_status = ''pending'',
        cm_idempotency_key = idempotency_key, cm_payload = payload, cm_attempts = 0,
        cm_leased_until = None, cm_created_at = now\<rparr>)))"

record claimed_command =
  cc_id :: uuid
  cc_account_id :: uuid
  cc_command_type :: string
  cc_exchange_mode :: exchange_mode
  cc_payload :: json

definition row_to_claimed :: "command_row \<Rightarrow> claimed_command" where
  "row_to_claimed x =
     \<lparr>cc_id = cm_id x, cc_account_id = cm_account_id x, cc_command_type = cm_command_type x,
      cc_exchange_mode = parse_mode (cm_exchange_mode x), cc_payload = cm_payload x\<rparr>"

text \<open>Pending, or leased with an expired lease.\<close>

definition claimable :: "nat \<Rightarrow> command_row \<Rightarrow> bool" where
  "claimable now x \<longleftrightarrow>
     cm_status x = ''pending'' \<or>
     (cm_status x = ''leased'' \<and>
       (case cm_leased_until x of Some t \<Rightarrow> t < now | None \<Rightarrow> False))"

definition claim_ids :: "nat \<Rightarrow> nat \<Rightarrow> command_row list \<Rightarrow> uuid list" where
  "claim_ids now limit rows = map cm_id (take limit (sort_key cm_created_at (filter (claimable now) rows)))"

text \<open>Durations are in the unit of the clock. The rows come back in table order.\<close>

definition sql_claim_pending_commands ::
    "nat \<Rightarrow> nat \<Rightarrow> nat \<Rightarrow> command_row list sql" where
  "sql_claim_pending_commands now limit lease_seconds r d =
     (let rows = filter (\<lambda>x. visible r (cm_account_id x)) (t_exchange_commands d);
          ids = claim_ids now limit rows;
          chosen = (\<lambda>x. visible r (cm_account_id x) \<and> cm_id x \<in> set ids);
          lease = (\<lambda>x. x\<lparr>cm_status := ''leased'', cm_leased_until := Some (now + lease_seconds)\<rparr>)
      in Ok (map lease (filter chosen (t_exchange_commands d)),
             d\<lparr>t_exchange_commands := update_where chosen lease (t_exchange_commands d)\<rparr>))"

definition claim_pending_commands :: "nat \<Rightarrow> nat \<Rightarrow> claimed_command list tx" where
  "claim_pending_commands limit lease_seconds =
     tx_bind get_now (\<lambda>now.
     tx_bind (auto_stmt Owner (sql_claim_pending_commands now limit lease_seconds)) (\<lambda>rows.
     tx_return (map row_to_claimed rows)))"

definition sql_set_command_status :: "string \<Rightarrow> uuid \<Rightarrow> unit sql" where
  "sql_set_command_status status cid r d =
     Ok ((), d\<lparr>t_exchange_commands := update_where
          (\<lambda>x. visible r (cm_account_id x) \<and> cm_id x = cid)
          (\<lambda>x. x\<lparr>cm_status := status\<rparr>) (t_exchange_commands d)\<rparr>)"

definition mark_command_delivered :: "uuid \<Rightarrow> unit tx" where
  "mark_command_delivered cid = auto_stmt Owner (sql_set_command_status ''delivered'' cid)"

definition mark_command_permanently_rejected :: "uuid \<Rightarrow> unit tx" where
  "mark_command_permanently_rejected cid =
     auto_stmt Owner (sql_set_command_status ''permanently_rejected'' cid)"

text \<open>\<open>attempts + 1\<close> on \<open>integer\<close> is an error where it overflows.\<close>

definition sql_requeue_command :: "uuid \<Rightarrow> unit sql" where
  "sql_requeue_command cid r d =
     res_bind (checked_update (\<lambda>x. visible r (cm_account_id x) \<and> cm_id x = cid)
        (\<lambda>x. if sint (cm_attempts x) < 2 ^ 31 - 1
              then Some (x\<lparr>cm_status := ''pending'', cm_leased_until := None,
                          cm_attempts := cm_attempts x + 1\<rparr>)
              else None) command_check (t_exchange_commands d)) (\<lambda>rows.
     Ok ((), d\<lparr>t_exchange_commands := rows\<rparr>))"

definition requeue_command :: "uuid \<Rightarrow> unit tx" where
  "requeue_command cid = auto_stmt Owner (sql_requeue_command cid)"

definition mark_command_reconciliation_required :: "uuid \<Rightarrow> unit tx" where
  "mark_command_reconciliation_required cid =
     auto_stmt Owner (sql_set_command_status ''reconciliation_required'' cid)"

section \<open>Positions\<close>

definition find_open_position :: "uuid \<Rightarrow> string \<Rightarrow> role \<Rightarrow> db \<Rightarrow> position_row option" where
  "find_open_position a symbol r d =
     first_row (\<lambda>x. visible r (po_account_id x) \<and> po_account_id x = a \<and> po_symbol x = symbol \<and>
       po_status x = ''open'') (t_positions d)"

definition sql_insert_position :: "position_row \<Rightarrow> unit sql" where
  "sql_insert_position row r d =
     res_bind (ok_or (numeric_30_10 (po_quantity row)) NumericOverflow) (\<lambda>q.
     res_bind (ok_or (numeric_30_10 (po_avg_entry_price row)) NumericOverflow) (\<lambda>p.
     let row' = row\<lparr>po_quantity := q, po_avg_entry_price := p\<rparr> in
     res_bind (guard RlsViolation (visible r (po_account_id row))) (\<lambda>_.
     res_bind (guard CheckViolation (position_check row')) (\<lambda>_.
     res_bind (guard UniqueViolation (\<not> list_ex (\<lambda>x. po_id x = po_id row \<or>
          (po_account_id x = po_account_id row \<and> po_symbol x = po_symbol row \<and>
           po_status x = ''open'' \<and> po_status row = ''open'')) (t_positions d))) (\<lambda>_.
     res_bind (guard ForeignKeyViolation (account_exists (po_account_id row) d)) (\<lambda>_.
     Ok ((), d\<lparr>t_positions := t_positions d @ [row']\<rparr>)))))))"

definition sql_close_position :: "uuid \<Rightarrow> nat \<Rightarrow> unit sql" where
  "sql_close_position pid now r d =
     res_bind (checked_update (\<lambda>x. visible r (po_account_id x) \<and> po_id x = pid)
        (\<lambda>x. Some (x\<lparr>po_status := ''closed'', po_quantity := 0, po_closed_at := Some now\<rparr>))
        position_check (t_positions d)) (\<lambda>rows.
     Ok ((), d\<lparr>t_positions := rows\<rparr>))"

definition sql_update_position :: "uuid \<Rightarrow> string \<Rightarrow> rat \<Rightarrow> rat \<Rightarrow> unit sql" where
  "sql_update_position pid side qty price r d =
     res_bind (checked_update (\<lambda>x. visible r (po_account_id x) \<and> po_id x = pid)
        (\<lambda>x. case (numeric_30_10 qty, numeric_30_10 price) of
            (Some q, Some p) \<Rightarrow> Some (x\<lparr>po_side := side, po_quantity := q, po_avg_entry_price := p\<rparr>)
          | _ \<Rightarrow> None)
        position_check (t_positions d)) (\<lambda>rows.
     Ok ((), d\<lparr>t_positions := rows\<rparr>))"

text \<open>The arithmetic between the two statements: what becomes of the open position.\<close>

datatype position_outcome = ClosePosition | SetPosition string rat rat

definition position_change ::
    "dec_ops \<Rightarrow> position_row \<Rightarrow> rat \<Rightarrow> rat \<Rightarrow> position_outcome option" where
  "position_change D row quantity_delta fill_price = do {
     let signed_current = (if po_side row = ''short'' then - po_quantity row else po_quantity row);
     new_signed \<leftarrow> dadd D signed_current quantity_delta;
     if new_signed = 0 then Some ClosePosition
     else
       let new_side = (if new_signed > 0 then ''long'' else ''short'');
           new_qty = \<bar>new_signed\<bar>;
           same_direction = ((po_side row = ''long'') = (new_signed > 0));
           avg_price = (if same_direction then po_avg_entry_price row else fill_price)
       in Some (SetPosition new_side new_qty avg_price) }"

definition apply_position_delta ::
    "dec_ops \<Rightarrow> uuid \<Rightarrow> string \<Rightarrow> rat \<Rightarrow> rat \<Rightarrow> unit tx" where
  "apply_position_delta D account_id symbol quantity_delta fill_price =
     (if quantity_delta = 0 then tx_return ()
      else
        tx_bind (stmt (sql_read (find_open_position account_id symbol))) (\<lambda>existing.
        case existing of
          None \<Rightarrow>
            tx_bind fresh_id (\<lambda>pid.
            stmt (sql_insert_position
              \<lparr>po_id = pid, po_account_id = account_id, po_symbol = symbol,
               po_side = (if quantity_delta > 0 then ''long'' else ''short''),
               po_quantity = \<bar>quantity_delta\<bar>, po_avg_entry_price = fill_price,
               po_status = ''open'', po_closed_at = None\<rparr>))
        | Some row \<Rightarrow>
            tx_bind (tx_lift (or_panic (position_change D row quantity_delta fill_price))) (\<lambda>change.
            case change of
              ClosePosition \<Rightarrow>
                tx_bind get_now (\<lambda>now. stmt (sql_close_position (po_id row) now))
            | SetPosition new_side new_qty avg_price \<Rightarrow>
                stmt (sql_update_position (po_id row) new_side new_qty avg_price))))"

end
