(* ===== verification/Tx_Logic.thy ===== *)
theory Tx_Logic
  imports Database
begin

text \<open>
  A Hoare logic for transaction fragments. \<open>tx_spec r I P m Q E\<close>: run under role \<open>r\<close>, with the
  invariant \<open>I\<close> on the durable state and \<open>P\<close> on the working state of a transaction that is not
  aborted, \<open>m\<close> keeps \<open>I\<close>, ends in \<open>Q\<close> if it returns a value and in \<open>E\<close> if it returns an error.
  A commit needs the working state to satisfy \<open>I\<close>.
\<close>

definition tx_spec ::
    "role \<Rightarrow> (db \<Rightarrow> bool) \<Rightarrow> (db \<Rightarrow> bool) \<Rightarrow> ('e, 'a) tx_res \<Rightarrow> ('a \<Rightarrow> db \<Rightarrow> bool) \<Rightarrow> (db \<Rightarrow> bool) \<Rightarrow> bool"
where
  "tx_spec r I P m Q E \<longleftrightarrow>
     (\<forall>c z c'. m c = (z, c') \<longrightarrow> c_role c = r \<longrightarrow> I (c_durable c) \<longrightarrow>
        (\<not> c_aborted c \<longrightarrow> P (c_db c)) \<longrightarrow>
        c_role c' = r \<and> I (c_durable c') \<and>
        (\<forall>x. z = Ok x \<longrightarrow> \<not> c_aborted c' \<longrightarrow> Q x (c_db c')) \<and>
        (\<forall>e. z = Err e \<longrightarrow> \<not> c_aborted c' \<longrightarrow> E (c_db c')))"

lemma specD:
  assumes "tx_spec r I P m Q E" "m c = (z, c')" "c_role c = r" "I (c_durable c)"
    "\<not> c_aborted c \<longrightarrow> P (c_db c)"
  shows "c_role c' = r" "I (c_durable c')" "z = Ok x \<Longrightarrow> \<not> c_aborted c' \<longrightarrow> Q x (c_db c')"
    "z = Err e \<Longrightarrow> \<not> c_aborted c' \<longrightarrow> E (c_db c')"
  using assms unfolding tx_spec_def by blast+

lemma specI:
  assumes "\<And>c z c'. m c = (z, c') \<Longrightarrow> c_role c = r \<Longrightarrow> I (c_durable c) \<Longrightarrow>
      \<not> c_aborted c \<longrightarrow> P (c_db c) \<Longrightarrow>
      c_role c' = r \<and> I (c_durable c') \<and>
      (\<forall>x. z = Ok x \<longrightarrow> \<not> c_aborted c' \<longrightarrow> Q x (c_db c')) \<and>
      (\<forall>e. z = Err e \<longrightarrow> \<not> c_aborted c' \<longrightarrow> E (c_db c'))"
  shows "tx_spec r I P m Q E"
  using assms unfolding tx_spec_def by blast

lemma spec_conseq:
  assumes m: "tx_spec r I P' m Q' E'"
    and imp: "\<And>d. P d \<Longrightarrow> P' d" "\<And>x d. Q' x d \<Longrightarrow> Q x d" "\<And>d. E' d \<Longrightarrow> E d"
  shows "tx_spec r I P m Q E"
proof (rule specI)
  fix c z c'
  assume c: "m c = (z, c')" "c_role c = r" "I (c_durable c)" and "\<not> c_aborted c \<longrightarrow> P (c_db c)"
  then have "\<not> c_aborted c \<longrightarrow> P' (c_db c)" using imp(1) by blast
  from specD [OF m c this] imp(2,3) show "c_role c' = r \<and> I (c_durable c') \<and>
      (\<forall>x. z = Ok x \<longrightarrow> \<not> c_aborted c' \<longrightarrow> Q x (c_db c')) \<and>
      (\<forall>e. z = Err e \<longrightarrow> \<not> c_aborted c' \<longrightarrow> E (c_db c'))"
    by blast
qed

lemma spec_return: "(\<And>d. P d \<Longrightarrow> Q x d) \<Longrightarrow> tx_spec r I P (tx_return x) Q E"
  by (simp add: tx_spec_def tx_return_def)

lemma spec_fail: "(\<And>d. P d \<Longrightarrow> E d) \<Longrightarrow> tx_spec r I P (tx_fail e) Q E"
  by (simp add: tx_spec_def tx_fail_def)

lemma spec_lift:
  "(\<And>x d. v = Ok x \<Longrightarrow> P d \<Longrightarrow> Q x d) \<Longrightarrow> (\<And>e d. v = Err e \<Longrightarrow> P d \<Longrightarrow> E d) \<Longrightarrow>
   tx_spec r I P (tx_lift v) Q E"
  by (simp add: tx_spec_def tx_lift_def)

lemma spec_handle:
  assumes m: "tx_spec r I P m R F" and f: "\<And>x. tx_spec r I (R x) (f x) Q E"
    and g: "\<And>e. tx_spec r I F (g e) Q E"
  shows "tx_spec r I P (tx_handle m f g) Q E"
proof (rule specI)
  fix c z c'
  assume run: "tx_handle m f g c = (z, c')" and c: "c_role c = r" "I (c_durable c)"
    "\<not> c_aborted c \<longrightarrow> P (c_db c)"
  from run consider (ok) x c1 where "m c = (Ok x, c1)" "f x c1 = (z, c')"
    | (err) e c1 where "m c = (Err e, c1)" "g e c1 = (z, c')"
    | (panic) "m c = (Panic, c')" "z = Panic"
    by (auto simp: tx_handle_eq)
  then show "c_role c' = r \<and> I (c_durable c') \<and>
      (\<forall>x. z = Ok x \<longrightarrow> \<not> c_aborted c' \<longrightarrow> Q x (c_db c')) \<and>
      (\<forall>e. z = Err e \<longrightarrow> \<not> c_aborted c' \<longrightarrow> E (c_db c'))"
  proof cases
    case ok
    note c1 = specD [OF m ok(1) c]
    from specD [OF f ok(2) c1(1,2) c1(3) [OF refl]] show ?thesis by blast
  next
    case err
    note c1 = specD [OF m err(1) c]
    from specD [OF g err(2) c1(1,2) c1(4) [OF refl]] show ?thesis by blast
  next
    case panic
    from specD [OF m panic(1) c] panic(2) show ?thesis by blast
  qed
qed

lemma spec_bind:
  "tx_spec r I P m R E \<Longrightarrow> (\<And>x. tx_spec r I (R x) (f x) Q E) \<Longrightarrow> tx_spec r I P (tx_bind m f) Q E"
  unfolding tx_bind_def by (intro spec_handle spec_fail)

lemma spec_map_err: "tx_spec r I P m Q E \<Longrightarrow> tx_spec r I P (tx_map_err h m) Q E"
  unfolding tx_map_err_def by (rule spec_handle [of _ _ _ _ Q E]) (auto intro: spec_return spec_fail)

lemma spec_ignore: "tx_spec r I P m (\<lambda>_. R) R \<Longrightarrow> tx_spec r I P (tx_ignore m) (\<lambda>_. R) E"
  unfolding tx_ignore_def by (rule spec_handle [of _ _ _ _ "\<lambda>_. R" R]) (auto intro: spec_return)

lemma spec_if_ok:
  "tx_spec r I P m R F \<Longrightarrow> (\<And>x. tx_spec r I (R x) (f x) Q E) \<Longrightarrow> (\<And>d. F d \<Longrightarrow> Q () d) \<Longrightarrow>
   tx_spec r I P (tx_if_ok m f) Q E"
  unfolding tx_if_ok_def by (rule spec_handle [of _ _ _ _ R F]) (auto intro: spec_return)

lemma spec_each:
  assumes "\<And>x. x \<in> set xs \<Longrightarrow> tx_spec r I P (f x) (\<lambda>_. P) E"
  shows "tx_spec r I P (tx_each f xs) (\<lambda>_. P) E"
  using assms
proof (induction xs)
  case Nil
  then show ?case by (simp add: spec_return)
next
  case (Cons x xs)
  then show ?case by (auto intro!: spec_bind [where R = "\<lambda>_. P"])
qed

lemma spec_io:
  assumes "\<And>c z c'. m c = (z, c') \<Longrightarrow> c_role c = r \<Longrightarrow> I (c_durable c) \<Longrightarrow>
      (\<not> c_aborted c \<longrightarrow> P (c_db c)) \<Longrightarrow>
      c_role c' = r \<and> I (c_durable c') \<and> (\<forall>x. z = Ok x \<longrightarrow> \<not> c_aborted c' \<longrightarrow> Q x (c_db c')) \<and>
      (\<forall>e. z = Err e \<longrightarrow> c_aborted c')"
  shows "tx_spec r I P (io m) Q E"
proof (rule specI)
  fix c z c'
  assume run: "io m c = (z, c')" and c: "c_role c = r" "I (c_durable c)"
    "\<not> c_aborted c \<longrightarrow> P (c_db c)"
  have m: "c_role c2 = r \<and> I (c_durable c2) \<and> (\<forall>x. w = Ok x \<longrightarrow> \<not> c_aborted c2 \<longrightarrow> Q x (c_db c2)) \<and>
      (\<forall>e. w = Err e \<longrightarrow> c_aborted c2)" if "m (c\<lparr>c_faults := fs\<rparr>) = (w, c2)" for fs w c2
    using assms [OF that] c by simp
  show "c_role c' = r \<and> I (c_durable c') \<and>
      (\<forall>x. z = Ok x \<longrightarrow> \<not> c_aborted c' \<longrightarrow> Q x (c_db c')) \<and>
      (\<forall>e. z = Err e \<longrightarrow> \<not> c_aborted c' \<longrightarrow> E (c_db c'))"
  proof (cases "c_faults c")
    case Nil
    then have same: "c\<lparr>c_faults := []\<rparr> = c" by (cases c) simp
    from run Nil have "m c = (z, c')" by (simp add: io_def)
    then have "m (c\<lparr>c_faults := []\<rparr>) = (z, c')" by (simp only: same)
    from m [OF this] show ?thesis by blast
  next
    case (Cons f fs)
    show ?thesis
    proof (cases f)
      case Fine
      with run Cons have "m (c\<lparr>c_faults := fs\<rparr>) = (z, c')" by (simp add: io_def)
      from m [OF this] show ?thesis by blast
    next
      case Lost
      with run Cons c show ?thesis by (auto simp: io_def)
    next
      case LostReply
      obtain w c2 where w: "m (c\<lparr>c_faults := fs\<rparr>) = (w, c2)" by fastforce
      from m [OF this] w run Cons LostReply show ?thesis
        by (cases w) (auto simp: io_def)
    qed
  qed
qed

lemma spec_stmt:
  assumes "\<And>d x d'. P d \<Longrightarrow> q r d = Ok (x, d') \<Longrightarrow> Q x d'"
  shows "tx_spec r I P (stmt q) Q E"
  unfolding stmt_def
  by (rule spec_io) (auto simp: assms split: if_splits res.splits)

lemma spec_read: "(\<And>d. P d \<Longrightarrow> Q (f r d) d) \<Longrightarrow> tx_spec r I P (stmt (sql_read f)) Q E"
  by (rule spec_stmt) (auto simp: sql_read_def)

lemma spec_commit: "(\<And>d. P d \<Longrightarrow> I d) \<Longrightarrow> tx_spec r I P commit_tx (\<lambda>_. P) E"
  unfolding commit_tx_def by (rule spec_io) (auto split: if_splits)

lemma spec_fresh: "(\<And>x d. P d \<Longrightarrow> Q x d) \<Longrightarrow> tx_spec r I P fresh_id Q E"
  by (simp add: tx_spec_def fresh_id_def)

lemma spec_clock:
  "(\<And>x d. P d \<Longrightarrow> Q x d) \<Longrightarrow> tx_spec r I P get_now Q E"
  "(\<And>x d. P d \<Longrightarrow> Q x d) \<Longrightarrow> tx_spec r I P get_today Q E"
  by (simp_all add: tx_spec_def get_now_def get_today_def)

lemma spec_if:
  "(b \<Longrightarrow> tx_spec r I P m Q E) \<Longrightarrow> (\<not> b \<Longrightarrow> tx_spec r I P n Q E) \<Longrightarrow>
   tx_spec r I P (if b then m else n) Q E"
  by simp

text \<open>
  In an aborted transaction nothing happens any more: a fragment that meets a specification from
  no state at all is one that keeps its hands off the durable state there.
\<close>

abbreviation tx_safe :: "role \<Rightarrow> (db \<Rightarrow> bool) \<Rightarrow> ('e, 'a) tx_res \<Rightarrow> bool" where
  "tx_safe r I m \<equiv> tx_spec r I (\<lambda>_. False) m (\<lambda>_ _. False) (\<lambda>_. False)"

lemma spec_from_False: "tx_safe r I m \<Longrightarrow> tx_spec r I (\<lambda>_. False) m Q E"
  by (erule spec_conseq) auto

named_theorems safe_intros \<open>fragments that are safe in an aborted transaction\<close>

lemma safe_basic [safe_intros]:
  "tx_safe r I (tx_return x)" "tx_safe r I (tx_fail e)" "tx_safe r I (tx_lift v)"
  "tx_safe r I (stmt q)" "tx_safe r I fresh_id" "tx_safe r I get_now" "tx_safe r I get_today"
  by (auto intro: spec_return spec_fail spec_lift spec_stmt spec_fresh spec_clock)

lemma safe_commit [safe_intros]: "tx_safe r I commit_tx"
  by (rule spec_conseq [OF spec_commit [of "\<lambda>_. False"]]) auto

lemma safe_bind [safe_intros]:
  "tx_safe r I m \<Longrightarrow> (\<And>x. tx_safe r I (f x)) \<Longrightarrow> tx_safe r I (tx_bind m f)"
  by (rule spec_bind)

lemma safe_map_err [safe_intros]: "tx_safe r I m \<Longrightarrow> tx_safe r I (tx_map_err h m)"
  by (rule spec_map_err)

lemma safe_ignore [safe_intros]: "tx_safe r I m \<Longrightarrow> tx_safe r I (tx_ignore m)"
  by (rule spec_ignore)

lemma safe_if_ok [safe_intros]:
  "tx_safe r I m \<Longrightarrow> (\<And>x. tx_safe r I (f x)) \<Longrightarrow> tx_safe r I (tx_if_ok m f)"
  by (rule spec_if_ok)

lemma safe_each [safe_intros]: "(\<And>x. tx_safe r I (f x)) \<Longrightarrow> tx_safe r I (tx_each f xs)"
  by (rule spec_each)

lemma safe_if [safe_intros]:
  "(b \<Longrightarrow> tx_safe r I m) \<Longrightarrow> (\<not> b \<Longrightarrow> tx_safe r I n) \<Longrightarrow> tx_safe r I (if b then m else n)"
  by simp

lemma safe_case_option [safe_intros]:
  "(z = None \<Longrightarrow> tx_safe r I m) \<Longrightarrow> (\<And>x. z = Some x \<Longrightarrow> tx_safe r I (f x)) \<Longrightarrow>
   tx_safe r I (case z of None \<Rightarrow> m | Some x \<Rightarrow> f x)"
  by (cases z) auto

lemma safe_case_prod [safe_intros]:
  "(\<And>x y. tx_safe r I (f x y)) \<Longrightarrow> tx_safe r I (case z of (x, y) \<Rightarrow> f x y)"
  by (cases z) auto

lemma safe_case_change [safe_intros]:
  "(z = ClosePosition \<Longrightarrow> tx_safe r I m) \<Longrightarrow> (\<And>sd q p. z = SetPosition sd q p \<Longrightarrow> tx_safe r I (f sd q p)) \<Longrightarrow>
   tx_safe r I (case z of ClosePosition \<Rightarrow> m | SetPosition sd q p \<Rightarrow> f sd q p)"
  by (cases z) auto

lemma safe_let [safe_intros]: "(\<And>x. tx_safe r I (f x)) \<Longrightarrow> tx_safe r I (let x = a in f x)"
  by simp

text \<open>So a specification may be proved state by state.\<close>

lemma spec_point:
  assumes "\<And>d1. P d1 \<Longrightarrow> tx_spec r I (\<lambda>d. d = d1) m Q E" and safe: "tx_safe r I m"
  shows "tx_spec r I P m Q E"
proof (rule specI)
  fix c z c'
  assume c: "m c = (z, c')" "c_role c = r" "I (c_durable c)" and P: "\<not> c_aborted c \<longrightarrow> P (c_db c)"
  show "c_role c' = r \<and> I (c_durable c') \<and>
      (\<forall>x. z = Ok x \<longrightarrow> \<not> c_aborted c' \<longrightarrow> Q x (c_db c')) \<and>
      (\<forall>e. z = Err e \<longrightarrow> \<not> c_aborted c' \<longrightarrow> E (c_db c'))"
  proof (cases "c_aborted c")
    case True
    from specD [OF safe c] True show ?thesis by blast
  next
    case False
    with P have "P (c_db c)" by blast
    from specD [OF assms(1) [OF this] c] show ?thesis by blast
  qed
qed

lemma spec_bind_point:
  assumes "tx_spec r I P m R E" "\<And>x d1. R x d1 \<Longrightarrow> tx_spec r I (\<lambda>d. d = d1) (f x) Q E"
    "\<And>x. tx_safe r I (f x)"
  shows "tx_spec r I P (tx_bind m f) Q E"
proof (rule spec_bind [OF assms(1)])
  show "tx_spec r I (R x) (f x) Q E" for x
    by (rule spec_point) (fact assms(2) assms(3))+
qed

section \<open>Handlers\<close>

text \<open>
  What a handler may make of the durable state: nothing, or the effect \<open>R\<close> its transaction has on
  the state it started from.
\<close>

lemma tenant_handle_effect:
  assumes "\<And>d0. tx_spec (App (Some a)) (\<lambda>d. d = d0 \<or> R d0 d) (\<lambda>d. d = d0) m Q E"
    and run: "tx_handle (tenant_tx a) (\<lambda>_. m) g c = (z, c')"
    and g: "\<And>e c1. c_durable (snd (g e c1)) = c_durable c1"
  shows "c_durable c' = c_durable c \<or> R (c_durable c) (c_durable c')"
proof -
  note keep = durable_inv_tenant_tx [of "\<lambda>d. d = c_durable c" a, unfolded durable_inv_iff, rule_format, OF _ refl]
  from run consider (ok) x c1 where "tenant_tx a c = (Ok x, c1)" "m c1 = (z, c')"
    | (err) e c1 where "tenant_tx a c = (Err e, c1)" "g e c1 = (z, c')"
    | (panic) "tenant_tx a c = (Panic, c')"
    by (auto simp: tx_handle_eq)
  then show ?thesis
  proof cases
    case ok
    note t = tenant_tx_Ok [OF ok(1)]
    from specD(2) [OF assms(1) [of "c_durable c"] ok(2)] t show ?thesis by simp
  next
    case err
    with keep [OF err(1)] g [of e c1] show ?thesis by simp
  next
    case panic
    with keep show ?thesis by simp
  qed
qed

lemma tenant_bind_effect:
  assumes "\<And>d0. tx_spec (App (Some a)) (\<lambda>d. d = d0 \<or> R d0 d) (\<lambda>d. d = d0) m Q E"
    and "tx_bind (tenant_tx a) (\<lambda>_. m) c = (z, c')"
  shows "c_durable c' = c_durable c \<or> R (c_durable c) (c_durable c')"
  using assms unfolding tx_bind_def by (rule tenant_handle_effect) (simp add: tx_fail_def)

lemma tenant_map_err_effect:
  assumes "\<And>d0. tx_spec (App (Some a)) (\<lambda>d. d = d0 \<or> R d0 d) (\<lambda>d. d = d0) m Q E"
    and "tx_bind (tx_map_err h (tenant_tx a)) (\<lambda>_. m) c = (z, c')"
  shows "c_durable c' = c_durable c \<or> R (c_durable c) (c_durable c')"
  using assms unfolding tx_bind_map_err by (rule tenant_handle_effect) (simp add: tx_fail_def)

lemma tenant_if_ok_effect:
  assumes "\<And>d0. tx_spec (App (Some a)) (\<lambda>d. d = d0 \<or> R d0 d) (\<lambda>d. d = d0) m Q E"
    and "tx_if_ok (tenant_tx a) (\<lambda>_. m) c = (z, c')"
  shows "c_durable c' = c_durable c \<or> R (c_durable c) (c_durable c')"
  using assms unfolding tx_if_ok_def by (rule tenant_handle_effect) (simp add: tx_return_def)

section \<open>What a successful run did\<close>

text \<open>The parts of a session that no statement changes.\<close>

definition same_session :: "conn \<Rightarrow> conn \<Rightarrow> bool" where
  "same_session c c' \<longleftrightarrow> c_role c' = c_role c \<and> c_now c' = c_now c \<and> c_today c' = c_today c \<and>
     c_ids c' = c_ids c"

named_theorems tx_ok \<open>inversion of successful transaction fragments\<close>

lemma bind_Ok [tx_ok]:
  "tx_bind m f c = (Ok y, c') \<longleftrightarrow> (\<exists>x c1. m c = (Ok x, c1) \<and> f x c1 = (Ok y, c'))"
  by (auto simp: tx_bind_eq)

lemma return_Ok [tx_ok]: "tx_return x c = (Ok y, c') \<longleftrightarrow> y = x \<and> c' = c"
  by (auto simp: tx_return_def)

lemma fail_Ok [tx_ok]: "tx_fail e c \<noteq> (Ok y, c')"
  by (simp add: tx_fail_def)

lemma lift_Ok [tx_ok]: "tx_lift v c = (Ok y, c') \<longleftrightarrow> v = Ok y \<and> c' = c"
  by (auto simp: tx_lift_def)

lemma clock_Ok [tx_ok]:
  "get_now c = (Ok n, c') \<longleftrightarrow> n = c_now c \<and> c' = c"
  "get_today c = (Ok n, c') \<longleftrightarrow> n = c_today c \<and> c' = c"
  by (auto simp: get_now_def get_today_def)

lemma stmt_Ok:
  assumes "stmt q c = (Ok x, c')"
  shows "q (c_role c) (c_db c) = Ok (x, c_db c') \<and> \<not> c_aborted c \<and> \<not> c_aborted c' \<and>
    c_durable c' = c_durable c \<and> same_session c c' \<and> c_next c' = c_next c"
  using assms unfolding stmt_def
  by (elim io_Ok) (auto simp: same_session_def split: if_splits res.splits)

lemma read_Ok:
  assumes "stmt (sql_read f) c = (Ok x, c')"
  shows "x = f (c_role c) (c_db c) \<and> c_db c' = c_db c \<and> \<not> c_aborted c \<and> \<not> c_aborted c' \<and>
    c_durable c' = c_durable c \<and> same_session c c' \<and> c_next c' = c_next c"
  using stmt_Ok [OF assms] by (auto simp: sql_read_def)

lemma commit_Ok:
  assumes "commit_tx c = (Ok x, c')" "\<not> c_aborted c"
  shows "c_durable c' = c_db c"
  using assms unfolding commit_tx_def by (elim io_Ok) auto


lemma wrapped_Ok:
  "tx_map_err h m c = (Ok y, c') \<longleftrightarrow> m c = (Ok y, c')"
  "tx_ignore m c = (Ok u, c') \<longleftrightarrow> (\<exists>z. m c = (z, c') \<and> z \<noteq> Panic)"
  unfolding tx_map_err_def tx_ignore_def tx_handle_eq tx_return_def tx_fail_def
  by auto (metis res.exhaust)+

lemma read_bind_Ok:
  assumes "stmt (sql_read f) c = (Ok x, c')"
  shows "x = f (c_role c) (c_db c)" "c_db c' = c_db c" "c_role c' = c_role c"
  using read_Ok [OF assms] by (simp_all add: same_session_def)

end
