(* ===== verification/Routes.thy ===== *)
theory Routes
  imports Database Symbol_Metadata Market_Data
begin

text \<open>
  \<open>crates/server/src/routes.rs\<close> and \<open>error.rs\<close>: the handlers for accounts, limits, correlation
  groups, kill switch, evaluation and the audit log. A handler is a transaction fragment that
  starts with \<open>tenant_tx\<close>; what it needs besides the database session is an argument. Success
  carries the HTTP status together with the body.
\<close>

section \<open>Errors as responses\<close>

fun api_status :: "api_error \<Rightarrow> nat" where
  "api_status NotFound = 404"
| "api_status (Conflict m) = 409"
| "api_status (Invalid m) = 422"
| "api_status (DbErr e) = 500"
| "api_status (ExchangeErr e) = 500"

definition with_prefix :: "string \<Rightarrow> message \<Rightarrow> message" where
  "with_prefix s m = (case m of Fmt t args \<Rightarrow> Fmt (s @ t) args)"

fun api_message :: "api_error \<Rightarrow> message" where
  "api_message NotFound = Msg ''not found''"
| "api_message (Conflict m) = with_prefix ''conflict: '' m"
| "api_message (Invalid m) = with_prefix ''invalid request: '' m"
| "api_message (DbErr e) = Msg ''internal error''"
| "api_message (ExchangeErr e) = Msg ''internal error''"

definition into_response :: "api_error \<Rightarrow> nat \<times> message" where
  "into_response e = (api_status e, api_message e)"

section \<open>Application state\<close>

record app_state =
  app_symbols :: symbol_metadata_store
  app_market_data :: market_data_provider

text \<open>
  \<open>s.trim().is_empty()\<close> for a text given by its UTF-8 bytes: every character has the Unicode
  property \<open>White_Space\<close>.
\<close>

fun blank_bytes :: "nat list \<Rightarrow> bool" where
  "blank_bytes [] = True"
| "blank_bytes (a # s) =
     (if a = 32 \<or> (9 \<le> a \<and> a \<le> 13) then blank_bytes s
      else case s of
        [] \<Rightarrow> False
      | b # s' \<Rightarrow>
          if a = 194 \<and> (b = 133 \<or> b = 160) then blank_bytes s'
          else case s' of
            [] \<Rightarrow> False
          | c # s'' \<Rightarrow>
              ((a = 225 \<and> b = 154 \<and> c = 128) \<or>
               (a = 226 \<and> b = 128 \<and> ((128 \<le> c \<and> c \<le> 138) \<or> c = 168 \<or> c = 169 \<or> c = 175)) \<or>
               (a = 226 \<and> b = 129 \<and> c = 159) \<or> (a = 227 \<and> b = 128 \<and> c = 128)) \<and> blank_bytes s'')"

definition is_blank :: "string \<Rightarrow> bool" where
  "is_blank s = blank_bytes (map of_char s)"

section \<open>Serialized values in audit payloads\<close>

definition ser_i32 :: "i32 \<Rightarrow> json" where
  "ser_i32 v = JNum (of_int (sint v))"

definition ser_i64 :: "i64 \<Rightarrow> json" where
  "ser_i64 v = JNum (of_int (sint v))"

fun ser_trade_side :: "trade_side \<Rightarrow> json" where
  "ser_trade_side TBuy = JStr ''buy''"
| "ser_trade_side TSell = JStr ''sell''"

definition ser_intent :: "uuid_ops \<Rightarrow> trade_intent \<Rightarrow> json" where
  "ser_intent U i =
     JObj [(''symbol'', JStr (ti_symbol i)), (''side'', ser_trade_side (ti_side i)),
           (''quantity'', ser_dec U (ti_quantity i)), (''price'', ser_dec U (ti_price i))]"

fun ser_violation :: "uuid_ops \<Rightarrow> violation \<Rightarrow> json" where
  "ser_violation U KillSwitchEngaged = JObj [(''rule'', JStr ''kill_switch_engaged'')]"
| "ser_violation U (InvalidIntent q p) =
     JObj [(''rule'', JStr ''invalid_intent''), (''quantity'', ser_dec U q), (''price'', ser_dec U p)]"
| "ser_violation U (CircuitBreakerTripped loss bound) =
     JObj [(''rule'', JStr ''circuit_breaker_tripped''), (''today_realized_loss'', ser_dec U loss),
           (''daily_loss_limit'', ser_dec U bound)]"
| "ser_violation U (NonPositiveEquity e) =
     JObj [(''rule'', JStr ''non_positive_equity''), (''equity'', ser_dec U e)]"
| "ser_violation U (PositionSizeExceeded n bound pct) =
     JObj [(''rule'', JStr ''position_size_exceeded''), (''trade_notional'', ser_dec U n),
           (''limit_notional'', ser_dec U bound), (''limit_pct'', ser_dec U pct)]"
| "ser_violation U (MaxConcurrentPositionsExceeded c bound) =
     JObj [(''rule'', JStr ''max_concurrent_positions_exceeded''), (''open_count'', ser_i64 c),
           (''limit'', ser_i32 bound)]"
| "ser_violation U (CorrelatedExposureExceeded g n bound pct) =
     JObj [(''rule'', JStr ''correlated_exposure_exceeded''), (''group'', JStr g),
           (''combined_notional'', ser_dec U n), (''limit_notional'', ser_dec U bound),
           (''limit_pct'', ser_dec U pct)]"

fun ser_decision :: "uuid_ops \<Rightarrow> decision \<Rightarrow> json" where
  "ser_decision U Approved = JObj [(''decision'', JStr ''approved'')]"
| "ser_decision U (Rejected vs) =
     JObj [(''decision'', JStr ''rejected''), (''violations'', JArr (map (ser_violation U) vs))]"

definition config_fields :: "uuid_ops \<Rightarrow> risk_config \<Rightarrow> i32 \<Rightarrow> (string \<times> json) list" where
  "config_fields U cfg version =
     [(''daily_max_loss_pct'', ser_dec U (daily_max_loss_pct cfg)),
      (''max_position_pct_equity'', ser_dec U (max_position_pct_equity cfg)),
      (''max_concurrent_positions'', ser_i32 (max_concurrent_positions cfg)),
      (''max_correlated_exposure_pct'', ser_dec U (max_correlated_exposure_pct cfg)),
      (''version'', ser_i32 version)]"

section \<open>Accounts\<close>

record account_view =
  av_id :: uuid
  av_status :: string
  av_equity :: rat
  av_kill_switch_engaged :: bool

definition sql_insert_account :: "uuid \<Rightarrow> rat \<Rightarrow> unit sql" where
  "sql_insert_account a equity r d =
     res_bind (ok_or (numeric_30_10 equity) NumericOverflow) (\<lambda>e.
     let row = \<lparr>ac_id = a, ac_status = ''active'', ac_equity = e, ac_kill_switch_engaged_at = None\<rparr> in
     res_bind (guard RlsViolation (visible r a)) (\<lambda>_.
     res_bind (guard CheckViolation (account_check row)) (\<lambda>_.
     res_bind (guard UniqueViolation (\<not> account_exists a d)) (\<lambda>_.
     Ok ((), d\<lparr>t_accounts := t_accounts d @ [row]\<rparr>)))))"

text \<open>The column defaults of migration 0001.\<close>

definition default_risk_config :: risk_config where
  "default_risk_config = \<lparr>daily_max_loss_pct = 2, max_position_pct_equity = 5,
     max_concurrent_positions = 5, max_correlated_exposure_pct = 10\<rparr>"

definition sql_insert_risk_config :: "uuid \<Rightarrow> unit sql" where
  "sql_insert_risk_config a r d =
     (let row = \<lparr>rc_account_id = a, rc_cfg = default_risk_config, rc_version = 1\<rparr> in
     res_bind (guard RlsViolation (visible r a)) (\<lambda>_.
     res_bind (guard UniqueViolation (\<not> list_ex (\<lambda>x. rc_account_id x = a) (t_risk_configs d))) (\<lambda>_.
     res_bind (guard ForeignKeyViolation (account_exists a d)) (\<lambda>_.
     Ok ((), d\<lparr>t_risk_configs := t_risk_configs d @ [row]\<rparr>)))))"

definition create_account :: "uuid_ops \<Rightarrow> rat option option \<Rightarrow> (nat \<times> account_view) tx" where
  "create_account U body =
     (let equity = (case body of Some (Some e) \<Rightarrow> e | _ \<Rightarrow> 0) in
      if equity < 0 then tx_fail (Invalid (Msg ''equity must be >= 0''))
      else
        tx_bind fresh_id (\<lambda>aid.
        tx_bind (tenant_tx aid) (\<lambda>_.
        tx_bind (stmt (sql_insert_account aid equity)) (\<lambda>_.
        tx_bind (stmt (sql_insert_risk_config aid)) (\<lambda>_.
        tx_bind (insert_risk_event aid ''account_created''
                   (JObj [(''equity'', ser_dec U equity)])) (\<lambda>_.
        tx_bind commit_tx (\<lambda>_.
        tx_return (201, \<lparr>av_id = aid, av_status = ''active'', av_equity = equity,
          av_kill_switch_engaged = False\<rparr>))))))))"

definition get_account :: "uuid \<Rightarrow> account_view tx" where
  "get_account aid =
     tx_bind (tenant_tx aid) (\<lambda>_.
     tx_bind (stmt (sql_read (find_account aid))) (\<lambda>row.
     tx_bind (tx_lift (ok_or row NotFound)) (\<lambda>row.
     tx_return \<lparr>av_id = aid, av_status = ac_status row, av_equity = ac_equity row,
       av_kill_switch_engaged = (ac_kill_switch_engaged_at row \<noteq> None)\<rparr>)))"

definition sql_update_account ::
    "uuid \<Rightarrow> (account_row \<Rightarrow> account_row option) \<Rightarrow> unit sql" where
  "sql_update_account a f r d =
     res_bind (checked_update (\<lambda>x. visible r (ac_id x) \<and> ac_id x = a) f account_check (t_accounts d))
       (\<lambda>rows. Ok ((), d\<lparr>t_accounts := rows\<rparr>))"

definition sql_set_equity :: "uuid \<Rightarrow> rat \<Rightarrow> unit sql" where
  "sql_set_equity a equity =
     sql_update_account a (\<lambda>x. map_option (\<lambda>e. x\<lparr>ac_equity := e\<rparr>) (numeric_30_10 equity))"

definition put_equity :: "uuid_ops \<Rightarrow> uuid \<Rightarrow> rat \<Rightarrow> nat tx" where
  "put_equity U aid equity =
     (if equity < 0 then tx_fail (Invalid (Msg ''equity must be >= 0''))
      else
        tx_bind (tenant_tx aid) (\<lambda>_.
        tx_bind (lock_account aid) (\<lambda>account.
        tx_bind (stmt (sql_set_equity aid equity)) (\<lambda>_.
        tx_bind (insert_risk_event aid ''equity_changed''
          (JObj [(''old'', ser_dec U (ad_equity account)), (''new'', ser_dec U equity)])) (\<lambda>_.
        tx_bind commit_tx (\<lambda>_.
        tx_return 204))))))"

section \<open>Risk limits\<close>

record risk_config_view =
  rv_cfg :: risk_config
  rv_version :: i32

definition get_risk_config :: "uuid \<Rightarrow> risk_config_view tx" where
  "get_risk_config aid =
     tx_bind (tenant_tx aid) (\<lambda>_.
     tx_bind (load_risk_config aid) (\<lambda>(cfg, version).
     tx_return \<lparr>rv_cfg = cfg, rv_version = version\<rparr>))"

definition pct :: "string \<Rightarrow> rat \<Rightarrow> (api_error, unit) res" where
  "pct name v =
     (if v \<le> 0 \<or> v > 100 then Err (Invalid (Fmt ''{name} must be in (0, 100]'' [FStr name])) else Ok ())"

definition stored_config :: "risk_config \<Rightarrow> risk_config option" where
  "stored_config cfg =
     (case (numeric_8_4 (daily_max_loss_pct cfg), numeric_8_4 (max_position_pct_equity cfg),
            numeric_8_4 (max_correlated_exposure_pct cfg)) of
        (Some a, Some b, Some c) \<Rightarrow>
          Some (cfg\<lparr>daily_max_loss_pct := a, max_position_pct_equity := b,
                    max_correlated_exposure_pct := c\<rparr>)
      | _ \<Rightarrow> None)"

definition sql_update_risk_config ::
    "uuid \<Rightarrow> risk_config \<Rightarrow> i32 \<Rightarrow> i32 \<Rightarrow> nat sql" where
  "sql_update_risk_config a cfg new_version current_version r d =
     (let p = (\<lambda>x. visible r (rc_account_id x) \<and> rc_account_id x = a \<and> rc_version x = current_version) in
      res_bind (checked_update p
          (\<lambda>x. map_option (\<lambda>c. x\<lparr>rc_cfg := c, rc_version := new_version\<rparr>) (stored_config cfg))
          risk_config_check (t_risk_configs d)) (\<lambda>rows.
      Ok (length (filter p (t_risk_configs d)), d\<lparr>t_risk_configs := rows\<rparr>)))"

definition put_risk_config :: "uuid_ops \<Rightarrow> uuid \<Rightarrow> risk_config_view \<Rightarrow> risk_config_view tx" where
  "put_risk_config U aid body =
     tx_bind (tx_lift (pct ''daily_max_loss_pct'' (daily_max_loss_pct (rv_cfg body)))) (\<lambda>_.
     tx_bind (tx_lift (pct ''max_position_pct_equity'' (max_position_pct_equity (rv_cfg body)))) (\<lambda>_.
     tx_bind (tx_lift (pct ''max_correlated_exposure_pct''
                         (max_correlated_exposure_pct (rv_cfg body)))) (\<lambda>_.
     if sint (max_concurrent_positions (rv_cfg body)) \<le> 0
     then tx_fail (Invalid (Msg ''max_concurrent_positions must be > 0''))
     else
       tx_bind (tenant_tx aid) (\<lambda>_.
       tx_bind (load_risk_config aid) (\<lambda>(old, current_version).
       if current_version \<noteq> rv_version body
       then tx_fail (Conflict (Fmt ''risk config version is {current_version}, request had {}''
              [FInt (sint current_version), FInt (sint (rv_version body))]))
       else
         let new_version = current_version + 1 in
         tx_bind (stmt (sql_update_risk_config aid (rv_cfg body) new_version current_version)) (\<lambda>updated.
         if updated \<noteq> 1
         then tx_fail (Conflict (Msg ''risk config was modified concurrently; re-read and retry''))
         else
           tx_bind (insert_risk_event aid ''risk_config_changed''
             (JObj [(''old'', JObj (config_fields U old current_version)),
                    (''new'', JObj (config_fields U (rv_cfg body) new_version))])) (\<lambda>_.
           tx_bind commit_tx (\<lambda>_.
           tx_return (body\<lparr>rv_version := new_version\<rparr>)))))))))"

section \<open>Correlation groups\<close>

record correlation_group_def =
  gd_name :: string
  gd_symbols :: "string list"

fun check_group_symbols :: "string list \<Rightarrow> string list \<Rightarrow> (api_error, string list) res" where
  "check_group_symbols seen [] = Ok seen"
| "check_group_symbols seen (s # ss) =
     (if is_blank s then Err (Invalid (Msg ''symbol must not be empty''))
      else if s \<in> set seen
      then Err (Invalid (Fmt ''symbol {s} appears in more than one group'' [FStr s]))
      else check_group_symbols (s # seen) ss)"

fun check_groups :: "string list \<Rightarrow> correlation_group_def list \<Rightarrow> (api_error, unit) res" where
  "check_groups seen [] = Ok ()"
| "check_groups seen (g # gs) =
     (if is_blank (gd_name g) then Err (Invalid (Msg ''group name must not be empty''))
      else res_bind (check_group_symbols seen (gd_symbols g)) (\<lambda>seen'. check_groups seen' gs))"

text \<open>Deleting a group cascades to its assets.\<close>

definition sql_delete_groups :: "uuid \<Rightarrow> unit sql" where
  "sql_delete_groups a r d =
     (let gone = (\<lambda>g. visible r (cg_account_id g) \<and> cg_account_id g = a);
          doomed = filter gone (t_correlation_groups d)
      in Ok ((), d\<lparr>t_correlation_groups := filter (\<lambda>g. \<not> gone g) (t_correlation_groups d),
           t_correlation_group_assets := filter (\<lambda>x. \<not> list_ex (\<lambda>g. cg_id g = ga_group_id x \<and>
               cg_account_id g = ga_account_id x) doomed) (t_correlation_group_assets d)\<rparr>))"

definition sql_insert_group :: "group_row \<Rightarrow> unit sql" where
  "sql_insert_group row r d =
     res_bind (guard RlsViolation (visible r (cg_account_id row))) (\<lambda>_.
     res_bind (guard UniqueViolation (\<not> list_ex (\<lambda>g. cg_id g = cg_id row \<or>
         (cg_account_id g = cg_account_id row \<and> cg_name g = cg_name row)) (t_correlation_groups d))) (\<lambda>_.
     res_bind (guard ForeignKeyViolation (account_exists (cg_account_id row) d)) (\<lambda>_.
     Ok ((), d\<lparr>t_correlation_groups := t_correlation_groups d @ [row]\<rparr>))))"

definition sql_insert_group_asset :: "group_asset_row \<Rightarrow> unit sql" where
  "sql_insert_group_asset row r d =
     res_bind (guard RlsViolation (visible r (ga_account_id row))) (\<lambda>_.
     res_bind (guard UniqueViolation (\<not> list_ex (\<lambda>x. ga_symbol x = ga_symbol row \<and>
         (ga_group_id x = ga_group_id row \<or> ga_account_id x = ga_account_id row))
        (t_correlation_group_assets d))) (\<lambda>_.
     res_bind (guard ForeignKeyViolation (account_exists (ga_account_id row) d \<and>
         list_ex (\<lambda>g. cg_id g = ga_group_id row \<and> cg_account_id g = ga_account_id row)
           (t_correlation_groups d))) (\<lambda>_.
     Ok ((), d\<lparr>t_correlation_group_assets := t_correlation_group_assets d @ [row]\<rparr>))))"

definition insert_group_def :: "uuid \<Rightarrow> correlation_group_def \<Rightarrow> unit tx" where
  "insert_group_def aid g =
     tx_bind fresh_id (\<lambda>gid.
     tx_bind (stmt (sql_insert_group
       \<lparr>cg_id = gid, cg_account_id = aid, cg_name = gd_name g\<rparr>)) (\<lambda>_.
     tx_each (\<lambda>s. stmt (sql_insert_group_asset
       \<lparr>ga_group_id = gid, ga_account_id = aid, ga_symbol = s\<rparr>)) (gd_symbols g)))"

definition ser_group :: "correlation_group_def \<Rightarrow> json" where
  "ser_group g = JObj [(''name'', JStr (gd_name g)), (''symbols'', JArr (map JStr (gd_symbols g)))]"

definition put_correlation_groups :: "uuid \<Rightarrow> correlation_group_def list \<Rightarrow> nat tx" where
  "put_correlation_groups aid groups =
     tx_bind (tx_lift (check_groups [] groups)) (\<lambda>_.
     tx_bind (tenant_tx aid) (\<lambda>_.
     tx_bind (lock_account aid) (\<lambda>_.
     tx_bind (stmt (sql_delete_groups aid)) (\<lambda>_.
     tx_bind (tx_each (insert_group_def aid) groups) (\<lambda>_.
     tx_bind (insert_risk_event aid ''risk_config_changed''
       (JObj [(''correlation_groups'', JArr (map ser_group groups))])) (\<lambda>_.
     tx_bind commit_tx (\<lambda>_.
     tx_return 204)))))))"

section \<open>Kill switch\<close>

definition sql_engage_kill_switch :: "uuid \<Rightarrow> nat \<Rightarrow> unit sql" where
  "sql_engage_kill_switch a now =
     sql_update_account a
       (\<lambda>x. Some (x\<lparr>ac_status := ''killed'', ac_kill_switch_engaged_at := Some now\<rparr>))"

definition sql_release_kill_switch :: "uuid \<Rightarrow> unit sql" where
  "sql_release_kill_switch a =
     sql_update_account a
       (\<lambda>x. Some (x\<lparr>ac_status := ''active'', ac_kill_switch_engaged_at := None\<rparr>))"

definition engage_kill_switch :: "uuid \<Rightarrow> account_view tx" where
  "engage_kill_switch aid =
     tx_bind (tenant_tx aid) (\<lambda>_.
     tx_bind (lock_account aid) (\<lambda>account.
     tx_bind (if \<not> ad_kill_switch_engaged account then
          tx_bind get_now (\<lambda>now.
          tx_bind (stmt (sql_engage_kill_switch aid now)) (\<lambda>_.
          insert_risk_event aid ''kill_switch_engaged'' (JObj [])))
        else tx_return ()) (\<lambda>_.
     tx_bind commit_tx (\<lambda>_.
     tx_return \<lparr>av_id = aid, av_status = ''killed'', av_equity = ad_equity account,
       av_kill_switch_engaged = True\<rparr>))))"

definition release_kill_switch :: "uuid \<Rightarrow> account_view tx" where
  "release_kill_switch aid =
     tx_bind (tenant_tx aid) (\<lambda>_.
     tx_bind (lock_account aid) (\<lambda>account.
     tx_bind (if ad_kill_switch_engaged account then
          tx_bind (stmt (sql_release_kill_switch aid)) (\<lambda>_.
          tx_bind (insert_risk_event aid ''kill_switch_released'' (JObj [])) (\<lambda>_.
          tx_return ''active''))
        else tx_return (ad_status account)) (\<lambda>status.
     tx_bind commit_tx (\<lambda>_.
     tx_return \<lparr>av_id = aid, av_status = status, av_equity = ad_equity account,
       av_kill_switch_engaged = False\<rparr>))))"

section \<open>Evaluation\<close>

definition breaker_payload :: "uuid_ops \<Rightarrow> account_snapshot \<Rightarrow> risk_config \<Rightarrow> json" where
  "breaker_payload U s cfg =
     JObj [(''today_realized_loss'', ser_dec U (as_today_realized_loss s)),
           (''equity'', ser_dec U (as_equity s)),
           (''daily_max_loss_pct'', ser_dec U (daily_max_loss_pct cfg))]"

definition evaluated_payload ::
    "uuid_ops \<Rightarrow> trade_intent \<Rightarrow> decision \<Rightarrow> account_snapshot \<Rightarrow> json" where
  "evaluated_payload U i dec s =
     JObj [(''intent'', ser_intent U i), (''decision'', ser_decision U dec),
           (''snapshot'', JObj
             [(''equity'', ser_dec U (as_equity s)),
              (''today_realized_loss'', ser_dec U (as_today_realized_loss s)),
              (''kill_switch_engaged'', JBool (as_kill_switch_engaged s)),
              (''circuit_breaker_tripped'', JBool (as_circuit_breaker_tripped s)),
              (''open_position_count'', JNum (of_nat (length (as_open_positions s))))])]"

definition evaluate_trade :: "dec_ops \<Rightarrow> uuid_ops \<Rightarrow> uuid \<Rightarrow> trade_intent \<Rightarrow> decision tx" where
  "evaluate_trade D U aid intent =
     (if is_blank (ti_symbol intent) then tx_fail (Invalid (Msg ''symbol must not be empty''))
      else if ti_quantity intent < 0 \<or> ti_price intent < 0
      then tx_fail (Invalid (Msg ''quantity and price must be >= 0''))
      else
        tx_bind (tenant_tx aid) (\<lambda>_.
        tx_bind (lock_account aid) (\<lambda>account.
        tx_bind (load_risk_config aid) (\<lambda>(cfg, version).
        tx_bind (load_snapshot D aid account) (\<lambda>snapshot.
        tx_bind (tx_lift (or_panic (evaluate D intent snapshot cfg))) (\<lambda>decision.
        tx_bind (if as_circuit_breaker_tripped snapshot then tx_return False
                 else tx_lift (or_panic (circuit_breaker_should_trip D snapshot cfg))) (\<lambda>trips.
        tx_bind (if trips then
             tx_bind (trip_circuit_breaker aid) (\<lambda>_.
             insert_risk_event aid ''circuit_breaker_tripped'' (breaker_payload U snapshot cfg))
           else tx_return ()) (\<lambda>_.
        tx_bind (insert_risk_event aid ''trade_evaluated''
                   (evaluated_payload U intent decision snapshot)) (\<lambda>_.
        tx_bind commit_tx (\<lambda>_.
        tx_return decision))))))))))"

section \<open>Audit log\<close>

record events_query =
  eq_limit :: "i64 option"
  eq_before :: "uuid option"

record risk_event_view =
  ew_id :: uuid
  ew_event_type :: string
  ew_payload :: json
  ew_created_at :: nat

text \<open>\<open>q.limit.unwrap_or(50).clamp(1, 500)\<close>.\<close>

definition page_limit :: "i64 option \<Rightarrow> nat" where
  "page_limit l = nat (max 1 (min 500 (case l of Some v \<Rightarrow> sint v | None \<Rightarrow> 50)))"

definition select_risk_events ::
    "uuid \<Rightarrow> uuid option \<Rightarrow> nat \<Rightarrow> role \<Rightarrow> db \<Rightarrow> risk_event_row list" where
  "select_risk_events a before limit r d =
     take limit (rev (sort_key ev_id (filter (\<lambda>x. visible r (ev_account_id x) \<and> ev_account_id x = a \<and>
       (case before of None \<Rightarrow> True | Some b \<Rightarrow> ev_id x < b)) (t_risk_events d))))"

definition risk_event_to_view :: "risk_event_row \<Rightarrow> risk_event_view" where
  "risk_event_to_view x =
     \<lparr>ew_id = ev_id x, ew_event_type = ev_event_type x, ew_payload = ev_payload x,
      ew_created_at = ev_created_at x\<rparr>"

definition list_risk_events :: "uuid \<Rightarrow> events_query \<Rightarrow> risk_event_view list tx" where
  "list_risk_events aid q =
     tx_bind (tenant_tx aid) (\<lambda>_.
     tx_bind (stmt (sql_read (select_risk_events aid (eq_before q) (page_limit (eq_limit q))))) (\<lambda>rows.
     tx_return (map risk_event_to_view rows)))"

end
