(* ===== verification/Routes_Orders.thy ===== *)
theory Routes_Orders
  imports Routes Validators
begin

text \<open>
  \<open>crates/server/src/routes_orders.rs\<close>: the order placement route. Symbol and filter validation
  run before any transaction; reservation, risk evaluation and the three inserts run in one.
\<close>

record place_order_request =
  pq_symbol :: string
  pq_side :: order_side
  pq_order_type :: order_type
  pq_quantity :: rat
  pq_price :: "rat option"

record order_view =
  ov_id :: uuid
  ov_status :: string

text \<open>\<open>{decision:?}\<close>: the derived \<open>Debug\<close>, variant name first.\<close>

fun debug_violation :: "violation \<Rightarrow> fmt_arg" where
  "debug_violation KillSwitchEngaged = FArgs [FStr ''KillSwitchEngaged'']"
| "debug_violation (InvalidIntent q p) = FArgs [FStr ''InvalidIntent'', FDec q, FDec p]"
| "debug_violation (CircuitBreakerTripped a b) = FArgs [FStr ''CircuitBreakerTripped'', FDec a, FDec b]"
| "debug_violation (NonPositiveEquity e) = FArgs [FStr ''NonPositiveEquity'', FDec e]"
| "debug_violation (PositionSizeExceeded a b c) =
     FArgs [FStr ''PositionSizeExceeded'', FDec a, FDec b, FDec c]"
| "debug_violation (MaxConcurrentPositionsExceeded n m) =
     FArgs [FStr ''MaxConcurrentPositionsExceeded'', FInt (sint n), FInt (sint m)]"
| "debug_violation (CorrelatedExposureExceeded g a b c) =
     FArgs [FStr ''CorrelatedExposureExceeded'', FStr g, FDec a, FDec b, FDec c]"

fun debug_decision :: "decision \<Rightarrow> fmt_arg" where
  "debug_decision Approved = FArgs [FStr ''Approved'']"
| "debug_decision (Rejected vs) = FArgs [FStr ''Rejected'', FArgs (map debug_violation vs)]"

definition request_intent :: "place_order_request \<Rightarrow> order_intent" where
  "request_intent body =
     \<lparr>oi_symbol = pq_symbol body, oi_side = pq_side body, oi_order_type = pq_order_type body,
      oi_quantity = pq_quantity body, oi_price = pq_price body\<rparr>"

text \<open>The price estimate of steps 1 to 3.\<close>

definition request_estimate ::
    "app_state \<Rightarrow> instant \<Rightarrow> place_order_request \<Rightarrow> price_estimate option" where
  "request_estimate st now body =
     (let is_buy = (pq_side body = Buy) in
      map_option (\<lambda>est. \<lparr>pe_price = ce_price est,
          pe_source = (if is_buy then BestAsk else BestBid), pe_is_fresh = ce_is_fresh est\<rparr>)
        (conservative_estimate (app_market_data st) (pq_symbol body) is_buy now))"

text \<open>What the risk engine is asked about.\<close>

definition request_core_intent ::
    "place_order_request \<Rightarrow> price_estimate option \<Rightarrow> trade_intent" where
  "request_core_intent body price_est =
     \<lparr>ti_symbol = pq_symbol body,
      ti_side = (case pq_side body of Buy \<Rightarrow> TBuy | Sell \<Rightarrow> TSell),
      ti_quantity = pq_quantity body,
      ti_price = (case pq_price body of Some p \<Rightarrow> p
                  | None \<Rightarrow> (case price_est of Some e \<Rightarrow> pe_price e | None \<Rightarrow> 0))\<rparr>"

definition client_order_id_of :: "uuid_ops \<Rightarrow> uuid \<Rightarrow> string" where
  "client_order_id_of U oid = filter (\<lambda>c. c \<noteq> CHR ''-'') (uuid_str U oid)"

definition order_id_payload :: "uuid_ops \<Rightarrow> uuid \<Rightarrow> json" where
  "order_id_payload U oid = JObj [(''order_id'', JStr (uuid_str U oid))]"

text \<open>Steps 1 to 3: no database round trip.\<close>

definition prevalidate ::
    "dec_ops \<Rightarrow> app_state \<Rightarrow> instant \<Rightarrow> instant \<Rightarrow> place_order_request \<Rightarrow>
     (api_error, price_estimate option) res" where
  "prevalidate D st t_sym t_md body =
     (if is_blank (pq_symbol body) then Err (Invalid (Msg ''symbol must not be empty''))
      else if pq_quantity body \<le> 0 then Err (Invalid (Msg ''quantity must be > 0''))
      else
        res_bind (ok_or (store_get (app_symbols st) (pq_symbol body) t_sym)
          (Invalid (Fmt ''unknown or stale symbol metadata: {}'' [FStr (pq_symbol body)]))) (\<lambda>symbol_meta.
        let price_est = request_estimate st t_md body in
        res_bind (map_err Invalid (validate_order D (request_intent body) symbol_meta price_est)) (\<lambda>_.
        Ok price_est)))"

definition place_order ::
    "dec_ops \<Rightarrow> uuid_ops \<Rightarrow> app_state \<Rightarrow> instant \<Rightarrow> instant \<Rightarrow> uuid \<Rightarrow> place_order_request \<Rightarrow>
     (nat \<times> order_view) tx" where
  "place_order D U st t_sym t_md account_id body =
     tx_bind (tx_lift (prevalidate D st t_sym t_md body)) (\<lambda>price_est.
     tx_bind (tenant_tx account_id) (\<lambda>_.
     tx_bind (lock_account account_id) (\<lambda>account.
     tx_bind (load_risk_config account_id) (\<lambda>(risk_cfg, version).
     tx_bind (load_exchange_mode account_id) (\<lambda>exchange_mode.
     tx_bind (load_snapshot D account_id account) (\<lambda>snapshot.
     let core_intent = request_core_intent body price_est in
     tx_bind (tx_lift (or_panic (evaluate D core_intent snapshot risk_cfg))) (\<lambda>decision.
     if \<not> is_approved decision then
       tx_bind (insert_risk_event account_id ''order_rejected''
         (JObj [(''intent'', ser_intent U core_intent), (''decision'', ser_decision U decision)])) (\<lambda>_.
       tx_bind commit_tx (\<lambda>_.
       tx_fail (Invalid (Fmt ''order rejected: {decision:?}'' [debug_decision decision]))))
     else
       tx_bind fresh_id (\<lambda>order_id.
       let client_order_id = client_order_id_of U order_id in
       tx_bind (insert_order order_id account_id client_order_id (pq_symbol body) (pq_side body)
                  (pq_order_type body) (pq_quantity body) (pq_price body) exchange_mode) (\<lambda>_.
       tx_bind (insert_exchange_command account_id ''submit_order'' exchange_mode
                  (uuid_str U order_id @ '':submit'') (order_id_payload U order_id)) (\<lambda>_.
       tx_bind (insert_risk_event account_id ''order_placed''
         (JObj [(''order_id'', JStr (uuid_str U order_id)),
                (''intent'', ser_intent U core_intent)])) (\<lambda>_.
       tx_bind commit_tx (\<lambda>_.
       tx_return (201, \<lparr>ov_id = order_id, ov_status = ''pending''\<rparr>)))))))))))))"

end
