(* ===== verification/Routes_Exchange.thy ===== *)
theory Routes_Exchange
  imports Routes Credentials
begin

text \<open>
  \<open>crates/server/src/routes_exchange.rs\<close>: the exchange configuration of an account, with the
  mode-switch guard in the handler and its backstop in the trigger of migration 0008. The value
  of the environment variable and the two nonces drawn from the operating system are arguments.
\<close>

record put_exchange_config_body =
  px_mode :: string
  px_testnet :: bool
  px_api_key :: "string option"
  px_api_secret :: "string option"
  px_version :: i32

record exchange_config_view =
  xv_mode :: string
  xv_testnet :: bool
  xv_has_credentials :: bool
  xv_version :: i32

definition get_exchange_config :: "uuid \<Rightarrow> exchange_config_view tx" where
  "get_exchange_config account_id =
     tx_bind (tenant_tx account_id) (\<lambda>_.
     tx_bind (stmt (sql_read (find_exchange_config account_id))) (\<lambda>row.
     tx_bind (tx_lift (ok_or row NotFound)) (\<lambda>row.
     tx_return \<lparr>xv_mode = ec_mode row, xv_testnet = ec_testnet row,
       xv_has_credentials = (ec_api_key_ciphertext row \<noteq> None), xv_version = ec_version row\<rparr>)))"

definition mode_check :: "exchange_config_row \<Rightarrow> bool" where
  "mode_check x \<longleftrightarrow> ec_mode x \<in> {''paper'', ''live''}"

text \<open>The trigger \<open>forbid_mode_switch_with_open_activity\<close>.\<close>

definition mode_switch_trigger ::
    "role \<Rightarrow> db \<Rightarrow> exchange_config_row \<Rightarrow> string \<Rightarrow> (db_error, unit) res" where
  "mode_switch_trigger r d old new_mode =
     (if new_mode = ec_mode old then Ok ()
      else if open_orders (ec_account_id old) r d \<noteq> []
      then Err (TriggerException (Fmt ''cannot switch exchange mode: account % has open orders''
                  [FUuid (ec_account_id old)]))
      else if open_positions (ec_account_id old) r d \<noteq> []
      then Err (TriggerException (Fmt ''cannot switch exchange mode: account % has open positions''
                  [FUuid (ec_account_id old)]))
      else Ok ())"

text \<open>\<open>COALESCE($4, api_key_ciphertext)\<close>.\<close>

definition coalesce :: "'a option \<Rightarrow> 'a option \<Rightarrow> 'a option" where
  "coalesce a b = (case a of Some x \<Rightarrow> Some x | None \<Rightarrow> b)"

definition sql_update_exchange_config ::
    "uuid \<Rightarrow> string \<Rightarrow> bool \<Rightarrow> byte list option \<Rightarrow> byte list option \<Rightarrow> i32 \<Rightarrow> i32 \<Rightarrow> unit sql" where
  "sql_update_exchange_config a mode testnet key_ct secret_ct new_version current_version r d =
     (let p = (\<lambda>x. visible r (ec_account_id x) \<and> ec_account_id x = a \<and> ec_version x = current_version) in
      res_bind (map_res (\<lambda>x. mode_switch_trigger r d x mode) (filter p (t_exchange_configs d))) (\<lambda>_.
      res_bind (checked_update p
          (\<lambda>x. Some (x\<lparr>ec_mode := mode, ec_testnet := testnet,
              ec_api_key_ciphertext := coalesce key_ct (ec_api_key_ciphertext x),
              ec_api_secret_ciphertext := coalesce secret_ct (ec_api_secret_ciphertext x),
              ec_version := new_version\<rparr>)) mode_check (t_exchange_configs d)) (\<lambda>rows.
      Ok ((), d\<lparr>t_exchange_configs := rows\<rparr>))))"

definition sql_insert_exchange_config :: "exchange_config_row \<Rightarrow> unit sql" where
  "sql_insert_exchange_config row r d =
     res_bind (guard RlsViolation (visible r (ec_account_id row))) (\<lambda>_.
     res_bind (guard CheckViolation (mode_check row)) (\<lambda>_.
     res_bind (guard UniqueViolation
       (\<not> list_ex (\<lambda>x. ec_account_id x = ec_account_id row) (t_exchange_configs d))) (\<lambda>_.
     res_bind (guard ForeignKeyViolation (account_exists (ec_account_id row) d)) (\<lambda>_.
     Ok ((), d\<lparr>t_exchange_configs := t_exchange_configs d @ [row]\<rparr>)))))"

definition str_bytes :: "string \<Rightarrow> byte list" where
  "str_bytes s = map of_char s"

text \<open>\<open>.map(|k| key.encrypt_fresh(\<dots>)).transpose()?\<close>.\<close>

definition encrypt_opt ::
    "aead \<Rightarrow> byte list \<Rightarrow> byte list \<Rightarrow> byte list \<Rightarrow> string option \<Rightarrow>
     (api_error, byte list option) res" where
  "encrypt_opt A nonce key aad secret =
     (case secret of
        None \<Rightarrow> Ok None
      | Some s \<Rightarrow> res_bind (map_err ExchangeErr (encrypt_fresh A nonce key (str_bytes s) aad))
                    (\<lambda>ct. Ok (Some ct)))"

definition encrypt_credentials ::
    "aead \<Rightarrow> uuid_ops \<Rightarrow> string option \<Rightarrow> byte list \<Rightarrow> byte list \<Rightarrow> uuid \<Rightarrow> put_exchange_config_body \<Rightarrow>
     (api_error, byte list option \<times> byte list option) res" where
  "encrypt_credentials A U env nonce1 nonce2 account_id body =
     (if px_api_key body \<noteq> None \<or> px_api_secret body \<noteq> None then
        res_bind (map_err Invalid (encryption_key env)) (\<lambda>key.
        let aad = str_bytes (uuid_str U account_id) in
        res_bind (encrypt_opt A nonce1 key aad (px_api_key body)) (\<lambda>key_ct.
        res_bind (encrypt_opt A nonce2 key aad (px_api_secret body)) (\<lambda>secret_ct.
        Ok (key_ct, secret_ct))))
      else Ok (None, None))"

definition config_event_type ::
    "string option \<Rightarrow> string \<Rightarrow> byte list option \<Rightarrow> byte list option \<Rightarrow> string" where
  "config_event_type old_mode mode key_ct secret_ct =
     (if old_mode \<noteq> Some mode then ''exchange_mode_switched''
      else if key_ct \<noteq> None \<or> secret_ct \<noteq> None then ''exchange_credentials_rotated''
      else ''exchange_mode_switched'')"

text \<open>The version check and layer 1 of the mode-switch guard.\<close>

definition config_guard ::
    "uuid \<Rightarrow> put_exchange_config_body \<Rightarrow> exchange_config_row option \<Rightarrow> unit tx" where
  "config_guard account_id body existing =
     (case existing of
        None \<Rightarrow> tx_return ()
      | Some x \<Rightarrow>
          if ec_version x \<noteq> px_version body
          then tx_fail (Conflict (Fmt ''exchange config version is {current_version}, request had {}''
                 [FInt (sint (ec_version x)), FInt (sint (px_version body))]))
          else
            tx_bind (if ec_mode x \<noteq> px_mode body then has_open_activity account_id
                     else tx_return False) (\<lambda>blocked.
            if blocked
            then tx_fail (Conflict (Msg ''cannot switch exchange mode: account has open orders or positions''))
            else tx_return ()))"

definition put_exchange_config ::
    "aead \<Rightarrow> uuid_ops \<Rightarrow> string option \<Rightarrow> byte list \<Rightarrow> byte list \<Rightarrow> uuid \<Rightarrow>
     put_exchange_config_body \<Rightarrow> exchange_config_view tx" where
  "put_exchange_config A U env nonce1 nonce2 account_id body =
     (if px_mode body \<noteq> ''paper'' \<and> px_mode body \<noteq> ''live''
      then tx_fail (Invalid (Msg (''mode must be 'paper' or 'live'' @ [CHR 0x27])))
      else
        tx_bind (tenant_tx account_id) (\<lambda>_.
        tx_bind (lock_account account_id) (\<lambda>_.
        tx_bind (stmt (sql_read (find_exchange_config account_id))) (\<lambda>existing.
        tx_bind (config_guard account_id body existing) (\<lambda>_.
        let current_version = (case existing of Some x \<Rightarrow> ec_version x | None \<Rightarrow> 0);
            had_credentials = (case existing of Some x \<Rightarrow> ec_api_key_ciphertext x \<noteq> None | None \<Rightarrow> False)
        in
        tx_bind (tx_lift (encrypt_credentials A U env nonce1 nonce2 account_id body)) (\<lambda>(key_ct, secret_ct).
        let new_version = current_version + 1 in
        tx_bind (case existing of
            Some x \<Rightarrow> stmt (sql_update_exchange_config account_id (px_mode body) (px_testnet body)
                               key_ct secret_ct new_version current_version)
          | None \<Rightarrow> stmt (sql_insert_exchange_config
               \<lparr>ec_account_id = account_id, ec_mode = px_mode body, ec_testnet = px_testnet body,
                ec_api_key_ciphertext = key_ct, ec_api_secret_ciphertext = secret_ct,
                ec_version = new_version\<rparr>)) (\<lambda>_.
        tx_bind (insert_risk_event account_id
          (config_event_type (map_option ec_mode existing) (px_mode body) key_ct secret_ct)
          (JObj [(''mode'', JStr (px_mode body)), (''testnet'', JBool (px_testnet body)),
                 (''version'', ser_i32 new_version)])) (\<lambda>_.
        tx_bind commit_tx (\<lambda>_.
        tx_return \<lparr>xv_mode = px_mode body, xv_testnet = px_testnet body,
          xv_has_credentials = (key_ct \<noteq> None \<or> had_credentials), xv_version = new_version\<rparr>)))))))))"

end
