(* ===== verification/Outbox_Worker.thy ===== *)
theory Outbox_Worker
  imports Database Json_Ops
begin

text \<open>
  \<open>crates/server/src/outbox_worker.rs\<close>: claim a batch of commands, route each to the adapter of
  its mode, persist what comes of it. The adapters are values of type \<open>adapter\<close>; the owner's
  statements commit by themselves, the tenant's run in transactions.
\<close>

record supervisor =
  sv_paper_adapter :: "adapter option"
  sv_live_adapter :: "adapter option"

definition resolve :: "supervisor \<Rightarrow> exchange_mode \<Rightarrow> adapter option" where
  "resolve sv mode = (case mode of Paper \<Rightarrow> sv_paper_adapter sv | Live \<Rightarrow> sv_live_adapter sv)"

datatype dispatch_outcome = Retry | PermanentlyRejected | ReconciliationRequired

fun classify_exchange_error :: "exchange_error \<Rightarrow> dispatch_outcome" where
  "classify_exchange_error (InsufficientBalance a r v) = PermanentlyRejected"
| "classify_exchange_error (FilterViolation m) = PermanentlyRejected"
| "classify_exchange_error (SymbolNotFound s) = PermanentlyRejected"
| "classify_exchange_error (FillExceedsRemaining o' r f) = Retry"
| "classify_exchange_error (MarketDataError m) = Retry"
| "classify_exchange_error (InvalidTransition a b) = Retry"
| "classify_exchange_error (EncryptionError m) = Retry"

definition extract_order_id :: "json_ops \<Rightarrow> uuid_ops \<Rightarrow> claimed_command \<Rightarrow> uuid option" where
  "extract_order_id J U cmd = do {
     s \<leftarrow> str_field J (cc_payload cmd) ''order_id'';
     uuid_parse U s }"

section \<open>Reading an order for the adapter\<close>

definition order_to_snapshot :: "order_data \<Rightarrow> order_snapshot" where
  "order_to_snapshot x =
     \<lparr>os_order_id = od_id x, os_client_order_id = od_client_order_id x, os_symbol = od_symbol x,
      os_side = od_side x, os_order_type = od_order_type x, os_quantity = od_quantity x,
      os_price = od_price x, os_status = od_status x\<rparr>"

definition fill_to_snapshot :: "fill \<Rightarrow> fill_snapshot" where
  "fill_to_snapshot f =
     \<lparr>fs_exchange_trade_id = fl_exchange_trade_id f, fs_quantity = fl_quantity f,
      fs_price = fl_price f\<rparr>"

definition hydrate_snapshot :: "uuid \<Rightarrow> uuid \<Rightarrow> (dispatch_outcome, reconcile_snapshot) tx_res" where
  "hydrate_snapshot account_id order_id =
     tx_bind (tx_map_err (\<lambda>_. Retry) (tenant_tx account_id)) (\<lambda>_.
     tx_bind (tx_map_err (\<lambda>_. ReconciliationRequired) (lock_order account_id order_id)) (\<lambda>order.
     tx_bind (tx_map_err (\<lambda>_. Retry) (load_fills_for_order account_id order_id)) (\<lambda>fills.
     tx_bind (tx_ignore commit_tx) (\<lambda>_.
     tx_return \<lparr>rs_order = order_to_snapshot order, rs_fills = map fill_to_snapshot fills,
       rs_positions = []\<rparr>))))"

section \<open>Persisting a reconcile result\<close>

text \<open>The fills of the result that were not already there.\<close>

fun insert_fills :: "uuid \<Rightarrow> uuid \<Rightarrow> fill list \<Rightarrow> (dispatch_outcome, fill list) tx_res" where
  "insert_fills account_id order_id [] = tx_return []"
| "insert_fills account_id order_id (f # fs) =
     tx_bind (tx_map_err (\<lambda>_. Retry) (insert_fill account_id order_id f)) (\<lambda>inserted.
     tx_bind (insert_fills account_id order_id fs) (\<lambda>rest.
     tx_return (if inserted then f # rest else rest)))"

text \<open>The order row after the fills: \<open>locked.filled_quantity + \<Sigma> inserted\<close> under a legal status.\<close>

definition persist_status ::
    "dec_ops \<Rightarrow> uuid \<Rightarrow> uuid \<Rightarrow> order_data \<Rightarrow> fill list \<Rightarrow> order_status option \<Rightarrow>
     (dispatch_outcome, unit) tx_res" where
  "persist_status D account_id order_id locked inserted_fills new_status =
     (case new_status of
        None \<Rightarrow> tx_return ()
      | Some st \<Rightarrow>
          if is_ok (transition (od_status locked) st) then
            tx_bind (tx_lift (or_panic (d_sum D (map fl_quantity inserted_fills)))) (\<lambda>new_fill_qty.
            tx_bind (tx_lift (or_panic (dadd D (od_filled_quantity locked) new_fill_qty))) (\<lambda>filled_qty.
            tx_map_err (\<lambda>_. Retry) (update_order_status account_id order_id st filled_qty)))
          else tx_fail ReconciliationRequired)"

definition persist_events :: "uuid \<Rightarrow> risk_event list \<Rightarrow> (dispatch_outcome, unit) tx_res" where
  "persist_events account_id events =
     tx_each (\<lambda>e. tx_ignore (insert_risk_event account_id (re_event_type e) (re_payload e))) events"

definition persist_deltas ::
    "dec_ops \<Rightarrow> uuid \<Rightarrow> position_delta list \<Rightarrow> rat \<Rightarrow> (dispatch_outcome, unit) tx_res" where
  "persist_deltas D account_id deltas fill_price =
     tx_each (\<lambda>x. tx_map_err (\<lambda>_. Retry)
       (apply_position_delta D account_id (pd_symbol x) (pd_quantity_delta x) fill_price)) deltas"

text \<open>Everything after the fills are in: positions, status, audit events, commit.\<close>

definition persist_changes ::
    "dec_ops \<Rightarrow> uuid \<Rightarrow> uuid \<Rightarrow> reconcile_result \<Rightarrow> order_data \<Rightarrow> fill list \<Rightarrow>
     (dispatch_outcome, unit) tx_res" where
  "persist_changes D account_id order_id result locked inserted_fills =
     (let fill_price = (case inserted_fills of f # _ \<Rightarrow> fl_price f | [] \<Rightarrow> 0) in
      tx_bind (persist_deltas D account_id (rr_positions_delta result) fill_price) (\<lambda>_.
      tx_bind (persist_status D account_id order_id locked inserted_fills (rr_new_status result)) (\<lambda>_.
      tx_bind (persist_events account_id (rr_events result)) (\<lambda>_.
      tx_map_err (\<lambda>_. Retry) commit_tx))))"

definition persist_fills ::
    "dec_ops \<Rightarrow> uuid \<Rightarrow> uuid \<Rightarrow> reconcile_result \<Rightarrow> order_data \<Rightarrow> (dispatch_outcome, unit) tx_res" where
  "persist_fills D account_id order_id result locked =
     tx_bind (insert_fills account_id order_id (rr_fills_to_add result)) (\<lambda>inserted_fills.
     if rr_fills_to_add result \<noteq> [] \<and> inserted_fills = []
     then tx_fail ReconciliationRequired
     else persist_changes D account_id order_id result locked inserted_fills)"

text \<open>The optimistic-concurrency check against the snapshot the result was computed from.\<close>

definition persist_checked ::
    "dec_ops \<Rightarrow> uuid \<Rightarrow> uuid \<Rightarrow> reconcile_snapshot \<Rightarrow> reconcile_result \<Rightarrow> order_data \<Rightarrow>
     (dispatch_outcome, unit) tx_res" where
  "persist_checked D account_id order_id snapshot result locked =
     tx_bind (tx_lift (or_panic (d_sum D (map fs_quantity (rs_fills snapshot))))) (\<lambda>snapshot_filled.
     if od_filled_quantity locked \<noteq> snapshot_filled \<or> od_status locked \<noteq> os_status (rs_order snapshot)
     then tx_fail Retry
     else persist_fills D account_id order_id result locked)"

definition persist_reconcile_result ::
    "dec_ops \<Rightarrow> uuid \<Rightarrow> uuid \<Rightarrow> reconcile_snapshot \<Rightarrow> reconcile_result \<Rightarrow>
     (dispatch_outcome, unit) tx_res" where
  "persist_reconcile_result D account_id order_id snapshot result =
     tx_bind (tx_map_err (\<lambda>_. Retry) (tenant_tx account_id)) (\<lambda>_.
     tx_bind (tx_map_err (\<lambda>_. Retry) (lock_order account_id order_id)) (\<lambda>locked.
     persist_checked D account_id order_id snapshot result locked))"

section \<open>Dispatch\<close>

definition order_ref :: "uuid_ops \<Rightarrow> uuid \<Rightarrow> json" where
  "order_ref U oid = JObj [(''order_id'', JStr (uuid_str U oid))]"

definition command_order_payload :: "uuid_ops \<Rightarrow> uuid \<Rightarrow> uuid \<Rightarrow> json" where
  "command_order_payload U cid oid =
     JObj [(''command_id'', JStr (uuid_str U cid)), (''order_id'', JStr (uuid_str U oid))]"

text \<open>The transaction after the exchange accepted the submission.\<close>

definition finish_submit ::
    "uuid_ops \<Rightarrow> claimed_command \<Rightarrow> uuid \<Rightarrow> (dispatch_outcome, unit) tx_res" where
  "finish_submit U cmd order_id =
     tx_bind (tx_map_err (\<lambda>_. Retry) (tenant_tx (cc_account_id cmd))) (\<lambda>_.
     tx_bind (tx_map_err (\<lambda>_. Retry) (lock_order (cc_account_id cmd) order_id)) (\<lambda>locked.
     tx_bind (if is_ok (transition (od_status locked) Submitted)
              then tx_map_err (\<lambda>_. Retry) (update_order_status (cc_account_id cmd) order_id
                     Submitted (od_filled_quantity locked))
              else tx_return ()) (\<lambda>_.
     tx_bind (tx_map_err (\<lambda>_. Retry) (insert_exchange_command (cc_account_id cmd) ''reconcile_order''
                (cc_exchange_mode cmd) (uuid_str U order_id @ '':reconcile:initial'')
                (order_ref U order_id))) (\<lambda>_.
     tx_map_err (\<lambda>_. Retry) commit_tx))))"

text \<open>The transaction after the exchange accepted the cancellation.\<close>

definition finish_cancel ::
    "uuid_ops \<Rightarrow> claimed_command \<Rightarrow> uuid \<Rightarrow> (dispatch_outcome, unit) tx_res" where
  "finish_cancel U cmd order_id =
     tx_bind (tx_map_err (\<lambda>_. Retry) (tenant_tx (cc_account_id cmd))) (\<lambda>_.
     tx_bind (tx_map_err (\<lambda>_. Retry) (lock_order (cc_account_id cmd) order_id)) (\<lambda>locked.
     tx_bind (if is_ok (transition (od_status locked) CancelRequested)
              then tx_map_err (\<lambda>_. Retry)
                (tx_bind (update_order_status (cc_account_id cmd) order_id
                     CancelRequested (od_filled_quantity locked)) (\<lambda>_.
                 insert_risk_event (cc_account_id cmd) ''order_cancel_requested''
                     (command_order_payload U (cc_id cmd) order_id)))
              else tx_return ()) (\<lambda>_.
     tx_bind (tx_map_err (\<lambda>_. Retry) (insert_exchange_command (cc_account_id cmd) ''reconcile_order''
                (cc_exchange_mode cmd) (uuid_str U order_id @ '':reconcile:post-cancel'')
                (order_ref U order_id))) (\<lambda>_.
     tx_map_err (\<lambda>_. Retry) commit_tx))))"

definition dispatch ::
    "dec_ops \<Rightarrow> json_ops \<Rightarrow> uuid_ops \<Rightarrow> adapter \<Rightarrow> claimed_command \<Rightarrow> (dispatch_outcome, unit) tx_res" where
  "dispatch D J U ad cmd =
     (if cc_command_type cmd = ''submit_order'' then
        (case extract_order_id J U cmd of
           None \<Rightarrow> tx_fail ReconciliationRequired
         | Some order_id \<Rightarrow>
             tx_bind (hydrate_snapshot (cc_account_id cmd) order_id) (\<lambda>snapshot.
             tx_bind (tx_lift (map_err classify_exchange_error (ad_submit ad (rs_order snapshot)))) (\<lambda>_.
             finish_submit U cmd order_id)))
      else if cc_command_type cmd = ''reconcile_order'' then
        (case extract_order_id J U cmd of
           None \<Rightarrow> tx_fail ReconciliationRequired
         | Some order_id \<Rightarrow>
             tx_bind (hydrate_snapshot (cc_account_id cmd) order_id) (\<lambda>snapshot.
             tx_bind (tx_lift (map_err classify_exchange_error (ad_reconcile_order ad snapshot))) (\<lambda>result.
             persist_reconcile_result D (cc_account_id cmd) order_id snapshot result)))
      else if cc_command_type cmd = ''cancel_order'' then
        (case extract_order_id J U cmd of
           None \<Rightarrow> tx_fail ReconciliationRequired
         | Some order_id \<Rightarrow>
             tx_bind (hydrate_snapshot (cc_account_id cmd) order_id) (\<lambda>snapshot.
             tx_bind (tx_lift (map_err (\<lambda>_. Retry) (ad_cancel ad (rs_order snapshot)))) (\<lambda>_.
             finish_cancel U cmd order_id)))
      else tx_fail ReconciliationRequired)"

section \<open>One pass\<close>

text \<open>\<open>owner_pool.acquire().await?\<close>.\<close>

definition acquire :: "unit tx" where
  "acquire = io (\<lambda>c. (Ok (), c))"

definition audit_event :: "uuid \<Rightarrow> string \<Rightarrow> json \<Rightarrow> unit tx" where
  "audit_event account_id event_type payload =
     tx_if_ok (tenant_tx account_id) (\<lambda>_.
     tx_bind (tx_ignore (insert_risk_event account_id event_type payload)) (\<lambda>_.
     tx_ignore commit_tx))"

text \<open>A permanent rejection also rejects the order, where that is legal.\<close>

definition reject_order :: "uuid_ops \<Rightarrow> claimed_command \<Rightarrow> uuid \<Rightarrow> unit tx" where
  "reject_order U cmd order_id =
     tx_if_ok (tenant_tx (cc_account_id cmd)) (\<lambda>_.
     tx_bind (tx_if_ok (lock_order (cc_account_id cmd) order_id) (\<lambda>locked.
       if is_ok (transition (od_status locked) RejectedStatus)
       then tx_ignore (update_order_status (cc_account_id cmd) order_id RejectedStatus
              (od_filled_quantity locked))
       else tx_return ())) (\<lambda>_.
     tx_bind (tx_ignore (insert_risk_event (cc_account_id cmd) ''order_rejected''
       (command_order_payload U (cc_id cmd) order_id))) (\<lambda>_.
     tx_ignore commit_tx)))"

definition after_dispatch ::
    "json_ops \<Rightarrow> uuid_ops \<Rightarrow> claimed_command \<Rightarrow> dispatch_outcome \<Rightarrow> unit tx" where
  "after_dispatch J U cmd outcome =
     (case outcome of
        Retry \<Rightarrow> tx_bind acquire (\<lambda>_. tx_ignore (requeue_command (cc_id cmd)))
      | PermanentlyRejected \<Rightarrow>
          tx_bind acquire (\<lambda>_.
          tx_bind (tx_ignore (mark_command_permanently_rejected (cc_id cmd))) (\<lambda>_.
          case extract_order_id J U cmd of
            None \<Rightarrow> tx_return ()
          | Some order_id \<Rightarrow> reject_order U cmd order_id))
      | ReconciliationRequired \<Rightarrow>
          tx_bind acquire (\<lambda>_.
          tx_bind (tx_ignore (mark_command_reconciliation_required (cc_id cmd))) (\<lambda>_.
          audit_event (cc_account_id cmd) ''exchange_reconciliation_required''
            (JObj [(''command_id'', JStr (uuid_str U (cc_id cmd)))]))))"

definition process_command ::
    "dec_ops \<Rightarrow> json_ops \<Rightarrow> uuid_ops \<Rightarrow> supervisor \<Rightarrow> claimed_command \<Rightarrow> unit tx" where
  "process_command D J U sv cmd =
     (case resolve sv (cc_exchange_mode cmd) of
        None \<Rightarrow>
          tx_bind acquire (\<lambda>_.
          tx_bind (tx_ignore (mark_command_reconciliation_required (cc_id cmd))) (\<lambda>_.
          audit_event (cc_account_id cmd) ''exchange_reconciliation_required''
            (JObj [(''command_id'', JStr (uuid_str U (cc_id cmd))),
                   (''reason'', JStr ''no adapter configured for resolved exchange_mode'')])))
      | Some ad \<Rightarrow>
          tx_handle (dispatch D J U ad cmd)
            (\<lambda>_. tx_bind acquire (\<lambda>_. tx_ignore (mark_command_delivered (cc_id cmd))))
            (after_dispatch J U cmd))"

text \<open>Leases run for 30 seconds.\<close>

definition run_once ::
    "dec_ops \<Rightarrow> json_ops \<Rightarrow> uuid_ops \<Rightarrow> supervisor \<Rightarrow> nat \<Rightarrow> nat tx" where
  "run_once D J U sv batch_size =
     tx_bind (claim_pending_commands batch_size 30) (\<lambda>claimed.
     tx_bind (tx_each (process_command D J U sv) claimed) (\<lambda>_.
     tx_return (length claimed)))"

end
