(* ===== verification/Statement_Invariants.thy ===== *)
theory Statement_Invariants
  imports Routes_Orders Routes_Exchange Outbox_Worker
begin

text \<open>
  From statements to handlers. A predicate on the tables that every statement of a tenant keeps is
  kept by every route (\<open>tenant_invariant\<close>); if the statements that only the worker sends keep it as
  well, by the tenant half of every dispatch (\<open>worker_invariant\<close>); if the owner's statements do
  too, by a whole pass of the worker (\<open>outbox_invariant\<close>).
\<close>

lemma tx_inv_case_change:
  "(z = ClosePosition \<Longrightarrow> tx_inv r P m) \<Longrightarrow>
   (\<And>sd q p. z = SetPosition sd q p \<Longrightarrow> tx_inv r P (f sd q p)) \<Longrightarrow>
   tx_inv r P (case z of ClosePosition \<Rightarrow> m | SetPosition sd q p \<Rightarrow> f sd q p)"
  by (cases z) auto

locale tenant_invariant =
  fixes P :: "db \<Rightarrow> bool" and t :: uuid
  assumes risk_event: "keeps (App (Some t)) P (sql_insert_risk_event ev)"
    and trip: "keeps (App (Some t)) P (sql_trip_circuit_breaker t day now)"
    and order: "or_status ord = ''pending'' \<Longrightarrow> or_filled_quantity ord = 0 \<Longrightarrow>
      keeps (App (Some t)) P (sql_insert_order ord)"
    and exchange_command: "cm_status cmd = ''pending'' \<Longrightarrow> cm_attempts cmd = 0 \<Longrightarrow>
      keeps (App (Some t)) P (sql_insert_exchange_command cmd)"
    and account: "keeps (App (Some t)) P (sql_insert_account t e)"
    and risk_config: "keeps (App (Some t)) P (sql_insert_risk_config t)"
    and equity: "keeps (App (Some t)) P (sql_set_equity t e)"
    and limits: "keeps (App (Some t)) P (sql_update_risk_config t cfg v w)"
    and no_groups: "keeps (App (Some t)) P (sql_delete_groups t)"
    and group: "keeps (App (Some t)) P (sql_insert_group grp)"
    and asset: "keeps (App (Some t)) P (sql_insert_group_asset ast)"
    and engage: "keeps (App (Some t)) P (sql_engage_kill_switch t now)"
    and release: "keeps (App (Some t)) P (sql_release_kill_switch t)"
    and exchange_config: "keeps (App (Some t)) P (sql_insert_exchange_config xc)"
    and exchange_update: "keeps (App (Some t)) P (sql_update_exchange_config t mode tn k s v w)"
begin

lemmas stmts = tx_inv_stmt [OF risk_event] tx_inv_stmt [OF trip] 
  tx_inv_stmt [OF account] tx_inv_stmt [OF risk_config]
  tx_inv_stmt [OF equity] tx_inv_stmt [OF limits] tx_inv_stmt [OF no_groups] tx_inv_stmt [OF group]
  tx_inv_stmt [OF asset] tx_inv_stmt [OF engage] tx_inv_stmt [OF release]
  tx_inv_stmt [OF exchange_config] tx_inv_stmt [OF exchange_update]

lemma event_inv: "tx_inv (App (Some t)) P (insert_risk_event a ty pl)"
  unfolding insert_risk_event_def by (intro tx_inv_intros stmts)

lemma command_inv: "tx_inv (App (Some t)) P (insert_exchange_command a ty m key pl)"
  unfolding insert_exchange_command_def by (intro tx_inv_intros tx_inv_stmt exchange_command) simp_all

lemma insert_order_inv: "tx_inv (App (Some t)) P (insert_order oid a co s sd ty q p m)"
  unfolding insert_order_def by (intro tx_inv_stmt order) simp_all

lemma reading:
  "tx_inv (App (Some t)) P (lock_account a)" "tx_inv (App (Some t)) P (load_risk_config a)"
  "tx_inv (App (Some t)) P (load_snapshot D a acc)" "tx_inv (App (Some t)) P (load_exchange_mode a)"
  "tx_inv (App (Some t)) P (has_open_activity a)" "tx_inv (App (Some t)) P (lock_order a oid)"
  "tx_inv (App (Some t)) P (load_fills_for_order a oid)"
  unfolding lock_account_def load_risk_config_def load_snapshot_def load_exchange_mode_def
    has_open_activity_def lock_order_def load_fills_for_order_def
  by (intro tx_inv_intros)+

lemmas pieces = event_inv command_inv insert_order_inv reading tx_inv_intros stmts

lemma get_account_keeps: "durable_inv P (get_account t)"
  unfolding get_account_def by (intro durable_inv_tenant pieces)

lemma put_equity_keeps: "durable_inv P (put_equity U t e)"
  unfolding put_equity_def by (intro durable_intros durable_inv_tenant pieces)

lemma get_risk_config_keeps: "durable_inv P (get_risk_config t)"
  unfolding get_risk_config_def by (intro durable_inv_tenant pieces)

lemma put_risk_config_keeps: "durable_inv P (put_risk_config U t body)"
  unfolding put_risk_config_def
  by (intro durable_inv_tenant pieces | rule durable_inv_bind durable_inv_if durable_intros)+

lemma put_correlation_groups_keeps: "durable_inv P (put_correlation_groups t gs)"
  unfolding put_correlation_groups_def insert_group_def_def
  by (intro durable_inv_tenant pieces | rule durable_inv_bind durable_intros)+

lemma engage_kill_switch_keeps: "durable_inv P (engage_kill_switch t)"
  unfolding engage_kill_switch_def by (intro durable_inv_tenant pieces)

lemma release_kill_switch_keeps: "durable_inv P (release_kill_switch t)"
  unfolding release_kill_switch_def by (intro durable_inv_tenant pieces)

lemma evaluate_trade_keeps: "durable_inv P (evaluate_trade D U t i)"
  unfolding evaluate_trade_def trip_circuit_breaker_def
  by (intro durable_intros durable_inv_tenant pieces | rule durable_inv_if)+

lemma list_risk_events_keeps: "durable_inv P (list_risk_events t q)"
  unfolding list_risk_events_def by (intro durable_inv_tenant pieces)

lemma place_order_keeps: "durable_inv P (place_order D U st t1 t2 t body)"
  unfolding place_order_def Let_def
  by (intro durable_inv_tenant pieces | rule durable_inv_bind durable_intros)+

lemma get_exchange_config_keeps: "durable_inv P (get_exchange_config t)"
  unfolding get_exchange_config_def by (intro durable_inv_tenant pieces)

lemma put_exchange_config_keeps: "durable_inv P (put_exchange_config A U env n1 n2 t body)"
  unfolding put_exchange_config_def config_guard_def Let_def
  by (intro durable_inv_tenant pieces | rule durable_inv_if durable_intros)+

end

text \<open>A new account's identifier is drawn by the handler, so its law ranges over all tenants.\<close>

lemma create_account_keeps:
  assumes "\<And>t. tenant_invariant P t"
  shows "durable_inv P (create_account U body)"
proof -
  note law = tenant_invariant.account [OF assms] tenant_invariant.risk_config [OF assms]
    tenant_invariant.event_inv [OF assms]
  show ?thesis
    unfolding create_account_def Let_def
    by (intro durable_inv_tenant tx_inv_intros tx_inv_stmt law | rule durable_inv_if durable_intros)+
qed

locale worker_invariant = tenant_invariant +
  assumes fill: "keeps (App (Some t)) P (sql_insert_fill t oid f)"
    and order_status: "keeps (App (Some t)) P (sql_update_order_status t oid st q)"
    and new_position: "keeps (App (Some t)) P (sql_insert_position pos)"
    and close: "keeps (App (Some t)) P (sql_close_position pid now)"
    and move: "keeps (App (Some t)) P (sql_update_position pid sd q p)"
begin

lemmas worker_stmts = tx_inv_stmt [OF fill] tx_inv_stmt [OF order_status]
  tx_inv_stmt [OF new_position] tx_inv_stmt [OF close] tx_inv_stmt [OF move]

lemma insert_fills_inv: "tx_inv (App (Some t)) P (insert_fills t oid fs)"
  by (induction fs) (simp_all add: insert_fill_def pieces worker_stmts)

lemma update_status_inv: "tx_inv (App (Some t)) P (update_order_status t oid st q)"
  unfolding update_order_status_def by (intro worker_stmts)

lemma position_inv: "tx_inv (App (Some t)) P (apply_position_delta D t sy q p)"
  unfolding apply_position_delta_def
  by (intro pieces worker_stmts tx_inv_case_change)

lemma persist_inv:
  "tx_inv (App (Some t)) P (persist_deltas D t ds p)"
  "tx_inv (App (Some t)) P (persist_status D t oid locked fs ns)"
  "tx_inv (App (Some t)) P (persist_events t es)"
  unfolding persist_deltas_def persist_status_def persist_events_def
  by (intro pieces position_inv update_status_inv)+

lemmas worker_pieces = pieces worker_stmts insert_fills_inv update_status_inv persist_inv

lemma hydrate_snapshot_keeps: "durable_inv P (hydrate_snapshot t oid)"
  unfolding hydrate_snapshot_def by (intro durable_inv_tenant worker_pieces)

lemma persist_reconcile_result_keeps: "durable_inv P (persist_reconcile_result D t oid s r)"
  unfolding persist_reconcile_result_def persist_checked_def persist_fills_def persist_changes_def Let_def
  by (intro durable_inv_tenant worker_pieces)

lemma finish_keeps:
  "cc_account_id cmd = t \<Longrightarrow> durable_inv P (finish_submit U cmd oid)"
  "cc_account_id cmd = t \<Longrightarrow> durable_inv P (finish_cancel U cmd oid)"
  unfolding finish_submit_def finish_cancel_def
  by (simp cong: if_cong, intro durable_inv_tenant worker_pieces)+

lemma dispatch_keeps: "cc_account_id cmd = t \<Longrightarrow> durable_inv P (dispatch D J U ad cmd)"
  unfolding dispatch_def
  by (intro durable_intros hydrate_snapshot_keeps persist_reconcile_result_keeps finish_keeps
      | simp only: hydrate_snapshot_keeps persist_reconcile_result_keeps)+

lemma audit_event_keeps: "durable_inv P (audit_event t ty pl)"
  unfolding audit_event_def by (intro durable_inv_tenant worker_pieces)

lemma reject_order_keeps: "cc_account_id cmd = t \<Longrightarrow> durable_inv P (reject_order U cmd oid)"
  unfolding reject_order_def by (simp cong: if_cong, intro durable_inv_tenant worker_pieces)

end

text \<open>What the owner's marks of one command keep as well, the processing of that command keeps.\<close>

locale processing_invariant =
  fixes P :: "db \<Rightarrow> bool" and cid :: uuid
  assumes each_tenant: "worker_invariant P t"
    and set_status: "st \<in> {''delivered'', ''reconciliation_required'', ''permanently_rejected''} \<Longrightarrow>
      keeps Owner P (sql_set_command_status st cid)"
    and requeue: "keeps Owner P (sql_requeue_command cid)"
begin

lemma marks_keep:
  "durable_inv P (mark_command_delivered cid)"
  "durable_inv P (mark_command_permanently_rejected cid)"
  "durable_inv P (mark_command_reconciliation_required cid)"
  "durable_inv P (requeue_command cid)"
  unfolding mark_command_delivered_def mark_command_permanently_rejected_def
    mark_command_reconciliation_required_def requeue_command_def
  by (intro durable_inv_auto set_status requeue; simp)+

lemma acquire_keeps: "durable_inv P acquire"
  unfolding acquire_def by (rule durable_inv_io) (simp add: durable_inv_def)

lemma after_dispatch_keeps: "cc_id cmd = cid \<Longrightarrow> durable_inv P (after_dispatch J U cmd outcome)"
  unfolding after_dispatch_def
  by (cases outcome; simp; intro durable_intros marks_keep acquire_keeps
      worker_invariant.reject_order_keeps [OF each_tenant refl]
      worker_invariant.audit_event_keeps [OF each_tenant])

lemma process_command_keeps: "cc_id cmd = cid \<Longrightarrow> durable_inv P (process_command D J U sv cmd)"
  unfolding process_command_def
  by (simp cong: option.case_cong, intro durable_intros durable_inv_handle marks_keep acquire_keeps after_dispatch_keeps
      worker_invariant.dispatch_keeps [OF each_tenant refl]
      worker_invariant.audit_event_keeps [OF each_tenant])

end

locale outbox_invariant =
  fixes P :: "db \<Rightarrow> bool"
  assumes each_tenant: "worker_invariant P t"
    and claim: "keeps Owner P (sql_claim_pending_commands now n secs)"
    and set_status: "st \<in> {''delivered'', ''reconciliation_required'', ''permanently_rejected''} \<Longrightarrow>
      keeps Owner P (sql_set_command_status st cid)"
    and requeue: "keeps Owner P (sql_requeue_command cid)"

sublocale outbox_invariant \<subseteq> processing: processing_invariant P cid for cid
  by (rule processing_invariant.intro) (rule each_tenant set_status requeue; assumption)+

context outbox_invariant
begin

lemma claim_keeps: "durable_inv P (claim_pending_commands n secs)"
  unfolding claim_pending_commands_def by (intro durable_intros durable_inv_auto claim)

lemma run_once_keeps: "durable_inv P (run_once D J U sv n)"
  unfolding run_once_def
  by (intro durable_intros durable_inv_each claim_keeps processing.process_command_keeps [OF refl])

end

end
