(* ===== verification/Table_Invariants.thy ===== *)
theory Table_Invariants
  imports Statement_Invariants "HOL-Library.Sublist"
begin

text \<open>
  What the tables always satisfy. Three instances of the statement locales: the constraints of the
  schema hold (\<open>tables_ok\<close>), no statement of a tenant touches the rows of another
  (\<open>foreign_rows\<close>), and the audit log and the fills only grow (\<open>grown_from\<close>).
\<close>

section \<open>Helper lemmas on checked statements\<close>

named_theorems sql_defs \<open>definitions of the statements that write\<close>

lemmas [sql_defs] = sql_insert_risk_event_def sql_trip_circuit_breaker_def sql_insert_order_def
  sql_insert_exchange_command_def sql_insert_account_def sql_insert_risk_config_def sql_set_equity_def
  sql_update_account_def sql_update_risk_config_def sql_delete_groups_def sql_insert_group_def
  sql_insert_group_asset_def sql_engage_kill_switch_def sql_release_kill_switch_def
  sql_insert_exchange_config_def sql_update_exchange_config_def sql_insert_fill_def
  sql_update_order_status_def sql_insert_position_def sql_close_position_def
  sql_update_position_def sql_claim_pending_commands_def sql_set_command_status_def
  sql_requeue_command_def

lemma guard_Ok [simp]: "guard e b = Ok x \<longleftrightarrow> b"
  by (simp add: guard_def)

lemma checked_update_all:
  assumes "checked_update p f ok rs = Ok rs'" "\<forall>x\<in>set rs. R x"
    "\<And>x x'. x \<in> set rs \<Longrightarrow> p x \<Longrightarrow> f x = Some x' \<Longrightarrow> ok x' \<Longrightarrow> R x'"
  shows "\<forall>x\<in>set rs'. R x"
  using assms by (fastforce simp: checked_update_Ok set_update_where)

lemma checked_update_map:
  assumes "checked_update p f ok rs = Ok rs'" "\<And>x x'. f x = Some x' \<Longrightarrow> key x' = key x"
  shows "map key rs' = map key rs"
  using assms by (fastforce simp: checked_update_Ok update_where_def)

lemma checked_update_filter:
  assumes "checked_update p f ok rs = Ok rs'" "\<And>x x'. p x \<Longrightarrow> f x = Some x' \<Longrightarrow> \<not> q x \<and> \<not> q x'"
  shows "filter q rs' = filter q rs"
proof -
  have "\<forall>x\<in>set rs. p x \<longrightarrow> (\<exists>x'. f x = Some x')" "rs' = update_where p (\<lambda>x. the (f x)) rs"
    using assms(1) by (auto simp: checked_update_Ok)
  then show ?thesis
  proof (induction rs arbitrary: rs')
    case Nil
    then show ?case by (simp add: update_where_def)
  next
    case (Cons x rs)
    then show ?case using assms(2) by (fastforce simp: update_where_def)
  qed
qed

section \<open>Isolation of tenants\<close>

text \<open>The tables without the rows of one tenant.\<close>

definition foreign_rows :: "uuid \<Rightarrow> db \<Rightarrow> db" where
  "foreign_rows t d =
     \<lparr>t_accounts = filter (\<lambda>x. ac_id x \<noteq> t) (t_accounts d),
      t_risk_configs = filter (\<lambda>x. rc_account_id x \<noteq> t) (t_risk_configs d),
      t_correlation_groups = filter (\<lambda>x. cg_account_id x \<noteq> t) (t_correlation_groups d),
      t_correlation_group_assets = filter (\<lambda>x. ga_account_id x \<noteq> t) (t_correlation_group_assets d),
      t_positions = filter (\<lambda>x. po_account_id x \<noteq> t) (t_positions d),
      t_daily_pnl = filter (\<lambda>x. dp_account_id x \<noteq> t) (t_daily_pnl d),
      t_risk_events = filter (\<lambda>x. ev_account_id x \<noteq> t) (t_risk_events d),
      t_orders = filter (\<lambda>x. or_account_id x \<noteq> t) (t_orders d),
      t_order_fills = filter (\<lambda>x. fr_account_id x \<noteq> t) (t_order_fills d),
      t_exchange_configs = filter (\<lambda>x. ec_account_id x \<noteq> t) (t_exchange_configs d),
      t_exchange_commands = filter (\<lambda>x. cm_account_id x \<noteq> t) (t_exchange_commands d)\<rparr>"

lemma foreign_checked_update:
  assumes "checked_update p f ok rs = Ok rs'" "\<And>x. p x \<Longrightarrow> acct x = t"
    "\<And>x x'. f x = Some x' \<Longrightarrow> acct x' = acct x"
  shows "filter (\<lambda>x. acct x \<noteq> t) rs' = filter (\<lambda>x. acct x \<noteq> t) rs"
  using assms by (intro checked_update_filter [OF assms(1)]) auto

text \<open>A table whose foreign rows stay the same may be exchanged.\<close>

lemma foreign_rows_exchange:
  "filter (\<lambda>x. ac_id x \<noteq> t) xsaccounts = filter (\<lambda>x. ac_id x \<noteq> t) (t_accounts d) \<Longrightarrow>
    foreign_rows t (d\<lparr>t_accounts := xsaccounts\<rparr>) = foreign_rows t d"
  "filter (\<lambda>x. rc_account_id x \<noteq> t) xsrisk_configs = filter (\<lambda>x. rc_account_id x \<noteq> t) (t_risk_configs d) \<Longrightarrow>
    foreign_rows t (d\<lparr>t_risk_configs := xsrisk_configs\<rparr>) = foreign_rows t d"
  "filter (\<lambda>x. cg_account_id x \<noteq> t) xscorrelation_groups = filter (\<lambda>x. cg_account_id x \<noteq> t) (t_correlation_groups d) \<Longrightarrow>
    foreign_rows t (d\<lparr>t_correlation_groups := xscorrelation_groups\<rparr>) = foreign_rows t d"
  "filter (\<lambda>x. ga_account_id x \<noteq> t) xscorrelation_group_assets = filter (\<lambda>x. ga_account_id x \<noteq> t) (t_correlation_group_assets d) \<Longrightarrow>
    foreign_rows t (d\<lparr>t_correlation_group_assets := xscorrelation_group_assets\<rparr>) = foreign_rows t d"
  "filter (\<lambda>x. po_account_id x \<noteq> t) xspositions = filter (\<lambda>x. po_account_id x \<noteq> t) (t_positions d) \<Longrightarrow>
    foreign_rows t (d\<lparr>t_positions := xspositions\<rparr>) = foreign_rows t d"
  "filter (\<lambda>x. dp_account_id x \<noteq> t) xsdaily_pnl = filter (\<lambda>x. dp_account_id x \<noteq> t) (t_daily_pnl d) \<Longrightarrow>
    foreign_rows t (d\<lparr>t_daily_pnl := xsdaily_pnl\<rparr>) = foreign_rows t d"
  "filter (\<lambda>x. ev_account_id x \<noteq> t) xsrisk_events = filter (\<lambda>x. ev_account_id x \<noteq> t) (t_risk_events d) \<Longrightarrow>
    foreign_rows t (d\<lparr>t_risk_events := xsrisk_events\<rparr>) = foreign_rows t d"
  "filter (\<lambda>x. or_account_id x \<noteq> t) xsorders = filter (\<lambda>x. or_account_id x \<noteq> t) (t_orders d) \<Longrightarrow>
    foreign_rows t (d\<lparr>t_orders := xsorders\<rparr>) = foreign_rows t d"
  "filter (\<lambda>x. fr_account_id x \<noteq> t) xsorder_fills = filter (\<lambda>x. fr_account_id x \<noteq> t) (t_order_fills d) \<Longrightarrow>
    foreign_rows t (d\<lparr>t_order_fills := xsorder_fills\<rparr>) = foreign_rows t d"
  "filter (\<lambda>x. ec_account_id x \<noteq> t) xsexchange_configs = filter (\<lambda>x. ec_account_id x \<noteq> t) (t_exchange_configs d) \<Longrightarrow>
    foreign_rows t (d\<lparr>t_exchange_configs := xsexchange_configs\<rparr>) = foreign_rows t d"
  "filter (\<lambda>x. cm_account_id x \<noteq> t) xsexchange_commands = filter (\<lambda>x. cm_account_id x \<noteq> t) (t_exchange_commands d) \<Longrightarrow>
    foreign_rows t (d\<lparr>t_exchange_commands := xsexchange_commands\<rparr>) = foreign_rows t d"
  by (simp_all add: foreign_rows_def)

lemma foreign_rows_keeps:
  "keeps (App (Some t)) (\<lambda>d. foreign_rows t d = K) (sql_insert_risk_event ev)"
  "keeps (App (Some t)) (\<lambda>d. foreign_rows t d = K) (sql_insert_order ord)"
  "keeps (App (Some t)) (\<lambda>d. foreign_rows t d = K) (sql_insert_exchange_command cmd)"
  "keeps (App (Some t)) (\<lambda>d. foreign_rows t d = K) (sql_insert_account t e)"
  "keeps (App (Some t)) (\<lambda>d. foreign_rows t d = K) (sql_insert_risk_config t)"
  "keeps (App (Some t)) (\<lambda>d. foreign_rows t d = K) (sql_insert_group grp)"
  "keeps (App (Some t)) (\<lambda>d. foreign_rows t d = K) (sql_insert_group_asset ast)"
  "keeps (App (Some t)) (\<lambda>d. foreign_rows t d = K) (sql_insert_exchange_config xc)"
  "keeps (App (Some t)) (\<lambda>d. foreign_rows t d = K) (sql_insert_fill t oid f)"
  "keeps (App (Some t)) (\<lambda>d. foreign_rows t d = K) (sql_insert_position pos)"
  by (rule keepsI; auto simp: sql_defs res_simps Let_def split: if_splits intro!: foreign_rows_exchange)+

lemma foreign_rows_keeps_delete:
  "keeps (App (Some t)) (\<lambda>d. foreign_rows t d = K) (sql_delete_groups t)"
  by (rule keepsI)
    (auto simp: sql_defs foreign_rows_def Let_def list_ex_iff intro!: filter_cong [OF refl])

lemma foreign_rows_keeps_trip:
  "keeps (App (Some t)) (\<lambda>d. foreign_rows t d = K) (sql_trip_circuit_breaker t day now)"
proof (rule keepsI)
  fix d x d'
  have "filter (\<lambda>x. dp_account_id x \<noteq> t) (update_where (\<lambda>x. dp_account_id x = t \<and> dp_trading_date x = day)
      (\<lambda>x. x\<lparr>dp_circuit_breaker_tripped_at := f x\<rparr>) rows) = filter (\<lambda>x. dp_account_id x \<noteq> t) rows" for f rows
    by (rule filter_update_where_other) simp
  then show "foreign_rows t d = K \<Longrightarrow> sql_trip_circuit_breaker t day now (App (Some t)) d = Ok (x, d') \<Longrightarrow>
      foreign_rows t d' = K"
    by (auto simp: sql_defs res_simps foreign_rows_def split: if_splits)
qed

lemma foreign_rows_keeps_update:
  "keeps (App (Some t)) (\<lambda>d. foreign_rows t d = K) (sql_set_equity t e)"
  "keeps (App (Some t)) (\<lambda>d. foreign_rows t d = K) (sql_engage_kill_switch t now)"
  "keeps (App (Some t)) (\<lambda>d. foreign_rows t d = K) (sql_release_kill_switch t)"
  "keeps (App (Some t)) (\<lambda>d. foreign_rows t d = K) (sql_update_risk_config t cfg v w)"
  "keeps (App (Some t)) (\<lambda>d. foreign_rows t d = K) (sql_update_exchange_config t mode tn k s v w)"
  "keeps (App (Some t)) (\<lambda>d. foreign_rows t d = K) (sql_update_order_status t oid st q)"
  "keeps (App (Some t)) (\<lambda>d. foreign_rows t d = K) (sql_close_position pid now)"
  "keeps (App (Some t)) (\<lambda>d. foreign_rows t d = K) (sql_update_position pid sd qty p)"
  by (rule keepsI; auto simp: sql_defs res_simps Let_def split: option.splits prod.splits
        intro!: foreign_rows_exchange elim!: foreign_checked_update)+

interpretation isolation: worker_invariant "\<lambda>d. foreign_rows t d = K" t
  by unfold_locales (rule foreign_rows_keeps foreign_rows_keeps_delete
      foreign_rows_keeps_trip foreign_rows_keeps_update)+

section \<open>Append-only tables\<close>

definition grown_from :: "risk_event_row list \<Rightarrow> fill_row list \<Rightarrow> db \<Rightarrow> bool" where
  "grown_from es fs d \<longleftrightarrow> prefix es (t_risk_events d) \<and> prefix fs (t_order_fills d)"

lemma grown_from_refl: "grown_from (t_risk_events d) (t_order_fills d) d"
  by (simp add: grown_from_def)

lemma grown_from_same:
  "t_risk_events d' = t_risk_events d \<Longrightarrow> t_order_fills d' = t_order_fills d \<Longrightarrow>
   grown_from es fs d \<Longrightarrow> grown_from es fs d'"
  by (simp add: grown_from_def)

interpretation audit: outbox_invariant "grown_from es fs"
  by unfold_locales
    (rule keepsI; auto simp: sql_defs res_simps grown_from_def Let_def split: if_splits)+

end
