(* ===== verification/Schema_Invariants.thy ===== *)
theory Schema_Invariants
  imports Table_Invariants
begin

text \<open>
  The constraints of the migrations as an invariant of the tables: every row satisfies its checks,
  keys are unique, references resolve. \<open>tables_ok\<close> is an instance of \<open>outbox_invariant\<close>, so every
  route and every pass of the worker keeps it.
\<close>

definition orders_ok :: "order_row list \<Rightarrow> bool" where
  "orders_ok rs \<longleftrightarrow> distinct (map or_id rs) \<and>
     (\<forall>x\<in>set rs. order_check x \<and> on_grid (or_quantity x) \<and> on_grid (or_filled_quantity x))"

definition fills_ok :: "uuid list \<Rightarrow> fill_row list \<Rightarrow> bool" where
  "fills_ok ids rs \<longleftrightarrow> distinct (map (\<lambda>x. (fr_account_id x, fr_exchange_trade_id x)) rs) \<and>
     (\<forall>x\<in>set rs. fill_check x \<and> on_grid (fr_quantity x) \<and> fr_order_id x \<in> set ids)"

definition positions_ok :: "position_row list \<Rightarrow> bool" where
  "positions_ok rs \<longleftrightarrow> distinct (map po_id rs) \<and>
     distinct (map (\<lambda>x. (po_account_id x, po_symbol x)) (filter (\<lambda>x. po_status x = ''open'') rs)) \<and>
     (\<forall>x\<in>set rs. position_check x \<and> on_grid (po_quantity x))"

definition accounts_ok :: "account_row list \<Rightarrow> bool" where
  "accounts_ok rs \<longleftrightarrow> distinct (map ac_id rs) \<and> (\<forall>x\<in>set rs. account_check x)"

definition limits_ok :: "risk_config_row list \<Rightarrow> bool" where
  "limits_ok rs \<longleftrightarrow> distinct (map rc_account_id rs) \<and> (\<forall>x\<in>set rs. risk_config_check x)"

definition commands_ok :: "command_row list \<Rightarrow> bool" where
  "commands_ok rs \<longleftrightarrow> distinct (map cm_id rs) \<and>
     distinct (map (\<lambda>x. (cm_account_id x, cm_idempotency_key x)) rs) \<and> (\<forall>x\<in>set rs. command_check x)"

definition events_ok :: "risk_event_row list \<Rightarrow> bool" where
  "events_ok rs \<longleftrightarrow> distinct (map ev_id rs) \<and> (\<forall>x\<in>set rs. ev_event_type x \<in> set risk_event_types)"

definition groups_ok :: "group_row list \<Rightarrow> group_asset_row list \<Rightarrow> bool" where
  "groups_ok gs rs \<longleftrightarrow> distinct (map cg_id gs) \<and>
     distinct (map (\<lambda>x. (ga_account_id x, ga_symbol x)) rs) \<and>
     (\<forall>x\<in>set rs. \<exists>g\<in>set gs. cg_id g = ga_group_id x \<and> cg_account_id g = ga_account_id x)"

definition exchange_configs_ok :: "exchange_config_row list \<Rightarrow> bool" where
  "exchange_configs_ok rs \<longleftrightarrow> distinct (map ec_account_id rs) \<and> (\<forall>x\<in>set rs. mode_check x)"

definition tables_ok :: "db \<Rightarrow> bool" where
  "tables_ok d \<longleftrightarrow>
     accounts_ok (t_accounts d) \<and> limits_ok (t_risk_configs d) \<and>
     groups_ok (t_correlation_groups d) (t_correlation_group_assets d) \<and>
     positions_ok (t_positions d) \<and> events_ok (t_risk_events d) \<and> orders_ok (t_orders d) \<and>
     fills_ok (map or_id (t_orders d)) (t_order_fills d) \<and>
     exchange_configs_ok (t_exchange_configs d) \<and> commands_ok (t_exchange_commands d)"

lemma tables_ok_empty: "tables_ok empty_db"
  by (simp add: tables_ok_def empty_db_def accounts_ok_def limits_ok_def groups_ok_def positions_ok_def
      events_ok_def orders_ok_def fills_ok_def exchange_configs_ok_def commands_ok_def)

section \<open>One table at a time\<close>

lemma orders_ok_insert:
  "orders_ok rs \<Longrightarrow> order_check row \<Longrightarrow> on_grid (or_quantity row) \<Longrightarrow> on_grid (or_filled_quantity row) \<Longrightarrow>
   \<forall>x\<in>set rs. or_id x \<noteq> or_id row \<Longrightarrow> orders_ok (rs @ [row])"
  by (auto simp: orders_ok_def)

lemma orders_ok_update:
  assumes "checked_update p f order_check rs = Ok rs'" "orders_ok rs"
    "\<And>x x'. f x = Some x' \<Longrightarrow> or_id x' = or_id x \<and> or_quantity x' = or_quantity x \<and>
       on_grid (or_filled_quantity x')"
  shows "orders_ok rs'"
proof -
  have "map or_id rs' = map or_id rs"
    using assms(1,3) by (intro checked_update_map) auto
  moreover have "\<forall>x\<in>set rs'. order_check x \<and> on_grid (or_quantity x) \<and> on_grid (or_filled_quantity x)"
    using assms by (intro checked_update_all [OF assms(1)]) (auto simp: orders_ok_def)
  ultimately show ?thesis using assms(2) by (simp add: orders_ok_def)
qed

lemma fills_ok_insert:
  "fills_ok ids rs \<Longrightarrow> fill_check row \<Longrightarrow> on_grid (fr_quantity row) \<Longrightarrow> fr_order_id row \<in> set ids \<Longrightarrow>
   \<forall>x\<in>set rs. fr_account_id x = fr_account_id row \<longrightarrow> fr_exchange_trade_id x \<noteq> fr_exchange_trade_id row
   \<Longrightarrow> fills_ok ids (rs @ [row])"
  by (auto simp: fills_ok_def)

lemma fills_ok_more: "fills_ok ids rs \<Longrightarrow> fills_ok (ids @ [i]) rs"
  by (auto simp: fills_ok_def)

lemma positions_ok_insert:
  "positions_ok rs \<Longrightarrow> position_check row \<Longrightarrow> on_grid (po_quantity row) \<Longrightarrow>
   \<forall>x\<in>set rs. po_id x \<noteq> po_id row \<and>
     (po_account_id x = po_account_id row \<longrightarrow> po_symbol x = po_symbol row \<longrightarrow>
      po_status row = ''open'' \<longrightarrow> po_status x \<noteq> ''open'') \<Longrightarrow>
   positions_ok (rs @ [row])"
  by (auto simp: positions_ok_def)

lemma distinct_filter_update:
  assumes "distinct (map k (filter q rs))" "\<And>x. q (g x) \<Longrightarrow> q x" "\<And>x. k (g x) = k x"
  shows "distinct (map k (filter q (update_where p g rs)))"
  using assms(1)
proof (induction rs)
  case Nil
  then show ?case by (simp add: update_where_def)
next
  case (Cons x rs)
  have sub: "k ` {y \<in> set (update_where p g rs). q y} \<subseteq> k ` {y \<in> set rs. q y}"
    using assms(2,3) by (auto simp: set_update_where image_iff)
  show ?case
  proof (cases "q (if p x then g x else x)")
    case True
    then have "q x" using assms(2) by (auto split: if_splits)
    with Cons True sub assms(3) show ?thesis by (auto simp: update_where_def)
  next
    case False
    with Cons show ?thesis by (auto simp: update_where_def split: if_splits)
  qed
qed

lemma positions_ok_update:
  assumes "checked_update p f position_check rs = Ok rs'" "positions_ok rs"
    "\<And>x x'. f x = Some x' \<Longrightarrow> po_id x' = po_id x \<and> po_account_id x' = po_account_id x \<and>
       po_symbol x' = po_symbol x \<and> (po_status x' = ''open'' \<longrightarrow> po_status x = ''open'') \<and>
       on_grid (po_quantity x')"
  shows "positions_ok rs'"
proof -
  have ids: "map po_id rs' = map po_id rs"
    using assms(1,3) by (intro checked_update_map) auto
  have rows: "\<forall>x\<in>set rs'. position_check x \<and> on_grid (po_quantity x)"
    using assms by (intro checked_update_all [OF assms(1)]) (auto simp: positions_ok_def)
  let ?g = "\<lambda>x. case f x of Some x' \<Rightarrow> x' | None \<Rightarrow> x"
  have "rs' = update_where p ?g rs"
    using assms(1) by (fastforce simp: checked_update_Ok update_where_def)
  then have "distinct (map (\<lambda>x. (po_account_id x, po_symbol x)) (filter (\<lambda>x. po_status x = ''open'') rs'))"
    using assms(2,3) by (auto simp: positions_ok_def split: option.splits intro!: distinct_filter_update)
  with ids rows assms(2) show ?thesis by (simp add: positions_ok_def)
qed

lemma accounts_ok_update:
  assumes "checked_update p f account_check rs = Ok rs'" "accounts_ok rs"
    "\<And>x x'. f x = Some x' \<Longrightarrow> ac_id x' = ac_id x"
  shows "accounts_ok rs'"
  using assms(2) checked_update_map [OF assms(1), of ac_id]
    checked_update_all [OF assms(1), of account_check] assms(3)
  by (simp add: accounts_ok_def)

lemma limits_ok_update:
  assumes "checked_update p f risk_config_check rs = Ok rs'" "limits_ok rs"
    "\<And>x x'. f x = Some x' \<Longrightarrow> rc_account_id x' = rc_account_id x"
  shows "limits_ok rs'"
  using assms(2) checked_update_map [OF assms(1), of rc_account_id]
    checked_update_all [OF assms(1), of risk_config_check] assms(3)
  by (simp add: limits_ok_def)

lemma exchange_configs_ok_update:
  assumes "checked_update p f mode_check rs = Ok rs'" "exchange_configs_ok rs"
    "\<And>x x'. f x = Some x' \<Longrightarrow> ec_account_id x' = ec_account_id x"
  shows "exchange_configs_ok rs'"
  using assms(2) checked_update_map [OF assms(1), of ec_account_id]
    checked_update_all [OF assms(1), of mode_check] assms(3)
  by (simp add: exchange_configs_ok_def)

lemma commands_ok_update:
  assumes "commands_ok rs" "\<And>x. cm_id (g x) = cm_id x \<and> cm_account_id (g x) = cm_account_id x \<and>
      cm_idempotency_key (g x) = cm_idempotency_key x" "\<And>x. command_check x \<Longrightarrow> command_check (g x)"
  shows "commands_ok (update_where p g rs)"
  using assms by (auto simp: commands_ok_def map_update_where set_update_where)

lemma commands_ok_requeue:
  assumes "checked_update p f command_check rs = Ok rs'" "commands_ok rs"
    "\<And>x x'. f x = Some x' \<Longrightarrow> cm_id x' = cm_id x \<and> cm_account_id x' = cm_account_id x \<and>
       cm_idempotency_key x' = cm_idempotency_key x"
  shows "commands_ok rs'"
  using assms(2) checked_update_map [OF assms(1), of cm_id]
    checked_update_map [OF assms(1), of "\<lambda>x. (cm_account_id x, cm_idempotency_key x)"]
    checked_update_all [OF assms(1), of command_check] assms(3)
  by (simp add: commands_ok_def)

lemma fills_ok_update:
  "checked_update p f ok rs = Ok rs' \<Longrightarrow> fills_ok (map or_id rs) fs \<Longrightarrow>
   (\<And>x x'. f x = Some x' \<Longrightarrow> or_id x' = or_id x) \<Longrightarrow> fills_ok (map or_id rs') fs"
  using checked_update_map [of p f ok rs rs' or_id] by simp

lemma default_risk_config_check: "risk_config_check \<lparr>rc_account_id = a, rc_cfg = default_risk_config, rc_version = 1\<rparr>"
  by (simp add: risk_config_check_def default_risk_config_def pct_check_def)

lemma groups_ok_delete:
  assumes "groups_ok gs rs"
  shows "groups_ok (filter (\<lambda>g. cg_account_id g \<noteq> t) gs)
    (filter (\<lambda>x. \<not> list_ex (\<lambda>g. cg_id g = ga_group_id x \<and> cg_account_id g = ga_account_id x)
       (filter (\<lambda>g. cg_account_id g = t) gs)) rs)"
proof -
  have "distinct (map cg_id (filter p gs))" "distinct (map (\<lambda>x. (ga_account_id x, ga_symbol x)) (filter q rs))" for p q
    using assms by (simp_all add: groups_ok_def distinct_map_filter)
  moreover have "\<exists>g\<in>set gs. cg_account_id g \<noteq> t \<and> cg_id g = ga_group_id x \<and> cg_account_id g = ga_account_id x"
    if "x \<in> set rs" "\<not> list_ex (\<lambda>g. cg_id g = ga_group_id x \<and> cg_account_id g = ga_account_id x)
       (filter (\<lambda>g. cg_account_id g = t) gs)" for x
    using assms that by (fastforce simp: groups_ok_def list_ex_iff)
  ultimately show ?thesis unfolding groups_ok_def by fastforce
qed

section \<open>Every statement keeps the constraints\<close>

lemma tables_ok_insert:
  "keeps r tables_ok (sql_insert_risk_event ev)"
  "keeps r tables_ok (sql_trip_circuit_breaker t day now)"
  "keeps r tables_ok (sql_insert_exchange_command cmd)"
  "keeps r tables_ok (sql_insert_account t e)"
  "keeps r tables_ok (sql_insert_risk_config t)"
  "keeps r tables_ok (sql_insert_exchange_config xc)"
  by (rule keepsI; auto simp: sql_defs res_simps tables_ok_def events_ok_def commands_ok_def
      accounts_ok_def limits_ok_def exchange_configs_ok_def list_ex_iff account_exists_def Let_def
      default_risk_config_check split: if_splits)+

lemma tables_ok_groups:
  "keeps r tables_ok (sql_insert_group grp)"
  "keeps r tables_ok (sql_insert_group_asset ast)"
  "keeps (App (Some t)) tables_ok (sql_delete_groups t)"
  subgoal by (rule keepsI) (auto simp: sql_defs res_simps tables_ok_def groups_ok_def list_ex_iff)
  subgoal by (rule keepsI) (auto simp: sql_defs res_simps tables_ok_def groups_ok_def list_ex_iff)
  subgoal
    by (rule keepsI) (auto simp: sql_defs tables_ok_def Let_def intro: groups_ok_delete)
  done

lemma tables_ok_trading_inserts:
  "or_filled_quantity ord = 0 \<Longrightarrow> keeps r tables_ok (sql_insert_order ord)"
  "keeps r tables_ok (sql_insert_fill t oid f)"
  "keeps r tables_ok (sql_insert_position pos)"
  subgoal
    by (rule keepsI, auto simp: sql_defs res_simps tables_ok_def list_ex_iff Let_def
      intro!: orders_ok_insert fills_ok_more, erule numeric_grid)
  subgoal
    by (rule keepsI, auto simp: sql_defs res_simps tables_ok_def list_ex_iff Let_def
      intro!: fills_ok_insert split: if_splits, erule numeric_grid)
  subgoal
    by (rule keepsI, auto simp: sql_defs res_simps tables_ok_def list_ex_iff Let_def
      intro!: positions_ok_insert, erule numeric_grid)
  done

lemma tables_ok_updates:
  "keeps r tables_ok (sql_set_equity t e)"
  "keeps r tables_ok (sql_engage_kill_switch t now)"
  "keeps r tables_ok (sql_release_kill_switch t)"
  "keeps r tables_ok (sql_update_risk_config t cfg v w)"
  "keeps r tables_ok (sql_update_exchange_config t mode tn k s v w)"
  subgoal by (rule keepsI) (auto simp: sql_defs res_simps tables_ok_def elim!: accounts_ok_update)
  subgoal by (rule keepsI) (auto simp: sql_defs res_simps tables_ok_def elim!: accounts_ok_update)
  subgoal by (rule keepsI) (auto simp: sql_defs res_simps tables_ok_def elim!: accounts_ok_update)
  subgoal by (rule keepsI) (auto simp: sql_defs res_simps tables_ok_def Let_def elim!: limits_ok_update)
  subgoal
    by (rule keepsI) (auto simp: sql_defs res_simps tables_ok_def Let_def
      elim!: exchange_configs_ok_update)
  done

lemma tables_ok_trading_updates:
  "keeps r tables_ok (sql_update_order_status t oid st q)"
  "keeps r tables_ok (sql_close_position pid now)"
  "keeps r tables_ok (sql_update_position pid sd qty p)"
  subgoal
    by (rule keepsI, auto simp: sql_defs res_simps tables_ok_def
      elim!: orders_ok_update fills_ok_update, erule numeric_grid)
  subgoal
    by (rule keepsI) (auto simp: sql_defs res_simps tables_ok_def elim!: positions_ok_update)
  subgoal
    by (rule keepsI, auto simp: sql_defs res_simps tables_ok_def
      elim!: positions_ok_update split: option.splits, erule numeric_grid)
  done

lemma tables_ok_owner:
  "keeps r tables_ok (sql_claim_pending_commands now n secs)"
  "st \<in> {''delivered'', ''reconciliation_required'', ''permanently_rejected''} \<Longrightarrow>
     keeps r tables_ok (sql_set_command_status st cid)"
  "keeps r tables_ok (sql_requeue_command cid)"
  subgoal
    by (rule keepsI) (auto simp: sql_defs tables_ok_def Let_def command_check_def intro!: commands_ok_update)
  subgoal
    by (rule keepsI) (auto simp: sql_defs tables_ok_def command_check_def intro!: commands_ok_update)
  subgoal
    by (rule keepsI) (auto simp: sql_defs res_simps tables_ok_def elim!: commands_ok_requeue split: if_splits)
  done

interpretation constraints: outbox_invariant tables_ok
  by unfold_locales
    (rule tables_ok_insert tables_ok_groups tables_ok_trading_inserts tables_ok_updates
      tables_ok_trading_updates tables_ok_owner | assumption)+

end
