(* ===== verification/Worker_Effects.thy ===== *)
theory Worker_Effects
  imports Tx_Logic Schema_Invariants
begin

text \<open>
  What the worker's transactions make of the durable state, exactly. Each is all or nothing: the
  state before, or the state before with the effect described by the predicates of this theory,
  whatever statements fail and whatever round trips are lost on the way.
\<close>

section \<open>Positions\<close>

definition signed_quantity :: "position_row \<Rightarrow> rat" where
  "signed_quantity x = (if po_side x = ''short'' then - po_quantity x else po_quantity x)"

definition holds :: "uuid \<Rightarrow> string \<Rightarrow> position_row \<Rightarrow> bool" where
  "holds a s x \<longleftrightarrow> po_account_id x = a \<and> po_symbol x = s \<and> po_status x = ''open''"

text \<open>The net position of an account in a symbol.\<close>

definition net_position :: "uuid \<Rightarrow> string \<Rightarrow> position_row list \<Rightarrow> rat" where
  "net_position a s rs = sum_list (map signed_quantity (filter (holds a s) rs))"

definition side_of :: "rat \<Rightarrow> string" where
  "side_of q = (if q > 0 then ''long'' else ''short'')"

definition position_opened :: "uuid \<Rightarrow> string \<Rightarrow> rat \<Rightarrow> position_row list \<Rightarrow> position_row list \<Rightarrow> bool" where
  "position_opened a s delta rs rs' \<longleftrightarrow>
     (\<forall>x\<in>set rs. \<not> holds a s x) \<and>
     (\<exists>row. rs' = rs @ [row] \<and> holds a s row \<and> po_side row = side_of delta \<and>
        numeric_30_10 \<bar>delta\<bar> = Some (po_quantity row) \<and> 0 < po_quantity row)"

definition position_adjusted ::
    "dec_ops \<Rightarrow> uuid \<Rightarrow> string \<Rightarrow> rat \<Rightarrow> rat \<Rightarrow> position_row list \<Rightarrow> position_row list \<Rightarrow> bool" where
  "position_adjusted D a s delta price rs rs' \<longleftrightarrow>
     (\<exists>row new_signed q p. row \<in> set rs \<and> holds a s row \<and>
        dadd D (signed_quantity row) delta = Some new_signed \<and> new_signed \<noteq> 0 \<and>
        numeric_30_10 \<bar>new_signed\<bar> = Some q \<and> 0 < q \<and>
        numeric_30_10 (if (po_side row = ''long'') = (new_signed > 0) then po_avg_entry_price row
                       else price) = Some p \<and>
        rs' = update_where (\<lambda>x. po_account_id x = a \<and> po_id x = po_id row)
          (\<lambda>x. x\<lparr>po_side := side_of new_signed, po_quantity := q, po_avg_entry_price := p\<rparr>) rs)"

definition position_moved ::
    "dec_ops \<Rightarrow> uuid \<Rightarrow> string \<Rightarrow> rat \<Rightarrow> rat \<Rightarrow> position_row list \<Rightarrow> position_row list \<Rightarrow> bool" where
  "position_moved D a s delta price rs rs' \<longleftrightarrow>
     (delta = 0 \<and> rs' = rs) \<or> position_opened a s delta rs rs' \<or>
     position_adjusted D a s delta price rs rs'"

text \<open>The columns and tables a piece of a transaction leaves alone.\<close>

definition but_positions :: "db \<Rightarrow> db \<Rightarrow> bool" where
  "but_positions d d' \<longleftrightarrow> d' = d\<lparr>t_positions := t_positions d'\<rparr>"

lemma but_positions_trans: "but_positions d d1 \<Longrightarrow> but_positions d1 d2 \<Longrightarrow> but_positions d d2"
  unfolding but_positions_def by (metis db.surjective db.update_convs(5))

lemma find_open_position_Some:
  "find_open_position a s (App (Some a)) d = Some row \<Longrightarrow> row \<in> set (t_positions d) \<and> holds a s row"
  by (auto simp: find_open_position_def holds_def dest: first_row_Some)

lemma find_open_position_None:
  "find_open_position a s (App (Some a)) d = None \<longleftrightarrow> (\<forall>x\<in>set (t_positions d). \<not> holds a s x)"
  by (auto simp: find_open_position_def holds_def first_row_None)

lemma insert_position_effect:
  assumes "sql_insert_position row (App (Some a)) d = Ok (x, d')" "\<forall>y\<in>set (t_positions d). \<not> holds a s y"
    "po_account_id row = a" "po_symbol row = s" "po_side row = side_of delta" "po_quantity row = \<bar>delta\<bar>"
    "po_status row = ''open''"
  shows "position_opened a s delta (t_positions d) (t_positions d') \<and> but_positions d d'"
  using assms
  by (auto simp: sql_insert_position_def res_simps Let_def position_opened_def but_positions_def
      holds_def position_check_def)

lemma update_position_effect:
  assumes "sql_update_position (po_id row) (side_of ns) \<bar>ns\<bar> pr (App (Some a)) d = Ok (x, d')"
    "row \<in> set (t_positions d)" "holds a s row" "dadd D (signed_quantity row) delta = Some ns" "ns \<noteq> 0"
    "pr = (if (po_side row = ''long'') = (ns > 0) then po_avg_entry_price row else price)"
  shows "position_adjusted D a s delta price (t_positions d) (t_positions d') \<and> but_positions d d'"
proof -
  let ?p = "\<lambda>x. po_account_id x = a \<and> po_id x = po_id row"
  let ?f = "\<lambda>x. case (numeric_30_10 \<bar>ns\<bar>, numeric_30_10 pr) of
      (Some q, Some p) \<Rightarrow> Some (x\<lparr>po_side := side_of ns, po_quantity := q, po_avg_entry_price := p\<rparr>)
    | _ \<Rightarrow> None"
  from assms(1) obtain rows where upd: "checked_update ?p ?f position_check (t_positions d) = Ok rows"
      and d': "d' = d\<lparr>t_positions := rows\<rparr>"
    by (auto simp: sql_update_position_def res_simps)
  from upd assms(2,3) obtain row' where "?f row = Some row'" "position_check row'"
    by (auto simp: checked_update_Ok holds_def)
  then obtain q p where qp: "numeric_30_10 \<bar>ns\<bar> = Some q" "numeric_30_10 pr = Some p" "0 < q"
    by (auto simp: position_check_def split: option.splits)
  then have "rows = update_where ?p
      (\<lambda>x. x\<lparr>po_side := side_of ns, po_quantity := q, po_avg_entry_price := p\<rparr>) (t_positions d)"
    using upd by (simp add: checked_update_Ok)
  then show ?thesis
    using assms(2-6) qp d' unfolding position_adjusted_def but_positions_def
    by (intro conjI exI [of _ row] exI [of _ ns] exI [of _ q] exI [of _ p]) simp_all
qed

text \<open>A closed position has quantity zero, which the check on the table forbids.\<close>

lemma close_position_fails:
  assumes "row \<in> set (t_positions d)" "po_account_id row = a"
  shows "sql_close_position (po_id row) now (App (Some a)) d = Err CheckViolation"
  using assms by (auto simp: sql_close_position_def checked_update_def list_ex_iff position_check_def)

lemma position_change_cases:
  assumes "position_change D row delta price = Some ch"
  obtains "ch = ClosePosition" "dadd D (signed_quantity row) delta = Some 0"
  | ns where "dadd D (signed_quantity row) delta = Some ns" "ns \<noteq> 0"
      "ch = SetPosition (side_of ns) \<bar>ns\<bar>
        (if (po_side row = ''long'') = (ns > 0) then po_avg_entry_price row else price)"
  using assms
  by (auto simp: position_change_def signed_quantity_def side_of_def Let_def
      split: Option.bind_splits if_splits)

text \<open>The two branches: no open position, or one that is changed.\<close>

lemma open_position_spec:
  "tx_spec (App (Some a)) I (\<lambda>d. d = d0 \<and> find_open_position a s (App (Some a)) d = None)
     (tx_bind fresh_id (\<lambda>pid. stmt (sql_insert_position
       \<lparr>po_id = pid, po_account_id = a, po_symbol = s,
        po_side = (if delta > 0 then ''long'' else ''short''), po_quantity = \<bar>delta\<bar>,
        po_avg_entry_price = price, po_status = ''open'', po_closed_at = None\<rparr>)))
     (\<lambda>_ d. position_moved D a s delta price (t_positions d0) (t_positions d) \<and> but_positions d0 d) (\<lambda>_. True)"
  by (rule spec_bind [OF spec_fresh spec_stmt], assumption)
    (auto simp: find_open_position_None side_of_def position_moved_def
      dest!: insert_position_effect [where a = a and s = s and delta = delta])

lemma change_position_spec:
  "tx_spec (App (Some a)) I (\<lambda>d. d = d0 \<and> row \<in> set (t_positions d) \<and> holds a s row)
     (tx_bind (tx_lift (or_panic (position_change D row delta price))) (\<lambda>change.
       case change of
         ClosePosition \<Rightarrow> tx_bind get_now (\<lambda>now. stmt (sql_close_position (po_id row) now))
       | SetPosition sd q p \<Rightarrow> stmt (sql_update_position (po_id row) sd q p)))
     (\<lambda>_ d. position_moved D a s delta price (t_positions d0) (t_positions d) \<and> but_positions d0 d) (\<lambda>_. True)"
proof (rule spec_bind [OF spec_lift [where Q =
      "\<lambda>ch d. position_change D row delta price = Some ch \<and> d = d0 \<and> row \<in> set (t_positions d) \<and> holds a s row"]])
  fix ch
  show "tx_spec (App (Some a)) I
      (\<lambda>d. position_change D row delta price = Some ch \<and> d = d0 \<and> row \<in> set (t_positions d) \<and> holds a s row)
      (case ch of
        ClosePosition \<Rightarrow> tx_bind get_now (\<lambda>now. stmt (sql_close_position (po_id row) now))
      | SetPosition sd q p \<Rightarrow> stmt (sql_update_position (po_id row) sd q p))
      (\<lambda>_ d. position_moved D a s delta price (t_positions d0) (t_positions d) \<and> but_positions d0 d) (\<lambda>_. True)"
  proof (cases ch)
    case ClosePosition
    then show ?thesis
      by (auto simp: close_position_fails holds_def intro!: spec_clock spec_stmt
          spec_bind [where R = "\<lambda>_ d. row \<in> set (t_positions d) \<and> po_account_id row = a"])
  next
    case (SetPosition sd q p)
    then show ?thesis
      by (auto elim!: position_change_cases simp: position_moved_def intro!: spec_stmt
          dest!: update_position_effect)
  qed
qed (auto simp: res_simps)

lemma apply_position_delta_spec:
  "tx_spec (App (Some a)) I (\<lambda>d. d = d0) (apply_position_delta D a s delta price)
     (\<lambda>_ d. position_moved D a s delta price (t_positions d0) (t_positions d) \<and> but_positions d0 d)
     (\<lambda>_. True)"
proof (cases "delta = 0")
  case True
  then show ?thesis
    unfolding apply_position_delta_def
    by (auto simp: position_moved_def but_positions_def intro!: spec_return)
next
  case False
  show ?thesis
    unfolding apply_position_delta_def if_not_P [OF False]
    apply (rule spec_bind [OF spec_read [where Q =
          "\<lambda>x d. d = d0 \<and> x = find_open_position a s (App (Some a)) d"]])
    subgoal by simp
    subgoal for x
    proof (cases x)
      case None
      show ?thesis unfolding None option.case by (intro spec_conseq [OF open_position_spec]) auto
    next
      case (Some row)
      show ?thesis unfolding Some option.case
        by (intro spec_conseq [OF change_position_spec]) (auto dest!: find_open_position_Some [OF sym])
    qed
    done
qed

section \<open>Net positions add up\<close>

lemma filter_holds_single:
  assumes "positions_ok rs" "row \<in> set rs" "holds a s row"
  shows "filter (holds a s) rs = [row]"
proof -
  have "distinct (map (\<lambda>x. (po_account_id x, po_symbol x)) (filter (\<lambda>x. po_status x = ''open'') rs))"
    using assms(1) by (simp add: positions_ok_def)
  then show ?thesis
    using assms(2,3)
  proof (induction rs)
    case Nil
    then show ?case by simp
  next
    case (Cons x rs)
    show ?case
    proof (cases "row = x")
      case True
      have "\<not> holds a s y" if "y \<in> set rs" for y
      proof
        assume "holds a s y"
        with that have "(a, s) \<in> set (map (\<lambda>x. (po_account_id x, po_symbol x)) (filter (\<lambda>x. po_status x = ''open'') rs))"
          by (force simp: holds_def)
        with Cons.prems True show False by (simp add: holds_def)
      qed
      with True Cons.prems(3) show ?thesis by (simp add: filter_empty_conv)
    next
      case False
      with Cons.prems have row: "row \<in> set rs" by simp
      have "\<not> holds a s x"
      proof
        assume x: "holds a s x"
        have "(a, s) \<in> set (map (\<lambda>x. (po_account_id x, po_symbol x)) (filter (\<lambda>x. po_status x = ''open'') rs))"
          using row Cons.prems(3) by (force simp: holds_def)
        with Cons.prems(1) x show False by (simp add: holds_def)
      qed
      moreover have "distinct (map (\<lambda>x. (po_account_id x, po_symbol x)) (filter (\<lambda>x. po_status x = ''open'') rs))"
        using Cons.prems(1) by (simp split: if_splits)
      ultimately show ?thesis using Cons.IH row Cons.prems(3) by simp
    qed
  qed
qed

lemma net_position_single:
  "positions_ok rs \<Longrightarrow> row \<in> set rs \<Longrightarrow> holds a s row \<Longrightarrow> net_position a s rs = signed_quantity row"
  by (simp add: net_position_def filter_holds_single)

lemma net_position_none: "\<forall>x\<in>set rs. \<not> holds a s x \<Longrightarrow> net_position a s rs = 0"
proof -
  assume "\<forall>x\<in>set rs. \<not> holds a s x"
  then have "filter (holds a s) rs = []" by (simp add: filter_empty_conv)
  then show ?thesis by (simp add: net_position_def)
qed

lemma signed_side_of: "signed_quantity (x\<lparr>po_side := side_of q, po_quantity := \<bar>q\<bar>, po_avg_entry_price := p\<rparr>) = q"
  by (simp add: signed_quantity_def side_of_def)

text \<open>The open row of the account in the symbol is replaced by one with the new quantity.\<close>

lemma replaced_row_net:
  assumes ok: "positions_ok rs" and row: "row \<in> set rs" "holds a s row"
    and rs': "rs' = update_where (\<lambda>x. po_account_id x = a \<and> po_id x = po_id row)
          (\<lambda>x. x\<lparr>po_side := side_of ns, po_quantity := \<bar>ns\<bar>, po_avg_entry_price := p\<rparr>) rs"
  shows "net_position a s rs' = ns" "(b, u) \<noteq> (a, s) \<Longrightarrow> net_position b u rs' = net_position b u rs"
proof -
  let ?new = "row\<lparr>po_side := side_of ns, po_quantity := \<bar>ns\<bar>, po_avg_entry_price := p\<rparr>"
  have upd: "rs' = map (\<lambda>x. if x = row then ?new else x) rs"
    using ok row unfolding rs' update_where_def
    by (auto simp: positions_ok_def holds_def distinct_map dest: inj_onD)
  have "holds b u (if x = row then ?new else x) = holds b u x" for b u x
    by (simp add: holds_def)
  then have filt: "filter (holds b u) rs' = map (\<lambda>x. if x = row then ?new else x) (filter (holds b u) rs)" for b u
    unfolding upd filter_map by (simp add: comp_def)
  show "net_position a s rs' = ns"
    using filter_holds_single [OF ok row] unfolding net_position_def filt by (simp add: signed_side_of)
  assume "(b, u) \<noteq> (a, s)"
  then have "\<not> holds b u row" using row(2) by (auto simp: holds_def)
  then have "filter (holds b u) rs' = filter (holds b u) rs"
    unfolding filt by (intro map_idI) auto
  then show "net_position b u rs' = net_position b u rs" by (simp add: net_position_def)
qed

text \<open>
  The effect refines addition: where the amounts are stored exactly, the account's net position in
  the symbol changes by the delta, and no other net position changes.
\<close>

lemma numeric_magnitude: "on_grid x \<Longrightarrow> \<bar>x\<bar> < grid_bound \<Longrightarrow> numeric_30_10 \<bar>x\<bar> = Some \<bar>x\<bar>"
  by (intro numeric_on_grid) (auto simp: abs_if grid_bound_def)

lemma position_opened_net:
  assumes opened: "position_opened a s delta rs rs'" and grid: "on_grid delta" "\<bar>delta\<bar> < grid_bound"
  shows "net_position a s rs' = net_position a s rs + delta \<and>
    ((b, u) \<noteq> (a, s) \<longrightarrow> net_position b u rs' = net_position b u rs)"
proof -
  from opened obtain row where row: "rs' = rs @ [row]" "holds a s row" "po_side row = side_of delta"
      "numeric_30_10 \<bar>delta\<bar> = Some (po_quantity row)" and none: "\<forall>x\<in>set rs. \<not> holds a s x"
    unfolding position_opened_def by blast
  have "po_quantity row = \<bar>delta\<bar>" using row(4) numeric_magnitude [OF grid] by simp
  then have "signed_quantity row = delta"
    using row(3) by (simp add: signed_quantity_def side_of_def)
  with row(1,2) net_position_none [OF none] show ?thesis
    by (auto simp: net_position_def holds_def)
qed

lemma position_adjusted_net:
  assumes D: "decimal_laws D" and ok: "positions_ok rs"
    and adjusted: "position_adjusted D a s delta price rs rs'"
    and grid: "on_grid delta" "\<bar>net_position a s rs\<bar> + \<bar>delta\<bar> < grid_bound"
  shows "net_position a s rs' = net_position a s rs + delta \<and>
    ((b, u) \<noteq> (a, s) \<longrightarrow> net_position b u rs' = net_position b u rs)"
proof -
  from adjusted obtain row ns q p where row: "row \<in> set rs" "holds a s row"
      and ns: "dadd D (signed_quantity row) delta = Some ns" "numeric_30_10 \<bar>ns\<bar> = Some q"
      and rs': "rs' = update_where (\<lambda>x. po_account_id x = a \<and> po_id x = po_id row)
        (\<lambda>x. x\<lparr>po_side := side_of ns, po_quantity := q, po_avg_entry_price := p\<rparr>) rs"
    unfolding position_adjusted_def by blast
  have net: "net_position a s rs = signed_quantity row" using ok row by (rule net_position_single)
  have g: "on_grid (signed_quantity row)"
    using ok row(1) by (auto simp: positions_ok_def signed_quantity_def)
  have b: "\<bar>signed_quantity row\<bar> < grid_bound" "\<bar>delta\<bar> < grid_bound"
      "\<bar>signed_quantity row + delta\<bar> < grid_bound"
    using grid(2) net by linarith+
  have sum: "ns = signed_quantity row + delta"
    using ns(1) decimal_lawsD(1) [OF D on_grid_is_dec [OF g b(1)] on_grid_is_dec [OF grid(1) b(2)]
      on_grid_is_dec [OF on_grid_add [OF g grid(1)] b(3)]] by simp
  then have q: "q = \<bar>ns\<bar>" using numeric_magnitude [of ns] ns(2) g grid(1) b(3) by auto
  show ?thesis
    using replaced_row_net [OF ok row rs' [unfolded q]] net sum by auto
qed

lemma position_moved_net:
  assumes D: "decimal_laws D" and ok: "positions_ok rs"
    and moved: "position_moved D a s delta price rs rs'"
    and grid: "on_grid delta" "\<bar>net_position a s rs\<bar> + \<bar>delta\<bar> < grid_bound"
  shows "net_position a s rs' = net_position a s rs + delta"
    "(b, u) \<noteq> (a, s) \<Longrightarrow> net_position b u rs' = net_position b u rs"
proof -
  have "\<bar>delta\<bar> < grid_bound" using grid(2) by linarith
  with moved have "net_position a s rs' = net_position a s rs + delta \<and>
      ((b, u) \<noteq> (a, s) \<longrightarrow> net_position b u rs' = net_position b u rs)"
    unfolding position_moved_def
    by (elim disjE) (simp, simp add: position_opened_net grid(1), simp add: position_adjusted_net [OF D ok _ grid])
  then show "net_position a s rs' = net_position a s rs + delta"
    "(b, u) \<noteq> (a, s) \<Longrightarrow> net_position b u rs' = net_position b u rs"
    by auto
qed

section \<open>Fills\<close>

text \<open>The row a fill becomes.\<close>

definition stored_fill :: "uuid \<Rightarrow> uuid \<Rightarrow> fill \<Rightarrow> fill_row \<Rightarrow> bool" where
  "stored_fill a oid f row \<longleftrightarrow>
     fr_account_id row = a \<and> fr_order_id row = oid \<and>
     fr_exchange_trade_id row = fl_exchange_trade_id f \<and>
     numeric_30_10 (fl_quantity f) = Some (fr_quantity row) \<and>
     numeric_30_10 (fl_price f) = Some (fr_price row)"

definition fills_appended :: "uuid \<Rightarrow> uuid \<Rightarrow> fill list \<Rightarrow> db \<Rightarrow> db \<Rightarrow> bool" where
  "fills_appended a oid fs d d' \<longleftrightarrow>
     (\<exists>rows. d' = d\<lparr>t_order_fills := t_order_fills d @ rows\<rparr> \<and> list_all2 (stored_fill a oid) fs rows)"

lemma insert_fill_effect:
  assumes "sql_insert_fill a oid f r d = Ok (n, d')"
  shows "fills_appended a oid (if n > 0 then [f] else []) d d'"
  using assms
  by (auto simp: sql_insert_fill_def res_simps Let_def fills_appended_def stored_fill_def
      split: if_splits)

lemma fills_appended_trans:
  "fills_appended a oid fs d d1 \<Longrightarrow> fills_appended a oid gs d1 d2 \<Longrightarrow> fills_appended a oid (fs @ gs) d d2"
  unfolding fills_appended_def by (auto intro: list_all2_appendI)

lemma insert_fills_spec:
  "tx_spec r I (\<lambda>d. fills_appended a oid pre d0 d) (insert_fills a oid fs)
     (\<lambda>ins d. fills_appended a oid (pre @ ins) d0 d \<and> subseq ins fs) (\<lambda>_. True)"
proof (induction fs arbitrary: pre)
  case Nil
  then show ?case by (auto intro!: spec_return)
next
  case (Cons f fs)
  have one: "tx_spec r I (\<lambda>d. fills_appended a oid pre d0 d) (insert_fill a oid f)
      (\<lambda>b d. fills_appended a oid (pre @ (if b then [f] else [])) d0 d) (\<lambda>_. True)"
    unfolding insert_fill_def
    by (rule spec_bind [OF spec_stmt [where Q =
            "\<lambda>n d. fills_appended a oid (pre @ (if n > 0 then [f] else [])) d0 d"] spec_return])
      (auto dest!: insert_fill_effect dest: fills_appended_trans split: if_splits)
  have rest: "tx_spec r I (\<lambda>d. fills_appended a oid (pre @ (if b then [f] else [])) d0 d)
      (tx_bind (insert_fills a oid fs) (\<lambda>rest. tx_return (if b then f # rest else rest)))
      (\<lambda>ins d. fills_appended a oid (pre @ ins) d0 d \<and> subseq ins (f # fs)) (\<lambda>_. True)" for b
    by (rule spec_bind [OF Cons.IH spec_return]) auto
  show ?case unfolding insert_fills.simps
    by (rule spec_bind [OF spec_map_err [OF one] rest])
qed

section \<open>Orders\<close>

definition order_set :: "uuid \<Rightarrow> uuid \<Rightarrow> order_status \<Rightarrow> rat \<Rightarrow> db \<Rightarrow> db \<Rightarrow> bool" where
  "order_set a oid st q d d' \<longleftrightarrow>
     (\<exists>q'. numeric_30_10 q = Some q' \<and>
       d' = d\<lparr>t_orders := update_where (\<lambda>x. or_id x = oid \<and> or_account_id x = a)
              (\<lambda>x. x\<lparr>or_status := status_str st, or_filled_quantity := q'\<rparr>) (t_orders d)\<rparr>)"

lemma update_order_status_effect:
  assumes "sql_update_order_status a oid st q (App (Some a)) d = Ok (u, d')"
    "find_order a oid (App (Some a)) d = Some x"
  shows "order_set a oid st q d d'"
proof -
  have x: "x \<in> set (t_orders d)" "or_id x = oid" "or_account_id x = a"
    using assms(2) by (auto simp: find_order_def dest: first_row_Some)
  have same: "(\<lambda>x. visible (App (Some a)) (or_account_id x) \<and> or_id x = oid \<and> or_account_id x = a)
      = (\<lambda>x. or_id x = oid \<and> or_account_id x = a)"
    by (auto simp: fun_eq_iff)
  from assms(1) obtain rows where rows: "checked_update (\<lambda>x. or_id x = oid \<and> or_account_id x = a)
        (\<lambda>x. map_option (\<lambda>q. x\<lparr>or_status := status_str st, or_filled_quantity := q\<rparr>) (numeric_30_10 q))
        order_check (t_orders d) = Ok rows" "d' = d\<lparr>t_orders := rows\<rparr>"
    unfolding sql_update_order_status_def same by (auto simp: res_simps)
  with x obtain q' where "numeric_30_10 q = Some q'"
    by (auto simp: checked_update_Ok)
  with rows show ?thesis by (auto simp: order_set_def checked_update_Ok)
qed

lemma find_order_cong:
  "t_orders d' = t_orders d \<Longrightarrow> find_order a oid r d' = find_order a oid r d"
  by (simp add: find_order_def)

text \<open>The audit events that a transaction appends; nothing else changes.\<close>

definition events_appended :: "db \<Rightarrow> db \<Rightarrow> bool" where
  "events_appended d d' \<longleftrightarrow> (\<exists>es. d' = d\<lparr>t_risk_events := t_risk_events d @ es\<rparr>)"

lemma events_appended_trans:
  "events_appended d d1 \<Longrightarrow> events_appended d1 d2 \<Longrightarrow> events_appended d d2"
  unfolding events_appended_def by auto

lemma events_appended_refl [simp]: "events_appended d d"
  unfolding events_appended_def by (rule exI [of _ "[]"]) simp

lemma insert_risk_event_spec:
  "tx_spec r I (\<lambda>d. events_appended d0 d) (insert_risk_event a ty pl) (\<lambda>_ d. events_appended d0 d) E"
  unfolding insert_risk_event_def
  by (intro spec_bind [where R = "\<lambda>_ d. events_appended d0 d"] spec_fresh spec_clock spec_stmt)
    (auto simp: sql_insert_risk_event_def res_simps events_appended_def)

lemma persist_events_spec:
  "tx_spec r I (\<lambda>d. events_appended d0 d) (persist_events a es) (\<lambda>_ d. events_appended d0 d) E"
  unfolding persist_events_def
  by (intro spec_each spec_ignore insert_risk_event_spec)

lemma lock_order_spec:
  "tx_spec r I (\<lambda>d. d = d0) (lock_order a oid)
     (\<lambda>od d. d = d0 \<and> (\<exists>x. find_order a oid r d0 = Some x \<and> od = row_to_order x)) (\<lambda>d. d = d0)"
  unfolding lock_order_def
  by (intro spec_bind [where R = "\<lambda>x d. d = d0 \<and> find_order a oid r d0 = x"] spec_read)
    (auto simp: res_simps intro!: spec_bind [where R = "\<lambda>x d. d = d0 \<and> find_order a oid r d0 = Some x"]
      spec_lift spec_return)

section \<open>The effect of persisting a result\<close>

text \<open>
  The order was found as the snapshot saw it; the new fills are appended; every delta moved a
  position; the status changed legally and the filled quantity grew by what was inserted; the
  rest of the change is audit events.
\<close>

fun positions_moved ::
    "dec_ops \<Rightarrow> uuid \<Rightarrow> position_delta list \<Rightarrow> rat \<Rightarrow> position_row list \<Rightarrow> position_row list \<Rightarrow> bool" where
  "positions_moved D a [] price rs rs' = (rs' = rs)"
| "positions_moved D a (x # xs) price rs rs' =
     (\<exists>rs1. position_moved D a (pd_symbol x) (pd_quantity_delta x) price rs rs1 \<and>
        positions_moved D a xs price rs1 rs')"

definition first_price :: "fill list \<Rightarrow> rat" where
  "first_price fs = (case fs of f # _ \<Rightarrow> fl_price f | [] \<Rightarrow> 0)"

definition status_persisted ::
    "dec_ops \<Rightarrow> uuid \<Rightarrow> uuid \<Rightarrow> order_row \<Rightarrow> fill list \<Rightarrow> order_status option \<Rightarrow> db \<Rightarrow> db \<Rightarrow> bool" where
  "status_persisted D a oid x ins ns d d' \<longleftrightarrow>
     (case ns of
        None \<Rightarrow> d' = d
      | Some st \<Rightarrow> legal_transition (parse_status (or_status x)) st \<and>
          (\<exists>n q. d_sum D (map fl_quantity ins) = Some n \<and>
             dadd D (or_filled_quantity x) n = Some q \<and> order_set a oid st q d d'))"

definition persisted ::
    "dec_ops \<Rightarrow> uuid \<Rightarrow> uuid \<Rightarrow> reconcile_snapshot \<Rightarrow> reconcile_result \<Rightarrow> db \<Rightarrow> db \<Rightarrow> bool" where
  "persisted D a oid snap r d d' \<longleftrightarrow>
     (\<exists>x ins d1 d2 d3. find_order a oid (App (Some a)) d = Some x \<and>
        d_sum D (map fs_quantity (rs_fills snap)) = Some (or_filled_quantity x) \<and>
        parse_status (or_status x) = os_status (rs_order snap) \<and>
        subseq ins (rr_fills_to_add r) \<and> (rr_fills_to_add r \<noteq> [] \<longrightarrow> ins \<noteq> []) \<and>
        fills_appended a oid ins d d1 \<and>
        but_positions d1 d2 \<and>
        positions_moved D a (rr_positions_delta r) (first_price ins) (t_positions d1) (t_positions d2) \<and>
        status_persisted D a oid x ins (rr_new_status r) d2 d3 \<and> events_appended d3 d')"

lemma persist_deltas_spec:
  "tx_spec (App (Some a)) I (\<lambda>d. d = d0) (persist_deltas D a xs price)
     (\<lambda>_ d. but_positions d0 d \<and> positions_moved D a xs price (t_positions d0) (t_positions d)) (\<lambda>_. True)"
proof (induction xs arbitrary: d0)
  case Nil
  then show ?case by (auto simp: persist_deltas_def but_positions_def intro!: spec_return)
next
  case (Cons x xs)
  let ?R = "\<lambda>d. position_moved D a (pd_symbol x) (pd_quantity_delta x) price (t_positions d0) (t_positions d) \<and>
    but_positions d0 d"
  have step: "persist_deltas D a (x # xs) price =
      tx_bind (tx_map_err (\<lambda>_. Retry)
        (apply_position_delta D a (pd_symbol x) (pd_quantity_delta x) price)) (\<lambda>_. persist_deltas D a xs price)"
    by (simp add: persist_deltas_def)
  show ?case unfolding step
  proof (rule spec_bind [OF spec_map_err [OF apply_position_delta_spec]])
    fix u :: unit
    show "tx_spec (App (Some a)) I ?R (persist_deltas D a xs price)
        (\<lambda>_ d. but_positions d0 d \<and> positions_moved D a (x # xs) price (t_positions d0) (t_positions d)) (\<lambda>_. True)"
    proof (rule spec_point)
      fix d1 assume "?R d1"
      then show "tx_spec (App (Some a)) I (\<lambda>d. d = d1) (persist_deltas D a xs price)
          (\<lambda>_ d. but_positions d0 d \<and> positions_moved D a (x # xs) price (t_positions d0) (t_positions d)) (\<lambda>_. True)"
        by (intro spec_conseq [OF Cons.IH]) (auto elim: but_positions_trans)
    qed (unfold persist_deltas_def apply_position_delta_def, intro safe_intros)
  qed
qed

lemma persist_status_spec:
  assumes "find_order a oid (App (Some a)) d0 = Some x"
  shows "tx_spec (App (Some a)) I (\<lambda>d. d = d0) (persist_status D a oid (row_to_order x) ins ns)
     (\<lambda>_ d. status_persisted D a oid x ins ns d0 d) (\<lambda>_. True)"
proof (cases ns)
  case None
  then show ?thesis by (auto simp: persist_status_def status_persisted_def intro!: spec_return)
next
  case (Some st)
  have locked: "od_status (row_to_order x) = parse_status (or_status x)"
    "od_filled_quantity (row_to_order x) = or_filled_quantity x"
    by (simp_all add: row_to_order_def)
  show ?thesis
  proof (cases "legal_transition (parse_status (or_status x)) st")
    case False
    with Some show ?thesis by (auto simp: persist_status_def locked intro!: spec_fail)
  next
    case True
    have upd: "tx_spec (App (Some a)) I
        (\<lambda>d. d_sum D (map fl_quantity ins) = Some n \<and> dadd D (or_filled_quantity x) n = Some q \<and> d = d0)
        (tx_map_err (\<lambda>_. Retry) (update_order_status a oid st q))
        (\<lambda>_ d. status_persisted D a oid x ins ns d0 d) (\<lambda>_. True)" for n q
      unfolding update_order_status_def
      by (intro spec_map_err spec_stmt)
        (use assms True Some in \<open>auto simp: status_persisted_def dest: update_order_status_effect\<close>)
    have add: "tx_spec (App (Some a)) I (\<lambda>d. d_sum D (map fl_quantity ins) = Some n \<and> d = d0)
        (tx_bind (tx_lift (or_panic (dadd D (or_filled_quantity x) n)))
          (\<lambda>q. tx_map_err (\<lambda>_. Retry) (update_order_status a oid st q)))
        (\<lambda>_ d. status_persisted D a oid x ins ns d0 d) (\<lambda>_. True)" for n
      by (rule spec_bind [OF spec_lift upd]) (simp_all add: res_simps)
    have sum: "tx_spec (App (Some a)) I (\<lambda>d. d = d0)
        (tx_bind (tx_lift (or_panic (d_sum D (map fl_quantity ins)))) (\<lambda>n.
          tx_bind (tx_lift (or_panic (dadd D (or_filled_quantity x) n)))
          (\<lambda>q. tx_map_err (\<lambda>_. Retry) (update_order_status a oid st q))))
        (\<lambda>_ d. status_persisted D a oid x ins ns d0 d) (\<lambda>_. True)"
      by (rule spec_bind [OF spec_lift add]) (simp_all add: res_simps)
    with True show ?thesis by (simp add: persist_status_def Some locked)
  qed
qed

lemmas persist_defs = persist_checked_def persist_fills_def persist_changes_def persist_deltas_def
  apply_position_delta_def persist_status_def update_order_status_def persist_events_def
  insert_risk_event_def insert_fill_def

lemma safe_insert_fills: "tx_safe r I (insert_fills a oid fs)"
  by (induction fs) (auto simp: insert_fill_def intro!: safe_intros)

lemma safe_persist: "tx_safe r I (persist_changes D a oid res locked ins)"
  "tx_safe r I (persist_fills D a oid res locked)" "tx_safe r I (persist_checked D a oid snap res locked)"
  unfolding persist_defs Let_def by (intro safe_intros safe_insert_fills)+

abbreviation persist_inv ::
    "dec_ops \<Rightarrow> uuid \<Rightarrow> uuid \<Rightarrow> reconcile_snapshot \<Rightarrow> reconcile_result \<Rightarrow> db \<Rightarrow> db \<Rightarrow> bool" where
  "persist_inv D a oid snap r d0 \<equiv> \<lambda>d. d = d0 \<or> persisted D a oid snap r d0 d"

lemma finish_persist_spec:
  "tx_spec (App (Some a)) (persist_inv D a oid snap r d0) (\<lambda>d. persisted D a oid snap r d0 d)
     (tx_bind (persist_events a (rr_events r)) (\<lambda>_. tx_map_err (\<lambda>_. Retry) commit_tx))
     (\<lambda>_ _. True) (\<lambda>_. True)" (is "tx_spec ?r ?I _ ?m _ _")
proof (rule spec_point)
  fix d1 assume d1: "persisted D a oid snap r d0 d1"
  have keep: "persisted D a oid snap r d0 d" if "events_appended d1 d" for d
    using d1 events_appended_trans [OF _ that] unfolding persisted_def by blast
  have commit: "tx_spec ?r ?I (\<lambda>d. events_appended d1 d) (tx_map_err (\<lambda>_. Retry) commit_tx)
      (\<lambda>_ _. True) (\<lambda>_. True)"
    by (rule spec_map_err, rule spec_conseq [OF spec_commit [where P = "\<lambda>d. events_appended d1 d"]])
      (use keep in auto)
  show "tx_spec ?r ?I (\<lambda>d. d = d1) ?m (\<lambda>_ _. True) (\<lambda>_. True)"
    by (rule spec_conseq [OF spec_bind [OF persist_events_spec commit]]) auto
qed (unfold persist_defs, intro safe_intros)

lemma persist_changes_spec:
  assumes x: "find_order a oid (App (Some a)) d0 = Some x"
      "d_sum D (map fs_quantity (rs_fills snap)) = Some (or_filled_quantity x)"
      "parse_status (or_status x) = os_status (rs_order snap)"
    and ins: "fills_appended a oid ins d0 d1" "subseq ins (rr_fills_to_add r)"
      "rr_fills_to_add r \<noteq> [] \<longrightarrow> ins \<noteq> []"
  shows "tx_spec (App (Some a)) (persist_inv D a oid snap r d0) (\<lambda>d. d = d1)
    (persist_changes D a oid r (row_to_order x) ins) (\<lambda>_ _. True) (\<lambda>_. True)" (is "tx_spec ?r ?I _ _ _ _")
  unfolding persist_changes_def Let_def first_price_def [symmetric]
proof (rule spec_bind_point [OF persist_deltas_spec])
  fix u :: unit and d2
  assume d2: "but_positions d1 d2 \<and>
    positions_moved D a (rr_positions_delta r) (first_price ins) (t_positions d1) (t_positions d2)"
  have "t_orders d2 = t_orders d1"
    using d2 unfolding but_positions_def by (metis db.select_convs(8) db.surjective db.update_convs(5))
  also have "\<dots> = t_orders d0" using ins(1) by (auto simp: fills_appended_def)
  finally have "find_order a oid (App (Some a)) d2 = Some x"
    using x(1) find_order_cong by metis
  from persist_status_spec [OF this]
  show "tx_spec ?r ?I (\<lambda>d. d = d2)
     (tx_bind (persist_status D a oid (row_to_order x) ins (rr_new_status r)) (\<lambda>_.
      tx_bind (persist_events a (rr_events r)) (\<lambda>_. tx_map_err (\<lambda>_. Retry) commit_tx)))
     (\<lambda>_ _. True) (\<lambda>_. True)"
  proof (rule spec_bind [OF _ spec_conseq [OF finish_persist_spec]])
    fix d3 assume "status_persisted D a oid x ins (rr_new_status r) d2 d3"
    with x ins conjunct1 [OF d2] conjunct2 [OF d2] events_appended_refl show "persisted D a oid snap r d0 d3"
      unfolding persisted_def by (intro exI conjI) assumption+
  qed simp_all
qed (unfold persist_defs, intro safe_intros)

lemma persist_checked_spec:
  assumes x: "find_order a oid (App (Some a)) d0 = Some x"
  shows "tx_spec (App (Some a)) (persist_inv D a oid snap r d0) (\<lambda>d. d = d0)
    (persist_checked D a oid snap r (row_to_order x)) (\<lambda>_ _. True) (\<lambda>_. True)" (is "tx_spec ?r ?I _ _ _ _")
  unfolding persist_checked_def
proof (rule spec_bind_point [OF spec_lift [where Q =
        "\<lambda>s d. d_sum D (map fs_quantity (rs_fills snap)) = Some s \<and> d = d0"]])
  fix s d1
  assume s: "d_sum D (map fs_quantity (rs_fills snap)) = Some s \<and> d1 = d0"
  have fills: "tx_spec ?r ?I (\<lambda>d. d = d0) (persist_fills D a oid r (row_to_order x)) (\<lambda>_ _. True) (\<lambda>_. True)"
    if "or_filled_quantity x = s" "parse_status (or_status x) = os_status (rs_order snap)"
    unfolding persist_fills_def
  proof (rule spec_bind_point [OF spec_conseq [OF insert_fills_spec [where pre = "[]"]]])
    fix ins d2
    assume "fills_appended a oid ([] @ ins) d0 d2 \<and> subseq ins (rr_fills_to_add r)"
    with that s show "tx_spec ?r ?I (\<lambda>d. d = d2)
        (if rr_fills_to_add r \<noteq> [] \<and> ins = [] then tx_fail ReconciliationRequired
         else persist_changes D a oid r (row_to_order x) ins) (\<lambda>_ _. True) (\<lambda>_. True)"
      by (intro spec_if spec_fail persist_changes_spec [OF x]) auto
  qed (auto simp: fills_appended_def intro!: safe_intros safe_persist)
  with s show "tx_spec ?r ?I (\<lambda>d. d = d1)
      (if od_filled_quantity (row_to_order x) \<noteq> s \<or> od_status (row_to_order x) \<noteq> os_status (rs_order snap)
       then tx_fail Retry else persist_fills D a oid r (row_to_order x)) (\<lambda>_ _. True) (\<lambda>_. True)"
    by (intro spec_if spec_fail) (auto simp: row_to_order_def)
qed (auto simp: res_simps intro!: safe_intros safe_persist)

text \<open>Persisting a result is atomic.\<close>

lemma persist_effect:
  assumes "persist_reconcile_result D a oid snap r c = (z, c')"
  shows "c_durable c' = c_durable c \<or> persisted D a oid snap r (c_durable c) (c_durable c')"
proof (rule tenant_map_err_effect [OF _ assms [unfolded persist_reconcile_result_def]])
  fix d0
  show "tx_spec (App (Some a)) (persist_inv D a oid snap r d0) (\<lambda>d. d = d0)
      (tx_bind (tx_map_err (\<lambda>_. Retry) (lock_order a oid)) (persist_checked D a oid snap r))
      (\<lambda>_ _. True) (\<lambda>_. True)"
    by (rule spec_bind_point [OF spec_map_err [OF spec_conseq [OF lock_order_spec]]])
      (auto intro: persist_checked_spec safe_persist)
qed

section \<open>The other transactions of the worker\<close>

text \<open>
  Submission, cancellation and rejection move the order at most one legal step and touch neither
  fills nor positions.
\<close>

definition order_stepped :: "uuid \<Rightarrow> uuid \<Rightarrow> order_status \<Rightarrow> db \<Rightarrow> db \<Rightarrow> bool" where
  "order_stepped a oid st d d' \<longleftrightarrow>
     t_order_fills d' = t_order_fills d \<and> t_positions d' = t_positions d \<and>
     (t_orders d' = t_orders d \<or>
      (\<exists>x d1. find_order a oid (App (Some a)) d = Some x \<and>
         legal_transition (parse_status (or_status x)) st \<and>
         order_set a oid st (or_filled_quantity x) d d1 \<and> t_orders d' = t_orders d1))"

definition same_trading :: "db \<Rightarrow> db \<Rightarrow> bool" where
  "same_trading d d' \<longleftrightarrow> t_orders d' = t_orders d \<and> t_order_fills d' = t_order_fills d \<and>
     t_positions d' = t_positions d"

lemma order_stepped_same: "order_stepped a oid st d0 d \<Longrightarrow> same_trading d d' \<Longrightarrow> order_stepped a oid st d0 d'"
  by (auto simp: order_stepped_def same_trading_def)

lemma order_stepped_refl: "order_stepped a oid st d d"
  by (simp add: order_stepped_def)

lemma update_status_step_spec:
  assumes "find_order a oid (App (Some a)) d0 = Some x" "legal_transition (parse_status (or_status x)) st"
  shows "tx_spec (App (Some a)) I (\<lambda>d. d = d0) (update_order_status a oid st (or_filled_quantity x))
     (\<lambda>_ d. order_stepped a oid st d0 d) E"
  unfolding update_order_status_def
  by (rule spec_stmt)
    (use assms update_order_status_effect in \<open>fastforce simp: order_stepped_def order_set_def\<close>)

lemma command_step_spec:
  "tx_spec r I (\<lambda>d. order_stepped a oid st d0 d) (insert_exchange_command b ty m k pl)
     (\<lambda>_ d. order_stepped a oid st d0 d) E"
  unfolding insert_exchange_command_def
  by (intro spec_bind [where R = "\<lambda>_ d. order_stepped a oid st d0 d"] spec_fresh spec_clock spec_stmt)
    (auto simp: sql_insert_exchange_command_def res_simps same_trading_def
      elim!: order_stepped_same split: if_splits)

lemma event_step_spec:
  "tx_spec r I (\<lambda>d. order_stepped a oid st d0 d) (insert_risk_event b ty pl)
     (\<lambda>_ d. order_stepped a oid st d0 d) E"
  unfolding insert_risk_event_def
  by (intro spec_bind [where R = "\<lambda>_ d. order_stepped a oid st d0 d"] spec_fresh spec_clock spec_stmt)
    (auto simp: sql_insert_risk_event_def res_simps same_trading_def elim!: order_stepped_same)

abbreviation step_inv :: "uuid \<Rightarrow> uuid \<Rightarrow> order_status \<Rightarrow> db \<Rightarrow> db \<Rightarrow> bool" where
  "step_inv a oid st d0 \<equiv> \<lambda>d. d = d0 \<or> order_stepped a oid st d0 d"

lemma commit_step_spec:
  "tx_spec r (step_inv a oid st d0) (\<lambda>d. order_stepped a oid st d0 d) commit_tx
     (\<lambda>_ d. order_stepped a oid st d0 d) E"
  by (rule spec_commit) simp

lemma locked_step_spec:
  assumes "\<And>x. find_order a oid (App (Some a)) d0 = Some x \<Longrightarrow>
      tx_spec (App (Some a)) (step_inv a oid st d0) (\<lambda>d. d = d0) (f (row_to_order x)) Q E"
    "\<And>od. tx_safe (App (Some a)) (step_inv a oid st d0) (f od)" "E d0"
  shows "tx_spec (App (Some a)) (step_inv a oid st d0) (\<lambda>d. d = d0)
    (tx_bind (tx_map_err h (lock_order a oid)) f) Q E"
  by (rule spec_bind_point [OF spec_map_err [OF spec_conseq [OF lock_order_spec]]])
    (use assms in auto)

lemma follow_up_spec:
  "tx_spec r (step_inv a oid st d0) (\<lambda>d. order_stepped a oid st d0 d)
     (tx_bind (tx_map_err h (insert_exchange_command b ty m k pl)) (\<lambda>_. tx_map_err h' commit_tx))
     (\<lambda>_ _. True) (\<lambda>_. True)"
  by (rule spec_bind [OF spec_map_err [OF command_step_spec] spec_map_err [OF spec_conseq [OF commit_step_spec]]])
    auto

lemma maybe_step_spec:
  assumes "find_order a oid (App (Some a)) d0 = Some x"
    "legal_transition (parse_status (or_status x)) st \<Longrightarrow>
     tx_spec (App (Some a)) I (\<lambda>d. d = d0) m (\<lambda>_ d. order_stepped a oid st d0 d) E"
  shows "tx_spec (App (Some a)) I (\<lambda>d. d = d0)
    (if is_ok (transition (od_status (row_to_order x)) st) then m else tx_return ())
    (\<lambda>_ d. order_stepped a oid st d0 d) E"
  using assms by (auto simp: row_to_order_def order_stepped_refl intro!: spec_return)

lemma finish_submit_effect:
  assumes "finish_submit U cmd oid c = (z, c')"
  shows "order_stepped (cc_account_id cmd) oid Submitted (c_durable c) (c_durable c')"
proof -
  have "c_durable c' = c_durable c \<or>
      order_stepped (cc_account_id cmd) oid Submitted (c_durable c) (c_durable c')"
  proof (rule tenant_map_err_effect [where Q = "\<lambda>_ _. True" and E = "\<lambda>_. True",
        OF _ assms [unfolded finish_submit_def]], rule locked_step_spec, goal_cases)
    case (1 d0 x)
    then show ?case
      by (intro spec_bind [OF maybe_step_spec follow_up_spec])
        (auto simp: row_to_order_def intro!: spec_map_err update_status_step_spec)
  qed (auto simp: update_order_status_def insert_exchange_command_def intro!: safe_intros)
  then show ?thesis by (auto simp: order_stepped_refl)
qed

lemma finish_cancel_effect:
  assumes "finish_cancel U cmd oid c = (z, c')"
  shows "order_stepped (cc_account_id cmd) oid CancelRequested (c_durable c) (c_durable c')"
proof -
  have "c_durable c' = c_durable c \<or>
      order_stepped (cc_account_id cmd) oid CancelRequested (c_durable c) (c_durable c')"
  proof (rule tenant_map_err_effect [where Q = "\<lambda>_ _. True" and E = "\<lambda>_. True",
        OF _ assms [unfolded finish_cancel_def]], rule locked_step_spec, goal_cases)
    case (1 d0 x)
    then show ?case
      by (intro spec_bind [OF maybe_step_spec follow_up_spec])
        (auto simp: row_to_order_def
          intro!: spec_map_err spec_bind [OF update_status_step_spec event_step_spec])
  qed (auto simp: update_order_status_def insert_exchange_command_def insert_risk_event_def
      intro!: safe_intros)
  then show ?thesis by (auto simp: order_stepped_refl)
qed

lemma reject_order_effect:
  assumes "reject_order U cmd oid c = (z, c')"
  shows "order_stepped (cc_account_id cmd) oid RejectedStatus (c_durable c) (c_durable c')"
proof -
  let ?a = "cc_account_id cmd"
  have "c_durable c' = c_durable c \<or> order_stepped ?a oid RejectedStatus (c_durable c) (c_durable c')"
  proof (rule tenant_if_ok_effect [OF _ assms [unfolded reject_order_def]])
    fix d0
    let ?I = "step_inv ?a oid RejectedStatus d0" and ?S = "order_stepped ?a oid RejectedStatus d0"
    have tail: "tx_spec (App (Some ?a)) ?I ?S
        (tx_bind (tx_ignore (insert_risk_event ?a ''order_rejected'' (command_order_payload U (cc_id cmd) oid)))
          (\<lambda>_. tx_ignore commit_tx)) (\<lambda>_ _. True) (\<lambda>_. True)"
      by (rule spec_bind [OF spec_ignore [OF event_step_spec] spec_conseq [OF spec_ignore [OF commit_step_spec]]]) auto
    have step: "tx_spec (App (Some ?a)) ?I (\<lambda>d. d = d0)
        (if is_ok (transition (od_status (row_to_order x)) RejectedStatus)
         then tx_ignore (update_order_status ?a oid RejectedStatus (od_filled_quantity (row_to_order x)))
         else tx_return ()) (\<lambda>_. ?S) E" if "find_order ?a oid (App (Some ?a)) d0 = Some x" for x E
      using that by (intro maybe_step_spec)
        (auto simp: row_to_order_def intro!: spec_ignore update_status_step_spec)
    show "tx_spec (App (Some ?a)) ?I (\<lambda>d. d = d0)
       (tx_bind (tx_if_ok (lock_order ?a oid) (\<lambda>locked.
         if is_ok (transition (od_status locked) RejectedStatus)
         then tx_ignore (update_order_status ?a oid RejectedStatus (od_filled_quantity locked))
         else tx_return ())) (\<lambda>_.
       tx_bind (tx_ignore (insert_risk_event ?a ''order_rejected'' (command_order_payload U (cc_id cmd) oid)))
         (\<lambda>_. tx_ignore commit_tx))) (\<lambda>_ _. True) (\<lambda>_. True)"
    proof (rule spec_bind [OF spec_if_ok [OF lock_order_spec spec_point] tail], goal_cases)
      case (1 od d1)
      then obtain x where x: "find_order ?a oid (App (Some ?a)) d0 = Some x" "od = row_to_order x" "d1 = d0"
        by blast
      show ?case unfolding x(2,3) by (rule step [OF x(1)])
    qed (auto simp: order_stepped_refl update_order_status_def intro!: safe_intros)
  qed
  then show ?thesis by (auto simp: order_stepped_refl)
qed

end
