(* ===== verification/Ledger.thy ===== *)
theory Ledger
  imports Worker_Effects Paper_Adapter
begin

text \<open>
  The books agree: an order's filled quantity is the sum of its fills, and an account's net
  position in a symbol is the net of its fills there. Every route keeps this, and so does every
  transaction of the worker for results of adapters that meet the contract.
\<close>

section \<open>The invariant\<close>

definition fills_sum :: "uuid \<Rightarrow> fill_row list \<Rightarrow> rat" where
  "fills_sum oid fs = sum_list (map fr_quantity (filter (\<lambda>f. fr_order_id f = oid) fs))"

definition ledger :: "order_row list \<Rightarrow> fill_row list \<Rightarrow> bool" where
  "ledger rs fs \<longleftrightarrow>
     (\<forall>x\<in>set rs. or_filled_quantity x = fills_sum (or_id x) fs \<and>
        (\<forall>f\<in>set fs. fr_order_id f = or_id x \<longrightarrow> fr_account_id f = or_account_id x))"

definition order_of :: "order_row list \<Rightarrow> uuid \<Rightarrow> order_row option" where
  "order_of rs oid = find (\<lambda>x. or_id x = oid) rs"

definition fill_effect :: "order_row list \<Rightarrow> string \<Rightarrow> fill_row \<Rightarrow> rat" where
  "fill_effect rs s f =
     (case order_of rs (fr_order_id f) of
        Some x \<Rightarrow> if or_symbol x = s then signed_qty (parse_side (or_side x)) (fr_quantity f) else 0
      | None \<Rightarrow> 0)"

definition net_fills :: "uuid \<Rightarrow> string \<Rightarrow> order_row list \<Rightarrow> fill_row list \<Rightarrow> rat" where
  "net_fills a s rs fs = sum_list (map (fill_effect rs s) (filter (\<lambda>f. fr_account_id f = a) fs))"

definition positions_match :: "order_row list \<Rightarrow> fill_row list \<Rightarrow> position_row list \<Rightarrow> bool" where
  "positions_match rs fs ps \<longleftrightarrow> (\<forall>a s. net_position a s ps = net_fills a s rs fs)"

definition books_ok :: "db \<Rightarrow> bool" where
  "books_ok d \<longleftrightarrow> tables_ok d \<and> ledger (t_orders d) (t_order_fills d) \<and>
     positions_match (t_orders d) (t_order_fills d) (t_positions d)"

lemma books_ok_empty: "books_ok empty_db"
  using tables_ok_empty
  by (simp add: books_ok_def ledger_def positions_match_def net_position_def net_fills_def empty_db_def)

section \<open>Routes keep the books\<close>

lemma order_of_append: "order_of (rs @ [x]) oid = (case order_of rs oid of Some y \<Rightarrow> Some y
    | None \<Rightarrow> if or_id x = oid then Some x else None)"
  by (induction rs) (auto simp: order_of_def)

lemma order_of_Some: "order_of rs oid = Some x \<Longrightarrow> x \<in> set rs \<and> or_id x = oid"
  by (auto simp: order_of_def dest: find_SomeD)

lemma order_of_exists: "oid \<in> or_id ` set rs \<Longrightarrow> \<exists>x. order_of rs oid = Some x"
  unfolding order_of_def by (cases "find (\<lambda>x. or_id x = oid) rs") (auto simp: find_None_iff)

lemma net_fills_cong:
  assumes "\<And>f. f \<in> set fs \<Longrightarrow> fill_effect rs' s f = fill_effect rs s f"
  shows "net_fills a s rs' fs = net_fills a s rs fs"
  unfolding net_fills_def by (intro arg_cong [of _ _ sum_list] map_cong) (auto simp: assms)

lemma books_same_trading:
  "books_ok d \<Longrightarrow> same_trading d d' \<Longrightarrow> tables_ok d' \<Longrightarrow> books_ok d'"
  by (simp add: books_ok_def same_trading_def)

lemma books_insert_order:
  assumes "or_filled_quantity ord = 0" "or_status ord = ''pending''"
  shows "keeps r books_ok (sql_insert_order ord)"
proof (rule keepsI)
  fix d u d' assume d: "books_ok d" and run: "sql_insert_order ord r d = Ok (u, d')"
  from run obtain row where row: "d' = d\<lparr>t_orders := t_orders d @ [row]\<rparr>" "or_id row = or_id ord"
      "or_filled_quantity row = 0" and new: "\<forall>x\<in>set (t_orders d). or_id x \<noteq> or_id ord"
    using assms by (auto simp: sql_insert_order_def res_simps Let_def list_ex_iff)
  have fs: "t_order_fills d' = t_order_fills d" by (simp add: row(1))
  have ids: "f \<in> set (t_order_fills d) \<Longrightarrow> fr_order_id f \<in> or_id ` set (t_orders d)" for f
    using d by (auto simp: books_ok_def tables_ok_def fills_ok_def)
  then have none: "f \<in> set (t_order_fills d) \<Longrightarrow> fr_order_id f \<noteq> or_id row" for f
    using new row(2) ids by fastforce
  then have "filter (\<lambda>f. fr_order_id f = or_id row) (t_order_fills d) = []"
    by (auto simp: filter_empty_conv)
  with d none row have "ledger (t_orders d') (t_order_fills d')"
    by (auto simp: books_ok_def ledger_def fills_sum_def)
  moreover have "fill_effect (t_orders d') s f = fill_effect (t_orders d) s f" if "f \<in> set (t_order_fills d)" for s f
    using order_of_exists [OF ids [OF that]] row(1) by (auto simp: fill_effect_def order_of_append)
  then have "net_fills a s (t_orders d') (t_order_fills d') = net_fills a s (t_orders d) (t_order_fills d)" for a s
    unfolding fs by (intro net_fills_cong) simp
  moreover have "tables_ok d'"
    using keepsD [OF tables_ok_trading_inserts(1) [OF assms(1)] _ run] d by (simp add: books_ok_def)
  ultimately show "books_ok d'"
    using d row(1) by (simp add: books_ok_def positions_match_def)
qed

lemma books_keep_same:
  assumes "keeps r tables_ok q" "\<And>d x d'. q r d = Ok (x, d') \<Longrightarrow> same_trading d d'"
  shows "keeps r books_ok q"
proof (rule keepsI)
  fix d x d' assume d: "books_ok d" and run: "q r d = Ok (x, d')"
  then have "tables_ok d'" using keepsD [OF assms(1) _ run] by (simp add: books_ok_def)
  with d assms(2) [OF run] show "books_ok d'" by (rule books_same_trading)
qed

lemma same_trading_stmts:
  "sql_insert_risk_event ev r d = Ok (u, d') \<Longrightarrow> same_trading d d'"
  "sql_trip_circuit_breaker t day now r d = Ok (u, d') \<Longrightarrow> same_trading d d'"
  "sql_insert_exchange_command cmd r d = Ok (u, d') \<Longrightarrow> same_trading d d'"
  "sql_insert_account t e r d = Ok (u, d') \<Longrightarrow> same_trading d d'"
  "sql_insert_risk_config t r d = Ok (u, d') \<Longrightarrow> same_trading d d'"
  "sql_set_equity t e r d = Ok (u, d') \<Longrightarrow> same_trading d d'"
  "sql_update_risk_config t cfg v w r d = Ok (n, d') \<Longrightarrow> same_trading d d'"
  "sql_delete_groups t r d = Ok (u, d') \<Longrightarrow> same_trading d d'"
  "sql_insert_group grp r d = Ok (u, d') \<Longrightarrow> same_trading d d'"
  "sql_insert_group_asset ast r d = Ok (u, d') \<Longrightarrow> same_trading d d'"
  "sql_engage_kill_switch t now r d = Ok (u, d') \<Longrightarrow> same_trading d d'"
  "sql_release_kill_switch t r d = Ok (u, d') \<Longrightarrow> same_trading d d'"
  "sql_insert_exchange_config xc r d = Ok (u, d') \<Longrightarrow> same_trading d d'"
  "sql_update_exchange_config t mode tn k s v w r d = Ok (u, d') \<Longrightarrow> same_trading d d'"
  by (auto simp: sql_defs res_simps same_trading_def Let_def split: if_splits)

interpretation routes: tenant_invariant books_ok t
  by unfold_locales
    (rule books_insert_order books_keep_same [OF tables_ok_insert(1)] books_keep_same [OF tables_ok_insert(2)]
      books_keep_same [OF tables_ok_insert(3)] books_keep_same [OF tables_ok_insert(4)]
      books_keep_same [OF tables_ok_insert(5)] books_keep_same [OF tables_ok_insert(6)]
      books_keep_same [OF tables_ok_groups(1)] books_keep_same [OF tables_ok_groups(2)]
      books_keep_same [OF tables_ok_groups(3)] books_keep_same [OF tables_ok_updates(1)]
      books_keep_same [OF tables_ok_updates(2)] books_keep_same [OF tables_ok_updates(3)]
      books_keep_same [OF tables_ok_updates(4)] books_keep_same [OF tables_ok_updates(5)]
      same_trading_stmts | assumption)+

section \<open>The worker keeps the books\<close>

text \<open>Rewriting status and filled quantity leaves every order's terms alone.\<close>

lemma order_of_update:
  assumes "\<And>x. or_id (g x) = or_id x"
  shows "order_of (update_where p g rs) oid = map_option (\<lambda>x. if p x then g x else x) (order_of rs oid)"
  using assms by (induction rs) (auto simp: order_of_def update_where_def)

lemma fill_effect_update:
  assumes "\<And>x. or_id (g x) = or_id x \<and> or_symbol (g x) = or_symbol x \<and> or_side (g x) = or_side x"
  shows "fill_effect (update_where p g rs) s f = fill_effect rs s f"
  using assms by (auto simp: fill_effect_def order_of_update split: option.split)

text \<open>A pair of row changes is as good as the columns it reads.\<close>

definition orders_set_to :: "uuid \<Rightarrow> uuid \<Rightarrow> order_status \<Rightarrow> rat \<Rightarrow> order_row list \<Rightarrow> order_row list" where
  "orders_set_to a oid st q rs =
     update_where (\<lambda>x. or_id x = oid \<and> or_account_id x = a)
       (\<lambda>x. x\<lparr>or_status := status_str st, or_filled_quantity := q\<rparr>) rs"

lemma fill_effect_set [simp]: "fill_effect (orders_set_to a oid st q rs) s f = fill_effect rs s f"
  unfolding orders_set_to_def by (rule fill_effect_update) simp

lemma find_order_Some:
  "find_order a oid (App (Some a)) d = Some x \<Longrightarrow> x \<in> set (t_orders d) \<and> or_id x = oid \<and> or_account_id x = a"
  by (auto simp: find_order_def dest: first_row_Some)

lemma orders_ok_set:
  assumes "orders_ok rs" "x \<in> set rs" "or_id x = oid" "or_account_id x = a"
  shows "y \<in> set (orders_set_to a oid st q rs) \<longleftrightarrow>
    y = x\<lparr>or_status := status_str st, or_filled_quantity := q\<rparr> \<or> (y \<in> set rs \<and> or_id y \<noteq> oid)"
proof -
  have uniq: "or_id z = oid \<longleftrightarrow> z = x" if "z \<in> set rs" for z
    using assms that by (auto simp: orders_ok_def distinct_map dest: inj_onD)
  let ?g = "x\<lparr>or_status := status_str st, or_filled_quantity := q\<rparr>"
  have "orders_set_to a oid st q rs = map (\<lambda>z. if z = x then ?g else z) rs"
    unfolding orders_set_to_def update_where_def
    by (rule map_cong [OF refl]) (use uniq assms(3,4) in auto)
  then have "set (orders_set_to a oid st q rs) = insert ?g (set rs - {x})"
    using assms(2) by auto
  then show ?thesis using uniq [of y] by blast
qed

text \<open>No new fill: a status change that leaves the filled quantity alone.\<close>

lemma ledger_status_only:
  assumes "orders_ok rs" "ledger rs fs" "x \<in> set rs" "or_id x = oid" "or_account_id x = a"
  shows "ledger (orders_set_to a oid st (or_filled_quantity x) rs) fs"
  unfolding ledger_def
proof
  fix y assume "y \<in> set (orders_set_to a oid st (or_filled_quantity x) rs)"
  then consider "y = x\<lparr>or_status := status_str st, or_filled_quantity := or_filled_quantity x\<rparr>"
    | "y \<in> set rs" "or_id y \<noteq> oid"
    unfolding orders_ok_set [OF assms(1,3,4,5)] by blast
  then show "or_filled_quantity y = fills_sum (or_id y) fs \<and>
      (\<forall>f\<in>set fs. fr_order_id f = or_id y \<longrightarrow> fr_account_id f = or_account_id y)"
    by cases (use assms(2,3) in \<open>auto simp: ledger_def\<close>)
qed

text \<open>One new fill, and the filled quantity raised by its quantity.\<close>

lemma ledger_one_fill:
  assumes "orders_ok rs" "ledger rs fs" "x \<in> set rs" "or_id x = oid" "or_account_id x = a"
    "fr_order_id f = oid" "fr_account_id f = a"
  shows "ledger (orders_set_to a oid st (or_filled_quantity x + fr_quantity f) rs) (fs @ [f])"
  unfolding ledger_def
proof
  fix y assume "y \<in> set (orders_set_to a oid st (or_filled_quantity x + fr_quantity f) rs)"
  then consider "y = x\<lparr>or_status := status_str st, or_filled_quantity := or_filled_quantity x + fr_quantity f\<rparr>"
    | "y \<in> set rs" "or_id y \<noteq> oid"
    unfolding orders_ok_set [OF assms(1,3,4,5)] by blast
  then show "or_filled_quantity y = fills_sum (or_id y) (fs @ [f]) \<and>
      (\<forall>g\<in>set (fs @ [f]). fr_order_id g = or_id y \<longrightarrow> fr_account_id g = or_account_id y)"
    by cases (use assms(2-) in \<open>auto simp: ledger_def fills_sum_def\<close>)
qed

text \<open>What an exactly stored amount is.\<close>

lemma numeric_exact:
  assumes "on_grid x" "numeric_30_10 x = Some y"
  shows "y = x"
proof -
  obtain k :: int where x: "x = of_int k / 10 ^ 10" using assms(1) by (auto simp: on_grid_def)
  then have k: "x * 10 ^ 10 = of_int k" by simp
  have "numeric_30_10 x = (if \<bar>k\<bar> < 10 ^ 30 then Some (of_int k / 10 ^ 10) else None)"
    unfolding numeric_def Let_def k round_half_away_int ..
  with assms(2) show ?thesis unfolding x by (metis option.distinct(1) option.inject)
qed

lemma order_set_exact:
  assumes "order_set a oid st q d d'" "on_grid q"
  shows "d' = d\<lparr>t_orders := orders_set_to a oid st q (t_orders d)\<rparr>"
  using assms by (auto simp: order_set_def orders_set_to_def dest: numeric_exact)

lemma order_stepped_books:
  assumes "books_ok d" "tables_ok d'" "order_stepped a oid st d d'"
  shows "books_ok d'"
proof -
  have same: "t_order_fills d' = t_order_fills d" "t_positions d' = t_positions d"
    using assms(3) by (simp_all add: order_stepped_def)
  from assms(3) consider "t_orders d' = t_orders d"
    | (set) x d1 where "find_order a oid (App (Some a)) d = Some x"
        "order_set a oid st (or_filled_quantity x) d d1" "t_orders d' = t_orders d1"
    unfolding order_stepped_def by blast
  then show ?thesis
  proof cases
    case 1
    with same assms(1,2) show ?thesis by (simp add: books_ok_def)
  next
    case set
    note x = find_order_Some [OF set(1)]
    have ok: "orders_ok (t_orders d)" using assms(1) by (simp add: books_ok_def tables_ok_def)
    then have "on_grid (or_filled_quantity x)" using x by (auto simp: orders_ok_def)
    then have orders: "t_orders d' = orders_set_to a oid st (or_filled_quantity x) (t_orders d)"
      using order_set_exact [OF set(2)] set(3) by simp
    have "ledger (t_orders d') (t_order_fills d')"
      using ledger_status_only [OF ok _ conjunct1 [OF x]] x assms(1)
      by (simp add: orders same books_ok_def)
    moreover have "net_fills b s (t_orders d') fs = net_fills b s (t_orders d) fs" for b s fs
      unfolding orders by (intro net_fills_cong) simp
    ultimately show ?thesis using assms(1,2) same by (simp add: books_ok_def positions_match_def)
  qed
qed

section \<open>Persisting a result keeps the books\<close>

text \<open>What both adapters return: no new fill, or one with the matching position delta and a status.\<close>

definition books_result :: "order_snapshot \<Rightarrow> reconcile_result \<Rightarrow> bool" where
  "books_result ord r \<longleftrightarrow>
     (rr_fills_to_add r = [] \<and> rr_positions_delta r = []) \<or>
     (\<exists>f. rr_fills_to_add r = [f] \<and> rr_positions_delta r = [fill_delta ord f] \<and>
        on_grid (fl_quantity f) \<and> 0 < fl_quantity f \<and> rr_new_status r \<noteq> None)"

definition result_quantity :: "reconcile_result \<Rightarrow> rat" where
  "result_quantity r = sum_list (map fl_quantity (rr_fills_to_add r))"

lemma order_of_unique:
  assumes "orders_ok rs" "x \<in> set rs" "or_id x = oid"
  shows "order_of rs oid = Some x"
proof -
  obtain y where y: "order_of rs oid = Some y"
    using assms(2,3) order_of_exists by blast
  with order_of_Some [OF y] assms show ?thesis
    by (auto simp: orders_ok_def distinct_map dest: inj_onD)
qed

lemma net_fills_snoc:
  "net_fills b s rs (fs @ [f]) = net_fills b s rs fs + (if fr_account_id f = b then fill_effect rs s f else 0)"
  by (simp add: net_fills_def)

lemma subseq_single: "subseq ys [x] \<Longrightarrow> ys = [] \<or> ys = [x]"
  by (cases ys) (auto simp: subseq_Cons2_iff split: if_splits)

lemma books_without_fill:
  assumes books: "books_ok d" and tables: "tables_ok d'" and D: "decimal_laws D"
    and x: "find_order a oid (App (Some a)) d = Some x" and small: "or_filled_quantity x < grid_bound"
    and st: "status_persisted D a oid x [] ns d d3" and ev: "events_appended d3 d'"
  shows "books_ok d'"
proof (cases ns)
  case None
  with st ev books tables show ?thesis
    by (auto simp: status_persisted_def events_appended_def books_ok_def)
next
  case (Some s)
  note x' = find_order_Some [OF x]
  have ok: "orders_ok (t_orders d)" using books by (simp add: books_ok_def tables_ok_def)
  then have grid: "on_grid (or_filled_quantity x)" "0 \<le> or_filled_quantity x"
    using x' by (auto simp: orders_ok_def order_check_def)
  then have "is_dec (or_filled_quantity x)" using small by (intro on_grid_is_dec) auto
  then have "dadd D (or_filled_quantity x) 0 = Some (or_filled_quantity x)"
    using decimal_lawsD(1) [OF D, of "or_filled_quantity x" 0] by simp
  with st Some have legal: "legal_transition (parse_status (or_status x)) s"
      and set: "order_set a oid s (or_filled_quantity x) d d3"
    by (auto simp: status_persisted_def)
  have "order_stepped a oid s d d'"
    using legal set x ev unfolding order_stepped_def order_set_def events_appended_def
    by (fastforce simp: order_set_def)
  with books tables show ?thesis by (rule order_stepped_books)
qed

lemma net_fills_one_more:
  assumes "orders_ok rs" "x \<in> set rs" "or_id x = fr_order_id f"
  shows "net_fills b s (orders_set_to a oid st q rs) (fs @ [f]) =
    net_fills b s rs fs +
      (if fr_account_id f = b \<and> or_symbol x = s then signed_qty (parse_side (or_side x)) (fr_quantity f) else 0)"
proof -
  have "net_fills b s (orders_set_to a oid st q rs) (fs @ [f]) = net_fills b s rs (fs @ [f])"
    by (intro net_fills_cong) simp
  moreover have "fill_effect rs s f = (if or_symbol x = s then signed_qty (parse_side (or_side x)) (fr_quantity f) else 0)"
    using order_of_unique [OF assms] by (simp add: fill_effect_def)
  ultimately show ?thesis by (simp add: net_fills_snoc)
qed

lemma abs_signed_qty [simp]: "\<bar>signed_qty sd q\<bar> = \<bar>q\<bar>"
  by (cases sd) (simp_all add: signed_qty_def)

lemma on_grid_signed_qty [simp]: "on_grid (signed_qty sd q) \<longleftrightarrow> on_grid q"
  by (cases sd) (simp_all add: signed_qty_def)

lemma books_with_fill:
  assumes books: "books_ok d" and tables: "tables_ok d'" and D: "decimal_laws D"
    and x: "find_order a oid (App (Some a)) d = Some x"
    and q: "on_grid q" "0 < q" "or_filled_quantity x + q < grid_bound"
    and net: "\<bar>net_position a (or_symbol x) (t_positions d)\<bar> + q < grid_bound"
    and row: "fr_account_id row = a" "fr_order_id row = oid" "fr_quantity row = q"
    and moved: "position_moved D a (or_symbol x) (signed_qty (parse_side (or_side x)) q) price
      (t_positions d) (t_positions d')"
    and fills: "t_order_fills d' = t_order_fills d @ [row]"
    and orders: "t_orders d' = orders_set_to a oid st (or_filled_quantity x + q) (t_orders d)"
  shows "books_ok d'"
proof -
  note x' = find_order_Some [OF x]
  have ok: "orders_ok (t_orders d)" "positions_ok (t_positions d)"
    using books by (simp_all add: books_ok_def tables_ok_def)
  have "ledger (t_orders d') (t_order_fills d')"
    using ledger_one_fill [OF ok(1) _ _ _ _ row(2,1), of "t_order_fills d" x st] x' books row(3)
    by (simp add: orders fills books_ok_def)
  moreover have "net_position b s (t_positions d') = net_fills b s (t_orders d') (t_order_fills d')" for b s
  proof -
    let ?delta = "signed_qty (parse_side (or_side x)) q"
    have "net_position b s (t_positions d') = net_position b s (t_positions d) +
        (if (b, s) = (a, or_symbol x) then ?delta else 0)"
      using position_moved_net(1) [OF D ok(2) moved] position_moved_net(2) [OF D ok(2) moved, where b = b and u = s]
        q net by (cases "(b, s) = (a, or_symbol x)") auto
    moreover have "net_fills b s (t_orders d') (t_order_fills d') = net_fills b s (t_orders d) (t_order_fills d) +
        (if a = b \<and> or_symbol x = s then ?delta else 0)"
      using net_fills_one_more [OF ok(1), of x row] x' row by (simp add: orders fills)
    ultimately show ?thesis using books by (auto simp: books_ok_def positions_match_def)
  qed
  ultimately show ?thesis using tables by (simp add: books_ok_def positions_match_def)
qed

text \<open>
  A persisted result keeps the books, if the snapshot it was computed from describes the order and
  the amounts stay in the range where decimals are exact.
\<close>

definition describes :: "reconcile_snapshot \<Rightarrow> order_row \<Rightarrow> bool" where
  "describes snap x \<longleftrightarrow>
     os_symbol (rs_order snap) = or_symbol x \<and> os_side (rs_order snap) = parse_side (or_side x) \<and>
     os_quantity (rs_order snap) = or_quantity x"

text \<open>The one fill of a result, as it is booked.\<close>

lemma one_fill_booked:
  assumes books: "books_ok d" and tables: "tables_ok d'" and D: "decimal_laws D"
    and x: "find_order a oid (App (Some a)) d = Some x" and snap: "describes snap x"
    and app: "fills_appended a oid [f] d d1" and only: "but_positions d1 d2"
    and moved: "positions_moved D a [fill_delta (rs_order snap) f] p (t_positions d1) (t_positions d2)"
    and st: "status_persisted D a oid x [f] (Some s) d2 d3" and ev: "events_appended d3 d'"
    and f: "on_grid (fl_quantity f)" "0 < fl_quantity f"
    and small: "or_filled_quantity x + fl_quantity f < grid_bound"
      "\<bar>net_position a (or_symbol x) (t_positions d)\<bar> + fl_quantity f < grid_bound"
  shows "books_ok d'"
proof -
  from app obtain row where row: "d1 = d\<lparr>t_order_fills := t_order_fills d @ [row]\<rparr>" "stored_fill a oid f row"
    by (auto simp: fills_appended_def list_all2_Cons1)
  have q: "fr_quantity row = fl_quantity f"
    using row(2) f(1) by (auto simp: stored_fill_def dest: numeric_exact)
  note x' = find_order_Some [OF x]
  have grid: "on_grid (or_filled_quantity x)" "0 \<le> or_filled_quantity x"
    using books x' by (auto simp: books_ok_def tables_ok_def orders_ok_def order_check_def)
  have dec: "is_dec (fl_quantity f)" "is_dec (or_filled_quantity x)" "is_dec (or_filled_quantity x + fl_quantity f)"
    using grid f small(1) by (auto intro!: on_grid_is_dec)
  have "d_sum D (map fl_quantity [f]) = Some (fl_quantity f)"
    using decimal_lawsD(1) [OF D is_dec_0 dec(1)] dec(1) by (simp add: d_sum_def)
  with st decimal_lawsD(1) [OF D dec(2,1,3)]
  have set: "order_set a oid s (or_filled_quantity x + fl_quantity f) d2 d3"
    by (auto simp: status_persisted_def)
  have d3: "d3 = d2\<lparr>t_orders := orders_set_to a oid s (or_filled_quantity x + fl_quantity f) (t_orders d2)\<rparr>"
    using set grid(1) f(1) by (intro order_set_exact) auto
  have same: "t_orders d2 = t_orders d" "t_order_fills d2 = t_order_fills d @ [row]"
    using only row(1) unfolding but_positions_def by (metis db.select_convs db.surjective db.update_convs)+
  show ?thesis
  proof (rule books_with_fill [OF books tables D x f])
    show "fr_account_id row = a" "fr_order_id row = oid" "fr_quantity row = fl_quantity f"
      using row(2) q by (simp_all add: stored_fill_def)
    show "position_moved D a (or_symbol x) (signed_qty (parse_side (or_side x)) (fl_quantity f)) p
        (t_positions d) (t_positions d')"
      using moved row(1) snap ev d3
      by (auto simp: fill_delta_def describes_def events_appended_def)
    show "t_order_fills d' = t_order_fills d @ [row]"
      "t_orders d' = orders_set_to a oid s (or_filled_quantity x + fl_quantity f) (t_orders d)"
      using ev d3 same by (auto simp: events_appended_def)
  qed (use small in auto)
qed

lemma persisted_books:
  assumes books: "books_ok d" and tables: "tables_ok d'" and D: "decimal_laws D"
    and pers: "persisted D a oid snap r d d'"
    and x: "find_order a oid (App (Some a)) d = Some x" and snap: "describes snap x"
    and shape: "books_result (rs_order snap) r"
    and small: "or_filled_quantity x + result_quantity r < grid_bound"
      "\<bar>net_position a (or_symbol x) (t_positions d)\<bar> + result_quantity r < grid_bound"
  shows "books_ok d'"
proof -
  from pers x obtain ins d1 d2 d3 where sub: "subseq ins (rr_fills_to_add r)"
      "rr_fills_to_add r \<noteq> [] \<longrightarrow> ins \<noteq> []"
    and app: "fills_appended a oid ins d d1" and only: "but_positions d1 d2"
    and moved: "positions_moved D a (rr_positions_delta r) (first_price ins) (t_positions d1) (t_positions d2)"
    and st: "status_persisted D a oid x ins (rr_new_status r) d2 d3" and ev: "events_appended d3 d'"
    unfolding persisted_def by auto
  from shape consider (none) "rr_fills_to_add r = []" "rr_positions_delta r = []"
    | (one) f s where "rr_fills_to_add r = [f]" "rr_positions_delta r = [fill_delta (rs_order snap) f]"
        "on_grid (fl_quantity f)" "0 < fl_quantity f" "rr_new_status r = Some s"
    unfolding books_result_def by blast
  then show ?thesis
  proof cases
    case none
    then have "ins = []" using sub by simp
    moreover from this app moved only none have "d2 = d"
      by (auto simp: fills_appended_def but_positions_def)
    ultimately show ?thesis
      using books_without_fill [OF books tables D x _ _ ev] st small(1) none by (simp add: result_quantity_def)
  next
    case one
    then have ins: "ins = [f]" using sub subseq_single by fastforce
    have "result_quantity r = fl_quantity f" using one(1) by (simp add: result_quantity_def)
    then show ?thesis
      using one_fill_booked [OF books tables D x snap app [unfolded ins] only _ _ ev one(3,4)] moved st small one(2,5) ins
      by simp
  qed
qed

end
