(* ===== verification/Router.thy ===== *)
theory Router
  imports Statement_Invariants
begin

text \<open>
  The router of \<open>crates/server/src/routes.rs\<close>: one request per method and path of
  \<open>app_with_state\<close>, dispatched to its handler, with the HTTP status of the answer. What the handlers
  take from the process besides the database session is a record.
\<close>

record server_env =
  se_dec :: dec_ops
  se_uuid :: uuid_ops
  se_aead :: aead
  se_key_env :: "string option"
  se_nonces :: "byte list \<times> byte list"
  se_state :: app_state
  se_clocks :: "instant \<times> instant"

datatype request =
    CreateAccount "rat option option"
  | GetAccount uuid
  | PutEquity uuid rat
  | GetRiskConfig uuid
  | PutRiskConfig uuid risk_config_view
  | PutCorrelationGroups uuid "correlation_group_def list"
  | EngageKillSwitch uuid
  | ReleaseKillSwitch uuid
  | EvaluateTrade uuid trade_intent
  | ListRiskEvents uuid events_query
  | PlaceOrder uuid place_order_request
  | GetExchangeConfig uuid
  | PutExchangeConfig uuid put_exchange_config_body

text \<open>\<open>IntoResponse\<close> for \<open>Result<_, ApiError>\<close>: the status of the answer.\<close>

definition answer :: "('a \<Rightarrow> nat) \<Rightarrow> 'a tx \<Rightarrow> nat tx" where
  "answer status m = tx_handle m (\<lambda>x. tx_return (status x)) (\<lambda>e. tx_return (fst (into_response e)))"

definition ok_200 :: "'a \<Rightarrow> nat" where
  "ok_200 x = 200"

fun serve :: "server_env \<Rightarrow> request \<Rightarrow> nat tx" where
  "serve E (CreateAccount body) = answer fst (create_account (se_uuid E) body)"
| "serve E (GetAccount a) = answer ok_200 (get_account a)"
| "serve E (PutEquity a equity) = answer (\<lambda>n. n) (put_equity (se_uuid E) a equity)"
| "serve E (GetRiskConfig a) = answer ok_200 (get_risk_config a)"
| "serve E (PutRiskConfig a body) = answer ok_200 (put_risk_config (se_uuid E) a body)"
| "serve E (PutCorrelationGroups a groups) = answer (\<lambda>n. n) (put_correlation_groups a groups)"
| "serve E (EngageKillSwitch a) = answer ok_200 (engage_kill_switch a)"
| "serve E (ReleaseKillSwitch a) = answer ok_200 (release_kill_switch a)"
| "serve E (EvaluateTrade a intent) = answer ok_200 (evaluate_trade (se_dec E) (se_uuid E) a intent)"
| "serve E (ListRiskEvents a q) = answer ok_200 (list_risk_events a q)"
| "serve E (PlaceOrder a body) = answer fst
     (place_order (se_dec E) (se_uuid E) (se_state E) (fst (se_clocks E)) (snd (se_clocks E)) a body)"
| "serve E (GetExchangeConfig a) = answer ok_200 (get_exchange_config a)"
| "serve E (PutExchangeConfig a body) = answer ok_200
     (put_exchange_config (se_aead E) (se_uuid E) (se_key_env E) (fst (se_nonces E)) (snd (se_nonces E)) a body)"

text \<open>The account in the path, if the path has one.\<close>

fun request_account :: "request \<Rightarrow> uuid option" where
  "request_account (CreateAccount body) = None"
| "request_account (GetAccount a) = Some a"
| "request_account (PutEquity a e) = Some a"
| "request_account (GetRiskConfig a) = Some a"
| "request_account (PutRiskConfig a b) = Some a"
| "request_account (PutCorrelationGroups a g) = Some a"
| "request_account (EngageKillSwitch a) = Some a"
| "request_account (ReleaseKillSwitch a) = Some a"
| "request_account (EvaluateTrade a i) = Some a"
| "request_account (ListRiskEvents a q) = Some a"
| "request_account (PlaceOrder a b) = Some a"
| "request_account (GetExchangeConfig a) = Some a"
| "request_account (PutExchangeConfig a b) = Some a"

lemma answer_keeps: "durable_inv P m \<Longrightarrow> durable_inv P (answer f m)"
  unfolding answer_def by (intro durable_inv_handle durable_intros)

text \<open>The owner's request on its own account keeps what its tenant's statements keep.\<close>

lemma serve_keeps_tenant:
  assumes "tenant_invariant P t" "request_account req = Some t"
  shows "durable_inv P (serve E req)"
proof -
  note laws = tenant_invariant.get_account_keeps [OF assms(1)] tenant_invariant.put_equity_keeps [OF assms(1)]
    tenant_invariant.get_risk_config_keeps [OF assms(1)] tenant_invariant.put_risk_config_keeps [OF assms(1)]
    tenant_invariant.put_correlation_groups_keeps [OF assms(1)]
    tenant_invariant.engage_kill_switch_keeps [OF assms(1)]
    tenant_invariant.release_kill_switch_keeps [OF assms(1)] tenant_invariant.evaluate_trade_keeps [OF assms(1)]
    tenant_invariant.list_risk_events_keeps [OF assms(1)] tenant_invariant.place_order_keeps [OF assms(1)]
    tenant_invariant.get_exchange_config_keeps [OF assms(1)]
    tenant_invariant.put_exchange_config_keeps [OF assms(1)]
  show ?thesis
    using assms(2) by (cases req) (simp_all add: answer_keeps laws)
qed

text \<open>What the statements of every tenant keep, every request keeps.\<close>

lemma serve_keeps:
  assumes "\<And>t. tenant_invariant P t"
  shows "durable_inv P (serve E req)"
proof (cases "request_account req")
  case None
  then show ?thesis
    by (cases req) (simp_all add: answer_keeps create_account_keeps [OF assms])
next
  case (Some t)
  then show ?thesis by (rule serve_keeps_tenant [OF assms])
qed

end
