(* ===== verification/System.thy ===== *)
theory System
  imports Ledger Router Binance_Reconcile
begin

text \<open>
  The running server: any number of requests and of outbox workers, interleaved at the granularity of
  transactions, on one database, with any round trip lost and any worker acting on a snapshot that
  is out of date. The state is the database together with the snapshots the workers hold; a step is a
  transaction of the code.
\<close>

section \<open>Steps\<close>

type_synonym pass = "uuid \<times> uuid \<times> reconcile_snapshot"

record system =
  sy_db :: db
  sy_passes :: "pass list"

text \<open>
  What an adapter may answer for a snapshot: the paper adapter on any state of the quotes, or the live
  adapter on any response of an exchange that reports quantities on the stored grid and executes no
  more than was ordered.
\<close>

definition live_answer_sane :: "reconcile_snapshot \<Rightarrow> reconcile_result \<Rightarrow> bool" where
  "live_answer_sane snap r \<longleftrightarrow>
     (\<forall>f\<in>set (rr_fills_to_add r). on_grid (fl_quantity f) \<and>
        sum_list (map fs_quantity (rs_fills snap)) + fl_quantity f \<le> os_quantity (rs_order snap))"

definition adapter_answer :: "dec_ops \<Rightarrow> uuid_ops \<Rightarrow> reconcile_snapshot \<Rightarrow> reconcile_result \<Rightarrow> bool" where
  "adapter_answer D U snap r \<longleftrightarrow>
     (\<exists>md now. paper_reconcile_order D U md now snap = Ok r) \<or>
     (\<exists>J H N cfg t. binance_reconcile_order D J U H N cfg t snap = Ok r \<and> live_answer_sane snap r)"

inductive sys_step :: "dec_ops \<Rightarrow> uuid_ops \<Rightarrow> system \<Rightarrow> system \<Rightarrow> bool" for D U where
  request: "c_durable c = sy_db s \<Longrightarrow> se_dec E = D \<Longrightarrow> se_uuid E = U \<Longrightarrow> serve E req c = (z, c') \<Longrightarrow>
    sys_step D U s (s\<lparr>sy_db := c_durable c'\<rparr>)"
| claim: "c_durable c = sy_db s \<Longrightarrow> claim_pending_commands n secs c = (zc, c') \<Longrightarrow>
    sys_step D U s (s\<lparr>sy_db := c_durable c'\<rparr>)"
| mark: "c_durable c = sy_db s \<Longrightarrow>
    m \<in> {mark_command_delivered cid, mark_command_permanently_rejected cid,
          mark_command_reconciliation_required cid, requeue_command cid} \<Longrightarrow> m c = (zm, c') \<Longrightarrow>
    sys_step D U s (s\<lparr>sy_db := c_durable c'\<rparr>)"
| hydrate: "c_durable c = sy_db s \<Longrightarrow> hydrate_snapshot a oid c = (zh, c') \<Longrightarrow>
    sys_step D U s (s\<lparr>sy_db := c_durable c',
      sy_passes := (case zh of Ok snap \<Rightarrow> (a, oid, snap) # sy_passes s | _ \<Rightarrow> sy_passes s)\<rparr>)"
| submitted: "c_durable c = sy_db s \<Longrightarrow> finish_submit U cmd oid c = (zo, c') \<Longrightarrow>
    sys_step D U s (s\<lparr>sy_db := c_durable c'\<rparr>)"
| cancelled: "c_durable c = sy_db s \<Longrightarrow> finish_cancel U cmd oid c = (zo, c') \<Longrightarrow>
    sys_step D U s (s\<lparr>sy_db := c_durable c'\<rparr>)"
| rejected: "c_durable c = sy_db s \<Longrightarrow> reject_order U cmd oid c = (zm, c') \<Longrightarrow>
    sys_step D U s (s\<lparr>sy_db := c_durable c'\<rparr>)"
| audited: "c_durable c = sy_db s \<Longrightarrow> audit_event a ty pl c = (zm, c') \<Longrightarrow>
    sys_step D U s (s\<lparr>sy_db := c_durable c'\<rparr>)"
| reconciled: "(a, oid, snap) \<in> set (sy_passes s) \<Longrightarrow> adapter_answer D U snap r \<Longrightarrow>
    c_durable c = sy_db s \<Longrightarrow> persist_reconcile_result D a oid snap r c = (zo, c') \<Longrightarrow>
    sys_step D U s (s\<lparr>sy_db := c_durable c'\<rparr>)"

text \<open>
  The amounts stay in the range where decimals are exact: no order and no net position reaches
  \<open>10^18\<close>. The states a server can reach through such states, from an empty database.
\<close>

definition amounts_small :: "db \<Rightarrow> bool" where
  "amounts_small d \<longleftrightarrow> (\<forall>x\<in>set (t_orders d). or_quantity x < 10 ^ 18) \<and>
     (\<forall>a s. \<bar>net_position a s (t_positions d)\<bar> < 10 ^ 18)"

inductive reachable :: "dec_ops \<Rightarrow> uuid_ops \<Rightarrow> system \<Rightarrow> bool" for D U where
  start: "reachable D U \<lparr>sy_db = empty_db, sy_passes = []\<rparr>"
| step: "reachable D U s \<Longrightarrow> amounts_small (sy_db s) \<Longrightarrow> sys_step D U s s' \<Longrightarrow> reachable D U s'"

section \<open>How orders evolve\<close>

definition order_evolves :: "order_row \<Rightarrow> order_row \<Rightarrow> bool" where
  "order_evolves x y \<longleftrightarrow>
     y = x\<lparr>or_status := or_status y, or_filled_quantity := or_filled_quantity y\<rparr> \<and>
     (y = x \<or> (legal_transition (parse_status (or_status x)) (parse_status (or_status y)) \<and>
        or_filled_quantity x \<le> or_filled_quantity y))"

definition new_order :: "order_row \<Rightarrow> bool" where
  "new_order x \<longleftrightarrow> or_status x = ''pending'' \<and> or_filled_quantity x = 0"

definition orders_evolve :: "order_row list \<Rightarrow> order_row list \<Rightarrow> bool" where
  "orders_evolve rs rs' \<longleftrightarrow>
     (\<exists>ys zs. rs' = ys @ zs \<and> list_all2 order_evolves rs ys \<and> (\<forall>z\<in>set zs. new_order z))"

lemma order_evolves_refl [simp]: "order_evolves x x"
  by (simp add: order_evolves_def)

lemma orders_evolve_refl [simp]: "orders_evolve rs rs"
  unfolding orders_evolve_def
  by (intro exI [of _ rs] exI [of _ "[]"]) (simp add: list.rel_refl)

lemma parse_status_str [simp]: "parse_status (status_str st) = st"
  by (cases st) (simp_all add: parse_status_def)

lemma orders_evolve_set:
  assumes "orders_ok rs" "x \<in> set rs" "or_id x = oid" "or_account_id x = a"
    "legal_transition (parse_status (or_status x)) st" "or_filled_quantity x \<le> q"
  shows "orders_evolve rs (orders_set_to a oid st q rs)"
proof -
  have "order_evolves y (if or_id y = oid \<and> or_account_id y = a
      then y\<lparr>or_status := status_str st, or_filled_quantity := q\<rparr> else y)" if "y \<in> set rs" for y
  proof (cases "or_id y = oid")
    case True
    then have "y = x" using assms(1-3) that by (auto simp: orders_ok_def distinct_map dest: inj_onD)
    with assms show ?thesis by (simp add: order_evolves_def)
  qed simp
  then have "list_all2 order_evolves rs (orders_set_to a oid st q rs)"
    unfolding orders_set_to_def update_where_def list_all2_map2 by (rule list.rel_refl_strong)
  then show ?thesis
    unfolding orders_evolve_def by (intro exI [of _ "orders_set_to a oid st q rs"] exI [of _ "[]"]) simp
qed

lemma order_stepped_evolve:
  assumes "books_ok d" "order_stepped a oid st d d'"
  shows "orders_evolve (t_orders d) (t_orders d')"
proof -
  have ok: "orders_ok (t_orders d)" using assms(1) by (simp add: books_ok_def tables_ok_def)
  from assms(2) consider "t_orders d' = t_orders d"
    | (set) x d1 where "find_order a oid (App (Some a)) d = Some x"
        "legal_transition (parse_status (or_status x)) st"
        "order_set a oid st (or_filled_quantity x) d d1" "t_orders d' = t_orders d1"
    unfolding order_stepped_def by blast
  then show ?thesis
  proof cases
    case set
    note x = find_order_Some [OF set(1)]
    then have "on_grid (or_filled_quantity x)" using ok by (auto simp: orders_ok_def)
    then have "t_orders d' = orders_set_to a oid st (or_filled_quantity x) (t_orders d)"
      using order_set_exact [OF set(3)] set(4) by simp
    with orders_evolve_set [OF ok _ _ _ set(2)] x show ?thesis by simp
  qed simp
qed

text \<open>Routes only append new orders.\<close>

definition orders_appended :: "order_row list \<Rightarrow> db \<Rightarrow> bool" where
  "orders_appended os d \<longleftrightarrow> (\<exists>zs. t_orders d = os @ zs \<and> (\<forall>z\<in>set zs. new_order z))"

lemma orders_appended_same: "t_orders d' = t_orders d \<Longrightarrow> orders_appended os d \<Longrightarrow> orders_appended os d'"
  by (simp add: orders_appended_def)

lemma orders_appended_insert:
  "or_status ord = ''pending'' \<Longrightarrow> or_filled_quantity ord = 0 \<Longrightarrow>
   keeps r (orders_appended os) (sql_insert_order ord)"
  by (rule keepsI) (fastforce simp: sql_insert_order_def res_simps Let_def orders_appended_def new_order_def)

lemma orders_appended_evolve: "orders_appended os d \<Longrightarrow> orders_evolve os (t_orders d)"
  unfolding orders_appended_def orders_evolve_def by (metis list.rel_refl order_evolves_refl)

interpretation placing: tenant_invariant "orders_appended os" t
  by unfold_locales
    (rule orders_appended_insert keepsI; (assumption | erule orders_appended_same [rotated])?;
      drule same_trading_stmts; simp add: same_trading_def)+

end
