(* ===== verification/System_Books.thy ===== *)
theory System_Books
  imports System
begin

text \<open>
  The books are kept by the running server: every reachable state satisfies the constraints of the
  schema, every order's filled quantity is the sum of its fills and at most what was ordered, and
  every net position is the net of the account's fills.
\<close>

section \<open>What every transaction keeps, every step keeps\<close>

lemma hydrate_durable:
  assumes "hydrate_snapshot a oid c = (z, c')"
  shows "c_durable c' = c_durable c"
proof -
  have "c_durable c' = c_durable c \<or> c_durable c' = c_durable c"
  proof (rule tenant_map_err_effect [where Q = "\<lambda>_ _. True" and E = "\<lambda>_. True",
        OF _ assms [unfolded hydrate_snapshot_def]])
    fix d0
    have tail: "tx_spec (App (Some a)) (\<lambda>d. d = d0 \<or> d = d0) (\<lambda>d. d = d0)
       (tx_bind (tx_map_err (\<lambda>_. Retry) (load_fills_for_order a oid)) (\<lambda>fills.
        tx_bind (tx_ignore commit_tx) (\<lambda>_. tx_return (f fills)))) (\<lambda>_ _. True) (\<lambda>_. True)" for f
      unfolding load_fills_for_order_def
      by (rule spec_bind [where R = "\<lambda>_ d. d = d0", OF
            spec_map_err [OF spec_bind [where R = "\<lambda>_ d. d = d0", OF spec_read spec_return]]
            spec_bind [where R = "\<lambda>_ d. d = d0", OF spec_ignore [OF spec_commit] spec_return]]) simp_all
    show "tx_spec (App (Some a)) (\<lambda>d. d = d0 \<or> d = d0) (\<lambda>d. d = d0)
       (tx_bind (tx_map_err (\<lambda>_. ReconciliationRequired) (lock_order a oid)) (\<lambda>order.
        tx_bind (tx_map_err (\<lambda>_. Retry) (load_fills_for_order a oid)) (\<lambda>fills.
        tx_bind (tx_ignore commit_tx) (\<lambda>_.
        tx_return \<lparr>rs_order = order_to_snapshot order, rs_fills = map fill_to_snapshot fills,
          rs_positions = []\<rparr>)))) (\<lambda>_ _. True) (\<lambda>_. True)"
      by (rule spec_bind [OF spec_map_err [OF spec_conseq [OF lock_order_spec]] tail]) auto
  qed
  then show ?thesis by simp
qed

lemma hydrate_Ok:
  assumes "hydrate_snapshot a oid c = (Ok snap, c')"
  obtains x where "find_order a oid (App (Some a)) (c_durable c) = Some x"
    "snap = \<lparr>rs_order = order_to_snapshot (row_to_order x),
       rs_fills = map (fill_to_snapshot \<circ> row_to_fill) (order_fill_rows a oid (App (Some a)) (c_durable c)),
       rs_positions = []\<rparr>"
proof -
  from assms obtain c1 c2 c3 x rows where t: "tenant_tx a c = (Ok (), c1)"
    and o: "stmt (sql_read (find_order a oid)) c1 = (Ok (Some x), c2)"
    and f: "stmt (sql_read (order_fill_rows a oid)) c2 = (Ok rows, c3)"
    and snap: "snap = \<lparr>rs_order = order_to_snapshot (row_to_order x),
      rs_fills = map fill_to_snapshot (map row_to_fill rows), rs_positions = []\<rparr>"
    by (auto simp: hydrate_snapshot_def lock_order_def load_fills_for_order_def tx_ok wrapped_Ok res_simps)
  note t = tenant_tx_Ok [OF t]
  note o = read_bind_Ok [OF o]
  note f = read_bind_Ok [OF f]
  show ?thesis
    by (rule that [of x]) (use t o f snap in \<open>simp_all add: comp_def\<close>)
qed

text \<open>A predicate that the statements keep is kept by every step of the system.\<close>

context outbox_invariant
begin

lemma tenants: "tenant_invariant P t"
  by (rule worker_invariant.axioms(1) [OF each_tenant])

lemma step_keeps:
  assumes "sys_step D U s s'" "P (sy_db s)"
  shows "P (sy_db s')"
proof -
  have dur: "P (c_durable c')" if "durable_inv P m" "m c = (z, c')" "c_durable c = sy_db s"
    for m :: "('e, 'b) tx_res" and c z c'
    using that assms(2) unfolding durable_inv_iff by metis
  from assms(1) show ?thesis
  proof cases
    case (request c E req z c')
    then show ?thesis using dur [OF serve_keeps [OF tenants]] by simp
  next
    case (mark c m cid zm c')
    then have "durable_inv P m" using processing.marks_keep by auto
    with mark show ?thesis using dur by simp
  qed (use dur [OF claim_keeps] dur [OF worker_invariant.hydrate_snapshot_keeps [OF each_tenant]]
      dur [OF worker_invariant.finish_keeps(1) [OF each_tenant refl]]
      dur [OF worker_invariant.finish_keeps(2) [OF each_tenant refl]]
      dur [OF worker_invariant.reject_order_keeps [OF each_tenant refl]]
      dur [OF worker_invariant.audit_event_keeps [OF each_tenant]]
      dur [OF worker_invariant.persist_reconcile_result_keeps [OF each_tenant]] in simp_all)
qed

end

text \<open>Claiming, marking and auditing leave orders, fills and positions alone.\<close>

lemma same_trading_refl [simp]: "same_trading d d"
  by (simp add: same_trading_def)

lemma same_trading_trans: "same_trading d d1 \<Longrightarrow> same_trading d1 d2 \<Longrightarrow> same_trading d d2"
  by (simp add: same_trading_def)

lemma marks_same_trading:
  "m \<in> {mark_command_delivered cid, mark_command_permanently_rejected cid,
     mark_command_reconciliation_required cid, requeue_command cid} \<Longrightarrow> durable_inv (same_trading d) m"
  "durable_inv (same_trading d) (claim_pending_commands n secs)"
  unfolding mark_command_delivered_def mark_command_permanently_rejected_def
    mark_command_reconciliation_required_def requeue_command_def claim_pending_commands_def
  by (auto intro!: durable_intros durable_inv_auto keepsI
      simp: same_trading_def sql_defs res_simps Let_def split: if_splits)

lemma audit_same_trading: "durable_inv (same_trading d) (audit_event a ty pl)"
proof -
  have "keeps r (same_trading d) (sql_insert_risk_event ev)" for r ev
    by (rule keepsI) (blast intro: same_trading_trans same_trading_stmts(1))
  then show ?thesis
    unfolding audit_event_def insert_risk_event_def
    by (intro durable_inv_tenant tx_inv_intros tx_inv_stmt)
qed

section \<open>The snapshots that workers hold\<close>

text \<open>
  A snapshot may be old, but it describes its order: the terms never change, and the fills it
  carries were the order's fills at some time, so they sum up to at most the ordered quantity.
\<close>

definition pass_ok :: "db \<Rightarrow> pass \<Rightarrow> bool" where
  "pass_ok d p \<longleftrightarrow> (case p of (a, oid, snap) \<Rightarrow>
     (\<exists>x. find_order a oid (App (Some a)) d = Some x \<and> describes snap x) \<and>
     on_grid (os_quantity (rs_order snap)) \<and>
     (\<forall>f\<in>set (rs_fills snap). 0 \<le> fs_quantity f \<and> on_grid (fs_quantity f)) \<and>
     sum_list (map fs_quantity (rs_fills snap)) \<le> os_quantity (rs_order snap))"

lemma order_evolves_terms:
  assumes "order_evolves x y"
  shows "or_id y = or_id x" "or_account_id y = or_account_id x" "or_symbol y = or_symbol x"
    "or_side y = or_side x" "or_quantity y = or_quantity x" "or_filled_quantity x \<le> or_filled_quantity y"
proof -
  let ?x = "x\<lparr>or_status := or_status y, or_filled_quantity := or_filled_quantity y\<rparr>"
  have y: "y = ?x" using assms unfolding order_evolves_def by blast
  show "or_id y = or_id x" "or_account_id y = or_account_id x" "or_symbol y = or_symbol x"
    "or_side y = or_side x" "or_quantity y = or_quantity x"
    using arg_cong [OF y, of or_id] arg_cong [OF y, of or_account_id] arg_cong [OF y, of or_symbol]
      arg_cong [OF y, of or_side] arg_cong [OF y, of or_quantity] by simp_all
  show "or_filled_quantity x \<le> or_filled_quantity y"
    using assms unfolding order_evolves_def by (elim conjE disjE) simp_all
qed

lemma first_row_evolves:
  assumes "list_all2 order_evolves rs ys" "\<And>x y. order_evolves x y \<Longrightarrow> p x = p y" "first_row p rs = Some x"
  shows "\<exists>y. first_row p (ys @ zs) = Some y \<and> order_evolves x y"
  using assms
proof (induction rule: list_all2_induct)
  case Nil
  then show ?case by (simp add: first_row_def)
next
  case (Cons u us v vs)
  then show ?case by (auto simp: first_row_def split: if_splits)
qed

lemma find_order_evolves:
  assumes "orders_evolve (t_orders d) (t_orders d')" "find_order a oid r d = Some x"
  obtains y where "find_order a oid r d' = Some y" "order_evolves x y"
proof -
  let ?p = "\<lambda>x. visible r (or_account_id x) \<and> or_id x = oid \<and> or_account_id x = a"
  from assms(1) obtain ys zs where d': "t_orders d' = ys @ zs" and ev: "list_all2 order_evolves (t_orders d) ys"
    unfolding orders_evolve_def by blast
  have "?p x = ?p y" if "order_evolves x y" for x y
    using order_evolves_terms(1,2) [OF that] by simp
  from first_row_evolves [where p = ?p, OF ev this] assms(2)
  have "\<exists>y. first_row ?p (t_orders d') = Some y \<and> order_evolves x y"
    unfolding find_order_def d' by simp
  then show ?thesis using that unfolding find_order_def by blast
qed

lemma pass_ok_evolves:
  assumes "orders_evolve (t_orders d) (t_orders d')" "pass_ok d p"
  shows "pass_ok d' p"
proof -
  obtain a oid snap where p: "p = (a, oid, snap)" by (cases p) auto
  with assms(2) obtain x where "find_order a oid (App (Some a)) d = Some x" "describes snap x"
    by (auto simp: pass_ok_def)
  moreover from find_order_evolves [OF assms(1) this(1)] obtain y
    where "find_order a oid (App (Some a)) d' = Some y" "order_evolves x y" .
  ultimately show ?thesis
    using assms(2) order_evolves_terms [of x y] by (auto simp: p pass_ok_def describes_def)
qed

lemma snapshot_fills_sum:
  assumes "books_ok d" "find_order a oid (App (Some a)) d = Some x"
  shows "sum_list (map fr_quantity (order_fill_rows a oid (App (Some a)) d)) = or_filled_quantity x"
proof -
  note x = find_order_Some [OF assms(2)]
  have l: "or_filled_quantity x = fills_sum oid (t_order_fills d)"
      "f \<in> set (t_order_fills d) \<Longrightarrow> fr_order_id f = oid \<Longrightarrow> fr_account_id f = a" for f
    using assms(1) x by (auto simp: books_ok_def ledger_def)
  then have "order_fill_rows a oid (App (Some a)) d = filter (\<lambda>f. fr_order_id f = oid) (t_order_fills d)"
    unfolding order_fill_rows_def by (intro filter_cong [OF refl]) auto
  with l(1) show ?thesis by (simp add: fills_sum_def)
qed

lemma hydrated_pass_ok:
  assumes "books_ok d" "hydrate_snapshot a oid c = (Ok snap, c')" "c_durable c = d"
  shows "pass_ok d (a, oid, snap)"
proof -
  from hydrate_Ok [OF assms(2)] obtain x where x: "find_order a oid (App (Some a)) d = Some x"
    "snap = \<lparr>rs_order = order_to_snapshot (row_to_order x),
       rs_fills = map (fill_to_snapshot \<circ> row_to_fill) (order_fill_rows a oid (App (Some a)) d),
       rs_positions = []\<rparr>"
    unfolding assms(3) by blast
  have row: "x \<in> set (t_orders d)" using find_order_Some [OF x(1)] by blast
  have "map fs_quantity (rs_fills snap) = map fr_quantity (order_fill_rows a oid (App (Some a)) d)"
    by (simp add: x(2) fill_to_snapshot_def row_to_fill_def)
  then have sum: "sum_list (map fs_quantity (rs_fills snap)) = or_filled_quantity x"
    using snapshot_fills_sum [OF assms(1) x(1)] by simp
  have "f \<in> set (rs_fills snap) \<Longrightarrow> 0 \<le> fs_quantity f \<and> on_grid (fs_quantity f)" for f
    using assms(1)
    by (auto simp: x(2) order_fill_rows_def fill_to_snapshot_def row_to_fill_def books_ok_def
        tables_ok_def fills_ok_def fill_check_def)
  moreover have "on_grid (or_quantity x)" "or_filled_quantity x \<le> or_quantity x"
    using assms(1) row by (auto simp: books_ok_def tables_ok_def orders_ok_def order_check_def)
  moreover have "describes snap x"
    by (simp add: describes_def x(2) order_to_snapshot_def row_to_order_def)
  ultimately show ?thesis
    using x(1) sum by (auto simp: pass_ok_def describes_def)
qed

section \<open>What the adapters answer\<close>

lemma adapter_answer_books:
  assumes D: "decimal_laws D" and r: "adapter_answer D U snap r" and p: "pass_ok d (a, oid, snap)"
    and small: "os_quantity (rs_order snap) < grid_bound"
  shows "books_result (rs_order snap) r \<and>
    sum_list (map fs_quantity (rs_fills snap)) + result_quantity r \<le> os_quantity (rs_order snap)"
  using r unfolding adapter_answer_def
proof (elim disjE exE conjE)
  fix md now
  assume "paper_reconcile_order D U md now snap = Ok r"
  from paper_completes [OF D this] p small
  consider (none) "rr_fills_to_add r = []" "rr_positions_delta r = []"
    | (one) f where "rr_fills_to_add r = [f]" "0 < fl_quantity f"
        "sum_list (map fs_quantity (rs_fills snap)) + fl_quantity f = os_quantity (rs_order snap)"
        "rr_new_status r = Some Filled" "rr_positions_delta r = [fill_delta (rs_order snap) f]"
    unfolding pass_ok_def by auto
  then show ?thesis
  proof cases
    case none
    then show ?thesis using p by (simp add: books_result_def result_quantity_def pass_ok_def)
  next
    case one
    have "fl_quantity f = os_quantity (rs_order snap) - sum_list (map fs_quantity (rs_fills snap))"
      using one(3) by simp
    moreover have "on_grid (sum_list (map fs_quantity (rs_fills snap)))"
      using p by (intro on_grid_sum) (auto simp: pass_ok_def)
    ultimately have "on_grid (fl_quantity f)" using p by (simp add: pass_ok_def on_grid_diff)
    with one show ?thesis by (simp add: books_result_def result_quantity_def)
  qed
next
  fix J H N cfg t
  assume b: "binance_reconcile_order D J U H N cfg t snap = Ok r" and sane: "live_answer_sane snap r"
  from binance.single_fill [OF b] consider (none) "rr_fills_to_add r = []" "rr_positions_delta r = []"
    | (one) f where "rr_fills_to_add r = [f]" "rr_positions_delta r = [fill_delta (rs_order snap) f]"
      "0 < fl_quantity f" "rr_new_status r \<noteq> None" .
  then show ?thesis
  proof cases
    case none
    then show ?thesis using p by (simp add: books_result_def result_quantity_def pass_ok_def)
  next
    case one
    with sane show ?thesis by (simp add: books_result_def result_quantity_def live_answer_sane_def)
  qed
qed

section \<open>Persisted results move orders legally\<close>

lemma persisted_orders:
  assumes "persisted D a oid snap r d d'" "find_order a oid (App (Some a)) d = Some x"
  shows "t_orders d' = t_orders d \<or>
    (\<exists>st q. legal_transition (parse_status (or_status x)) st \<and>
       t_orders d' = orders_set_to a oid st q (t_orders d))"
proof -
  from assms obtain ins d1 d2 d3 where app: "fills_appended a oid ins d d1" and only: "but_positions d1 d2"
    and st: "status_persisted D a oid x ins (rr_new_status r) d2 d3" and ev: "events_appended d3 d'"
    unfolding persisted_def by auto
  have d2: "t_orders d2 = t_orders d"
    using only app unfolding but_positions_def fills_appended_def
    by (metis db.select_convs(8) db.surjective db.update_convs(5) db.update_convs(9))
  have d3: "t_orders d' = t_orders d3" using ev by (auto simp: events_appended_def)
  show ?thesis
  proof (cases "rr_new_status r")
    case None
    with st d2 d3 show ?thesis by (simp add: status_persisted_def)
  next
    case (Some s)
    with st obtain q q' where "legal_transition (parse_status (or_status x)) s"
        "t_orders d3 = update_where (\<lambda>x. or_id x = oid \<and> or_account_id x = a)
           (\<lambda>x. x\<lparr>or_status := status_str s, or_filled_quantity := q'\<rparr>) (t_orders d2)"
      unfolding status_persisted_def order_set_def by auto
    with d2 d3 show ?thesis unfolding orders_set_to_def by auto
  qed
qed

lemma fills_sum_mono:
  assumes "prefix fs fs'" "\<forall>f\<in>set fs'. 0 \<le> fr_quantity f"
  shows "fills_sum oid fs \<le> fills_sum oid fs'"
proof -
  obtain gs where "fs' = fs @ gs" using assms(1) by (auto elim: prefixE)
  moreover have "0 \<le> fills_sum oid gs"
    unfolding fills_sum_def using assms(2) calculation by (intro sum_list_nonneg) auto
  ultimately show ?thesis by (simp add: fills_sum_def)
qed

lemma persisted_evolve:
  assumes "persisted D a oid snap r d d'" "books_ok d" "books_ok d'"
    "prefix (t_order_fills d) (t_order_fills d')"
  shows "orders_evolve (t_orders d) (t_orders d')"
proof -
  obtain x where x: "find_order a oid (App (Some a)) d = Some x"
    using assms(1) unfolding persisted_def by blast
  note x' = find_order_Some [OF x]
  have ok: "orders_ok (t_orders d)" using assms(2) by (simp add: books_ok_def tables_ok_def)
  from persisted_orders [OF assms(1) x] consider "t_orders d' = t_orders d"
    | (set) st q where "legal_transition (parse_status (or_status x)) st"
      "t_orders d' = orders_set_to a oid st q (t_orders d)"
    by blast
  then show ?thesis
  proof cases
    case set
    let ?y = "x\<lparr>or_status := status_str st, or_filled_quantity := q\<rparr>"
    have "?y \<in> set (t_orders d')"
      using orders_ok_set [OF ok, of x oid a ?y st q] x' set(2) by simp
    then have "or_filled_quantity ?y = fills_sum (or_id ?y) (t_order_fills d')"
      using assms(3) unfolding books_ok_def ledger_def by blast
    moreover have "or_filled_quantity x = fills_sum (or_id x) (t_order_fills d)"
      using assms(2) x' unfolding books_ok_def ledger_def by blast
    moreover have "\<forall>f\<in>set (t_order_fills d'). 0 \<le> fr_quantity f"
      using assms(3) by (auto simp: books_ok_def tables_ok_def fills_ok_def fill_check_def)
    ultimately have "or_filled_quantity x \<le> q" using fills_sum_mono [OF assms(4)] by simp
    with set x' show ?thesis using orders_evolve_set [OF ok, of x oid a st q] by simp
  qed simp
qed

section \<open>The invariant of the running server\<close>

definition system_ok :: "system \<Rightarrow> bool" where
  "system_ok s \<longleftrightarrow> books_ok (sy_db s) \<and> (\<forall>p\<in>set (sy_passes s). pass_ok (sy_db s) p)"

lemma system_ok_start: "system_ok \<lparr>sy_db = empty_db, sy_passes = []\<rparr>"
  using books_ok_empty by (simp add: system_ok_def)

lemma persist_result_keeps:
  assumes "outbox_invariant P" "P (c_durable c)" "persist_reconcile_result D a oid snap r c = (z, c')"
  shows "P (c_durable c')"
proof -
  have "durable_inv P (persist_reconcile_result D a oid snap r)"
    by (rule worker_invariant.persist_reconcile_result_keeps [OF outbox_invariant.each_tenant [OF assms(1)]])
  then show ?thesis using assms(2,3) unfolding durable_inv_iff by blast
qed

lemma reconciled_step:
  assumes D: "decimal_laws D" and d: "books_ok d" "amounts_small d" and p: "pass_ok d (a, oid, snap)"
    and r: "adapter_answer D U snap r" and run: "persist_reconcile_result D a oid snap r c = (z, c')"
    and c: "c_durable c = d"
  shows "books_ok (c_durable c') \<and> orders_evolve (t_orders d) (t_orders (c_durable c'))"
proof -
  from persist_effect [OF run] consider "c_durable c' = d" | (stored) "persisted D a oid snap r d (c_durable c')"
    unfolding c by blast
  then show ?thesis
  proof cases
    case stored
    let ?d' = "c_durable c'" and ?q = "os_quantity (rs_order snap)"
    note keep = persist_result_keeps [OF _ _ run, unfolded c]
    have tables: "tables_ok ?d'"
      using keep [OF constraints.outbox_invariant_axioms] d(1) by (simp add: books_ok_def)
    have grown: "grown_from (t_risk_events d) (t_order_fills d) ?d'"
      by (rule keep [OF audit.outbox_invariant_axioms grown_from_refl])
    from stored obtain x where x: "find_order a oid (App (Some a)) d = Some x"
        "d_sum D (map fs_quantity (rs_fills snap)) = Some (or_filled_quantity x)"
      unfolding persisted_def by blast
    have desc: "describes snap x" using p x(1) by (auto simp: pass_ok_def)
    have row: "x \<in> set (t_orders d)" using find_order_Some [OF x(1)] by blast
    have q: "?q < 10 ^ 18"
      using d(2) row desc by (simp add: amounts_small_def describes_def)
    then have qs: "?q < grid_bound" by (simp add: grid_bound_def)
    have net: "\<bar>net_position a (or_symbol x) (t_positions d)\<bar> < 10 ^ 18"
      using d(2) by (simp add: amounts_small_def)
    note ans = adapter_answer_books [OF D r p qs]
    have sum: "sum_list (map fs_quantity (rs_fills snap)) = or_filled_quantity x"
      using d_sum_exact [of D "map fs_quantity (rs_fills snap)"] D p qs x(2) by (auto simp: pass_ok_def)
    have nn: "0 \<le> or_filled_quantity x"
      using d(1) row by (auto simp: books_ok_def tables_ok_def orders_ok_def order_check_def)
    have books: "books_ok ?d'"
    proof (rule persisted_books [OF d(1) tables D stored x(1) desc conjunct1 [OF ans]])
      show "or_filled_quantity x + result_quantity r < grid_bound"
        using ans sum qs by simp
      show "\<bar>net_position a (or_symbol x) (t_positions d)\<bar> + result_quantity r < grid_bound"
        using ans sum nn q net by (simp add: grid_bound_def)
    qed
    moreover have "prefix (t_order_fills d) (t_order_fills ?d')"
      using grown by (simp add: grown_from_def)
    ultimately show ?thesis using persisted_evolve [OF stored d(1)] by blast
  qed (simp add: d)
qed

lemma same_trading_books:
  assumes "durable_inv (same_trading (sy_db s)) m" "m c = (z, c')" "c_durable c = sy_db s"
    "books_ok (sy_db s)" "tables_ok (c_durable c')"
  shows "books_ok (c_durable c') \<and> orders_evolve (t_orders (sy_db s)) (t_orders (c_durable c'))"
proof -
  have "same_trading (sy_db s) (c_durable c')"
    using assms(1-3) same_trading_refl unfolding durable_inv_iff by metis
  with assms(4,5) show ?thesis using books_same_trading by (auto simp: same_trading_def)
qed

lemma step_books:
  assumes D: "decimal_laws D" and ok: "system_ok s" "amounts_small (sy_db s)" and step: "sys_step D U s s'"
  shows "books_ok (sy_db s') \<and> orders_evolve (t_orders (sy_db s)) (t_orders (sy_db s'))"
proof -
  have books: "books_ok (sy_db s)" using ok(1) by (simp add: system_ok_def)
  have tables: "tables_ok (sy_db s')"
    using constraints.step_keeps [OF step] books by (simp add: books_ok_def)
  from step show ?thesis
  proof cases
    case (request c E req z c')
    have "books_ok (c_durable c')"
      using serve_keeps [OF routes.tenant_invariant_axioms] request books unfolding durable_inv_iff by metis
    moreover have "orders_appended (t_orders (sy_db s)) (sy_db s)" by (simp add: orders_appended_def)
    then have "orders_appended (t_orders (sy_db s)) (c_durable c')"
      using serve_keeps [OF placing.tenant_invariant_axioms] request unfolding durable_inv_iff by metis
    ultimately show ?thesis using request by (simp add: orders_appended_evolve)
  next
    case (claim c n secs zc c')
    with tables show ?thesis using same_trading_books [OF marks_same_trading(2) claim(3,2) books] by simp
  next
    case (mark c m cid zm c')
    with tables show ?thesis
      using same_trading_books [OF marks_same_trading(1) _ _ books] by simp
  next
    case (hydrate c a oid zh c')
    with hydrate_durable books show ?thesis by simp
  next
    case (submitted c cmd oid zo c')
    with finish_submit_effect [OF submitted(3)] tables show ?thesis
      using order_stepped_books [OF books] order_stepped_evolve [OF books] by simp
  next
    case (cancelled c cmd oid zo c')
    with finish_cancel_effect [OF cancelled(3)] tables show ?thesis
      using order_stepped_books [OF books] order_stepped_evolve [OF books] by simp
  next
    case (rejected c cmd oid zm c')
    with reject_order_effect [OF rejected(3)] tables show ?thesis
      using order_stepped_books [OF books] order_stepped_evolve [OF books] by simp
  next
    case (audited c a ty pl zm c')
    with tables show ?thesis using same_trading_books [OF audit_same_trading audited(3,2) books] by simp
  next
    case (reconciled a oid snap r c zo c')
    then have "pass_ok (sy_db s) (a, oid, snap)" using ok(1) by (simp add: system_ok_def)
    with reconciled show ?thesis using reconciled_step [OF D books ok(2) _ _ reconciled(5,4)] by simp
  qed
qed

lemma step_passes:
  assumes ok: "system_ok s" and step: "sys_step D U s s'" and p: "p \<in> set (sy_passes s')"
  shows "p \<in> set (sy_passes s) \<or> pass_ok (sy_db s) p"
  using step
proof cases
  case (hydrate c a oid zh c')
  with p consider "p \<in> set (sy_passes s)" | snap where "zh = Ok snap" "p = (a, oid, snap)"
    by (cases zh) auto
  then show ?thesis
  proof cases
    case 2
    with hydrate ok show ?thesis
      using hydrated_pass_ok [of "sy_db s" a oid c snap c'] by (simp add: system_ok_def)
  qed simp
qed (use p in simp_all)

lemma step_ok:
  assumes "decimal_laws D" "system_ok s" "amounts_small (sy_db s)" "sys_step D U s s'"
  shows "system_ok s'"
proof -
  note b = step_books [OF assms]
  have "pass_ok (sy_db s') p" if "p \<in> set (sy_passes s')" for p
  proof (rule pass_ok_evolves)
    show "orders_evolve (t_orders (sy_db s)) (t_orders (sy_db s'))" using b by blast
    show "pass_ok (sy_db s) p"
      using step_passes [OF assms(2,4) that] assms(2) by (auto simp: system_ok_def)
  qed
  with b show ?thesis by (simp add: system_ok_def)
qed

lemma reachable_ok:
  assumes "decimal_laws D" "reachable D U s"
  shows "system_ok s"
  using assms(2) by induction (simp_all add: system_ok_start step_ok [OF assms(1)])

end
