(* ===== verification/System_Runs.thy ===== *)
theory System_Runs
  imports System_Books
begin

text \<open>
  Runs of the server: what becomes of an order over any number of steps, and the proof that the
  code's own pass of the worker, \<open>run_once\<close>, is a sequence of steps of the system.
\<close>

section \<open>Runs\<close>

definition small_step :: "dec_ops \<Rightarrow> uuid_ops \<Rightarrow> system \<Rightarrow> system \<Rightarrow> bool" where
  "small_step D U s s' \<longleftrightarrow> amounts_small (sy_db s) \<and> sys_step D U s s'"

abbreviation sys_run :: "dec_ops \<Rightarrow> uuid_ops \<Rightarrow> system \<Rightarrow> system \<Rightarrow> bool" where
  "sys_run D U \<equiv> (small_step D U)\<^sup>*\<^sup>*"

lemma run_ok:
  assumes "decimal_laws D" "sys_run D U s s'" "system_ok s"
  shows "system_ok s'"
  using assms(2,3) by induction (auto simp: small_step_def step_ok [OF assms(1)])

text \<open>What a run may make of an order: its terms stay, its status moves along legal transitions and
  its filled quantity grows.\<close>

definition order_history :: "order_row \<Rightarrow> order_row \<Rightarrow> bool" where
  "order_history x y \<longleftrightarrow>
     y = x\<lparr>or_status := or_status y, or_filled_quantity := or_filled_quantity y\<rparr> \<and>
     legal_transition\<^sup>*\<^sup>* (parse_status (or_status x)) (parse_status (or_status y)) \<and>
     or_filled_quantity x \<le> or_filled_quantity y \<and>
     (is_terminal (parse_status (or_status x)) \<longrightarrow> y = x)"

lemma order_history_refl: "order_history x x"
  by (simp add: order_history_def)

lemma order_history_step:
  assumes "order_history x y" "order_evolves y z"
  shows "order_history x z"
proof -
  from assms(2) consider "z = y" | (moved) "legal_transition (parse_status (or_status y)) (parse_status (or_status z))"
      "or_filled_quantity y \<le> or_filled_quantity z"
    unfolding order_evolves_def by blast
  then show ?thesis
  proof cases
    case 1
    with assms(1) show ?thesis by simp
  next
    case moved
    have z: "z = y\<lparr>or_status := or_status z, or_filled_quantity := or_filled_quantity z\<rparr>"
      and y: "y = x\<lparr>or_status := or_status y, or_filled_quantity := or_filled_quantity y\<rparr>"
      using assms unfolding order_evolves_def order_history_def by blast+
    have "z = x\<lparr>or_status := or_status z, or_filled_quantity := or_filled_quantity z\<rparr>"
      using arg_cong [OF y, of "\<lambda>r. r\<lparr>or_status := or_status z, or_filled_quantity := or_filled_quantity z\<rparr>"] z
      by simp
    moreover have "\<not> is_terminal (parse_status (or_status x))"
    proof
      assume "is_terminal (parse_status (or_status x))"
      then have "y = x" "is_terminal (parse_status (or_status y))"
        using assms(1) unfolding order_history_def by auto
      with moved(1) show False using order_life.final_stuck by blast
    qed
    ultimately show ?thesis
      using assms(1) moved unfolding order_history_def
      by (auto intro: rtranclp.rtrancl_into_rtrancl)
  qed
qed

lemma run_orders:
  assumes D: "decimal_laws D" and run: "sys_run D U s s'" and ok: "system_ok s"
    and x: "find_order a oid (App (Some a)) (sy_db s) = Some x"
  obtains y where "find_order a oid (App (Some a)) (sy_db s') = Some y" "order_history x y"
proof -
  from run ok have "\<exists>y. find_order a oid (App (Some a)) (sy_db s') = Some y \<and> order_history x y"
  proof induction
    case base
    with x order_history_refl show ?case by blast
  next
    case (step s1 s2)
    from step.IH step.prems obtain y where y: "find_order a oid (App (Some a)) (sy_db s1) = Some y"
        "order_history x y"
      by blast
    have "system_ok s1" using run_ok [OF D step.hyps(1) step.prems] .
    with step.hyps(2) have "orders_evolve (t_orders (sy_db s1)) (t_orders (sy_db s2))"
      using step_books [OF D, of s1 U s2] by (simp add: small_step_def)
    from find_order_evolves [OF this y(1)] obtain z
      where "find_order a oid (App (Some a)) (sy_db s2) = Some z" "order_evolves y z" .
    with order_history_step [OF y(2)] show ?case by blast
  qed
  with that show ?thesis by blast
qed

section \<open>The worker's code is a sequence of steps\<close>

text \<open>
  \<open>simulated D U P m Q\<close>: whatever the session, with passes that satisfy \<open>P\<close> the fragment \<open>m\<close>
  takes the durable state along steps of the system, and a value it returns satisfies \<open>Q\<close> with the
  passes afterwards.
\<close>

definition steps :: "dec_ops \<Rightarrow> uuid_ops \<Rightarrow> db \<Rightarrow> pass list \<Rightarrow> db \<Rightarrow> pass list \<Rightarrow> bool" where
  "steps D U d ps d' ps' \<longleftrightarrow>
     (sys_step D U)\<^sup>*\<^sup>* \<lparr>sy_db = d, sy_passes = ps\<rparr> \<lparr>sy_db = d', sy_passes = ps'\<rparr>"

lemma steps_refl: "steps D U d ps d ps"
  by (simp add: steps_def)

lemma steps_trans: "steps D U d ps d1 ps1 \<Longrightarrow> steps D U d1 ps1 d2 ps2 \<Longrightarrow> steps D U d ps d2 ps2"
  unfolding steps_def by (rule rtranclp_trans)

lemma steps_one:
  "sys_step D U \<lparr>sy_db = d, sy_passes = ps\<rparr> \<lparr>sy_db = d', sy_passes = ps'\<rparr> \<Longrightarrow> steps D U d ps d' ps'"
  unfolding steps_def by (rule r_into_rtranclp)

definition simulated ::
    "dec_ops \<Rightarrow> uuid_ops \<Rightarrow> (pass list \<Rightarrow> bool) \<Rightarrow> ('e, 'a) tx_res \<Rightarrow> ('a \<Rightarrow> pass list \<Rightarrow> bool) \<Rightarrow> bool" where
  "simulated D U P m Q \<longleftrightarrow>
     (\<forall>c z c' ps. m c = (z, c') \<longrightarrow> P ps \<longrightarrow>
        (\<exists>ps'. steps D U (c_durable c) ps (c_durable c') ps' \<and> (\<forall>x. z = Ok x \<longrightarrow> Q x ps')))"

abbreviation simulated_any :: "dec_ops \<Rightarrow> uuid_ops \<Rightarrow> ('e, 'a) tx_res \<Rightarrow> bool" where
  "simulated_any D U m \<equiv> simulated D U (\<lambda>_. True) m (\<lambda>_ _. True)"

lemma simulatedD:
  assumes "simulated D U P m Q" "m c = (z, c')" "P ps"
  shows "\<exists>ps'. steps D U (c_durable c) ps (c_durable c') ps' \<and> (\<forall>x. z = Ok x \<longrightarrow> Q x ps')"
  using assms unfolding simulated_def by auto

lemma simulated_handle:
  assumes m: "simulated D U P m R" and f: "\<And>x. simulated D U (R x) (f x) Q"
    and g: "\<And>e. simulated D U (\<lambda>_. True) (g e) Q"
  shows "simulated D U P (tx_handle m f g) Q"
  unfolding simulated_def
proof (intro allI impI)
  fix c z c' ps assume run: "tx_handle m f g c = (z, c')" and P: "P ps"
  from run consider (ok) x c1 where "m c = (Ok x, c1)" "f x c1 = (z, c')"
    | (err) e c1 where "m c = (Err e, c1)" "g e c1 = (z, c')"
    | (panic) "m c = (Panic, c')" "z = Panic"
    by (auto simp: tx_handle_eq)
  then show "\<exists>ps'. steps D U (c_durable c) ps (c_durable c') ps' \<and> (\<forall>x. z = Ok x \<longrightarrow> Q x ps')"
  proof cases
    case ok
    obtain ps1 where s1: "steps D U (c_durable c) ps (c_durable c1) ps1" "R x ps1"
      using simulatedD [OF m ok(1) P] by blast
    from simulatedD [where P = "R x" and Q = Q, OF f ok(2) s1(2)] steps_trans [OF s1(1)] show ?thesis by blast
  next
    case err
    obtain ps1 where s1: "steps D U (c_durable c) ps (c_durable c1) ps1"
      using simulatedD [OF m err(1) P] by blast
    from simulatedD [where P = "\<lambda>_. True" and Q = Q, OF g err(2) TrueI] steps_trans [OF s1] show ?thesis by blast
  next
    case panic
    from simulatedD [OF m panic(1) P] panic(2) show ?thesis by blast
  qed
qed

lemma simulated_quiet:
  assumes "\<And>c z c'. m c = (z, c') \<Longrightarrow> c_durable c' = c_durable c" "\<And>x ps. P ps \<Longrightarrow> Q x ps"
  shows "simulated D U P m Q"
  unfolding simulated_def using assms by (auto intro: steps_refl)

lemma simulated_one:
  assumes "\<And>c z c' ps. m c = (z, c') \<Longrightarrow> P ps \<Longrightarrow>
    sys_step D U \<lparr>sy_db = c_durable c, sy_passes = ps\<rparr> \<lparr>sy_db = c_durable c', sy_passes = ps\<rparr>"
  shows "simulated D U P m (\<lambda>_. P)"
  unfolding simulated_def
proof (intro allI impI)
  fix c z c' ps assume "m c = (z, c')" "P ps"
  then show "\<exists>ps'. steps D U (c_durable c) ps (c_durable c') ps' \<and> (\<forall>x. z = Ok x \<longrightarrow> P ps')"
    using steps_one [OF assms] by (intro exI [of _ ps]) simp
qed

named_theorems sim_intros \<open>fragments that are sequences of steps\<close>

lemma simulated_basic [sim_intros]:
  "simulated_any D U (tx_return x)" "simulated_any D U (tx_fail e)"
  by (rule simulated_quiet; simp add: tx_return_def tx_fail_def)+

lemma simulated_lift: "(\<And>x ps. r = Ok x \<Longrightarrow> P ps \<Longrightarrow> Q x ps) \<Longrightarrow> simulated D U P (tx_lift r) Q"
  unfolding simulated_def tx_lift_def by (auto intro: steps_refl)

lemma simulated_bind:
  "simulated D U P m R \<Longrightarrow> (\<And>x. simulated D U (R x) (f x) Q) \<Longrightarrow> simulated D U P (tx_bind m f) Q"
  unfolding tx_bind_def by (rule simulated_handle, assumption+)
    (auto simp: tx_fail_def simulated_def intro: steps_refl)

lemma simulated_bind_any [sim_intros]:
  "simulated_any D U m \<Longrightarrow> (\<And>x. simulated_any D U (f x)) \<Longrightarrow> simulated_any D U (tx_bind m f)"
  by (rule simulated_bind)

lemma simulated_ignore [sim_intros]: "simulated_any D U m \<Longrightarrow> simulated_any D U (tx_ignore m)"
  unfolding tx_ignore_def by (rule simulated_handle) (rule sim_intros | assumption)+

lemma simulated_each [sim_intros]: "(\<And>x. simulated_any D U (f x)) \<Longrightarrow> simulated_any D U (tx_each f xs)"
  by (induction xs) (auto intro: sim_intros)


lemma simulated_step:
  assumes "\<And>s c z c'. c_durable c = sy_db s \<Longrightarrow> m c = (z, c') \<Longrightarrow> sys_step D U s (s\<lparr>sy_db := c_durable c'\<rparr>)"
  shows "simulated D U P m (\<lambda>_. P)"
proof (rule simulated_one)
  fix c z c' ps assume "m c = (z, c')"
  with assms [of c "\<lparr>sy_db = c_durable c, sy_passes = ps\<rparr>" z c']
  show "sys_step D U \<lparr>sy_db = c_durable c, sy_passes = ps\<rparr> \<lparr>sy_db = c_durable c', sy_passes = ps\<rparr>"
    by simp
qed

lemma simulated_conseq:
  assumes "simulated D U P' m Q'" "\<And>ps. P ps \<Longrightarrow> P' ps" "\<And>x ps. Q' x ps \<Longrightarrow> Q x ps"
  shows "simulated D U P m Q"
  unfolding simulated_def
proof (intro allI impI)
  fix c z c' ps assume "m c = (z, c')" "P ps"
  with simulatedD [OF assms(1), of c z c' ps] assms(2)
  obtain ps' where "steps D U (c_durable c) ps (c_durable c') ps'" "\<forall>x. z = Ok x \<longrightarrow> Q' x ps'"
    by auto
  with assms(3) show "\<exists>ps'. steps D U (c_durable c) ps (c_durable c') ps' \<and> (\<forall>x. z = Ok x \<longrightarrow> Q x ps')"
    by auto
qed

lemma simulated_transactions [sim_intros]:
  "simulated_any D U (claim_pending_commands n secs)"
  "simulated_any D U (mark_command_delivered cid)"
  "simulated_any D U (mark_command_permanently_rejected cid)"
  "simulated_any D U (mark_command_reconciliation_required cid)"
  "simulated_any D U (requeue_command cid)"
  "simulated_any D U (finish_submit U cmd oid)"
  "simulated_any D U (finish_cancel U cmd oid)"
  "simulated_any D U (reject_order U cmd oid)"
  "simulated_any D U (audit_event a ty pl)"
  by (rule simulated_step; auto intro: sys_step.intros)+

lemma simulated_hydrate:
  "simulated D U (\<lambda>_. True) (hydrate_snapshot a oid) (\<lambda>snap ps. (a, oid, snap) \<in> set ps)"
  unfolding simulated_def
proof (intro allI impI)
  fix c z c' ps assume run: "hydrate_snapshot a oid c = (z, c')"
  let ?s = "\<lparr>sy_db = c_durable c, sy_passes = ps\<rparr>"
  have "sys_step D U ?s (?s\<lparr>sy_db := c_durable c',
      sy_passes := (case z of Ok snap \<Rightarrow> (a, oid, snap) # sy_passes ?s | _ \<Rightarrow> sy_passes ?s)\<rparr>)"
    by (rule sys_step.hydrate [OF _ run]) simp
  then have "steps D U (c_durable c) ps (c_durable c') (case z of Ok snap \<Rightarrow> (a, oid, snap) # ps | _ \<Rightarrow> ps)"
    by (intro steps_one) (cases z; simp)
  then show "\<exists>ps'. steps D U (c_durable c) ps (c_durable c') ps' \<and>
      (\<forall>x. z = Ok x \<longrightarrow> (a, oid, x) \<in> set ps')"
    by (intro exI [of _ "case z of Ok snap \<Rightarrow> (a, oid, snap) # ps | _ \<Rightarrow> ps"]) auto
qed

lemma simulated_persist:
  assumes "adapter_answer D U snap r"
  shows "simulated D U (\<lambda>ps. (a, oid, snap) \<in> set ps) (persist_reconcile_result D a oid snap r) (\<lambda>_ _. True)"
proof -
  have "simulated D U (\<lambda>ps. (a, oid, snap) \<in> set ps) (persist_reconcile_result D a oid snap r)
      (\<lambda>_ ps. (a, oid, snap) \<in> set ps)"
  proof (rule simulated_one)
    fix c z c' ps
    assume run: "persist_reconcile_result D a oid snap r c = (z, c')" and "(a, oid, snap) \<in> set ps"
    with sys_step.reconciled [OF _ assms _ run, of "\<lparr>sy_db = c_durable c, sy_passes = ps\<rparr>"]
    show "sys_step D U \<lparr>sy_db = c_durable c, sy_passes = ps\<rparr> \<lparr>sy_db = c_durable c', sy_passes = ps\<rparr>"
      by simp
  qed
  then show ?thesis by (rule simulated_conseq) auto
qed

lemma simulated_acquire [sim_intros]: "simulated_any D U acquire"
  unfolding acquire_def by (rule simulated_quiet) (auto elim!: io_cases)

text \<open>The adapters of a supervisor answer as adapters do.\<close>

definition answers_ok :: "dec_ops \<Rightarrow> uuid_ops \<Rightarrow> adapter \<Rightarrow> bool" where
  "answers_ok D U ad \<longleftrightarrow> (\<forall>snap r. ad_reconcile_order ad snap = Ok r \<longrightarrow> adapter_answer D U snap r)"

lemma paper_answers_ok: "answers_ok D U (paper_adapter D U md now)"
  by (auto simp: answers_ok_def paper_adapter_def adapter_answer_def)

lemma map_err_Ok: "map_err h v = Ok x \<longleftrightarrow> v = Ok x"
  by (cases v) simp_all

lemma simulated_forget: "simulated D U P m Q \<Longrightarrow> simulated D U P m (\<lambda>_ _. True)"
  by (erule simulated_conseq) auto

lemma simulated_dispatch:
  assumes "answers_ok D U ad"
  shows "simulated_any D U (dispatch D J U ad cmd)"
proof -
  have submit: "simulated_any D U (tx_bind (hydrate_snapshot a oid) (\<lambda>snap.
      tx_bind (tx_lift (f snap)) (\<lambda>_. m)))" if "simulated_any D U m" for a oid f m
    by (rule simulated_bind [OF simulated_forget [OF simulated_hydrate]])
      (intro simulated_bind [where R = "\<lambda>_ _. True"] simulated_lift that TrueI)
  have reconcile: "simulated_any D U (tx_bind (hydrate_snapshot a oid) (\<lambda>snap.
      tx_bind (tx_lift (map_err h (ad_reconcile_order ad snap))) (\<lambda>r.
      persist_reconcile_result D a oid snap r)))" for a oid h
  proof (rule simulated_bind [OF simulated_hydrate], rule simulated_bind)
    show "simulated D U (\<lambda>ps. (a, oid, snap) \<in> set ps) (tx_lift (map_err h (ad_reconcile_order ad snap)))
        (\<lambda>r ps. adapter_answer D U snap r \<and> (a, oid, snap) \<in> set ps)" for snap
      using assms by (intro simulated_lift) (auto simp: map_err_Ok answers_ok_def)
    show "simulated D U (\<lambda>ps. adapter_answer D U snap r \<and> (a, oid, snap) \<in> set ps)
        (persist_reconcile_result D a oid snap r) (\<lambda>_ _. True)" for snap r
    proof (cases "adapter_answer D U snap r")
      case True
      from simulated_persist [OF this] show ?thesis by (rule simulated_conseq) auto
    qed (simp add: simulated_def)
  qed
  show ?thesis
    unfolding dispatch_def by (auto intro!: submit reconcile sim_intros split: option.split)
qed

lemma simulated_process:
  assumes "\<And>mode ad. resolve sv mode = Some ad \<Longrightarrow> answers_ok D U ad"
  shows "simulated_any D U (process_command D J U sv cmd)"
proof -
  have after: "simulated_any D U (after_dispatch J U cmd outcome)" for outcome
    unfolding after_dispatch_def by (cases outcome) (auto intro!: sim_intros split: option.split)
  show ?thesis
    unfolding process_command_def
    by (auto intro!: sim_intros simulated_handle [OF simulated_dispatch] after assms split: option.split)
qed

lemma simulated_run_once:
  assumes "\<And>mode ad. resolve sv mode = Some ad \<Longrightarrow> answers_ok D U ad"
  shows "simulated_any D U (run_once D J U sv n)"
  unfolding run_once_def by (intro sim_intros simulated_process assms)

end
