(* ===== verification/Scenario.thy ===== *)
theory Scenario
  imports System_Runs Exchange_Properties Core_Properties
begin

text \<open>
  A concrete run of the system, from the empty database to a filled order: an account is created,
  it places an order, and the worker submits it and reconciles it with the paper adapter.
\<close>

named_theorems run_defs \<open>the primitives of transactions, for evaluation\<close>

lemmas [run_defs] = tx_bind_def tx_handle_def tx_return_def tx_fail_def tx_lift_def tx_map_err_def tx_ignore_def
  tx_if_ok_def io_def stmt_def auto_stmt_def begin_tx_def commit_tx_def fresh_id_def get_now_def get_today_def
  tenant_tx_def set_tenant_def guard_def sql_read_def first_row_def update_where_def checked_update_def
  account_exists_def answer_def

text \<open>A session without faults on the state \<open>d\<close>, whose identifiers start at \<open>n\<close>.\<close>

definition sess :: "nat \<Rightarrow> db \<Rightarrow> conn" where
  "sess n d = \<lparr>c_role = Owner, c_db = d, c_durable = d, c_aborted = False, c_faults = [], c_now = 1000,
     c_today = 20, c_ids = word_of_nat, c_next = n\<rparr>"

lemma sess_durable [simp]: "c_durable (sess n d) = d" "c_now (sess n d) = 1000"
  by (simp_all add: sess_def)

definition ev_row :: "uuid \<Rightarrow> string \<Rightarrow> json \<Rightarrow> risk_event_row" where
  "ev_row e ty pl = \<lparr>ev_id = e, ev_account_id = 1, ev_event_type = ty, ev_payload = pl, ev_created_at = 1000\<rparr>"

definition db1 :: db where
  "db1 = empty_db\<lparr>
     t_accounts := [\<lparr>ac_id = 1, ac_status = ''active'', ac_equity = 100000, ac_kill_switch_engaged_at = None\<rparr>],
     t_risk_configs := [\<lparr>rc_account_id = 1, rc_cfg = default_risk_config, rc_version = 1\<rparr>],
     t_risk_events := [ev_row 2 ''account_created'' (JObj [(''equity'', ser_dec ref_uuid 100000)])]\<rparr>"

definition sample_env :: server_env where
  "sample_env = \<lparr>se_dec = ref_dec, se_uuid = ref_uuid, se_aead = toy_aead, se_key_env = None,
     se_nonces = ([], []),
     se_state = \<lparr>app_symbols = replace_all (store_new 120) [sample_meta] 100,
       app_market_data = md_update (md_new 10) ''BTC'' 99 100 100\<rparr>,
     se_clocks = (101, 101)\<rparr>"

lemma account_created:
  obtains c where "serve sample_env (CreateAccount (Some (Some 100000))) (sess 1 empty_db) = (Ok 201, c)"
    "c_durable c = db1"
  by (simp add: run_defs create_account_def sample_env_def sess_def sql_insert_account_def
      sql_insert_risk_config_def sql_insert_risk_event_def insert_risk_event_def Let_def numeric_on_grid
      res_simps account_check_def empty_db_def db1_def ev_row_def risk_event_types_def)


section \<open>Placing an order\<close>

definition sample_request :: place_order_request where
  "sample_request = \<lparr>pq_symbol = ''BTC'', pq_side = Buy, pq_order_type = Limit, pq_quantity = 2, pq_price = Some 105\<rparr>"

definition placed_intent :: trade_intent where
  "placed_intent = \<lparr>ti_symbol = ''BTC'', ti_side = TBuy, ti_quantity = 2, ti_price = 105\<rparr>"

definition new_snapshot :: account_snapshot where
  "new_snapshot = \<lparr>as_equity = 100000, as_today_realized_loss = 0, as_kill_switch_engaged = False,
     as_circuit_breaker_tripped = False, as_open_positions = [], as_correlation_groups = Map.empty\<rparr>"

lemma sample_prevalidated:
  "prevalidate ref_dec (se_state sample_env) 101 101 sample_request = Ok (Some sample_estimate)"
proof -
  have "store_get (app_symbols (se_state sample_env)) ''BTC'' 101 = Some sample_meta"
    by (simp add: sample_env_def metadata.lookup_replace store_new_def sample_meta_def)
  moreover have "request_estimate (se_state sample_env) 101 sample_request = Some sample_estimate"
    by (simp add: request_estimate_def sample_env_def sample_request_def sample_estimate_def
        feed.est_upd_same md_new_def)
  moreover have "request_intent sample_request = sample_order"
    by (simp add: request_intent_def sample_request_def sample_order_def)
  moreover have "validate_order ref_dec sample_order sample_meta (Some sample_estimate) = Ok ()"
    by (simp add: validate_order_Ok [OF ref_dec_laws sample_order_representable] sample_order_valid)
  moreover have "\<not> is_blank ''BTC''" by code_simp
  ultimately show ?thesis
    by (simp add: prevalidate_def sample_request_def)
qed

lemma placed_approved: "evaluate ref_dec placed_intent new_snapshot default_risk_config = Some Approved"
proof -
  have "engine_representable placed_intent new_snapshot default_risk_config"
    by (auto simp: engine_representable_def pct_representable_def placed_intent_def new_snapshot_def
        default_risk_config_def group_notionals_def)
  moreover have "violations_spec placed_intent new_snapshot default_risk_config = []"
    by (simp add: violations_spec_def breaker_violations_def breaker_spec_def placed_intent_def new_snapshot_def
      default_risk_config_def reduces_existing_position_def size_violations_def size_spec_def
      count_violations_def count_spec_def exposure_violations_def exposure_spec_def group_notionals_def)
  ultimately show ?thesis by (simp add: evaluate_exact [OF ref_dec_laws])
qed

definition sample_row :: "string \<Rightarrow> rat \<Rightarrow> order_row" where
  "sample_row st filled = \<lparr>or_id = 3, or_account_id = 1, or_client_order_id = client_order_id_of ref_uuid 3,
     or_symbol = ''BTC'', or_side = ''buy'', or_order_type = ''limit'', or_quantity = 2, or_price = Some 105,
     or_status = st, or_exchange_mode = ''paper'', or_filled_quantity = filled\<rparr>"

definition sample_command :: "uuid \<Rightarrow> string \<Rightarrow> string \<Rightarrow> nat option \<Rightarrow> string \<Rightarrow> command_row" where
  "sample_command cid ty st lease key = \<lparr>cm_id = cid, cm_account_id = 1, cm_command_type = ty,
     cm_exchange_mode = ''paper'', cm_status = st, cm_idempotency_key = uuid_str ref_uuid 3 @ key,
     cm_payload = order_id_payload ref_uuid 3, cm_attempts = 0, cm_leased_until = lease, cm_created_at = 1000\<rparr>"

definition db2 :: db where
  "db2 = db1\<lparr>
     t_orders := [sample_row ''pending'' 0],
     t_exchange_commands := [sample_command 4 ''submit_order'' ''pending'' None '':submit''],
     t_risk_events := t_risk_events db1 @ [ev_row 5 ''order_placed''
       (JObj [(''order_id'', JStr (uuid_str ref_uuid 3)), (''intent'', ser_intent ref_uuid placed_intent)])]\<rparr>"

lemmas row_defs = ev_row_def sample_row_def sample_command_def

lemmas statement_defs = sql_insert_risk_event_def insert_risk_event_def sql_insert_order_def insert_order_def
  sql_insert_exchange_command_def insert_exchange_command_def lock_account_def find_account_def
  load_risk_config_def find_risk_config_def load_exchange_mode_def find_exchange_config_def load_snapshot_def
  open_position_rows_def group_pairs_def find_daily_pnl_def lock_order_def find_order_def
  load_fills_for_order_def order_fill_rows_def row_to_order_def row_to_fill_def

lemma sample_env_sel [simp]:
  "se_dec sample_env = ref_dec" "se_uuid sample_env = ref_uuid" "se_clocks sample_env = (101, 101)"
  by (simp_all add: sample_env_def)

lemma intent_placed: "request_core_intent sample_request (Some sample_estimate) = placed_intent"
  by (simp add: request_core_intent_def sample_request_def placed_intent_def)

lemma word_ids [simp]: "word_of_nat (numeral k) = (numeral k :: uuid)"
  by simp

lemma sample_request_sel [simp]:
  "pq_symbol sample_request = ''BTC''" "pq_side sample_request = Buy" "pq_order_type sample_request = Limit"
  "pq_quantity sample_request = 2" "pq_price sample_request = Some 105"
  by (simp_all add: sample_request_def)

lemma order_placed:
  obtains c where "serve sample_env (PlaceOrder 1 sample_request) (sess 3 db1) = (Ok 201, c)"
    "c_durable c = db2"
  by (simp add: run_defs place_order_def sample_prevalidated sess_def db1_def empty_db_def statement_defs
      intent_placed placed_approved [unfolded new_snapshot_def] Let_def numeric_on_grid res_simps
      numeric_opt_def order_check_def command_check_def risk_event_types_def row_defs db2_def)

section \<open>The worker\<close>

definition db3 :: db where
  "db3 = db2\<lparr>t_exchange_commands := [sample_command 4 ''submit_order'' ''leased'' (Some 1030) '':submit'']\<rparr>"

definition sample_claimed :: claimed_command where
  "sample_claimed = row_to_claimed (sample_command 4 ''submit_order'' ''leased'' (Some 1030) '':submit'')"

lemma command_claimed:
  obtains c where "claim_pending_commands 10 30 (sess 6 db2) = (Ok [sample_claimed], c)" "c_durable c = db3"
  by (simp add: run_defs claim_pending_commands_def sql_claim_pending_commands_def claim_ids_def claimable_def
      sess_def db2_def db3_def db1_def empty_db_def row_defs Let_def sample_claimed_def)

definition db4 :: db where
  "db4 = db3\<lparr>t_orders := [sample_row ''submitted'' 0],
     t_exchange_commands := t_exchange_commands db3 @
       [sample_command 6 ''reconcile_order'' ''pending'' None '':reconcile:initial'']\<rparr>"

lemma order_submitted:
  obtains c where "finish_submit ref_uuid sample_claimed 3 (sess 6 db3) = (Ok (), c)" "c_durable c = db4"
  by (simp add: run_defs finish_submit_def sess_def sample_claimed_def row_to_claimed_def db4_def db3_def
      db2_def db1_def empty_db_def statement_defs row_defs Let_def numeric_on_grid res_simps
      update_order_status_def sql_update_order_status_def order_check_def command_check_def parse_status_def
      parse_mode_def order_ref_def order_id_payload_def)

definition sample_snap :: reconcile_snapshot where
  "sample_snap = \<lparr>rs_order = order_to_snapshot (row_to_order (sample_row ''submitted'' 0)), rs_fills = [], rs_positions = []\<rparr>"

lemma order_hydrated:
  obtains c where "hydrate_snapshot 1 3 (sess 7 db4) = (Ok sample_snap, c)" "c_durable c = db4"
  by (simp add: run_defs hydrate_snapshot_def sess_def db4_def db3_def db2_def db1_def empty_db_def
      statement_defs row_defs Let_def res_simps sample_snap_def)

definition sample_fill :: fill where
  "sample_fill = \<lparr>fl_exchange_trade_id = client_order_id_of ref_uuid 3 @ '':paper:'' @ show_nat 0,
     fl_quantity = 2, fl_price = 100, fl_fee = 0, fl_fee_asset = ''''\<rparr>"

definition sample_result :: reconcile_result where
  "sample_result = \<lparr>rr_new_status = Some Filled, rr_fills_to_add = [sample_fill],
     rr_positions_delta = [\<lparr>pd_symbol = ''BTC'', pd_quantity_delta = 2\<rparr>],
     rr_events = [\<lparr>re_event_type = ''order_filled'',
       re_payload = order_event_payload ref_uuid 3 ''new_status'' ''Filled''\<rparr>], rr_command = None\<rparr>"

lemma sample_reconciled:
  "paper_reconcile_order ref_dec ref_uuid (app_market_data (se_state sample_env)) 101 sample_snap = Ok sample_result"
  by (simp add: paper_reconcile_order_def sample_snap_def order_to_snapshot_def row_to_order_def sample_row_def
      parse_status_def parse_side_def parse_order_type_def Let_def d_sum_def ref_dec_exact res_simps
      sample_env_def feed.est_upd_same md_new_def try_fill_def touched_def sample_result_def sample_fill_def)

definition db5 :: db where
  "db5 = db4\<lparr>t_orders := [sample_row ''filled'' 2],
     t_order_fills := [\<lparr>fr_account_id = 1, fr_order_id = 3,
       fr_exchange_trade_id = client_order_id_of ref_uuid 3 @ '':paper:'' @ show_nat 0,
       fr_quantity = 2, fr_price = 100, fr_fee = 0, fr_fee_asset = ''''\<rparr>],
     t_positions := [\<lparr>po_id = 7, po_account_id = 1, po_symbol = ''BTC'', po_side = ''long'', po_quantity = 2,
       po_avg_entry_price = 100, po_status = ''open'', po_closed_at = None\<rparr>],
     t_risk_events := t_risk_events db4 @ [ev_row 8 ''order_filled''
       (order_event_payload ref_uuid 3 ''new_status'' ''Filled'')]\<rparr>"

lemma order_filled:
  obtains c where "persist_reconcile_result ref_dec 1 3 sample_snap sample_result (sess 7 db4) = (Ok (), c)"
    "c_durable c = db5"
  by (simp add: run_defs persist_reconcile_result_def persist_checked_def persist_fills_def persist_changes_def
      persist_deltas_def persist_status_def persist_events_def apply_position_delta_def find_open_position_def
      insert_fill_def sql_insert_fill_def sql_insert_position_def sess_def
      db5_def db4_def db3_def db2_def db1_def empty_db_def
      statement_defs row_defs Let_def res_simps sample_snap_def order_to_snapshot_def sample_result_def
      sample_fill_def d_sum_def ref_dec_exact numeric_on_grid fill_check_def position_check_def
      update_order_status_def sql_update_order_status_def order_check_def parse_status_def
      risk_event_types_def)

section \<open>The run\<close>

lemma amounts_small_run: "amounts_small empty_db" "amounts_small db1" "amounts_small db2" "amounts_small db3" "amounts_small db4"
  by (simp_all add: amounts_small_def net_position_def db1_def db2_def db3_def db4_def empty_db_def row_defs)

lemma sample_steps:
  "sys_step ref_dec ref_uuid \<lparr>sy_db = empty_db, sy_passes = []\<rparr> \<lparr>sy_db = db1, sy_passes = []\<rparr>"
  "sys_step ref_dec ref_uuid \<lparr>sy_db = db1, sy_passes = []\<rparr> \<lparr>sy_db = db2, sy_passes = []\<rparr>"
  "sys_step ref_dec ref_uuid \<lparr>sy_db = db2, sy_passes = []\<rparr> \<lparr>sy_db = db3, sy_passes = []\<rparr>"
  "sys_step ref_dec ref_uuid \<lparr>sy_db = db3, sy_passes = []\<rparr> \<lparr>sy_db = db4, sy_passes = []\<rparr>"
  "sys_step ref_dec ref_uuid \<lparr>sy_db = db4, sy_passes = []\<rparr> \<lparr>sy_db = db4, sy_passes = [(1, 3, sample_snap)]\<rparr>"
  "sys_step ref_dec ref_uuid \<lparr>sy_db = db4, sy_passes = [(1, 3, sample_snap)]\<rparr>
     \<lparr>sy_db = db5, sy_passes = [(1, 3, sample_snap)]\<rparr>"
proof -
  have durable: "c_durable (sess n d) = d" for n d by (simp add: sess_def)
  obtain c where "serve sample_env (CreateAccount (Some (Some 100000))) (sess 1 empty_db) = (Ok 201, c)" "c_durable c = db1"
    by (rule account_created)
  from sys_step.request [OF _ _ _ this(1), of "\<lparr>sy_db = empty_db, sy_passes = []\<rparr>"] this(2)
  show "sys_step ref_dec ref_uuid \<lparr>sy_db = empty_db, sy_passes = []\<rparr> \<lparr>sy_db = db1, sy_passes = []\<rparr>"
    by (simp add: durable)
  obtain c where "serve sample_env (PlaceOrder 1 sample_request) (sess 3 db1) = (Ok 201, c)" "c_durable c = db2"
    by (rule order_placed)
  from sys_step.request [OF _ _ _ this(1), of "\<lparr>sy_db = db1, sy_passes = []\<rparr>"] this(2)
  show "sys_step ref_dec ref_uuid \<lparr>sy_db = db1, sy_passes = []\<rparr> \<lparr>sy_db = db2, sy_passes = []\<rparr>"
    by (simp add: durable)
  obtain c where "claim_pending_commands 10 30 (sess 6 db2) = (Ok [sample_claimed], c)" "c_durable c = db3"
    by (rule command_claimed)
  from sys_step.claim [OF _ this(1), of "\<lparr>sy_db = db2, sy_passes = []\<rparr>"] this(2)
  show "sys_step ref_dec ref_uuid \<lparr>sy_db = db2, sy_passes = []\<rparr> \<lparr>sy_db = db3, sy_passes = []\<rparr>"
    by (simp add: durable)
  obtain c where "finish_submit ref_uuid sample_claimed 3 (sess 6 db3) = (Ok (), c)" "c_durable c = db4"
    by (rule order_submitted)
  from sys_step.submitted [OF _ this(1), of "\<lparr>sy_db = db3, sy_passes = []\<rparr>"] this(2)
  show "sys_step ref_dec ref_uuid \<lparr>sy_db = db3, sy_passes = []\<rparr> \<lparr>sy_db = db4, sy_passes = []\<rparr>"
    by (simp add: durable)
  obtain c where "hydrate_snapshot 1 3 (sess 7 db4) = (Ok sample_snap, c)" "c_durable c = db4"
    by (rule order_hydrated)
  from sys_step.hydrate [OF _ this(1), of "\<lparr>sy_db = db4, sy_passes = []\<rparr>"] this(2)
  show "sys_step ref_dec ref_uuid \<lparr>sy_db = db4, sy_passes = []\<rparr> \<lparr>sy_db = db4, sy_passes = [(1, 3, sample_snap)]\<rparr>"
    by (simp add: durable)
  have answer: "adapter_answer ref_dec ref_uuid sample_snap sample_result"
    using sample_reconciled by (auto simp: adapter_answer_def)
  obtain c where "persist_reconcile_result ref_dec 1 3 sample_snap sample_result (sess 7 db4) = (Ok (), c)" "c_durable c = db5"
    by (rule order_filled)
  from sys_step.reconciled [OF _ answer _ this(1), of "\<lparr>sy_db = db4, sy_passes = [(1, 3, sample_snap)]\<rparr>"] this(2)
  show "sys_step ref_dec ref_uuid \<lparr>sy_db = db4, sy_passes = [(1, 3, sample_snap)]\<rparr>
     \<lparr>sy_db = db5, sy_passes = [(1, 3, sample_snap)]\<rparr>"
    by (simp add: durable)
qed

lemma sample_reachable:
  "reachable ref_dec ref_uuid \<lparr>sy_db = db4, sy_passes = []\<rparr>"
  "reachable ref_dec ref_uuid \<lparr>sy_db = db5, sy_passes = [(1, 3, sample_snap)]\<rparr>"
proof -
  note go = reachable.step [where D = ref_dec and U = ref_uuid]
  have 1: "reachable ref_dec ref_uuid \<lparr>sy_db = db1, sy_passes = []\<rparr>"
    by (rule go [OF reachable.start _ sample_steps(1)]) (simp add: amounts_small_run)
  have 2: "reachable ref_dec ref_uuid \<lparr>sy_db = db2, sy_passes = []\<rparr>"
    by (rule go [OF 1 _ sample_steps(2)]) (simp add: amounts_small_run)
  have 3: "reachable ref_dec ref_uuid \<lparr>sy_db = db3, sy_passes = []\<rparr>"
    by (rule go [OF 2 _ sample_steps(3)]) (simp add: amounts_small_run)
  show 4: "reachable ref_dec ref_uuid \<lparr>sy_db = db4, sy_passes = []\<rparr>"
    by (rule go [OF 3 _ sample_steps(4)]) (simp add: amounts_small_run)
  have 5: "reachable ref_dec ref_uuid \<lparr>sy_db = db4, sy_passes = [(1, 3, sample_snap)]\<rparr>"
    by (rule go [OF 4 _ sample_steps(5)]) (simp add: amounts_small_run)
  show "reachable ref_dec ref_uuid \<lparr>sy_db = db5, sy_passes = [(1, 3, sample_snap)]\<rparr>"
    by (rule go [OF 5 _ sample_steps(6)]) (simp add: amounts_small_run)
qed

lemma sample_reachable_placed: "reachable ref_dec ref_uuid \<lparr>sy_db = db2, sy_passes = []\<rparr>"
  by (rule reachable.step [OF reachable.step [OF reachable.start _ sample_steps(1)] _ sample_steps(2)])
    (simp_all add: amounts_small_run)

lemma sample_small_run:
  "sys_run ref_dec ref_uuid \<lparr>sy_db = db2, sy_passes = []\<rparr> \<lparr>sy_db = db5, sy_passes = [(1, 3, sample_snap)]\<rparr>"
proof -
  have s: "small_step ref_dec ref_uuid \<lparr>sy_db = db2, sy_passes = []\<rparr> \<lparr>sy_db = db3, sy_passes = []\<rparr>"
    "small_step ref_dec ref_uuid \<lparr>sy_db = db3, sy_passes = []\<rparr> \<lparr>sy_db = db4, sy_passes = []\<rparr>"
    "small_step ref_dec ref_uuid \<lparr>sy_db = db4, sy_passes = []\<rparr> \<lparr>sy_db = db4, sy_passes = [(1, 3, sample_snap)]\<rparr>"
    "small_step ref_dec ref_uuid \<lparr>sy_db = db4, sy_passes = [(1, 3, sample_snap)]\<rparr>
      \<lparr>sy_db = db5, sy_passes = [(1, 3, sample_snap)]\<rparr>"
    using sample_steps amounts_small_run by (simp_all add: small_step_def)
  show ?thesis
    by (rule converse_rtranclp_into_rtranclp [where r = "small_step ref_dec ref_uuid"], rule s,
      rule converse_rtranclp_into_rtranclp [where r = "small_step ref_dec ref_uuid"], rule s,
      rule converse_rtranclp_into_rtranclp [where r = "small_step ref_dec ref_uuid"], rule s,
      rule r_into_rtranclp [where r = "small_step ref_dec ref_uuid"], rule s)
qed

text \<open>Rows of the final state, for the witnesses.\<close>

lemma db5_rows:
  "t_orders db5 = [sample_row ''filled'' 2]" "map fr_quantity (t_order_fills db5) = [2]"
  "map fr_order_id (t_order_fills db5) = [3]" "net_position 1 ''BTC'' (t_positions db5) = 2"
  "find_order 1 3 (App (Some 1)) db5 = Some (sample_row ''filled'' 2)"
  "find_order 1 3 (App (Some 1)) db2 = Some (sample_row ''pending'' 0)"
  by (simp_all add: db5_def db2_def net_position_def holds_def signed_quantity_def find_order_def first_row_def
      sample_row_def)

end
