(* ===== verification/System_Properties.thy ===== *)
theory System_Properties
  imports Scenario
begin

text \<open>
  The properties of the whole server: what holds in every state that requests and workers can reach,
  in any interleaving, with any round trip lost. The witnesses are at the run of \<open>Scenario\<close>.
\<close>

text \<open>
  C1: In every reachable state an order's filled quantity is the sum of the quantities of its fills, and
  at most the quantity that was ordered.
\<close>

theorem filled_is_sum_of_fills:
  assumes "decimal_laws D" "reachable D U s" "x \<in> set (t_orders (sy_db s))"
  shows "or_filled_quantity x =
      sum_list (map fr_quantity (filter (\<lambda>f. fr_order_id f = or_id x) (t_order_fills (sy_db s)))) \<and>
    or_filled_quantity x \<le> or_quantity x"
proof -
  have books: "books_ok (sy_db s)" using reachable_ok [OF assms(1,2)] by (simp add: system_ok_def)
  then have "or_filled_quantity x = fills_sum (or_id x) (t_order_fills (sy_db s))"
    using assms(3) unfolding books_ok_def ledger_def by blast
  moreover have "order_check x"
    using books assms(3) by (simp add: books_ok_def tables_ok_def orders_ok_def)
  ultimately show ?thesis by (simp add: fills_sum_def order_check_def)
qed

theorem filled_is_sum_of_fills_witness:
  "or_filled_quantity (sample_row ''filled'' 2) =
     sum_list (map fr_quantity (filter (\<lambda>f. fr_order_id f = 3) (t_order_fills db5)))"
  using filled_is_sum_of_fills [OF ref_dec_laws sample_reachable(2), of "sample_row ''filled'' 2"]
  by (simp add: db5_rows sample_row_def)





text \<open>
  C4: Over any run from a reachable state an order keeps its terms, its status moves along legal
  transitions only, its filled quantity never decreases, and an order in a terminal status never
  changes again.
\<close>

theorem orders_move_legally:
  assumes "decimal_laws D" "reachable D U s" "sys_run D U s s'"
    "find_order a oid (App (Some a)) (sy_db s) = Some x"
  shows "\<exists>y. find_order a oid (App (Some a)) (sy_db s') = Some y \<and>
    y = x\<lparr>or_status := or_status y, or_filled_quantity := or_filled_quantity y\<rparr> \<and>
    legal_transition\<^sup>*\<^sup>* (parse_status (or_status x)) (parse_status (or_status y)) \<and>
    or_filled_quantity x \<le> or_filled_quantity y \<and>
    (is_terminal (parse_status (or_status x)) \<longrightarrow> y = x)"
  by (rule run_orders [OF assms(1,3) reachable_ok [OF assms(1,2)] assms(4)])
    (unfold order_history_def, blast)

theorem orders_move_legally_witness: "legal_transition\<^sup>*\<^sup>* Pending Filled"
  using orders_move_legally [OF ref_dec_laws sample_reachable_placed sample_small_run,
      of 1 3 "sample_row ''pending'' 0"]
  by (simp add: db5_rows) (simp add: sample_row_def parse_status_def)

text \<open>
  C19: The audit log and the fills are append-only: no step of the system, whatever it does and however it
  fails, changes or removes an entry.
\<close>

theorem audit_log_append_only:
  assumes "sys_step D U s s'"
  shows "prefix (t_risk_events (sy_db s)) (t_risk_events (sy_db s')) \<and>
    prefix (t_order_fills (sy_db s)) (t_order_fills (sy_db s'))"
  using audit.step_keeps [OF assms grown_from_refl] by (simp add: grown_from_def)

theorem audit_log_append_only_witness: "prefix (t_risk_events db4) (t_risk_events db5)"
  using audit_log_append_only [OF sample_steps(6)] by simp

text \<open>
  C7: A request on one account leaves every row of every other account as it was, in every table,
  whatever the request, its outcome and the faults on the way.
\<close>

theorem requests_stay_with_tenant:
  assumes "request_account req = Some t"
  shows "foreign_rows t (c_durable (snd (serve E req c))) = foreign_rows t (c_durable c)"
  using serve_keeps_tenant [OF isolation.tenant_invariant_axioms assms]
  unfolding durable_inv_def by blast

theorem requests_stay_with_tenant_witness: "foreign_rows 1 db2 = foreign_rows 1 db1"
proof -
  obtain c where "serve sample_env (PlaceOrder 1 sample_request) (sess 3 db1) = (Ok 201, c)" "c_durable c = db2"
    by (rule order_placed)
  with requests_stay_with_tenant [of "PlaceOrder 1 sample_request" 1 sample_env "sess 3 db1"]
  show ?thesis by (simp add: sess_def)
qed

text \<open>
  C11: The worker's own code refines the system: one pass of \<open>run_once\<close> with the paper adapter takes the
  database along a sequence of the system's steps, whichever commands it claims, whatever fails. So
  every invariant of the steps is an invariant of the code.
\<close>

theorem run_once_is_steps:
  "\<exists>ps'. steps D U (c_durable c) ps
     (c_durable (snd (run_once D J U \<lparr>sv_paper_adapter = Some (paper_adapter D U md now), sv_live_adapter = None\<rparr> n c))) ps'"
proof -
  let ?sv = "\<lparr>sv_paper_adapter = Some (paper_adapter D U md now), sv_live_adapter = None\<rparr>"
  have answers: "\<And>mode ad. resolve ?sv mode = Some ad \<Longrightarrow> answers_ok D U ad"
    using paper_answers_ok by (auto simp: resolve_def split: exchange_mode.splits)
  obtain z c' where run: "run_once D J U ?sv n c = (z, c')" by fastforce
  from simulatedD [OF simulated_run_once [OF answers] run TrueI] show ?thesis
    unfolding run by auto
qed

text \<open>
  C15: A result is booked at most once: when the fills recorded for an order exceed those of a worker's
  snapshot, as they do after a fill computed from it was booked, then in no later state of any run does
  persisting a result for that snapshot change anything.
\<close>

theorem stale_snapshot_never_books:
  assumes "decimal_laws D" "reachable D U s" "sys_run D U s s'" "(a, oid, snap) \<in> set (sy_passes s)"
    "find_order a oid (App (Some a)) (sy_db s) = Some x"
    "sum_list (map fs_quantity (rs_fills snap)) < or_filled_quantity x" "or_quantity x < 10 ^ 18"
    "c_durable c = sy_db s'"
  shows "c_durable (snd (persist_reconcile_result D a oid snap r c)) = sy_db s'"
proof (rule ccontr)
  assume changed: "\<not> ?thesis"
  obtain z c' where run: "persist_reconcile_result D a oid snap r c = (z, c')" by fastforce
  with changed persist_effect [OF run] assms(8) have "persisted D a oid snap r (sy_db s') (c_durable c')" by simp
  then obtain y where y: "find_order a oid (App (Some a)) (sy_db s') = Some y"
      "d_sum D (map fs_quantity (rs_fills snap)) = Some (or_filled_quantity y)"
    unfolding persisted_def by blast
  have ok: "system_ok s" by (rule reachable_ok [OF assms(1,2)])
  with assms(4,5) have p: "pass_ok (sy_db s) (a, oid, snap)" "describes snap x"
    by (auto simp: system_ok_def pass_ok_def)
  with assms(7) have "os_quantity (rs_order snap) < grid_bound" by (simp add: describes_def grid_bound_def)
  then have "d_sum D (map fs_quantity (rs_fills snap)) = Some (sum_list (map fs_quantity (rs_fills snap)))"
    using p(1) assms(1) by (intro d_sum_exact) (auto simp: pass_ok_def)
  moreover obtain y' where "find_order a oid (App (Some a)) (sy_db s') = Some y'" "order_history x y'"
    by (rule run_orders [OF assms(1,3) ok assms(5)])
  ultimately show False using y assms(6) by (auto simp: order_history_def)
qed

theorem stale_snapshot_never_books_witness:
  "c_durable (snd (persist_reconcile_result ref_dec 1 3 sample_snap sample_result (sess 9 db5))) = db5"
  using stale_snapshot_never_books [OF ref_dec_laws sample_reachable(2) rtranclp.rtrancl_refl, of 1 3 sample_snap
      "sample_row ''filled'' 2" "sess 9 db5" sample_result]
  by (simp add: db5_rows sess_def) (simp add: sample_snap_def sample_row_def)

end
