(* ===== verification/Route_Effects.thy ===== *)
theory Route_Effects
  imports Worker_Effects
begin

text \<open>
  What the routes make of the durable state, exactly: each is all or nothing, and a request that
  returns a value has had its effect.
\<close>

section \<open>Readings\<close>

lemma read_spec: "tx_spec r I (\<lambda>d. d = d0) (stmt (sql_read f)) (\<lambda>x d. d = d0 \<and> x = f r d0) E"
  by (rule spec_read) simp

text \<open>A row that must exist.\<close>

lemma read_row_spec:
  "tx_spec r I (\<lambda>d. d = d0)
     (tx_bind (stmt (sql_read f)) (\<lambda>row. tx_bind (tx_lift (ok_or row NotFound)) (\<lambda>row. tx_return (g row))))
     (\<lambda>x d. d = d0 \<and> (\<exists>row. f r d0 = Some row \<and> x = g row)) (\<lambda>_. True)"
  by (intro spec_bind [OF read_spec]
      spec_bind [where R = "\<lambda>row d. d = d0 \<and> f r d0 = Some row"] spec_lift spec_return)
    (auto simp: res_simps)

lemma lock_account_spec:
  "tx_spec r I (\<lambda>d. d = d0) (lock_account a)
     (\<lambda>x d. d = d0 \<and> (\<exists>row. find_account a r d0 = Some row \<and>
        x = \<lparr>ad_status = ac_status row, ad_equity = ac_equity row,
          ad_kill_switch_engaged = (ac_kill_switch_engaged_at row \<noteq> None)\<rparr>)) (\<lambda>_. True)"
  unfolding lock_account_def by (rule read_row_spec)

lemma load_risk_config_spec:
  "tx_spec r I (\<lambda>d. d = d0) (load_risk_config a)
     (\<lambda>x d. d = d0 \<and> (\<exists>row. find_risk_config a r d0 = Some row \<and> x = (rc_cfg row, rc_version row))) (\<lambda>_. True)"
  unfolding load_risk_config_def by (rule read_row_spec)

lemma load_exchange_mode_spec:
  "tx_spec r I (\<lambda>d. d = d0) (load_exchange_mode a)
     (\<lambda>m d. d = d0 \<and> m = (case find_exchange_config a r d0 of Some x \<Rightarrow> parse_mode (ec_mode x) | None \<Rightarrow> Paper)) E"
  unfolding load_exchange_mode_def by (rule spec_bind [OF read_spec spec_return]) simp

text \<open>The snapshot that the risk engine sees is the account's state in the database.\<close>

definition snapshot_of :: "dec_ops \<Rightarrow> uuid \<Rightarrow> db \<Rightarrow> account_data \<Rightarrow> account_snapshot \<Rightarrow> bool" where
  "snapshot_of D a d acc s \<longleftrightarrow>
     as_equity s = ad_equity acc \<and> as_kill_switch_engaged s = ad_kill_switch_engaged acc \<and>
     map_res (row_to_position D) (open_position_rows a (App (Some a)) d) = Ok (as_open_positions s)"

lemma load_snapshot_spec:
  "tx_spec (App (Some a)) I (\<lambda>d. d = d0) (load_snapshot D a acc) (\<lambda>s d. d = d0 \<and> snapshot_of D a d0 acc s) (\<lambda>_. True)"
proof -
  let ?rows = "open_position_rows a (App (Some a)) d0"
  have rest: "tx_spec (App (Some a)) I (\<lambda>d. d = d0 \<and> map_res (row_to_position D) ?rows = Ok ps)
      (tx_bind (stmt (sql_read f)) (\<lambda>pairs. tx_bind get_today (\<lambda>today. tx_bind (stmt (sql_read (g today)))
        (\<lambda>pnl. tx_return (h pairs today pnl))))) (\<lambda>s d. d = d0 \<and> snapshot_of D a d0 acc s) (\<lambda>_. True)"
    if "\<And>x y z. as_equity (h x y z) = ad_equity acc \<and>
      as_kill_switch_engaged (h x y z) = ad_kill_switch_engaged acc \<and> as_open_positions (h x y z) = ps"
    for ps f g and h :: "(string \<times> string) list \<Rightarrow> nat \<Rightarrow> daily_pnl_row option \<Rightarrow> account_snapshot"
    by (intro spec_bind [where R = "\<lambda>_ d. d = d0 \<and> map_res (row_to_position D) ?rows = Ok ps"]
        spec_read spec_clock spec_return) (auto simp: snapshot_of_def that)
  show ?thesis
    unfolding load_snapshot_def
    by (rule spec_bind [OF read_spec spec_bind [OF spec_lift rest]]) auto
qed

section \<open>Placing an order\<close>

definition pending_row :: "uuid \<Rightarrow> place_order_request \<Rightarrow> exchange_mode \<Rightarrow> order_row \<Rightarrow> bool" where
  "pending_row a body mode row \<longleftrightarrow>
     or_account_id row = a \<and> or_symbol row = pq_symbol body \<and> or_side row = side_str (pq_side body) \<and>
     or_order_type row = order_type_str (pq_order_type body) \<and>
     numeric_30_10 (pq_quantity body) = Some (or_quantity row) \<and>
     numeric_opt (pq_price body) = Some (or_price row) \<and> or_exchange_mode row = mode_str mode \<and>
     or_status row = ''pending'' \<and> or_filled_quantity row = 0"

definition order_inserted :: "uuid \<Rightarrow> place_order_request \<Rightarrow> exchange_mode \<Rightarrow> uuid \<Rightarrow> db \<Rightarrow> db \<Rightarrow> bool" where
  "order_inserted a body mode oid d d' \<longleftrightarrow>
     (\<forall>x\<in>set (t_orders d). or_id x \<noteq> oid) \<and>
     (\<exists>row. d' = d\<lparr>t_orders := t_orders d @ [row]\<rparr> \<and> or_id row = oid \<and> pending_row a body mode row)"

lemma insert_order_spec:
  "tx_spec r I (\<lambda>d. d = d0) (insert_order oid a co (pq_symbol body) (pq_side body) (pq_order_type body)
     (pq_quantity body) (pq_price body) mode) (\<lambda>_ d. order_inserted a body mode oid d0 d) E"
  unfolding insert_order_def
  by (rule spec_stmt)
    (auto simp: sql_insert_order_def res_simps Let_def list_ex_iff order_inserted_def pending_row_def)

text \<open>A command in the outbox; an insertion that meets its key again changes nothing.\<close>

definition command_enqueued :: "uuid \<Rightarrow> string \<Rightarrow> string \<Rightarrow> json \<Rightarrow> db \<Rightarrow> db \<Rightarrow> bool" where
  "command_enqueued a ty key pl d d' \<longleftrightarrow>
     (d' = d \<and> (\<exists>cm\<in>set (t_exchange_commands d). cm_account_id cm = a \<and> cm_idempotency_key cm = key)) \<or>
     (\<exists>cm. d' = d\<lparr>t_exchange_commands := t_exchange_commands d @ [cm]\<rparr> \<and> cm_account_id cm = a \<and>
        cm_command_type cm = ty \<and> cm_status cm = ''pending'' \<and> cm_idempotency_key cm = key \<and> cm_payload cm = pl)"

lemma insert_command_spec:
  "tx_spec r I (\<lambda>d. d = d0) (insert_exchange_command a ty mode key pl)
     (\<lambda>_ d. command_enqueued a ty key pl d0 d) E"
  unfolding insert_exchange_command_def
  by (intro spec_bind [where R = "\<lambda>_ d. d = d0"] spec_fresh spec_clock spec_stmt)
    (auto simp: sql_insert_exchange_command_def res_simps list_ex_iff command_enqueued_def split: if_splits)

text \<open>The order, its submission and the audit event appear together.\<close>

definition order_written :: "uuid_ops \<Rightarrow> uuid \<Rightarrow> place_order_request \<Rightarrow> exchange_mode \<Rightarrow> db \<Rightarrow> db \<Rightarrow> bool" where
  "order_written U a body mode d d' \<longleftrightarrow>
     (\<exists>oid d1 d2. order_inserted a body mode oid d d1 \<and>
        command_enqueued a ''submit_order'' (uuid_str U oid @ '':submit'') (order_id_payload U oid) d1 d2 \<and>
        events_appended d2 d')"

definition order_accepted ::
    "dec_ops \<Rightarrow> uuid_ops \<Rightarrow> uuid \<Rightarrow> place_order_request \<Rightarrow> price_estimate option \<Rightarrow> db \<Rightarrow> db \<Rightarrow> bool" where
  "order_accepted D U a body est d d' \<longleftrightarrow>
     (\<exists>acc rc s mode. find_account a (App (Some a)) d = Some acc \<and>
        find_risk_config a (App (Some a)) d = Some rc \<and>
        snapshot_of D a d \<lparr>ad_status = ac_status acc, ad_equity = ac_equity acc,
          ad_kill_switch_engaged = (ac_kill_switch_engaged_at acc \<noteq> None)\<rparr> s \<and>
        evaluate D (request_core_intent body est) s (rc_cfg rc) = Some Approved \<and>
        order_written U a body mode d d')"

abbreviation place_inv ::
    "dec_ops \<Rightarrow> uuid_ops \<Rightarrow> uuid \<Rightarrow> place_order_request \<Rightarrow> price_estimate option \<Rightarrow> db \<Rightarrow> db \<Rightarrow> bool" where
  "place_inv D U a body est d0 \<equiv> \<lambda>d. d = d0 \<or> events_appended d0 d \<or> order_accepted D U a body est d0 d"

lemma event_then_spec:
  assumes "\<And>d'. events_appended d1 d' \<Longrightarrow> tx_spec r I (\<lambda>d. d = d') m Q E" "tx_safe r I m" "E = (\<lambda>_. True)"
  shows "tx_spec r I (\<lambda>d. d = d1) (tx_bind (insert_risk_event a ty pl) (\<lambda>_. m)) Q E"
  by (rule spec_bind_point [OF spec_conseq [OF insert_risk_event_spec [of r I d1]]])
    (use assms in auto)

lemma commit_then_spec:
  assumes "I d1" "tx_spec r I (\<lambda>d. d = d1) m Q (\<lambda>_. True)"
  shows "tx_spec r I (\<lambda>d. d = d1) (tx_bind commit_tx (\<lambda>_. m)) Q (\<lambda>_. True)"
  by (rule spec_bind [OF spec_commit [where P = "\<lambda>d. d = d1"]]) (use assms in auto)

lemma write_order_spec:
  assumes I: "\<And>d. order_written U a body mode d0 d \<Longrightarrow> I d"
  shows "tx_spec r I (\<lambda>d. d = d0)
     (tx_bind fresh_id (\<lambda>oid.
      tx_bind (insert_order oid a (client_order_id_of U oid) (pq_symbol body) (pq_side body)
                 (pq_order_type body) (pq_quantity body) (pq_price body) mode) (\<lambda>_.
      tx_bind (insert_exchange_command a ''submit_order'' mode (uuid_str U oid @ '':submit'') (order_id_payload U oid)) (\<lambda>_.
      tx_bind (insert_risk_event a ''order_placed'' (pl oid)) (\<lambda>_.
      tx_bind commit_tx (\<lambda>_. tx_return (x oid))))))) (\<lambda>_ _. True) (\<lambda>_. True)"
proof (rule spec_bind [OF spec_fresh], assumption)
  fix oid
  show "tx_spec r I (\<lambda>d. d = d0)
     (tx_bind (insert_order oid a (client_order_id_of U oid) (pq_symbol body) (pq_side body)
                 (pq_order_type body) (pq_quantity body) (pq_price body) mode) (\<lambda>_.
      tx_bind (insert_exchange_command a ''submit_order'' mode (uuid_str U oid @ '':submit'') (order_id_payload U oid)) (\<lambda>_.
      tx_bind (insert_risk_event a ''order_placed'' (pl oid)) (\<lambda>_.
      tx_bind commit_tx (\<lambda>_. tx_return (x oid)))))) (\<lambda>_ _. True) (\<lambda>_. True)"
  proof (rule spec_bind_point [OF insert_order_spec], rule spec_bind_point [OF insert_command_spec],
      rule event_then_spec)
    fix u v :: unit and d1 d2 d3
    assume "order_inserted a body mode oid d0 d1"
      "command_enqueued a ''submit_order'' (uuid_str U oid @ '':submit'') (order_id_payload U oid) d1 d2"
      "events_appended d2 d3"
    then have "I d3" by (intro I) (auto simp: order_written_def)
    then show "tx_spec r I (\<lambda>d. d = d3) (tx_bind commit_tx (\<lambda>_. tx_return (x oid))) (\<lambda>_ _. True) (\<lambda>_. True)"
      by (rule commit_then_spec) (simp add: spec_return)
  qed (auto simp: insert_exchange_command_def insert_risk_event_def intro!: safe_intros)
qed

lemma bind_lift_Ok: "tx_bind (tx_lift (Ok x)) f = f x"
  by (simp add: tx_bind_def tx_handle_def tx_lift_def)

lemma reject_order_spec:
  assumes "\<And>d. events_appended d0 d \<Longrightarrow> I d"
  shows "tx_spec r I (\<lambda>d. d = d0)
    (tx_bind (insert_risk_event a ty pl) (\<lambda>_. tx_bind commit_tx (\<lambda>_. tx_fail e))) (\<lambda>_ _. True) (\<lambda>_. True)"
  by (rule event_then_spec)
    (auto simp: assms intro!: commit_then_spec spec_fail safe_intros)

text \<open>After a reading the state is the one that was read.\<close>

lemma observe:
  assumes "tx_spec r I (\<lambda>d. d = d0) m (\<lambda>x d. d = d0 \<and> Q x) (\<lambda>_. True)"
    "\<And>x. Q x \<Longrightarrow> tx_spec r I (\<lambda>d. d = d0) (f x) (\<lambda>_ _. True) (\<lambda>_. True)" "\<And>x. tx_safe r I (f x)"
  shows "tx_spec r I (\<lambda>d. d = d0) (tx_bind m f) (\<lambda>_ _. True) (\<lambda>_. True)"
  by (rule spec_bind_point [OF assms(1) _ assms(3)]) (use assms(2) in auto)

lemma lift_spec: "tx_spec r I (\<lambda>d. d = d0) (tx_lift v) (\<lambda>x d. d = d0 \<and> v = Ok x) (\<lambda>_. True)"
  by (rule spec_lift) auto

lemmas write_fragments = lock_account_def load_risk_config_def load_exchange_mode_def load_snapshot_def
  insert_order_def insert_exchange_command_def insert_risk_event_def

lemma place_order_effect:
  assumes "place_order D U st t1 t2 a body c = (z, c')"
  obtains "c_durable c' = c_durable c" | "events_appended (c_durable c) (c_durable c')"
  | est where "prevalidate D st t1 t2 body = Ok est" "order_accepted D U a body est (c_durable c) (c_durable c')"
proof (cases "prevalidate D st t1 t2 body")
  case (Ok est)
  note run = assms [unfolded place_order_def Ok bind_lift_Ok Let_def]
  have "c_durable c' = c_durable c \<or>
      (events_appended (c_durable c) (c_durable c') \<or> order_accepted D U a body est (c_durable c) (c_durable c'))"
  proof (rule tenant_bind_effect [OF _ run], rule observe [OF lock_account_spec],
      elim exE conjE, hypsubst, rule observe [OF load_risk_config_spec], elim exE conjE, hypsubst,
      unfold prod.case, rule observe [OF load_exchange_mode_spec], rule observe [OF load_snapshot_spec],
      rule observe [OF lift_spec], rule spec_if, goal_cases)
    case (1 d0 v acc w rc mode s dec)
    then show ?case by (intro reject_order_spec) auto
  next
    case (2 d0 v acc w rc mode s dec)
    then have "evaluate D (request_core_intent body est) s (rc_cfg rc) = Some Approved"
      by (cases dec) (auto simp: res_simps)
    with 2 show ?case
      by (intro write_order_spec) (auto simp: order_accepted_def)
  qed (unfold write_fragments, (intro safe_intros)+)
  with that Ok show ?thesis by blast
next
  case (Err e)
  then show ?thesis
    using assms that(1) by (simp add: place_order_def tx_bind_def tx_handle_def tx_lift_def tx_fail_def)
next
  case Panic
  then show ?thesis
    using assms that(1) by (simp add: place_order_def tx_bind_def tx_handle_def tx_lift_def)
qed

section \<open>The kill switch\<close>

lemma insert_event_Ok:
  assumes "insert_risk_event a ty pl c = (Ok u, c')"
  shows "events_appended (c_db c) (c_db c') \<and> \<not> c_aborted c' \<and> c_durable c' = c_durable c \<and>
    c_role c' = c_role c"
proof -
  from assms obtain ev where "stmt (sql_insert_risk_event ev) (c\<lparr>c_next := Suc (c_next c)\<rparr>) = (Ok (), c')"
    by (auto simp: insert_risk_event_def tx_ok fresh_id_def)
  from stmt_Ok [OF this] show ?thesis
    by (auto simp: sql_insert_risk_event_def res_simps events_appended_def same_session_def intro: sym)
qed

lemma find_update:
  assumes "\<And>x. p x \<Longrightarrow> p (f x)"
  shows "first_row p (update_where p f rs) = map_option f (first_row p rs)"
  using assms by (induction rs) (auto simp: first_row_def update_where_def)

lemma update_account_effect:
  assumes "sql_update_account a f (App (Some a)) d = Ok (u, d')"
  shows "d' = d\<lparr>t_accounts := update_where (\<lambda>x. ac_id x = a) (\<lambda>x. the (f x)) (t_accounts d)\<rparr>"
  using assms by (auto simp: sql_update_account_def res_simps checked_update_Ok cong: conj_cong)

lemma engage_kill_switch_Ok:
  assumes "engage_kill_switch a c = (Ok v, c')"
  obtains x where "find_account a (App (Some a)) (c_durable c') = Some x" "ac_kill_switch_engaged_at x \<noteq> None"
proof -
  from assms obtain c1 c2 row c3 where t: "tenant_tx a c = (Ok (), c1)"
    and r: "stmt (sql_read (find_account a)) c1 = (Ok (Some row), c2)"
    and w: "(if ac_kill_switch_engaged_at row = None then
          tx_bind get_now (\<lambda>now. tx_bind (stmt (sql_engage_kill_switch a now)) (\<lambda>_.
          insert_risk_event a ''kill_switch_engaged'' (JObj [])))
        else tx_return ()) c2 = (Ok (), c3)"
    and m: "commit_tx c3 = (Ok (), c')"
    by (auto simp: engage_kill_switch_def lock_account_def tx_ok res_simps split del: if_split)
  note t' = tenant_tx_Ok [OF t] and r' = read_Ok [OF r]
  have row: "find_account a (App (Some a)) (c_db c2) = Some row" using t' r' by simp
  show ?thesis
  proof (cases "ac_kill_switch_engaged_at row")
    case None
    with w obtain c4 where e: "stmt (sql_engage_kill_switch a (c_now c2)) c2 = (Ok (), c4)"
        "insert_risk_event a ''kill_switch_engaged'' (JObj []) c4 = (Ok (), c3)"
      by (auto simp: tx_ok)
    note e' = stmt_Ok [OF e(1)]
    note i' = insert_event_Ok [OF e(2)]
    have "t_accounts (c_db c3) = t_accounts (c_db c4)"
      using i' by (auto simp: events_appended_def)
    moreover have "t_accounts (c_db c4) = update_where (\<lambda>x. ac_id x = a)
        (\<lambda>x. x\<lparr>ac_status := ''killed'', ac_kill_switch_engaged_at := Some (c_now c2)\<rparr>) (t_accounts (c_db c2))"
    proof -
      have "sql_engage_kill_switch a (c_now c2) (App (Some a)) (c_db c2) = Ok ((), c_db c4)"
        using e' t' r' by (simp add: same_session_def)
      from update_account_effect [OF this [unfolded sql_engage_kill_switch_def]] show ?thesis by simp
    qed
    ultimately have "find_account a (App (Some a)) (c_db c3) = Some (row\<lparr>ac_status := ''killed'', ac_kill_switch_engaged_at := Some (c_now c2)\<rparr>)"
      using row by (simp add: find_account_def find_update)
    then show ?thesis using that commit_Ok [OF m] i' by simp
  next
    case (Some n)
    then have "c3 = c2" using w by (simp add: tx_ok)
    then show ?thesis using that [of row] commit_Ok [OF m] row r' Some by simp
  qed
qed

text \<open>An account whose switch is engaged places no order.\<close>

lemma killed_places_nothing:
  assumes "find_account a (App (Some a)) (c_durable c) = Some x" "ac_kill_switch_engaged_at x \<noteq> None"
    "place_order D U st t1 t2 a body c = (z, c')"
  shows "t_orders (c_durable c') = t_orders (c_durable c) \<and>
    t_exchange_commands (c_durable c') = t_exchange_commands (c_durable c)"
proof (rule place_order_effect [OF assms(3)], goal_cases)
  case (3 est)
  from 3(2) show ?case
    unfolding order_accepted_def
  proof (elim exE conjE)
    fix acc rc s mode
    assume "find_account a (App (Some a)) (c_durable c) = Some acc"
      "snapshot_of D a (c_durable c) \<lparr>ad_status = ac_status acc, ad_equity = ac_equity acc,
          ad_kill_switch_engaged = (ac_kill_switch_engaged_at acc \<noteq> None)\<rparr> s"
      "evaluate D (request_core_intent body est) s (rc_cfg rc) = Some Approved"
    with assms(1,2) approved_not_halted [of D "request_core_intent body est" s "rc_cfg rc"] show ?thesis
      by (simp add: snapshot_of_def)
  qed
qed (auto simp: events_appended_def)

section \<open>Risk limits\<close>

text \<open>Where the effect leaves the end state open, only the role matters.\<close>

lemma keeps_top: "keeps r (\<lambda>_. True) q"
  by (simp add: keeps_def)

lemma spec_top:
  assumes "tx_inv r (\<lambda>_. True) m" "\<And>d. I d"
  shows "tx_spec r I P m (\<lambda>_ _. True) (\<lambda>_. True)"
  using assms unfolding tx_spec_def tx_inv_iff by auto

lemma put_risk_config_effect:
  assumes "put_risk_config U a body c = (z, c')"
  shows "c_durable c' = c_durable c \<or>
    (\<exists>row. find_risk_config a (App (Some a)) (c_durable c) = Some row \<and> rc_version row = rv_version body)"
proof (cases "pct ''daily_max_loss_pct'' (daily_max_loss_pct (rv_cfg body)) = Ok () \<and>
    pct ''max_position_pct_equity'' (max_position_pct_equity (rv_cfg body)) = Ok () \<and>
    pct ''max_correlated_exposure_pct'' (max_correlated_exposure_pct (rv_cfg body)) = Ok () \<and>
    \<not> sint (max_concurrent_positions (rv_cfg body)) \<le> 0")
  case True
  note ok = conjunct1 [OF True] conjunct1 [OF conjunct2 [OF True]]
    conjunct1 [OF conjunct2 [OF conjunct2 [OF True]]] if_not_P [OF conjunct2 [OF conjunct2 [OF conjunct2 [OF True]]]]
  show ?thesis
  proof (rule tenant_bind_effect [OF _ assms [unfolded put_risk_config_def ok bind_lift_Ok]],
      rule observe [OF load_risk_config_spec], elim exE conjE, hypsubst, unfold prod.case, rule spec_if, goal_cases)
    case (2 d0 v row)
    then show ?case
      unfolding Let_def insert_risk_event_def
      by (intro spec_top tx_inv_intros tx_inv_stmt keeps_top) auto
  qed (auto simp: Let_def insert_risk_event_def intro!: spec_fail safe_intros)
next
  case False
  then show ?thesis
    using assms
    by (auto simp: put_risk_config_def pct_def tx_bind_def tx_handle_def tx_lift_def tx_fail_def split: if_splits)
qed

lemma first_row_hit:
  assumes "first_row p rs = Some x" "q x" "\<And>y. q y \<Longrightarrow> p y \<and> p (f y)"
  shows "first_row p (update_where q f rs) = Some (f x)"
  using assms by (induction rs) (auto simp: first_row_def update_where_def split: if_splits)

lemma update_risk_config_effect:
  assumes "sql_update_risk_config a cfg nv cv (App (Some a)) d = Ok (n, d')" "n = 1"
  obtains c where "stored_config cfg = Some c"
    "d' = d\<lparr>t_risk_configs := update_where (\<lambda>x. rc_account_id x = a \<and> rc_version x = cv)
       (\<lambda>x. x\<lparr>rc_cfg := c, rc_version := nv\<rparr>) (t_risk_configs d)\<rparr>"
proof -
  let ?p = "\<lambda>x. rc_account_id x = a \<and> rc_version x = cv"
  let ?f = "\<lambda>x. map_option (\<lambda>c. x\<lparr>rc_cfg := c, rc_version := nv\<rparr>) (stored_config cfg)"
  have p: "(\<lambda>x. visible (App (Some a)) (rc_account_id x) \<and> rc_account_id x = a \<and> rc_version x = cv) = ?p"
    by (auto simp: fun_eq_iff)
  from assms(1) obtain rows where rows: "checked_update ?p ?f risk_config_check (t_risk_configs d) = Ok rows"
      "n = length (filter ?p (t_risk_configs d))" "d' = d\<lparr>t_risk_configs := rows\<rparr>"
    unfolding sql_update_risk_config_def Let_def p by (auto simp: res_simps)
  have "filter ?p (t_risk_configs d) \<noteq> []" using rows(2) assms(2) by auto
  then obtain x where "x \<in> set (t_risk_configs d)" "?p x"
    by (auto simp: filter_empty_conv)
  with rows(1) obtain c where c: "stored_config cfg = Some c" by (auto simp: checked_update_Ok)
  with rows show ?thesis by (intro that [OF c]) (simp add: checked_update_Ok)
qed

text \<open>A replacement that was acknowledged has raised the stored version.\<close>

lemma put_risk_config_Ok:
  assumes "put_risk_config U a body c = (Ok v, c')"
  obtains row cfg where "find_risk_config a (App (Some a)) (c_durable c) = Some row" "rc_version row = rv_version body"
    "stored_config (rv_cfg body) = Some cfg" "rv_version v = rc_version row + 1"
    "find_risk_config a (App (Some a)) (c_durable c') = Some (row\<lparr>rc_cfg := cfg, rc_version := rc_version row + 1\<rparr>)"
proof -
  from assms obtain c1 c2 row c3 c4 where t: "tenant_tx a c = (Ok (), c1)"
    and r: "stmt (sql_read (find_risk_config a)) c1 = (Ok (Some row), c2)" and v: "rc_version row = rv_version body"
    and u: "stmt (sql_update_risk_config a (rv_cfg body) (rc_version row + 1) (rc_version row)) c2 = (Ok 1, c3)"
    and e: "insert_risk_event a ''risk_config_changed''
             (JObj [(''old'', JObj (config_fields U (rc_cfg row) (rc_version row))),
                    (''new'', JObj (config_fields U (rv_cfg body) (rc_version row + 1)))]) c3 = (Ok (), c4)"
    and m: "commit_tx c4 = (Ok (), c')" and res: "v = body\<lparr>rv_version := rc_version row + 1\<rparr>"
    by (auto simp: put_risk_config_def load_risk_config_def tx_ok res_simps Let_def split: if_splits)
  note t' = tenant_tx_Ok [OF t] and r' = read_Ok [OF r] and e' = insert_event_Ok [OF e]
  have row: "find_risk_config a (App (Some a)) (c_durable c) = Some row" using t' r' by simp
  have "sql_update_risk_config a (rv_cfg body) (rc_version row + 1) (rc_version row) (App (Some a)) (c_durable c) = Ok (1, c_db c3)"
    using stmt_Ok [OF u] t' r' by (simp add: same_session_def)
  then obtain cfg where cfg: "stored_config (rv_cfg body) = Some cfg"
    "c_db c3 = (c_durable c)\<lparr>t_risk_configs := update_where (\<lambda>x. rc_account_id x = a \<and> rc_version x = rc_version row)
       (\<lambda>x. x\<lparr>rc_cfg := cfg, rc_version := rc_version row + 1\<rparr>) (t_risk_configs (c_durable c))\<rparr>"
    by (rule update_risk_config_effect) simp
  have "t_risk_configs (c_durable c') = t_risk_configs (c_db c3)"
    using commit_Ok [OF m] e' by (auto simp: events_appended_def)
  moreover have "first_row (\<lambda>x. rc_account_id x = a) (update_where (\<lambda>x. rc_account_id x = a \<and> rc_version x = rc_version row)
       (\<lambda>x. x\<lparr>rc_cfg := cfg, rc_version := rc_version row + 1\<rparr>) (t_risk_configs (c_durable c))) =
     Some (row\<lparr>rc_cfg := cfg, rc_version := rc_version row + 1\<rparr>)"
    using row by (intro first_row_hit) (auto simp: find_risk_config_def dest: first_row_Some)
  ultimately have "find_risk_config a (App (Some a)) (c_durable c') = Some (row\<lparr>rc_cfg := cfg, rc_version := rc_version row + 1\<rparr>)"
    using cfg(2) by (simp add: find_risk_config_def)
  with that row v cfg(1) res show ?thesis by simp
qed

section \<open>Exchange configuration\<close>

lemma bound_Ok:
  assumes "config_guard a body existing c = (Ok u, c')" "existing = Some x"
  shows "ec_version x = px_version body \<and>
    (ec_mode x \<noteq> px_mode body \<longrightarrow> open_orders a (c_role c) (c_db c) = [] \<and> open_positions a (c_role c) (c_db c) = [])"
  using assms
  by (auto simp: config_guard_def has_open_activity_def tx_ok same_session_def split: if_splits dest!: read_Ok)

lemma config_guard_quiet:
  assumes "config_guard a body existing c = (Ok u, c')" "\<not> c_aborted c"
  shows "c_db c' = c_db c \<and> c_role c' = c_role c \<and> c_durable c' = c_durable c \<and> \<not> c_aborted c'"
  using assms
  by (auto simp: config_guard_def has_open_activity_def tx_ok same_session_def split: if_splits option.splits
      dest!: read_Ok)

text \<open>What a configuration that was stored looks like.\<close>

definition config_stored ::
    "put_exchange_config_body \<Rightarrow> byte list option \<Rightarrow> byte list option \<Rightarrow> exchange_config_row option \<Rightarrow>
     exchange_config_row \<Rightarrow> bool" where
  "config_stored body kc sc existing row \<longleftrightarrow>
     ec_mode row = px_mode body \<and> ec_testnet row = px_testnet body \<and>
     ec_api_key_ciphertext row = coalesce kc (Option.bind existing ec_api_key_ciphertext) \<and>
     ec_api_secret_ciphertext row = coalesce sc (Option.bind existing ec_api_secret_ciphertext) \<and>
     ec_version row = (case existing of Some x \<Rightarrow> ec_version x | None \<Rightarrow> 0) + 1"

lemma update_exchange_config_stored:
  assumes "sql_update_exchange_config a (px_mode body) (px_testnet body) kc sc (ec_version x + 1) (ec_version x)
      (App (Some a)) d = Ok (u, d')" "find_exchange_config a (App (Some a)) d = Some x"
  shows "\<exists>row. find_exchange_config a (App (Some a)) d' = Some row \<and> config_stored body kc sc (Some x) row"
proof -
  let ?p = "\<lambda>y. ec_account_id y = a \<and> ec_version y = ec_version x"
  let ?f = "\<lambda>y. y\<lparr>ec_mode := px_mode body, ec_testnet := px_testnet body,
              ec_api_key_ciphertext := coalesce kc (ec_api_key_ciphertext y),
              ec_api_secret_ciphertext := coalesce sc (ec_api_secret_ciphertext y),
              ec_version := ec_version x + 1\<rparr>"
  have p: "(\<lambda>y. visible (App (Some a)) (ec_account_id y) \<and> ec_account_id y = a \<and> ec_version y = ec_version x) = ?p"
    by (auto simp: fun_eq_iff)
  from assms(1) have "t_exchange_configs d' = update_where ?p ?f (t_exchange_configs d)"
    unfolding sql_update_exchange_config_def Let_def p by (auto simp: res_simps checked_update_Ok)
  moreover have "first_row (\<lambda>y. ec_account_id y = a) (update_where ?p ?f (t_exchange_configs d)) = Some (?f x)"
    using assms(2) by (intro first_row_hit) (auto simp: find_exchange_config_def dest: first_row_Some)
  ultimately have "find_exchange_config a (App (Some a)) d' = Some (?f x)"
    by (simp add: find_exchange_config_def)
  then show ?thesis by (auto simp: config_stored_def)
qed

lemma first_row_new: "\<forall>y\<in>set rs. \<not> p y \<Longrightarrow> p x \<Longrightarrow> first_row p (rs @ [x]) = Some x"
  by (induction rs) (auto simp: first_row_def)

lemma insert_exchange_config_stored:
  assumes "sql_insert_exchange_config \<lparr>ec_account_id = a, ec_mode = px_mode body, ec_testnet = px_testnet body,
                ec_api_key_ciphertext = kc, ec_api_secret_ciphertext = sc, ec_version = 0 + 1\<rparr>
      (App (Some a)) d = Ok (u, d')"
  shows "\<exists>row. find_exchange_config a (App (Some a)) d' = Some row \<and> config_stored body kc sc None row"
proof -
  have "t_exchange_configs d' = t_exchange_configs d @ [\<lparr>ec_account_id = a, ec_mode = px_mode body, ec_testnet = px_testnet body,
                ec_api_key_ciphertext = kc, ec_api_secret_ciphertext = sc, ec_version = 0 + 1\<rparr>]"
    "\<forall>y\<in>set (t_exchange_configs d). ec_account_id y \<noteq> a"
    using assms by (auto simp: sql_insert_exchange_config_def res_simps list_ex_iff)
  then show ?thesis
    by (auto simp: find_exchange_config_def first_row_new config_stored_def coalesce_def split: option.split)
qed

lemma put_exchange_config_Ok:
  assumes "put_exchange_config A U env n1 n2 a body c = (Ok v, c')"
  obtains kc sc row where "encrypt_credentials A U env n1 n2 a body = Ok (kc, sc)"
    "find_exchange_config a (App (Some a)) (c_durable c') = Some row"
    "config_stored body kc sc (find_exchange_config a (App (Some a)) (c_durable c)) row"
    "\<And>x. find_exchange_config a (App (Some a)) (c_durable c) = Some x \<Longrightarrow> ec_version x = px_version body \<and>
      (ec_mode x \<noteq> px_mode body \<longrightarrow> open_orders a (App (Some a)) (c_durable c) = [] \<and>
         open_positions a (App (Some a)) (c_durable c) = [])"
proof -
  from assms obtain c1 acc c2 existing c3 c4 kc sc c5 ty pl c6 where t: "tenant_tx a c = (Ok (), c1)"
    and l: "stmt (sql_read (find_account a)) c1 = (Ok (Some acc), c2)"
    and r: "stmt (sql_read (find_exchange_config a)) c2 = (Ok existing, c3)"
    and g: "config_guard a body existing c3 = (Ok (), c4)"
    and enc: "encrypt_credentials A U env n1 n2 a body = Ok (kc, sc)"
    and w: "(case existing of
            Some x \<Rightarrow> stmt (sql_update_exchange_config a (px_mode body) (px_testnet body) kc sc
               ((case existing of Some x \<Rightarrow> ec_version x | None \<Rightarrow> 0) + 1)
               (case existing of Some x \<Rightarrow> ec_version x | None \<Rightarrow> 0))
          | None \<Rightarrow> stmt (sql_insert_exchange_config
               \<lparr>ec_account_id = a, ec_mode = px_mode body, ec_testnet = px_testnet body,
                ec_api_key_ciphertext = kc, ec_api_secret_ciphertext = sc,
                ec_version = (case existing of Some x \<Rightarrow> ec_version x | None \<Rightarrow> 0) + 1\<rparr>)) c4 = (Ok (), c5)"
    and e: "insert_risk_event a ty pl c5 = (Ok (), c6)" and m: "commit_tx c6 = (Ok (), c')"
    by (auto simp: put_exchange_config_def lock_account_def tx_ok res_simps Let_def split: if_splits)
  note t' = tenant_tx_Ok [OF t] and l' = read_Ok [OF l] and r' = read_Ok [OF r] and e' = insert_event_Ok [OF e]
  have ex: "existing = find_exchange_config a (App (Some a)) (c_durable c)"
    and c3: "c_db c3 = c_durable c" "c_role c3 = App (Some a)" "\<not> c_aborted c3"
    using t' l' r' by (simp_all add: same_session_def)
  note g' = config_guard_quiet [OF g c3(3)]
  have "\<exists>row. find_exchange_config a (App (Some a)) (c_db c5) = Some row \<and> config_stored body kc sc existing row"
  proof (cases existing)
    case None
    with w have "stmt (sql_insert_exchange_config \<lparr>ec_account_id = a, ec_mode = px_mode body, ec_testnet = px_testnet body,
                ec_api_key_ciphertext = kc, ec_api_secret_ciphertext = sc, ec_version = 0 + 1\<rparr>) c4 = (Ok (), c5)"
      by simp
    from stmt_Ok [OF this] g' c3 insert_exchange_config_stored show ?thesis unfolding None by metis
  next
    case (Some x)
    with w have "stmt (sql_update_exchange_config a (px_mode body) (px_testnet body) kc sc (ec_version x + 1)
        (ec_version x)) c4 = (Ok (), c5)"
      by simp
    from stmt_Ok [OF this] g' c3 update_exchange_config_stored [of a body kc sc x "c_db c4"] ex
    show ?thesis unfolding Some by metis
  qed
  then obtain row where row: "find_exchange_config a (App (Some a)) (c_db c5) = Some row" "config_stored body kc sc existing row"
    by blast
  have "t_exchange_configs (c_durable c') = t_exchange_configs (c_db c5)"
    using commit_Ok [OF m] e' by (auto simp: events_appended_def)
  then have "find_exchange_config a (App (Some a)) (c_durable c') = Some row"
    using row(1) by (simp add: find_exchange_config_def)
  with that [OF enc] row(2) ex bound_Ok [OF g] c3 show ?thesis by simp
qed

end
