(* ===== verification/Evaluate_Effects.thy ===== *)
theory Evaluate_Effects
  imports Route_Effects
begin

text \<open>
  The evaluation route: what an acknowledged evaluation has read and what it leaves behind, and which
  page of the audit log a tenant reads.
\<close>

section \<open>The snapshot of an acknowledged evaluation\<close>

lemma tenant_tx_today:
  assumes "tenant_tx a c = (Ok x, c')"
  shows "c_today c' = c_today c"
proof -
  from assms obtain c1 where b: "begin_tx (App None) c = (Ok (), c1)" and s: "set_tenant a c1 = (Ok x, c')"
    by (auto simp: tenant_tx_def tx_bind_eq)
  from b have "c_today c1 = c_today c" unfolding begin_tx_def by (elim io_Ok) auto
  moreover from s have "c_today c' = c_today c1" unfolding set_tenant_def by (elim io_Ok) (auto split: if_splits)
  ultimately show ?thesis by simp
qed

lemma lock_account_Ok:
  assumes "lock_account a c = (Ok x, c')"
  shows "c_db c' = c_db c \<and> same_session c c' \<and> c_durable c' = c_durable c"
  using assms by (auto simp: lock_account_def tx_ok dest!: read_Ok)

lemma load_risk_config_Ok:
  assumes "load_risk_config a c = (Ok x, c')"
  shows "c_db c' = c_db c \<and> same_session c c' \<and> c_durable c' = c_durable c"
  using assms by (auto simp: load_risk_config_def tx_ok dest!: read_Ok)

lemma load_exchange_mode_Ok:
  assumes "load_exchange_mode a c = (Ok x, c')"
  shows "c_db c' = c_db c \<and> same_session c c' \<and> c_durable c' = c_durable c"
  using assms by (auto simp: load_exchange_mode_def tx_ok dest!: read_Ok)

lemma load_snapshot_Ok:
  assumes "load_snapshot D a acc c = (Ok s, c')"
  shows "c_db c' = c_db c \<and> same_session c c' \<and> c_durable c' = c_durable c \<and> \<not> c_aborted c' \<and>
    as_circuit_breaker_tripped s =
      (case find_daily_pnl a (c_today c) (c_role c) (c_db c) of
         Some x \<Rightarrow> dp_circuit_breaker_tripped_at x \<noteq> None | None \<Rightarrow> False)"
proof -
  from assms obtain rows c1 pairs c2 pnl c3 where
    r: "stmt (sql_read (open_position_rows a)) c = (Ok rows, c1)" "stmt (sql_read (group_pairs a)) c1 = (Ok pairs, c2)"
      "stmt (sql_read (find_daily_pnl a (c_today c2))) c2 = (Ok pnl, c')"
    and s: "as_circuit_breaker_tripped s = (case pnl of Some x \<Rightarrow> dp_circuit_breaker_tripped_at x \<noteq> None | None \<Rightarrow> False)"
    by (auto simp: load_snapshot_def tx_ok)
  show ?thesis
    using read_Ok [OF r(1)] read_Ok [OF r(2)] read_Ok [OF r(3)] s by (simp add: same_session_def)
qed

section \<open>The circuit breaker\<close>

text \<open>The breaker of an account is tripped for a day.\<close>

definition tripped_on :: "uuid \<Rightarrow> nat \<Rightarrow> daily_pnl_row list \<Rightarrow> bool" where
  "tripped_on a day rs \<longleftrightarrow>
     (\<exists>x. first_row (\<lambda>x. dp_account_id x = a \<and> dp_trading_date x = day) rs = Some x \<and>
        dp_circuit_breaker_tripped_at x \<noteq> None)"

lemma tripped_on_find:
  "tripped_on a day (t_daily_pnl d) \<longleftrightarrow>
     (case find_daily_pnl a day (App (Some a)) d of Some x \<Rightarrow> dp_circuit_breaker_tripped_at x \<noteq> None | None \<Rightarrow> False)"
proof -
  have "(\<lambda>x. visible (App (Some a)) (dp_account_id x) \<and> dp_account_id x = a \<and> dp_trading_date x = day) =
      (\<lambda>x. dp_account_id x = a \<and> dp_trading_date x = day)"
    by (auto simp: fun_eq_iff)
  then show ?thesis by (auto simp: tripped_on_def find_daily_pnl_def split: option.split)
qed

lemma trip_effect:
  assumes "sql_trip_circuit_breaker a day now r d = Ok (u, d')"
  shows "t_daily_pnl d' =
    (if list_ex (\<lambda>x. dp_account_id x = a \<and> dp_trading_date x = day) (t_daily_pnl d)
     then update_where (\<lambda>x. dp_account_id x = a \<and> dp_trading_date x = day)
       (\<lambda>x. x\<lparr>dp_circuit_breaker_tripped_at :=
          (case dp_circuit_breaker_tripped_at x of None \<Rightarrow> Some now | t \<Rightarrow> t)\<rparr>) (t_daily_pnl d)
     else t_daily_pnl d @ [\<lparr>dp_account_id = a, dp_trading_date = day, dp_realized_loss = 0,
       dp_circuit_breaker_tripped_at = Some now\<rparr>])"
  using assms by (auto simp: sql_trip_circuit_breaker_def res_simps split: if_splits)

lemma trip_circuit_breaker_Ok:
  assumes "trip_circuit_breaker a c = (Ok u, c')" "c_role c = App (Some a)"
  shows "tripped_on a (c_today c) (t_daily_pnl (c_db c')) \<and> same_session c c' \<and> c_durable c' = c_durable c"
proof -
  let ?p = "\<lambda>x. dp_account_id x = a \<and> dp_trading_date x = c_today c"
  let ?f = "\<lambda>x. x\<lparr>dp_circuit_breaker_tripped_at :=
      (case dp_circuit_breaker_tripped_at x of None \<Rightarrow> Some (c_now c) | t \<Rightarrow> t)\<rparr>"
  from assms(1) have s: "stmt (sql_trip_circuit_breaker a (c_today c) (c_now c)) c = (Ok u, c')"
    by (simp add: trip_circuit_breaker_def tx_ok)
  note s' = stmt_Ok [OF s]
  have "tripped_on a (c_today c) (t_daily_pnl (c_db c'))"
  proof (cases "first_row ?p (t_daily_pnl (c_db c))")
    case None
    then have none: "\<forall>x\<in>set (t_daily_pnl (c_db c)). \<not> ?p x" by (auto simp: first_row_None)
    then have "\<not> list_ex ?p (t_daily_pnl (c_db c))" by (auto simp: list_ex_iff)
    then have "t_daily_pnl (c_db c') = t_daily_pnl (c_db c) @ [\<lparr>dp_account_id = a, dp_trading_date = c_today c,
            dp_realized_loss = 0, dp_circuit_breaker_tripped_at = Some (c_now c)\<rparr>]"
      using trip_effect [OF conjunct1 [OF s']] by (simp only: if_False)
    then show ?thesis using first_row_new [OF none] by (simp add: tripped_on_def)
  next
    case (Some x)
    then have "list_ex ?p (t_daily_pnl (c_db c))" by (auto simp: list_ex_iff dest: first_row_Some)
    then have "t_daily_pnl (c_db c') = update_where ?p ?f (t_daily_pnl (c_db c))"
      using trip_effect [OF conjunct1 [OF s']] by (simp only: if_True)
    moreover have "?p x" using Some by (auto dest: first_row_Some)
    ultimately have "first_row ?p (t_daily_pnl (c_db c')) = Some (?f x)"
      using Some by (simp add: first_row_hit)
    then show ?thesis by (auto simp: tripped_on_def split: option.split)
  qed
  then show ?thesis using s' by simp
qed

text \<open>The stages of an acknowledged evaluation.\<close>

lemma evaluate_trade_Ok:
  assumes "evaluate_trade D U a i c = (Ok dec, c')"
  obtains s cfg trips where "evaluate D i s cfg = Some dec"
    "as_circuit_breaker_tripped s \<longleftrightarrow> tripped_on a (c_today c) (t_daily_pnl (c_durable c))"
    "if as_circuit_breaker_tripped s then \<not> trips else circuit_breaker_should_trip D s cfg = Some trips"
    "trips \<Longrightarrow> tripped_on a (c_today c) (t_daily_pnl (c_durable c'))"
    "\<not> trips \<Longrightarrow> t_daily_pnl (c_durable c') = t_daily_pnl (c_durable c)"
proof -
  have guards: "\<not> is_blank (ti_symbol i)" "\<not> (ti_quantity i < 0 \<or> ti_price i < 0)"
    using assms by (auto simp: evaluate_trade_def tx_ok split: if_splits)
  from assms [unfolded evaluate_trade_def if_not_P [OF guards(1)] if_not_P [OF guards(2)]]
  obtain c1 acc c2 cfg ver c3 s c4 c4' trips c5 c6 where t: "tenant_tx a c = (Ok (), c1)"
    and l: "lock_account a c1 = (Ok acc, c2)" "load_risk_config a c2 = (Ok (cfg, ver), c3)"
      "load_snapshot D a acc c3 = (Ok s, c4)"
    and dec: "evaluate D i s cfg = Some dec"
    and trips: "(if as_circuit_breaker_tripped s then tx_return False
        else tx_lift (or_panic (circuit_breaker_should_trip D s cfg)) :: bool tx) c4 = (Ok trips, c4')"
    and w: "(if trips then tx_bind (trip_circuit_breaker a) (\<lambda>_.
        insert_risk_event a ''circuit_breaker_tripped'' (breaker_payload U s cfg)) else tx_return ()) c4' = (Ok (), c5)"
    and e: "insert_risk_event a ''trade_evaluated'' (evaluated_payload U i dec s) c5 = (Ok (), c6)"
    and m: "commit_tx c6 = (Ok (), c')"
    by (auto simp: tx_ok res_simps split del: if_split)
  have [simp]: "c4' = c4" using trips by (auto simp: tx_ok split: if_splits)
  note t' = tenant_tx_Ok [OF t] and l' = lock_account_Ok [OF l(1)] load_risk_config_Ok [OF l(2)] load_snapshot_Ok [OF l(3)]
  have c4: "c_db c4 = c_durable c" "c_role c4 = App (Some a)" "c_today c4 = c_today c" "\<not> c_aborted c4"
    using t' l' tenant_tx_today [OF t] by (simp_all add: same_session_def)
  have s: "as_circuit_breaker_tripped s \<longleftrightarrow> tripped_on a (c_today c) (t_daily_pnl (c_durable c))"
    using t' l' tenant_tx_today [OF t] by (simp add: same_session_def tripped_on_find)
  have c': "t_daily_pnl (c_durable c') = t_daily_pnl (c_db c5)"
    using commit_Ok [OF m] insert_event_Ok [OF e] by (auto simp: events_appended_def)
  show ?thesis
  proof (rule that [OF dec s])
    show "if as_circuit_breaker_tripped s then \<not> trips else circuit_breaker_should_trip D s cfg = Some trips"
      using trips by (auto simp: tx_ok res_simps split: if_splits)
  next
    assume trips
    with w obtain c7 where "trip_circuit_breaker a c4 = (Ok (), c7)"
        and i: "insert_risk_event a ''circuit_breaker_tripped'' (breaker_payload U s cfg) c7 = (Ok (), c5)"
      by (auto simp: tx_ok)
    from trip_circuit_breaker_Ok [OF this(1) c4(2)] show "tripped_on a (c_today c) (t_daily_pnl (c_durable c'))"
      using insert_event_Ok [OF i] c4(3) c' by (auto simp: events_appended_def)
  next
    assume "\<not> trips"
    with w have "c5 = c4" by (simp add: tx_ok)
    with c' c4(1) show "t_daily_pnl (c_durable c') = t_daily_pnl (c_durable c)" by simp
  qed
qed

lemma breaker_violation:
  assumes "evaluate D i s cfg = Some (Rejected vs)" "CircuitBreakerTripped l m \<in> set vs"
  shows "as_circuit_breaker_tripped s \<or> circuit_breaker_should_trip D s cfg = Some True"
proof -
  have grow: "check_position_size D i s cfg vs = Some ws \<Longrightarrow> CircuitBreakerTripped l m \<in> set ws \<Longrightarrow> CircuitBreakerTripped l m \<in> set vs"
    "CircuitBreakerTripped l m \<in> set (check_concurrent_positions i s cfg vs) \<Longrightarrow> CircuitBreakerTripped l m \<in> set vs"
    "check_correlated_exposure D i s cfg vs = Some ws \<Longrightarrow> CircuitBreakerTripped l m \<in> set ws \<Longrightarrow> CircuitBreakerTripped l m \<in> set vs" for vs ws
    by (auto simp: check_position_size_def check_concurrent_positions_def Let_def
        check_correlated_exposure_def split: if_splits option.splits Option.bind_splits)
  show ?thesis
    using assms
    by (auto simp: evaluate_def Let_def split: if_splits Option.bind_splits) (use grow in \<open>fastforce\<close>)+
qed

text \<open>A rejection that names the breaker leaves it tripped for the day.\<close>

lemma breaker_stays_tripped:
  assumes "evaluate_trade D U a i c = (Ok (Rejected vs), c')" "CircuitBreakerTripped l m \<in> set vs"
  shows "tripped_on a (c_today c) (t_daily_pnl (c_durable c'))"
  by (rule evaluate_trade_Ok [OF assms(1)]) (use breaker_violation [OF _ assms(2)] in \<open>fastforce split: if_splits\<close>)

lemma tripped_never_approves:
  assumes "tripped_on a (c_today c) (t_daily_pnl (c_durable c))" "evaluate_trade D U a i c = (Ok dec, c')"
  shows "dec \<noteq> Approved"
  by (rule evaluate_trade_Ok [OF assms(2)]) (use assms(1) approved_not_halted in fastforce)


text \<open>It places no order for the rest of that day either.\<close>

lemma bind_cases:
  assumes "tx_bind m f c = (z, c')" "durable_inv P m" "P (c_durable c)"
    "P (c_durable c') \<Longrightarrow> R" "\<And>x c1. m c = (Ok x, c1) \<Longrightarrow> P (c_durable c1) \<Longrightarrow> f x c1 = (z, c') \<Longrightarrow> R"
  shows R
proof (cases "m c")
  case (Pair y c1)
  have "P (c_durable c1)" using assms(2,3) Pair unfolding durable_inv_iff by blast
  with Pair assms(1,4,5) show ?thesis by (cases y) (auto simp: tx_bind_eq)
qed

lemma reading_quiet:
  "durable_inv P (tx_lift v)" "durable_inv P (lock_account a)" "durable_inv P (load_risk_config a)"
  "durable_inv P (load_exchange_mode a)" "durable_inv P (load_snapshot D a acc)"
  unfolding lock_account_def load_risk_config_def load_exchange_mode_def load_snapshot_def
  by (intro durable_intros)+

lemma tripped_places_nothing:
  assumes "tripped_on a (c_today c) (t_daily_pnl (c_durable c))" "place_order D U st t1 t2 a body c = (z, c')"
  shows "t_orders (c_durable c') = t_orders (c_durable c)"
proof -
  note q = reading_quiet [where P = "\<lambda>d. d = c_durable c"]
    durable_inv_tenant_tx [where P = "\<lambda>d. d = c_durable c"]
  show ?thesis
  proof (rule bind_cases [OF assms(2) [unfolded place_order_def Let_def split_beta] q(1) refl], simp,
      rule bind_cases [OF _ q(6)], assumption, assumption, simp, rule bind_cases [OF _ q(2)], assumption, assumption,
      simp, rule bind_cases [OF _ q(3)], assumption, assumption, simp, rule bind_cases [OF _ q(4)], assumption,
      assumption, simp, rule bind_cases [OF _ q(5)], assumption, assumption, simp, rule bind_cases [OF _ q(1)],
      assumption, assumption, simp, goal_cases)
    case (1 est c1 u c2 acc c3 rc c4 mode c5 s c6 dec c7)
    note r = tenant_tx_Ok [OF 1(4)] tenant_tx_today [OF 1(4)] lock_account_Ok [OF 1(7)]
      load_risk_config_Ok [OF 1(10)] load_exchange_mode_Ok [OF 1(13)] load_snapshot_Ok [OF 1(16)]
    have c7: "c7 = c6" "evaluate D (request_core_intent body est) s (fst rc) = Some dec"
      using 1(19) by (auto simp: tx_ok res_simps)
    have "c1 = c" using 1(1) by (simp add: tx_ok)
    then have "as_circuit_breaker_tripped s"
      using r assms(1) by (simp add: same_session_def tripped_on_find)
    with c7(2) have "\<not> is_approved dec" using approved_not_halted by (cases dec) auto
    with 1(21) have rej: "tx_bind (insert_risk_event a ''order_rejected''
         (JObj [(''intent'', ser_intent U (request_core_intent body est)), (''decision'', ser_decision U dec)])) (\<lambda>_.
       tx_bind commit_tx (\<lambda>_. tx_fail (Invalid (Fmt ''order rejected: {decision:?}'' [debug_decision dec])))) c6 = (z, c')"
      by (simp add: c7(1))
    show ?case
      by (rule specD(2) [OF reject_order_spec [where I = "\<lambda>d. t_orders d = t_orders (c_durable c)"
            and ?d0.0 = "c_durable c"] rej, where r = "App (Some a)"])
        (use r \<open>c1 = c\<close> in \<open>auto simp: same_session_def events_appended_def\<close>)
  qed
qed


section \<open>Pages of the audit log\<close>

text \<open>The rows a cursor selects, and the page that is returned of them.\<close>

definition on_page :: "uuid \<Rightarrow> uuid option \<Rightarrow> risk_event_row \<Rightarrow> bool" where
  "on_page a before x \<longleftrightarrow> ev_account_id x = a \<and> (case before of None \<Rightarrow> True | Some b \<Rightarrow> ev_id x < b)"

lemma list_risk_events_Ok:
  assumes "list_risk_events a q c = (Ok vs, c')"
  shows "c_durable c' = c_durable c \<and> vs = map risk_event_to_view (take (page_limit (eq_limit q))
    (rev (sort_key ev_id (filter (on_page a (eq_before q)) (t_risk_events (c_durable c))))))"
proof -
  from assms obtain c1 rows where t: "tenant_tx a c = (Ok (), c1)"
    and r: "stmt (sql_read (select_risk_events a (eq_before q) (page_limit (eq_limit q)))) c1 = (Ok rows, c')"
    and vs: "vs = map risk_event_to_view rows"
    by (auto simp: list_risk_events_def tx_ok)
  have "(\<lambda>x. visible (App (Some a)) (ev_account_id x) \<and> ev_account_id x = a \<and>
       (case eq_before q of None \<Rightarrow> True | Some b \<Rightarrow> ev_id x < b)) = on_page a (eq_before q)"
    by (auto simp: fun_eq_iff on_page_def)
  then show ?thesis
    using tenant_tx_Ok [OF t] read_Ok [OF r] vs by (simp add: select_risk_events_def)
qed

lemma page_limit_bounds: "1 \<le> page_limit l" "page_limit l \<le> 500"
  by (auto simp: page_limit_def split: option.split)

text \<open>What a page leaves out is not newer than what it holds, and then the page is full.\<close>

lemma page_newest_first:
  assumes "x \<in> set xs" "x \<notin> set (take n (rev (sort_key k xs)))"
  shows "length (take n (rev (sort_key k xs))) = n" "y \<in> set (take n (rev (sort_key k xs))) \<Longrightarrow> k x \<le> k y"
proof -
  let ?s = "rev (sort_key k xs)"
  have "x \<in> set (take n ?s @ drop n ?s)" using assms(1) by simp
  then have x: "x \<in> set (drop n ?s)" using assms(2) unfolding set_append by blast
  then have "drop n ?s \<noteq> []" by auto
  then show "length (take n ?s) = n" by simp
  have "sorted (map k (rev (drop n ?s)) @ map k (rev (take n ?s)))"
    by (metis append_take_drop_id map_append rev_append rev_rev_ident sorted_sort_key)
  then show "y \<in> set (take n ?s) \<Longrightarrow> k x \<le> k y" using x by (auto simp: sorted_append)
qed

lemma page_sorted: "sorted_wrt (\<lambda>x y. k y \<le> k x) (take n (rev (sort_key k xs)))"
proof -
  have "sorted_wrt (\<lambda>x y. k y \<le> k x) (rev (sort_key k xs))"
    using sorted_sort_key [of k xs] by (simp add: sorted_wrt_rev sorted_map)
  then show ?thesis by (rule sorted_wrt_take)
qed

end
