(* ===== verification/Server_Properties.thy ===== *)
theory Server_Properties
  imports System_Properties Evaluate_Effects
begin

text \<open>
  The properties of the server's routes. The witnesses are at the states of \<open>Scenario\<close>.
\<close>

section \<open>Orders\<close>

text \<open>
  C3: An order enters the database only if its request passed validation and the risk engine approved
  it, on the limits, the equity and the positions of the account as stored at that moment, with the kill
  switch released; it is then one pending row with the terms of the request and nothing filled, and the
  outbox holds its submission in the same transaction.
\<close>

theorem orders_are_approved:
  assumes "place_order D U st t1 t2 a body c = (z, c')"
    "t_orders (c_durable c') \<noteq> t_orders (c_durable c)"
  shows "\<exists>est acc rc s row mode.
    prevalidate D st t1 t2 body = Ok est \<and>
    find_account a (App (Some a)) (c_durable c) = Some acc \<and> ac_kill_switch_engaged_at acc = None \<and>
    find_risk_config a (App (Some a)) (c_durable c) = Some rc \<and>
    as_equity s = ac_equity acc \<and>
    map_res (row_to_position D) (open_position_rows a (App (Some a)) (c_durable c)) = Ok (as_open_positions s) \<and>
    evaluate D (request_core_intent body est) s (rc_cfg rc) = Some Approved \<and>
    t_orders (c_durable c') = t_orders (c_durable c) @ [row] \<and> pending_row a body mode row \<and>
    (\<exists>cm\<in>set (t_exchange_commands (c_durable c')). cm_account_id cm = a \<and>
       cm_idempotency_key cm = uuid_str U (or_id row) @ '':submit'')"
proof (rule place_order_effect [OF assms(1)], goal_cases)
  case (3 est)
  from 3(2) show ?case
    unfolding order_accepted_def
  proof (elim exE conjE)
    fix acc rc s mode
    assume acc: "find_account a (App (Some a)) (c_durable c) = Some acc"
      "find_risk_config a (App (Some a)) (c_durable c) = Some rc"
      "snapshot_of D a (c_durable c) \<lparr>ad_status = ac_status acc, ad_equity = ac_equity acc,
          ad_kill_switch_engaged = (ac_kill_switch_engaged_at acc \<noteq> None)\<rparr> s"
      "evaluate D (request_core_intent body est) s (rc_cfg rc) = Some Approved"
      and "order_written U a body mode (c_durable c) (c_durable c')"
    then obtain oid d1 d2 where w: "order_inserted a body mode oid (c_durable c) d1"
        "command_enqueued a ''submit_order'' (uuid_str U oid @ '':submit'') (order_id_payload U oid) d1 d2"
        "events_appended d2 (c_durable c')"
      unfolding order_written_def by blast
    from w(1) obtain row where row: "d1 = (c_durable c)\<lparr>t_orders := t_orders (c_durable c) @ [row]\<rparr>" "or_id row = oid"
        "pending_row a body mode row"
      unfolding order_inserted_def by auto
    have "t_orders (c_durable c') = t_orders (c_durable c) @ [row]"
      using row(1) w(2,3) by (auto simp: command_enqueued_def events_appended_def)
    moreover have "\<exists>cm\<in>set (t_exchange_commands (c_durable c')). cm_account_id cm = a \<and>
       cm_idempotency_key cm = uuid_str U (or_id row) @ '':submit''"
      using row(2) w(2,3) by (auto simp: command_enqueued_def events_appended_def)
    moreover have "ac_kill_switch_engaged_at acc = None"
      using approved_not_halted [OF acc(4)] acc(3) by (simp add: snapshot_of_def)
    moreover have "as_equity s = ac_equity acc"
      "map_res (row_to_position D) (open_position_rows a (App (Some a)) (c_durable c)) = Ok (as_open_positions s)"
      using acc(3) by (simp_all add: snapshot_of_def)
    ultimately show ?thesis using 3(1) acc row(3) by (intro exI conjI) assumption+
  qed
qed (use assms(2) in \<open>auto simp: events_appended_def\<close>)

lemma sample_placed:
  obtains z c where "place_order ref_dec ref_uuid (se_state sample_env) 101 101 1 sample_request (sess 3 db1) = (z, c)"
    "c_durable c = db2"
proof -
  obtain c where "serve sample_env (PlaceOrder 1 sample_request) (sess 3 db1) = (Ok 201, c)" "c_durable c = db2"
    by (rule order_placed)
  then show thesis
    by (auto simp: answer_def tx_handle_eq tx_return_def intro: that)
qed

theorem orders_are_approved_witness: "\<exists>acc. find_account 1 (App (Some 1)) db1 = Some acc \<and> ac_kill_switch_engaged_at acc = None"
proof -
  obtain z c where "place_order ref_dec ref_uuid (se_state sample_env) 101 101 1 sample_request (sess 3 db1) = (z, c)"
      "c_durable c = db2"
    by (rule sample_placed)
  moreover have "t_orders db2 \<noteq> t_orders db1" by (simp add: db2_def db1_def empty_db_def)
  ultimately show ?thesis
    using orders_are_approved [of ref_dec ref_uuid "se_state sample_env" 101 101 1 sample_request "sess 3 db1" z c]
    by auto
qed




text \<open>
  C9: A breaker trip outlives the evaluation that found it: after an acknowledged rejection that names the
  breaker, and for the rest of that day, every acknowledged evaluation for the account is a rejection and
  no request places an order, whatever becomes of its equity, its limits or its positions.
\<close>

theorem breaker_trip_outlives_the_call:
  assumes "evaluate_trade D U a i c = (Ok (Rejected vs), c1)" "CircuitBreakerTripped l m \<in> set vs"
    "t_daily_pnl (c_durable c2) = t_daily_pnl (c_durable c1)" "c_today c2 = c_today c"
  shows "fst (evaluate_trade D' U' a j c2) \<noteq> Ok Approved \<and>
    t_orders (c_durable (snd (place_order D' U' st t1 t2 a body c2))) = t_orders (c_durable c2)"
proof -
  have tripped: "tripped_on a (c_today c2) (t_daily_pnl (c_durable c2))"
    using breaker_stays_tripped [OF assms(1,2)] assms(3,4) by simp
  obtain z c3 where e: "evaluate_trade D' U' a j c2 = (z, c3)" by fastforce
  obtain w c4 where p: "place_order D' U' st t1 t2 a body c2 = (w, c4)" by fastforce
  have "z \<noteq> Ok Approved" using tripped_never_approves [OF tripped, of D' U' j Approved c3] e by auto
  with tripped_places_nothing [OF tripped p] e p show ?thesis by simp
qed

definition losing_db :: db where
  "losing_db = db1\<lparr>t_daily_pnl := [\<lparr>dp_account_id = 1, dp_trading_date = 20, dp_realized_loss = 5000,
     dp_circuit_breaker_tripped_at = None\<rparr>]\<rparr>"

definition losing_snapshot :: account_snapshot where
  "losing_snapshot = new_snapshot\<lparr>as_today_realized_loss := 5000\<rparr>"

lemma losing_representable: "engine_representable placed_intent losing_snapshot default_risk_config"
  by (auto simp: engine_representable_def pct_representable_def placed_intent_def losing_snapshot_def
      new_snapshot_def default_risk_config_def group_notionals_def)

lemma losing_rejected:
  "evaluate ref_dec placed_intent losing_snapshot default_risk_config = Some (Rejected [CircuitBreakerTripped 5000 2000])"
  "circuit_breaker_should_trip ref_dec losing_snapshot default_risk_config = Some True"
proof -
  have "violations_spec placed_intent losing_snapshot default_risk_config = [CircuitBreakerTripped 5000 2000]"
    by (simp add: violations_spec_def breaker_violations_def breaker_spec_def placed_intent_def new_snapshot_def
      losing_snapshot_def default_risk_config_def reduces_existing_position_def size_violations_def size_spec_def
      count_violations_def count_spec_def exposure_violations_def exposure_spec_def group_notionals_def)
  then show "evaluate ref_dec placed_intent losing_snapshot default_risk_config = Some (Rejected [CircuitBreakerTripped 5000 2000])"
    by (simp add: evaluate_exact [OF ref_dec_laws losing_representable])
  show "circuit_breaker_should_trip ref_dec losing_snapshot default_risk_config = Some True"
    using should_trip_exact [OF ref_dec_laws losing_representable]
    by (simp add: losing_snapshot_def new_snapshot_def breaker_spec_def default_risk_config_def)
qed

lemma placed_intent_sel [simp]:
  "ti_symbol placed_intent = ''BTC''" "ti_quantity placed_intent = 2" "ti_price placed_intent = 105"
  by (simp_all add: placed_intent_def)

lemma sample_tripped:
  obtains c where "evaluate_trade ref_dec ref_uuid 1 placed_intent (sess 3 losing_db) =
    (Ok (Rejected [CircuitBreakerTripped 5000 2000]), c)"
proof -
  have "\<not> is_blank ''BTC''" by code_simp
  then show thesis
    by (simp add: that run_defs evaluate_trade_def sess_def losing_db_def db1_def empty_db_def statement_defs
        row_defs Let_def res_simps trip_circuit_breaker_def sql_trip_circuit_breaker_def risk_event_types_def
        losing_rejected [unfolded losing_snapshot_def new_snapshot_def, simplified])
qed

theorem breaker_trip_outlives_the_call_witness:
  "\<exists>c. evaluate_trade ref_dec ref_uuid 1 placed_intent (sess 3 losing_db) =
      (Ok (Rejected [CircuitBreakerTripped 5000 2000]), c) \<and>
    t_orders (c_durable (snd (place_order ref_dec ref_uuid (se_state sample_env) 101 101 1 sample_request
      (sess 9 (c_durable c))))) = t_orders (c_durable c)"
proof -
  obtain c where c: "evaluate_trade ref_dec ref_uuid 1 placed_intent (sess 3 losing_db) =
      (Ok (Rejected [CircuitBreakerTripped 5000 2000]), c)"
    by (rule sample_tripped)
  have "c_today (sess 9 (c_durable c)) = c_today (sess 3 losing_db)" by (simp add: sess_def)
  from breaker_trip_outlives_the_call [OF c, of 5000 2000 "sess 9 (c_durable c)", OF _ _ this] c
  show ?thesis by auto
qed

section \<open>Configuration\<close>







lemma str_bytes_inject: "str_bytes s = str_bytes t \<longleftrightarrow> s = t"
proof -
  have lt: "(of_char c :: nat) < 256" for c
    using mod_less_divisor [of 256 "of_char c :: nat"] by (simp only: of_char_mod_256)
  have "(of_char c :: byte) = of_char d \<longleftrightarrow> c = d" for c d
  proof -
    have "(of_char c :: byte) = of_char d \<longleftrightarrow> (word_of_nat (of_char c) :: byte) = word_of_nat (of_char d)"
      by (simp only: of_nat_of_char)
    also have "\<dots> \<longleftrightarrow> c = d" using lt by (simp add: word_of_nat_byte_inject)
    finally show ?thesis .
  qed
  then have "inj (of_char :: char \<Rightarrow> byte)" by (simp add: inj_def)
  then show ?thesis by (simp add: str_bytes_def inj_map_eq_map)
qed

text \<open>
  What a stored ciphertext \<open>stored\<close> is after a request that gave \<open>given\<close> where \<open>old\<close> was stored: without
  a new credential the old ciphertext; else one that decrypts, under the configured key and with the
  account as associated data, to the bytes of the credential, and for no other account's identifier.
\<close>

definition credential_stored ::
    "aead \<Rightarrow> uuid_ops \<Rightarrow> string option \<Rightarrow> uuid \<Rightarrow> string option \<Rightarrow> byte list option \<Rightarrow> byte list option \<Rightarrow> bool" where
  "credential_stored A U env a given old stored \<longleftrightarrow>
     (case given of
        None \<Rightarrow> stored = old
      | Some s \<Rightarrow> \<exists>key ct. encryption_key env = Ok key \<and> stored = Some ct \<and>
          decrypt A key ct (str_bytes (uuid_str U a)) = Ok (str_bytes s) \<and>
          (\<forall>b. b \<noteq> a \<longrightarrow> \<not> is_ok (decrypt A key ct (str_bytes (uuid_str U b)))))"

lemma credential_stored_encrypt_opt:
  assumes laws: "aead_laws A" "uuid_laws U" and n: "length n = NONCE_LEN"
    and key: "given \<noteq> None \<Longrightarrow> encryption_key env = Ok key"
    and enc: "encrypt_opt A n key (str_bytes (uuid_str U a)) given = Ok blob"
  shows "credential_stored A U env a given old (coalesce blob old)"
proof (cases given)
  case None
  with enc show ?thesis by (simp add: encrypt_opt_def credential_stored_def coalesce_def)
next
  case (Some s)
  with enc obtain ct where ct: "blob = Some ct"
      "encrypt A key (str_bytes s) (str_bytes (uuid_str U a)) n = Ok ct"
    by (auto simp: encrypt_opt_def encrypt_fresh_def res_simps)
  have d: "decrypt A key ct (str_bytes (uuid_str U a)) = Ok (str_bytes s)"
    by (rule decrypt_encrypt(1) [OF laws(1) n ct(2)])
  have "\<not> is_ok (decrypt A key ct (str_bytes (uuid_str U b)))" if "b \<noteq> a" for b
    using decrypt_encrypt(2) [OF laws(1) n ct(2), of "str_bytes (uuid_str U b)"] that
    by (auto simp: str_bytes_inject uuid_str_inject [OF laws(2)])
  with Some key ct(1) d show ?thesis by (auto simp: credential_stored_def coalesce_def)
qed

lemma credentials_encrypted:
  assumes laws: "aead_laws A" "uuid_laws U" and n: "length n1 = NONCE_LEN" "length n2 = NONCE_LEN"
    and enc: "encrypt_credentials A U env n1 n2 a body = Ok (kc, sc)"
  shows "credential_stored A U env a (px_api_key body) ko (coalesce kc ko) \<and>
    credential_stored A U env a (px_api_secret body) so (coalesce sc so)"
proof (cases "px_api_key body = None \<and> px_api_secret body = None")
  case True
  with enc show ?thesis by (auto simp: encrypt_credentials_def credential_stored_def coalesce_def)
next
  case False
  with enc obtain key where "encryption_key env = Ok key"
      "encrypt_opt A n1 key (str_bytes (uuid_str U a)) (px_api_key body) = Ok kc"
      "encrypt_opt A n2 key (str_bytes (uuid_str U a)) (px_api_secret body) = Ok sc"
    by (auto simp: encrypt_credentials_def res_simps Let_def split: if_splits)
  then show ?thesis
    by (intro conjI credential_stored_encrypt_opt [OF laws n(1)] credential_stored_encrypt_opt [OF laws n(2)])
qed

text \<open>
  C26: An accepted configuration request stores the credentials it gave and keeps those it did not
  give: the API key and the secret of the request are stored as ciphertexts that decrypt, under the
  configured key and with the account as associated data, to the bytes that were given, and for no other
  account's identifier; a credential the request left out keeps the ciphertext that was stored before.
\<close>

theorem stored_credentials_decrypt:
  assumes "aead_laws A" "uuid_laws U" "put_exchange_config A U env n1 n2 a body c = (Ok v, c')"
    "length n1 = NONCE_LEN" "length n2 = NONCE_LEN"
  shows "\<exists>row. find_exchange_config a (App (Some a)) (c_durable c') = Some row \<and>
    credential_stored A U env a (px_api_key body)
      (Option.bind (find_exchange_config a (App (Some a)) (c_durable c)) ec_api_key_ciphertext) (ec_api_key_ciphertext row) \<and>
    credential_stored A U env a (px_api_secret body)
      (Option.bind (find_exchange_config a (App (Some a)) (c_durable c)) ec_api_secret_ciphertext) (ec_api_secret_ciphertext row)"
proof (rule put_exchange_config_Ok [OF assms(3)])
  fix kc sc row
  assume enc: "encrypt_credentials A U env n1 n2 a body = Ok (kc, sc)"
    and row: "find_exchange_config a (App (Some a)) (c_durable c') = Some row"
      "config_stored body kc sc (find_exchange_config a (App (Some a)) (c_durable c)) row"
  show ?thesis
    using row credentials_encrypted [OF assms(1,2,4,5) enc] by (simp add: config_stored_def)
qed

definition config_body :: "string \<Rightarrow> i32 \<Rightarrow> put_exchange_config_body" where
  "config_body mode v = \<lparr>px_mode = mode, px_testnet = True, px_api_key = Some ''k'', px_api_secret = None,
     px_version = v\<rparr>"

definition sample_key :: "string option" where
  "sample_key = Some (hex_encode (replicate 32 0))"

lemma sample_key_read: "encryption_key sample_key = Ok (replicate 32 0)"
  by (simp add: encryption_key_def sample_key_def hex_decode_encode res_simps)

lemma sample_encrypted:
  obtains kc sc where
    "encrypt_credentials toy_aead ref_uuid sample_key (replicate 12 0) (replicate 12 0) 1 (config_body mode v) = Ok (kc, sc)"
proof -
  have "show_nat (unat (1 :: uuid)) = ''1''" by code_simp
  then show thesis
    by (auto intro!: that simp: encrypt_credentials_def config_body_def sample_key_read res_simps encrypt_opt_def
        encrypt_fresh_def encrypt_def toy_aead_def ref_uuid_def str_bytes_def)
qed

lemma sample_config_put:
  obtains v c where "put_exchange_config toy_aead ref_uuid sample_key (replicate 12 0) (replicate 12 0) 1
      (config_body ''paper'' 0) (sess 3 db1) = (Ok v, c)"
proof -
  obtain kc sc where "encrypt_credentials toy_aead ref_uuid sample_key (replicate 12 0) (replicate 12 0) 1
      (config_body ''paper'' 0) = Ok (kc, sc)"
    by (rule sample_encrypted)
  then show thesis
    by (auto intro!: that simp: run_defs put_exchange_config_def config_body_def sess_def db1_def empty_db_def
        statement_defs row_defs config_guard_def sql_insert_exchange_config_def mode_check_def
        config_event_type_def risk_event_types_def Let_def res_simps split: if_splits)
qed

theorem stored_credentials_decrypt_witness:
  "\<exists>v c row ct. put_exchange_config toy_aead ref_uuid sample_key (replicate 12 0) (replicate 12 0) 1
      (config_body ''paper'' 0) (sess 3 db1) = (Ok v, c) \<and>
    find_exchange_config 1 (App (Some 1)) (c_durable c) = Some row \<and> ec_api_key_ciphertext row = Some ct \<and>
    decrypt toy_aead (replicate 32 0) ct (str_bytes (uuid_str ref_uuid 1)) = Ok (str_bytes ''k'') \<and>
    ec_api_secret_ciphertext row = None"
proof -
  obtain v c where p: "put_exchange_config toy_aead ref_uuid sample_key (replicate 12 0) (replicate 12 0) 1
      (config_body ''paper'' 0) (sess 3 db1) = (Ok v, c)"
    by (rule sample_config_put)
  have "find_exchange_config 1 (App (Some 1)) (c_durable (sess 3 db1)) = None"
    by (simp add: sess_def db1_def empty_db_def find_exchange_config_def first_row_def)
  with stored_credentials_decrypt [OF toy_aead_laws ref_uuid_laws p] p
  show ?thesis by (auto simp: sample_key_read config_body_def NONCE_LEN_def credential_stored_def)
qed

text \<open>
  C23: A configured account switches between paper and live only when it is flat: a configuration request
  that was accepted and changed the stored mode found no open order and no open position of the account,
  and it carried the stored version.
\<close>

theorem mode_switch_needs_flat_account:
  assumes "put_exchange_config A U env n1 n2 a body c = (Ok v, c')"
    "find_exchange_config a (App (Some a)) (c_durable c) = Some x" "ec_mode x \<noteq> px_mode body"
  shows "open_orders a (App (Some a)) (c_durable c) = [] \<and> open_positions a (App (Some a)) (c_durable c) = [] \<and>
    px_version body = ec_version x"
  by (rule put_exchange_config_Ok [OF assms(1)]) (use assms(2,3) in auto)

definition paper_config :: exchange_config_row where
  "paper_config = \<lparr>ec_account_id = 1, ec_mode = ''paper'', ec_testnet = True, ec_api_key_ciphertext = None,
     ec_api_secret_ciphertext = None, ec_version = 1\<rparr>"

lemma sample_switch:
  obtains v c where "put_exchange_config toy_aead ref_uuid sample_key (replicate 12 0) (replicate 12 0) 1
      (config_body ''live'' 1) (sess 3 (db1\<lparr>t_exchange_configs := [paper_config]\<rparr>)) = (Ok v, c)"
proof -
  obtain kc sc where "encrypt_credentials toy_aead ref_uuid sample_key (replicate 12 0) (replicate 12 0) 1
      (config_body ''live'' 1) = Ok (kc, sc)"
    by (rule sample_encrypted)
  then show thesis
    by (auto intro!: that simp: run_defs put_exchange_config_def config_body_def sess_def db1_def empty_db_def
        statement_defs row_defs config_guard_def sql_update_exchange_config_def mode_check_def paper_config_def
        has_open_activity_def open_orders_def open_positions_def mode_switch_trigger_def
        config_event_type_def risk_event_types_def Let_def res_simps split: if_splits)
qed

theorem mode_switch_needs_flat_account_witness:
  "open_orders 1 (App (Some 1)) (db1\<lparr>t_exchange_configs := [paper_config]\<rparr>) = []"
proof -
  obtain v c where p: "put_exchange_config toy_aead ref_uuid sample_key (replicate 12 0) (replicate 12 0) 1
      (config_body ''live'' 1) (sess 3 (db1\<lparr>t_exchange_configs := [paper_config]\<rparr>)) = (Ok v, c)"
    by (rule sample_switch)
  have "find_exchange_config 1 (App (Some 1)) (db1\<lparr>t_exchange_configs := [paper_config]\<rparr>) = Some paper_config"
    by (simp add: find_exchange_config_def first_row_def paper_config_def)
  with mode_switch_needs_flat_account [OF p, of paper_config] show ?thesis
    by (simp add: paper_config_def config_body_def)
qed


section \<open>The audit log\<close>

text \<open>
  C39: A page of the audit log holds at most its limit of the account's own events before the cursor,
  newest first; an event it leaves out is not newer than any it holds, and then the page is full. So
  paging by cursor misses nothing. Reading changes nothing.
\<close>

theorem audit_pages_miss_nothing:
  assumes "list_risk_events a q c = (Ok vs, c')"
  shows "c_durable c' = c_durable c \<and> length vs \<le> page_limit (eq_limit q) \<and>
    sorted_wrt (\<lambda>v w. ew_id w \<le> ew_id v) vs \<and>
    (\<forall>v\<in>set vs. \<exists>e\<in>set (t_risk_events (c_durable c)). on_page a (eq_before q) e \<and> v = risk_event_to_view e) \<and>
    (\<forall>e\<in>set (t_risk_events (c_durable c)). on_page a (eq_before q) e \<and> risk_event_to_view e \<notin> set vs \<longrightarrow>
       length vs = page_limit (eq_limit q) \<and> (\<forall>v\<in>set vs. ev_id e \<le> ew_id v))"
proof -
  let ?n = "page_limit (eq_limit q)"
  let ?xs = "filter (on_page a (eq_before q)) (t_risk_events (c_durable c))"
  let ?page = "take ?n (rev (sort_key ev_id ?xs))"
  have vs: "c_durable c' = c_durable c" "vs = map risk_event_to_view ?page"
    using list_risk_events_Ok [OF assms] by simp_all
  have key [simp]: "ew_id (risk_event_to_view e) = ev_id e" for e by (simp add: risk_event_to_view_def)
  have sorted: "sorted_wrt (\<lambda>v w. ew_id w \<le> ew_id v) vs"
    using page_sorted [of ev_id ?n ?xs] by (simp add: vs(2) sorted_wrt_map)
  have own: "\<exists>e\<in>set (t_risk_events (c_durable c)). on_page a (eq_before q) e \<and> v = risk_event_to_view e"
    if "v \<in> set vs" for v
    using that by (auto simp: vs(2) dest!: in_set_takeD)
  have rest: "length vs = ?n \<and> (\<forall>v\<in>set vs. ev_id e \<le> ew_id v)"
    if "e \<in> set (t_risk_events (c_durable c))" "on_page a (eq_before q) e" "risk_event_to_view e \<notin> set vs" for e
  proof -
    have "e \<in> set ?xs" "e \<notin> set ?page" using that vs(2) by auto
    from page_newest_first [OF this] show ?thesis unfolding vs(2) by simp
  qed
  have "length vs \<le> ?n" by (simp add: vs(2))
  with vs(1) sorted own rest show ?thesis by blast
qed

lemma sample_page:
  obtains c where "list_risk_events 1 \<lparr>eq_limit = Some 1, eq_before = None\<rparr> (sess 9 db5) =
    (Ok [risk_event_to_view (ev_row 8 ''order_filled'' (order_event_payload ref_uuid 3 ''new_status'' ''Filled''))], c)"
  by (simp add: run_defs list_risk_events_def select_risk_events_def page_limit_def sess_def db5_def db4_def db3_def
      db2_def db1_def empty_db_def row_defs Let_def insort_key_def)

theorem audit_pages_miss_nothing_witness:
  "\<exists>vs c. list_risk_events 1 \<lparr>eq_limit = Some 1, eq_before = None\<rparr> (sess 9 db5) = (Ok vs, c) \<and>
     length vs = 1 \<and> (\<forall>e\<in>set (t_risk_events db5). \<forall>v\<in>set vs. ev_id e \<le> ew_id v)"
proof -
  let ?v = "risk_event_to_view (ev_row 8 ''order_filled'' (order_event_payload ref_uuid 3 ''new_status'' ''Filled''))"
  obtain c where c: "list_risk_events 1 \<lparr>eq_limit = Some 1, eq_before = None\<rparr> (sess 9 db5) = (Ok [?v], c)"
    by (rule sample_page)
  from audit_pages_miss_nothing [OF c]
  have "\<forall>e\<in>set (t_risk_events db5). on_page 1 None e \<and> risk_event_to_view e \<noteq> ?v \<longrightarrow> ev_id e \<le> ew_id ?v"
    by simp
  moreover have "\<forall>e\<in>set (t_risk_events db5). on_page 1 None e"
    by (simp add: on_page_def db5_def db4_def db3_def db2_def db1_def empty_db_def ev_row_def)
  moreover have "ev_id e = ew_id ?v" if "risk_event_to_view e = ?v" for e
    using that by (metis risk_event_to_view_def risk_event_view.select_convs(1))
  ultimately have "\<forall>e\<in>set (t_risk_events db5). ev_id e \<le> ew_id ?v" by (metis order_refl)
  with c show ?thesis by (intro exI [of _ "[?v]"] exI [of _ c]) simp
qed

end
