(* ===== verification/Claim_Effects.thy ===== *)
theory Claim_Effects
  imports System_Books
begin

text \<open>
  The worker's statements on the outbox: what a claim returns and leaves behind, what a requeue does,
  and the end of a command for which no adapter is configured.
\<close>

lemma auto_stmt_Ok:
  assumes "auto_stmt r q c = (Ok x, c')"
  shows "q r (c_durable c) = Ok (x, c_durable c')"
  using assms unfolding auto_stmt_def by (elim io_Ok) (auto split: res.splits)

section \<open>Claims\<close>

definition leased_until :: "nat \<Rightarrow> command_row \<Rightarrow> command_row" where
  "leased_until t x = x\<lparr>cm_status := ''leased'', cm_leased_until := Some t\<rparr>"

lemma claim_Ok:
  assumes "claim_pending_commands n secs c = (Ok cs, c')"
  defines "rows \<equiv> t_exchange_commands (c_durable c)"
  defines "ids \<equiv> claim_ids (c_now c) n rows"
  shows "cs = map row_to_claimed (filter (\<lambda>x. cm_id x \<in> set ids) rows)"
    "c_durable c' = (c_durable c)\<lparr>t_exchange_commands :=
       update_where (\<lambda>x. cm_id x \<in> set ids) (leased_until (c_now c + secs)) rows\<rparr>"
proof -
  from assms(1) obtain ls where
    a: "auto_stmt Owner (sql_claim_pending_commands (c_now c) n secs) c = (Ok ls, c')" and cs: "cs = map row_to_claimed ls"
    by (auto simp: claim_pending_commands_def tx_ok)
  have "row_to_claimed (leased_until t x) = row_to_claimed x" for t x
    by (simp add: row_to_claimed_def leased_until_def)
  with auto_stmt_Ok [OF a] cs show "cs = map row_to_claimed (filter (\<lambda>x. cm_id x \<in> set ids) rows)"
    "c_durable c' = (c_durable c)\<lparr>t_exchange_commands :=
       update_where (\<lambda>x. cm_id x \<in> set ids) (leased_until (c_now c + secs)) rows\<rparr>"
    by (auto simp: sql_claim_pending_commands_def Let_def ids_def rows_def leased_until_def [abs_def])
qed

text \<open>The rows a claim chooses: claimable, at most the limit, the oldest first.\<close>

lemma chosen_rows:
  assumes "distinct (map cm_id rows)" "x \<in> set rows"
  shows "cm_id x \<in> set (claim_ids now n rows) \<longleftrightarrow>
    x \<in> set (take n (sort_key cm_created_at (filter (claimable now) rows)))"
proof
  assume "cm_id x \<in> set (claim_ids now n rows)"
  then obtain y where y: "y \<in> set (take n (sort_key cm_created_at (filter (claimable now) rows)))" "cm_id y = cm_id x"
    by (auto simp: claim_ids_def)
  then have "y \<in> set rows" by (auto dest: in_set_takeD)
  with y assms show "x \<in> set (take n (sort_key cm_created_at (filter (claimable now) rows)))"
    by (auto simp: distinct_map dest: inj_onD)
qed (auto simp: claim_ids_def)

lemma claim_limit:
  assumes "distinct (map cm_id rows)"
  shows "length (filter (\<lambda>x. cm_id x \<in> set (claim_ids now n rows)) rows) \<le> n"
proof -
  let ?f = "filter (\<lambda>x. cm_id x \<in> set (claim_ids now n rows)) rows"
  have "length ?f = card (cm_id ` set ?f)"
    using distinct_card [of "map cm_id ?f"] assms by (simp add: distinct_map_filter)
  also have "\<dots> \<le> card (set (claim_ids now n rows))" by (intro card_mono) auto
  also have "\<dots> \<le> length (claim_ids now n rows)" by (rule card_length)
  finally show ?thesis by (simp add: claim_ids_def)
qed

lemma claim_oldest:
  assumes "x \<in> set (take n (sort_key k xs))" "y \<in> set xs" "y \<notin> set (take n (sort_key k xs))"
  shows "k x \<le> k y"
proof -
  let ?s = "sort_key k xs"
  have "y \<in> set (take n ?s @ drop n ?s)" using assms(2) by simp
  then have "y \<in> set (drop n ?s)" using assms(3) unfolding set_append by blast
  moreover have "sorted (map k (take n ?s) @ map k (drop n ?s))"
    by (metis append_take_drop_id map_append sorted_sort_key)
  ultimately show ?thesis using assms(1) by (auto simp: sorted_append)
qed

lemma claim_all:
  assumes "length (filter (claimable now) rows) \<le> n" "x \<in> set rows" "claimable now x"
  shows "cm_id x \<in> set (claim_ids now n rows)"
  using assms by (auto simp: claim_ids_def)

lemma claim_ids_claimable:
  "i \<in> set (claim_ids now n rows) \<Longrightarrow> \<exists>y\<in>set rows. claimable now y \<and> cm_id y = i"
  by (auto simp: claim_ids_def dest!: in_set_takeD)

text \<open>What one worker holds, no other worker gets before the lease has run out.\<close>

lemma claims_disjoint:
  assumes "claim_pending_commands n secs c = (Ok cs, c1)" "c_durable c2 = c_durable c1"
    "c_now c2 \<le> c_now c + secs" "claim_pending_commands m secs' c2 = (Ok cs', c3)"
  shows "cc_id ` set cs \<inter> cc_id ` set cs' = {}"
proof -
  let ?rows = "t_exchange_commands (c_durable c)"
  let ?ids = "claim_ids (c_now c) n ?rows"
  let ?rows' = "update_where (\<lambda>x. cm_id x \<in> set ?ids) (leased_until (c_now c + secs)) ?rows"
  have rows': "t_exchange_commands (c_durable c2) = ?rows'"
    using claim_Ok(2) [OF assms(1)] assms(2) by simp
  have "cc_id ` set cs \<subseteq> set ?ids"
    using claim_Ok(1) [OF assms(1)] by (auto simp: row_to_claimed_def)
  moreover have "cc_id ` set cs' \<subseteq> set (claim_ids (c_now c2) m ?rows')"
    using claim_Ok(1) [OF assms(4)] by (auto simp: row_to_claimed_def rows')
  moreover have "\<not> claimable (c_now c2) y" if "y \<in> set ?rows'" "cm_id y \<in> set ?ids" for y
    using that assms(3) by (auto simp: set_update_where leased_until_def claimable_def)
  then have "set ?ids \<inter> set (claim_ids (c_now c2) m ?rows') = {}"
    using claim_ids_claimable by fastforce
  ultimately show ?thesis by blast
qed

section \<open>Requeueing\<close>

lemma checked_update_elem:
  assumes "checked_update p f ok rs = Ok rs'" "x \<in> set rs'"
  shows "\<exists>y\<in>set rs. (p y \<and> f y = Some x \<and> ok x) \<or> (\<not> p y \<and> x = y)"
proof -
  from assms obtain y where y: "y \<in> set rs" "x = (if p y then the (f y) else y)"
    by (auto simp: checked_update_Ok set_update_where)
  moreover have "p y \<longrightarrow> (\<exists>r'. f y = Some r' \<and> ok r')"
    using assms(1) y(1) by (simp add: checked_update_Ok)
  ultimately show ?thesis by (cases "p y") auto
qed

lemma requeue_Ok:
  assumes "requeue_command cid c = (Ok u, c')" "x \<in> set (t_exchange_commands (c_durable c'))" "cm_id x = cid"
  shows "cm_status x = ''pending'' \<and> cm_leased_until x = None"
proof -
  from auto_stmt_Ok [OF assms(1) [unfolded requeue_command_def]] obtain rows where
    upd: "checked_update (\<lambda>x. cm_id x = cid)
        (\<lambda>x. if sint (cm_attempts x) < 2 ^ 31 - 1
              then Some (x\<lparr>cm_status := ''pending'', cm_leased_until := None,
                          cm_attempts := cm_attempts x + 1\<rparr>)
              else None) command_check (t_exchange_commands (c_durable c)) = Ok rows"
    and d': "c_durable c' = (c_durable c)\<lparr>t_exchange_commands := rows\<rparr>"
    by (auto simp: sql_requeue_command_def res_simps)
  from assms(2) d' have "x \<in> set rows" by simp
  from checked_update_elem [OF upd this] assms(3) obtain y where
    "(if sint (cm_attempts y) < 2 ^ 31 - 1
      then Some (y\<lparr>cm_status := ''pending'', cm_leased_until := None, cm_attempts := cm_attempts y + 1\<rparr>)
      else None) = Some x"
    by blast
  then have "x = y\<lparr>cm_status := ''pending'', cm_leased_until := None, cm_attempts := cm_attempts y + 1\<rparr>"
    by (simp only: option.inject option.distinct split: if_splits)
  then show ?thesis by simp
qed


section \<open>Commands without an adapter\<close>

lemma audit_same_commands: "durable_inv (\<lambda>d. t_exchange_commands d = cms) (audit_event a ty pl)"
proof -
  have "keeps r (\<lambda>d. t_exchange_commands d = cms) (sql_insert_risk_event ev)" for r ev
    by (rule keepsI) (auto simp: sql_insert_risk_event_def res_simps)
  then show ?thesis
    unfolding audit_event_def insert_risk_event_def
    by (intro durable_inv_tenant tx_inv_intros tx_inv_stmt)
qed

lemma set_status_where:
  "cm \<in> set (update_where (\<lambda>x. cm_id x = cid) (\<lambda>x. x\<lparr>cm_status := st\<rparr>) rows) \<Longrightarrow> cm_id cm = cid \<Longrightarrow> cm_status cm = st"
  unfolding update_where_def set_map by (erule imageE) (simp split: if_splits)

lemma mark_without_faults:
  assumes "c_faults c = []"
  obtains c1 where "mark_command_reconciliation_required cid c = (Ok (), c1)"
    "t_exchange_commands (c_durable c1) = update_where (\<lambda>x. cm_id x = cid)
       (\<lambda>x. x\<lparr>cm_status := ''reconciliation_required''\<rparr>) (t_exchange_commands (c_durable c))"
  using assms
  by (simp add: mark_command_reconciliation_required_def auto_stmt_def io_def sql_set_command_status_def)

lemma unrouted_command:
  assumes "resolve sv (cc_exchange_mode cmd) = None" "process_command D J U sv cmd c = (z, c')"
  shows "same_trading (c_durable c) (c_durable c') \<and>
    (c_faults c = [] \<longrightarrow> (\<forall>cm\<in>set (t_exchange_commands (c_durable c')). cm_id cm = cc_id cmd \<longrightarrow>
       cm_status cm = ''reconciliation_required''))"
proof
  let ?audit = "audit_event (cc_account_id cmd) ''exchange_reconciliation_required''
      (JObj [(''command_id'', JStr (uuid_str U (cc_id cmd))),
             (''reason'', JStr ''no adapter configured for resolved exchange_mode'')])"
  have run: "tx_bind acquire (\<lambda>_. tx_bind (tx_ignore (mark_command_reconciliation_required (cc_id cmd)))
      (\<lambda>_. ?audit)) c = (z, c')"
    using assms by (simp add: process_command_def)
  have "durable_inv (same_trading (c_durable c)) (tx_bind acquire (\<lambda>_.
      tx_bind (tx_ignore (mark_command_reconciliation_required (cc_id cmd))) (\<lambda>_. ?audit)))"
    unfolding acquire_def
    by (intro durable_intros durable_inv_io audit_same_trading marks_same_trading(1) [of "mark_command_reconciliation_required (cc_id cmd)" "cc_id cmd"])
      (simp_all add: durable_inv_def)
  with run show "same_trading (c_durable c) (c_durable c')"
    unfolding durable_inv_iff by auto
  show "c_faults c = [] \<longrightarrow> (\<forall>cm\<in>set (t_exchange_commands (c_durable c')). cm_id cm = cc_id cmd \<longrightarrow>
      cm_status cm = ''reconciliation_required'')"
  proof
    assume none: "c_faults c = []"
    obtain c1 where c1: "mark_command_reconciliation_required (cc_id cmd) c = (Ok (), c1)"
      "\<forall>cm\<in>set (t_exchange_commands (c_durable c1)). cm_id cm = cc_id cmd \<longrightarrow> cm_status cm = ''reconciliation_required''"
    proof (rule mark_without_faults [OF none])
      fix c1
      assume m: "mark_command_reconciliation_required (cc_id cmd) c = (Ok (), c1)"
        and rows: "t_exchange_commands (c_durable c1) = update_where (\<lambda>x. cm_id x = cc_id cmd)
           (\<lambda>x. x\<lparr>cm_status := ''reconciliation_required''\<rparr>) (t_exchange_commands (c_durable c))"
      show thesis
        by (rule that [OF m]) (unfold rows, intro ballI impI, rule set_status_where)
    qed
    have "?audit c1 = (z, c')"
      using run c1(1) none by (simp add: tx_bind_def tx_handle_def acquire_def io_def tx_ignore_def tx_return_def)
    then have "t_exchange_commands (c_durable c') = t_exchange_commands (c_durable c1)"
      using audit_same_commands unfolding durable_inv_iff by auto
    with c1(2) show "\<forall>cm\<in>set (t_exchange_commands (c_durable c')). cm_id cm = cc_id cmd \<longrightarrow>
        cm_status cm = ''reconciliation_required''" by simp
  qed
qed

section \<open>Closing a position\<close>

lemma closing_delta_stuck:
  assumes D: "decimal_laws D" and ok: "positions_ok rs" and net: "net_position a s rs \<noteq> 0"
    "\<bar>net_position a s rs\<bar> < grid_bound"
  shows "\<not> position_moved D a s (- net_position a s rs) price rs rs'"
proof
  assume "position_moved D a s (- net_position a s rs) price rs rs'"
  then consider "position_opened a s (- net_position a s rs) rs rs'"
    | "position_adjusted D a s (- net_position a s rs) price rs rs'"
    using net(1) unfolding position_moved_def by auto
  then show False
  proof cases
    case 1
    then show False using net(1) net_position_none by (simp add: position_opened_def)
  next
    case 2
    then obtain row ns where row: "row \<in> set rs" "holds a s row" "ns \<noteq> 0"
        "dadd D (signed_quantity row) (- net_position a s rs) = Some ns"
      unfolding position_adjusted_def by auto
    have eq: "net_position a s rs = signed_quantity row" using ok row(1,2) by (rule net_position_single)
    have "on_grid (signed_quantity row)" using ok row(1) by (auto simp: positions_ok_def signed_quantity_def)
    then have "is_dec (signed_quantity row)" "is_dec (- signed_quantity row)"
      using net(2) eq by (auto intro!: on_grid_is_dec)
    then have "ns = 0"
      using row(4) decimal_lawsD(1) [OF D, of "signed_quantity row" "- signed_quantity row"] eq by (simp add: is_dec_0)
    with row(3) show False by simp
  qed
qed

end
