(* ===== verification/Settling.thy ===== *)
theory Settling
  imports Claim_Effects
begin

text \<open>
  No command stays leased: where the database answers, a command that the worker has processed is
  delivered, rejected, waiting for reconciliation, or pending again.
\<close>

section \<open>Sessions without faults stay without faults\<close>

definition calm :: "('e, 'a) tx_res \<Rightarrow> bool" where
  "calm m \<longleftrightarrow> (\<forall>c z c'. m c = (z, c') \<longrightarrow> c_faults c = [] \<longrightarrow> c_faults c' = [])"

named_theorems calm_intros \<open>fragments that draw no faults of their own\<close>

lemma calm_basic [calm_intros]:
  "calm (tx_return x)" "calm (tx_fail e)" "calm (tx_lift v)" "calm fresh_id" "calm get_now" "calm get_today"
  by (simp_all add: calm_def tx_return_def tx_fail_def tx_lift_def fresh_id_def get_now_def get_today_def)

lemma calm_handle:
  "calm m \<Longrightarrow> (\<And>x. calm (f x)) \<Longrightarrow> (\<And>e. calm (g e)) \<Longrightarrow> calm (tx_handle m f g)"
  unfolding calm_def by (auto simp: tx_handle_eq)

lemma calm_bind [calm_intros]: "calm m \<Longrightarrow> (\<And>x. calm (f x)) \<Longrightarrow> calm (tx_bind m f)"
  unfolding tx_bind_def by (intro calm_handle calm_intros)

lemma calm_wrapped [calm_intros]:
  "calm m \<Longrightarrow> calm (tx_map_err h m)" "calm m \<Longrightarrow> calm (tx_ignore m)"
  "calm m \<Longrightarrow> (\<And>x. calm (k x)) \<Longrightarrow> calm (tx_if_ok m k)"
  unfolding tx_map_err_def tx_ignore_def tx_if_ok_def by (intro calm_handle calm_intros; assumption)+

lemma calm_cases [calm_intros]:
  "(b \<Longrightarrow> calm m) \<Longrightarrow> (\<not> b \<Longrightarrow> calm n) \<Longrightarrow> calm (if b then m else n)"
  "(y = None \<Longrightarrow> calm m) \<Longrightarrow> (\<And>x. y = Some x \<Longrightarrow> calm (f x)) \<Longrightarrow> calm (case y of None \<Rightarrow> m | Some x \<Rightarrow> f x)"
  "(ch = ClosePosition \<Longrightarrow> calm m) \<Longrightarrow> (\<And>sd q p. ch = SetPosition sd q p \<Longrightarrow> calm (g sd q p)) \<Longrightarrow>
   calm (case ch of ClosePosition \<Rightarrow> m | SetPosition sd q p \<Rightarrow> g sd q p)"
  "(\<And>x. calm (f x)) \<Longrightarrow> calm (let x = a in f x)"
  by (simp_all split: option.split position_outcome.split)

lemma calm_each [calm_intros]: "(\<And>x. calm (f x)) \<Longrightarrow> calm (tx_each f xs)"
  by (induction xs) (auto intro: calm_intros)

lemma calm_io:
  "(\<And>c z c'. m c = (z, c') \<Longrightarrow> c_faults c = [] \<Longrightarrow> c_faults c' = []) \<Longrightarrow> calm (io m)"
  by (auto simp: calm_def io_def)

lemma calm_trips [calm_intros]:
  "calm (stmt q)" "calm (begin_tx r)" "calm commit_tx" "calm (auto_stmt r q)" "calm (set_tenant a)" "calm acquire"
  unfolding stmt_def begin_tx_def commit_tx_def auto_stmt_def set_tenant_def acquire_def
  by (intro calm_io; force split: if_splits res.splits)+

lemma calm_insert_fills [calm_intros]: "calm (insert_fills a oid fs)"
  by (induction fs) (auto simp: insert_fill_def intro!: calm_intros)

lemma calm_dispatch [calm_intros]: "calm (dispatch D J U ad cmd)"
  unfolding dispatch_def hydrate_snapshot_def persist_reconcile_result_def persist_checked_def persist_fills_def
    persist_changes_def persist_deltas_def persist_status_def persist_events_def finish_submit_def finish_cancel_def
    tenant_tx_def lock_order_def load_fills_for_order_def update_order_status_def insert_exchange_command_def
    insert_risk_event_def apply_position_delta_def
  by (intro calm_intros)

section \<open>The states a processed command may be in\<close>

definition settled_states :: "string list" where
  "settled_states = [''pending'', ''delivered'', ''permanently_rejected'', ''reconciliation_required'']"

definition command_settled :: "uuid \<Rightarrow> db \<Rightarrow> bool" where
  "command_settled i d \<longleftrightarrow>
     (\<forall>x\<in>set (t_exchange_commands d). cm_id x = i \<longrightarrow> cm_status x \<in> set settled_states)"

text \<open>The attempts of a command stay within what \<open>integer\<close> can count further.\<close>

definition attempts_left :: "uuid \<Rightarrow> db \<Rightarrow> bool" where
  "attempts_left i d \<longleftrightarrow>
     (\<forall>x\<in>set (t_exchange_commands d). cm_id x = i \<longrightarrow> sint (cm_attempts x) < 2 ^ 31 - 1)"

lemma command_settled_same: "t_exchange_commands d' = t_exchange_commands d \<Longrightarrow> command_settled i d \<Longrightarrow> command_settled i d'"
  by (simp add: command_settled_def)

lemma attempts_left_same: "t_exchange_commands d' = t_exchange_commands d \<Longrightarrow> attempts_left i d \<Longrightarrow> attempts_left i d'"
  by (simp add: attempts_left_def)

interpretation settling: worker_invariant "command_settled i" t
  by unfold_locales
    (rule keepsI; auto simp: sql_defs res_simps command_settled_def settled_states_def Let_def split: if_splits option.splits prod.splits)+

interpretation counting: worker_invariant "attempts_left i" t
  by unfold_locales
    (rule keepsI; auto simp: sql_defs res_simps attempts_left_def Let_def split: if_splits option.splits prod.splits)+

section \<open>Processing settles\<close>

lemma mark_settles:
  assumes "c_faults c = []" "st \<in> set settled_states"
  obtains c1 where "auto_stmt Owner (sql_set_command_status st cid) c = (Ok (), c1)" "command_settled cid (c_durable c1)"
proof -
  obtain c1 where c1: "auto_stmt Owner (sql_set_command_status st cid) c = (Ok (), c1)"
    and rows: "t_exchange_commands (c_durable c1) =
      update_where (\<lambda>x. cm_id x = cid) (\<lambda>x. x\<lparr>cm_status := st\<rparr>) (t_exchange_commands (c_durable c))"
    using assms(1) by (simp add: auto_stmt_def io_def sql_set_command_status_def)
  have "cm_status x \<in> set settled_states"
    if "x \<in> set (t_exchange_commands (c_durable c1))" "cm_id x = cid" for x
    using set_status_where [OF that(1) [unfolded rows] that(2)] assms(2) by simp
  with c1 show thesis by (intro that) (auto simp: command_settled_def)
qed


lemma requeue_settles:
  assumes "c_faults c = []" "attempts_left cid (c_durable c)" "commands_ok (t_exchange_commands (c_durable c))"
  obtains c1 where "requeue_command cid c = (Ok (), c1)" "command_settled cid (c_durable c1)"
proof -
  let ?f = "\<lambda>x. if sint (cm_attempts x) < 2 ^ 31 - 1
      then Some (x\<lparr>cm_status := ''pending'', cm_leased_until := None, cm_attempts := cm_attempts x + 1\<rparr>) else None"
  have "?f x = Some (the (?f x)) \<and> command_check (the (?f x))"
    if "x \<in> set (t_exchange_commands (c_durable c))" "cm_id x = cid" for x
    using that assms(2,3) by (auto simp: attempts_left_def commands_ok_def command_check_def)
  then obtain rows where "checked_update (\<lambda>x. cm_id x = cid) ?f command_check (t_exchange_commands (c_durable c)) = Ok rows"
    unfolding checked_update_Ok by auto
  then have "\<exists>c1. requeue_command cid c = (Ok (), c1)"
    using assms(1) by (auto simp: requeue_command_def auto_stmt_def io_def sql_requeue_command_def)
  then obtain c1 where c1: "requeue_command cid c = (Ok (), c1)" ..
  have "cm_status x \<in> set settled_states" if "x \<in> set (t_exchange_commands (c_durable c1))" "cm_id x = cid" for x
    using requeue_Ok [OF c1 that] by (simp add: settled_states_def)
  with c1 show thesis by (intro that) (auto simp: command_settled_def)
qed

text \<open>What follows the mark leaves the command as it is.\<close>

lemma after_mark_settled:
  "durable_inv (command_settled i) (audit_event a ty pl)"
  "durable_inv (command_settled i) (reject_order U cmd oid)"
  by (rule settling.audit_event_keeps, rule settling.reject_order_keeps [OF refl])

lemma acquired: "c_faults c = [] \<Longrightarrow> tx_bind acquire (\<lambda>_. m) c = m c"
  by (simp add: tx_bind_def tx_handle_def acquire_def io_def)

lemma ignored: "m c = (Ok x, c1) \<Longrightarrow> tx_bind (tx_ignore m) (\<lambda>_. n) c = n c1"
  by (simp add: tx_bind_def tx_handle_def tx_ignore_def tx_return_def)

lemma settled_then:
  assumes "m c = (Ok x, c1)" "command_settled i (c_durable c1)" "durable_inv (command_settled i) n"
    "tx_bind (tx_ignore m) (\<lambda>_. n) c = (z, c')"
  shows "command_settled i (c_durable c')"
  using assms ignored [of m c x c1 n] unfolding durable_inv_iff by auto

lemma after_dispatch_settles:
  assumes "c_faults c = []" "attempts_left (cc_id cmd) (c_durable c)" "commands_ok (t_exchange_commands (c_durable c))"
    "after_dispatch J U cmd outcome c = (z, c')"
  shows "command_settled (cc_id cmd) (c_durable c')"
proof (cases outcome)
  case Retry
  obtain c1 where "requeue_command (cc_id cmd) c = (Ok (), c1)" "command_settled (cc_id cmd) (c_durable c1)"
    using requeue_settles [OF assms(1-3)] by blast
  with assms(1,4) Retry show ?thesis
    by (auto simp: after_dispatch_def acquired tx_ignore_def tx_handle_def tx_return_def)
next
  case PermanentlyRejected
  obtain c1 where "mark_command_permanently_rejected (cc_id cmd) c = (Ok (), c1)" "command_settled (cc_id cmd) (c_durable c1)"
    unfolding mark_command_permanently_rejected_def
    by (rule mark_settles [OF assms(1), of "''permanently_rejected''" "cc_id cmd"]) (auto simp: settled_states_def)
  note done_then = settled_then [where m = "mark_command_permanently_rejected (cc_id cmd)", OF this]
  from assms(1,4) PermanentlyRejected show ?thesis
    by (intro done_then) (auto simp: after_dispatch_def acquired intro: durable_intros after_mark_settled split: option.split)
next
  case ReconciliationRequired
  obtain c1 where "mark_command_reconciliation_required (cc_id cmd) c = (Ok (), c1)" "command_settled (cc_id cmd) (c_durable c1)"
    unfolding mark_command_reconciliation_required_def
    by (rule mark_settles [OF assms(1), of "''reconciliation_required''" "cc_id cmd"]) (auto simp: settled_states_def)
  from settled_then [where m = "mark_command_reconciliation_required (cc_id cmd)", OF this after_mark_settled(1)]
    assms(1,4) ReconciliationRequired show ?thesis
    by (auto simp: after_dispatch_def acquired)
qed

lemma process_command_settles:
  assumes "c_faults c = []" "attempts_left (cc_id cmd) (c_durable c)" "tables_ok (c_durable c)"
    "process_command D J U sv cmd c = (Ok u, c')"
  shows "command_settled (cc_id cmd) (c_durable c')"
proof (cases "resolve sv (cc_exchange_mode cmd)")
  case None
  have "cm_status x = ''reconciliation_required''"
    if "x \<in> set (t_exchange_commands (c_durable c'))" "cm_id x = cc_id cmd" for x
    using unrouted_command [OF None assms(4)] assms(1) that by blast
  then show ?thesis by (auto simp: command_settled_def settled_states_def)
next
  case (Some ad)
  let ?m = "dispatch D J U ad cmd"
  obtain w c1 where d: "?m c = (w, c1)" by fastforce
  have c1: "c_faults c1 = []" using calm_dispatch d assms(1) unfolding calm_def by blast
  have left: "attempts_left (cc_id cmd) (c_durable c1)"
    using counting.dispatch_keeps [OF refl] d assms(2) unfolding durable_inv_iff by blast
  have "tables_ok (c_durable c1)"
    using worker_invariant.dispatch_keeps [OF constraints.each_tenant refl] d assms(3) unfolding durable_inv_iff by blast
  then have ok: "commands_ok (t_exchange_commands (c_durable c1))" by (simp add: tables_ok_def)
  note run = assms(4) [unfolded process_command_def Some option.case tx_handle_def d prod.case]
  show ?thesis
  proof (cases w)
    case (Ok v)
    obtain c2 where "mark_command_delivered (cc_id cmd) c1 = (Ok (), c2)" "command_settled (cc_id cmd) (c_durable c2)"
      unfolding mark_command_delivered_def
      by (rule mark_settles [OF c1, of "''delivered''" "cc_id cmd"]) (auto simp: settled_states_def)
    with run Ok c1 show ?thesis by (auto simp: acquired tx_ignore_def tx_handle_def tx_return_def)
  next
    case (Err e)
    with run show ?thesis using after_dispatch_settles [OF c1 left ok] by simp
  qed (use run in simp)
qed


section \<open>A whole pass\<close>

lemma calm_outcomes [calm_intros]:
  "calm (requeue_command cid)" "calm (mark_command_permanently_rejected cid)"
  "calm (mark_command_reconciliation_required cid)" "calm (mark_command_delivered cid)"
  "calm (audit_event a ty pl)" "calm (reject_order U cmd oid)"
  unfolding requeue_command_def mark_command_permanently_rejected_def mark_command_reconciliation_required_def
    mark_command_delivered_def audit_event_def reject_order_def tenant_tx_def lock_order_def
    update_order_status_def insert_risk_event_def
  by (intro calm_intros)+

lemma calm_after_dispatch [calm_intros]: "calm (after_dispatch J U cmd outcome)"
  unfolding after_dispatch_def by (cases outcome; simp; intro calm_intros)

lemma calm_process_command: "calm (process_command D J U sv cmd)"
  unfolding process_command_def by (intro calm_intros calm_handle)

interpretation settled_processing: processing_invariant "command_settled i" cid
  by (rule processing_invariant.intro)
    (rule settling.worker_invariant_axioms
      | rule keepsI, auto simp: sql_defs res_simps command_settled_def settled_states_def set_update_where checked_update_Ok split: if_splits)+

lemma counting_processing:
  assumes "i \<noteq> cid"
  shows "processing_invariant (attempts_left i) cid"
  using assms
  by (intro processing_invariant.intro counting.worker_invariant_axioms)
    (rule keepsI, auto simp: sql_defs res_simps attempts_left_def set_update_where checked_update_Ok split: if_splits)+

lemma each_settles:
  assumes "distinct (map cc_id cs)" "c_faults c = []" "tables_ok (c_durable c)"
    "\<forall>cmd\<in>set cs. attempts_left (cc_id cmd) (c_durable c)"
    "tx_each (process_command D J U sv) cs c = (Ok u, c')"
  shows "\<forall>cmd\<in>set cs. command_settled (cc_id cmd) (c_durable c')"
  using assms
proof (induction cs arbitrary: c)
  case Nil
  then show ?case by simp
next
  case (Cons cmd cs)
  let ?p = "process_command D J U sv"
  from Cons.prems(5) obtain v c1 where p: "?p cmd c = (Ok v, c1)" and rest: "tx_each ?p cs c1 = (Ok u, c')"
    by (auto simp: bind_Ok)
  have calm: "c_faults c1 = []" using calm_process_command p Cons.prems(2) unfolding calm_def by blast
  have tables: "tables_ok (c_durable c1)"
    using constraints.processing.process_command_keeps [OF refl] p Cons.prems(3) unfolding durable_inv_iff by blast
  have left: "attempts_left (cc_id d) (c_durable c1)" if "d \<in> set cs" for d
  proof -
    have "cc_id d \<in> cc_id ` set cs" using that by (rule imageI)
    then have "cc_id d \<noteq> cc_id cmd" using Cons.prems(1) by (metis distinct.simps(2) list.set_map list.simps(9))
    from processing_invariant.process_command_keeps [OF counting_processing [OF this] refl] p Cons.prems(4) that
    show ?thesis unfolding durable_inv_iff by auto
  qed
  have "command_settled (cc_id cmd) (c_durable c1)"
    using process_command_settles [OF Cons.prems(2) _ Cons.prems(3) p] Cons.prems(4) by simp
  moreover have "durable_inv (command_settled (cc_id cmd)) (tx_each ?p cs)"
    by (intro durable_inv_each settled_processing.process_command_keeps [OF refl])
  ultimately have "command_settled (cc_id cmd) (c_durable c')"
    using rest unfolding durable_inv_iff by blast
  with Cons.IH [OF _ calm tables _ rest] Cons.prems(1) left show ?case by auto
qed

lemma leased_distinct:
  assumes "distinct (map cm_id rows)"
  shows "distinct (map cc_id (map row_to_claimed (filter p rows)))"
  using assms by (simp add: row_to_claimed_def comp_def distinct_map_filter)

lemma run_once_settled:
  assumes "tables_ok (c_durable c)" "c_faults c = []"
    "\<forall>x\<in>set (t_exchange_commands (c_durable c)). sint (cm_attempts x) < 2 ^ 31 - 1"
    "run_once D J U sv n c = (Ok k, c')" "i \<in> set (claim_ids (c_now c) n (t_exchange_commands (c_durable c)))"
  shows "command_settled i (c_durable c')"
proof -
  let ?rows = "t_exchange_commands (c_durable c)"
  from assms(4) obtain cs c1 u where claim: "claim_pending_commands n 30 c = (Ok cs, c1)"
    and each: "tx_each (process_command D J U sv) cs c1 = (Ok u, c')"
    by (auto simp: run_once_def tx_ok)
  note ok = claim_Ok [OF claim]
  have "calm (claim_pending_commands n 30)" unfolding claim_pending_commands_def by (intro calm_intros)
  then have calm: "c_faults c1 = []" using claim assms(2) unfolding calm_def by blast
  have tables: "tables_ok (c_durable c1)"
    using constraints.claim_keeps claim assms(1) unfolding durable_inv_iff by blast
  have "sint (cm_attempts x) < 2 ^ 31 - 1" if "x \<in> set (t_exchange_commands (c_durable c1))" for x
    using that assms(3) by (auto simp: ok(2) set_update_where leased_until_def)
  then have left: "\<forall>cmd\<in>set cs. attempts_left (cc_id cmd) (c_durable c1)" by (simp add: attempts_left_def)
  have dist: "distinct (map cc_id cs)"
    using assms(1) unfolding ok(1) by (intro leased_distinct) (simp add: tables_ok_def commands_ok_def)
  have "i \<in> cc_id ` set cs"
    using claim_ids_claimable [OF assms(5)] assms(5) by (force simp: ok(1) row_to_claimed_def)
  with each_settles [OF dist calm tables left each] show ?thesis by auto
qed


text \<open>Without faults a pass fails nowhere but in a panic.\<close>

definition sound :: "('e, 'a) tx_res \<Rightarrow> bool" where
  "sound m \<longleftrightarrow> (\<forall>c z c'. m c = (z, c') \<longrightarrow> c_faults c = [] \<longrightarrow> \<not> (\<exists>e. z = Err e))"

named_theorems sound_intros \<open>fragments that do not fail without faults\<close>

lemma sound_basic [sound_intros]: "sound (tx_return x)" "sound (tx_ignore m)"
  by (auto simp: sound_def tx_return_def tx_ignore_def tx_handle_eq)

lemma sound_handle:
  "calm m \<Longrightarrow> (\<And>x. sound (f x)) \<Longrightarrow> (\<And>e. sound (g e)) \<Longrightarrow> sound (tx_handle m f g)"
  unfolding sound_def calm_def by (fastforce simp: tx_handle_eq)

lemma sound_bind [sound_intros]: "sound m \<Longrightarrow> calm m \<Longrightarrow> (\<And>x. sound (f x)) \<Longrightarrow> sound (tx_bind m f)"
  unfolding sound_def calm_def by (fastforce simp: tx_bind_eq)

lemma sound_if_ok [sound_intros]: "calm m \<Longrightarrow> (\<And>x. sound (f x)) \<Longrightarrow> sound (tx_if_ok m f)"
  unfolding tx_if_ok_def by (intro sound_handle sound_intros)

lemma sound_acquire [sound_intros]: "sound acquire"
  by (auto simp: sound_def acquire_def io_def)

lemma sound_cases [sound_intros]:
  "sound m \<Longrightarrow> (\<And>x. sound (f x)) \<Longrightarrow> sound (case y of None \<Rightarrow> m | Some x \<Rightarrow> f x)"
  "sound m \<Longrightarrow> sound k \<Longrightarrow> sound (if b then m else k)"
  by (cases y) auto

lemma sound_process_command: "sound (process_command D J U sv cmd)"
proof -
  have audit: "sound (audit_event a ty pl)" for a ty pl
    unfolding audit_event_def by (intro sound_intros calm_intros) (simp_all add: tenant_tx_def insert_risk_event_def calm_intros)
  have reject: "sound (reject_order U cmd oid)" for oid
    unfolding reject_order_def tenant_tx_def lock_order_def update_order_status_def insert_risk_event_def
    by (intro sound_intros calm_intros)
  have "sound (after_dispatch J U cmd outcome)" for outcome
    unfolding after_dispatch_def
    by (cases outcome; simp; intro sound_intros calm_intros audit reject)
  then show ?thesis
    unfolding process_command_def by (intro sound_intros calm_intros sound_handle audit)
qed

lemma sound_claim: "sound (claim_pending_commands n secs)"
  unfolding claim_pending_commands_def
  by (intro sound_intros calm_intros)
    (auto simp: sound_def get_now_def auto_stmt_def io_def sql_claim_pending_commands_def Let_def)

lemma sound_each: "(\<And>x. sound (f x)) \<Longrightarrow> (\<And>x. calm (f x)) \<Longrightarrow> sound (tx_each f xs)"
  by (induction xs) (auto intro: sound_intros)

lemma sound_run_once: "sound (run_once D J U sv n)"
  unfolding run_once_def
  by (intro sound_intros sound_claim sound_each sound_process_command calm_each calm_process_command)
    (simp add: claim_pending_commands_def calm_intros)

lemma claim_count:
  assumes "distinct (map cm_id rows)"
  shows "length (filter (\<lambda>x. cm_id x \<in> set (claim_ids now n rows)) rows) = length (claim_ids now n rows)"
proof -
  let ?ids = "claim_ids now n rows"
  have "distinct ?ids"
  proof -
    have "distinct (map cm_id (filter (claimable now) rows))"
      using assms by (rule distinct_map_filter)
    then have "distinct (map cm_id (sort_key cm_created_at (filter (claimable now) rows)))"
      by (simp add: distinct_map)
    then show ?thesis
      unfolding claim_ids_def take_map [symmetric] by (rule distinct_take)
  qed
  have "distinct (map cm_id (filter (\<lambda>x. cm_id x \<in> set ?ids) rows))"
    using assms by (simp add: distinct_map_filter)
  moreover have "set (map cm_id (filter (\<lambda>x. cm_id x \<in> set ?ids) rows)) = set ?ids"
    using claim_ids_claimable by fastforce
  ultimately show ?thesis
    using \<open>distinct ?ids\<close> by (metis distinct_card length_map)
qed

lemma run_once_returns:
  assumes "tables_ok (c_durable c)" "c_faults c = []" "run_once D J U sv n c = (z, c')" "z \<noteq> Panic"
  shows "z = Ok (length (claim_ids (c_now c) n (t_exchange_commands (c_durable c))))"
proof (cases z)
  case (Ok k)
  with assms(3) obtain cs c1 where claim: "claim_pending_commands n 30 c = (Ok cs, c1)" and k: "k = length cs"
    by (auto simp: run_once_def tx_ok)
  have "distinct (map cm_id (t_exchange_commands (c_durable c)))"
    using assms(1) by (simp add: tables_ok_def commands_ok_def)
  then show ?thesis using Ok k claim_count claim_Ok(1) [OF claim] by simp
next
  case (Err e)
  then show ?thesis using sound_run_once assms(2,3) unfolding sound_def by blast
qed (use assms(4) in simp)

end
