(* ===== verification/Progress.thy ===== *)
theory Progress
  imports Claim_Effects
begin

text \<open>
  What the worker's transactions do where the database answers: not only what they may make of the
  state, but that they reach the end. The theory runs the reconciliation of an order through, statement by
  statement, and shows that none of them fails.
\<close>

section \<open>Statements that are answered\<close>

definition live :: "conn \<Rightarrow> bool" where
  "live c \<longleftrightarrow> c_faults c = [] \<and> \<not> c_aborted c"

named_theorems live_simps \<open>fragments whose round trips are answered\<close>

lemma live_update [simp]:
  "live (c\<lparr>c_db := d\<rparr>) = live c" "live (c\<lparr>c_next := n\<rparr>) = live c" "live (c\<lparr>c_durable := d\<rparr>) = live c"
  "live (c\<lparr>c_role := r\<rparr>) = live c"
  by (simp_all add: live_def)

lemma live_basic [live_simps]:
  "tx_return x c = (Ok x, c)" "tx_lift v c = (v, c)" "get_now c = (Ok (c_now c), c)"
  "fresh_id c = (Ok (c_ids c (c_next c)), c\<lparr>c_next := Suc (c_next c)\<rparr>)"
  by (simp_all add: tx_return_def tx_lift_def get_now_def fresh_id_def)

lemma live_step:
  "m c = (Ok x, c1) \<Longrightarrow> tx_bind m f c = f x c1"
  "m c = (Ok x, c1) \<Longrightarrow> tx_map_err h m c = (Ok x, c1)"
  "m c = (Ok x, c1) \<Longrightarrow> tx_ignore m c = (Ok (), c1)"
  "m c = (Ok x, c1) \<Longrightarrow> tx_handle m f g c = f x c1"
  by (simp_all add: tx_bind_def tx_map_err_def tx_ignore_def tx_handle_def tx_return_def)

lemma live_stmt: "live c \<Longrightarrow> q (c_role c) (c_db c) = Ok (x, d) \<Longrightarrow> stmt q c = (Ok x, c\<lparr>c_db := d\<rparr>)"
  by (simp add: stmt_def io_def live_def)

lemma live_read [live_simps]: "live c \<Longrightarrow> stmt (sql_read f) c = (Ok (f (c_role c) (c_db c)), c)"
  by (simp add: live_stmt sql_read_def)

lemma live_commit [live_simps]: "live c \<Longrightarrow> commit_tx c = (Ok (), c\<lparr>c_durable := c_db c\<rparr>)"
  by (simp add: commit_tx_def io_def live_def)

text \<open>A session inside the transaction of an account.\<close>

definition tenant_session :: "uuid \<Rightarrow> conn \<Rightarrow> conn" where
  "tenant_session a c = c\<lparr>c_role := App (Some a), c_db := c_durable c, c_aborted := False\<rparr>"

lemma tenant_session_simps [simp]:
  "c_faults c = [] \<Longrightarrow> live (tenant_session a c)" "c_role (tenant_session a c) = App (Some a)"
  "c_db (tenant_session a c) = c_durable c" "c_durable (tenant_session a c) = c_durable c"
  "c_next (tenant_session a c) = c_next c" "c_ids (tenant_session a c) = c_ids c"
  "c_faults (tenant_session a c) = c_faults c" "c_now (tenant_session a c) = c_now c"
  by (simp_all add: tenant_session_def live_def)

lemma live_tenant [live_simps]: "c_faults c = [] \<Longrightarrow> tenant_tx a c = (Ok (), tenant_session a c)"
  by (simp add: tenant_tx_def tx_bind_def tx_handle_def begin_tx_def set_tenant_def io_def tenant_session_def)

lemma live_lock_order [live_simps]:
  assumes "live c" "c_role c = App (Some a)" "find_order a oid (App (Some a)) (c_db c) = Some x"
  shows "lock_order a oid c = (Ok (row_to_order x), c)"
  using assms by (simp add: lock_order_def live_step live_simps)

lemma live_load_fills [live_simps]:
  assumes "live c" "c_role c = App (Some a)"
  shows "load_fills_for_order a oid c = (Ok (map row_to_fill (order_fill_rows a oid (App (Some a)) (c_db c))), c)"
  using assms by (simp add: load_fills_for_order_def live_step live_simps)

section \<open>Reading the order\<close>

text \<open>The snapshot of an order as the database has it.\<close>

definition snapshot_of :: "uuid \<Rightarrow> order_row \<Rightarrow> db \<Rightarrow> reconcile_snapshot" where
  "snapshot_of a x d = \<lparr>rs_order = order_to_snapshot (row_to_order x),
     rs_fills = map fill_to_snapshot (map row_to_fill (order_fill_rows a (or_id x) (App (Some a)) d)),
     rs_positions = []\<rparr>"

lemma hydrate_answers:
  assumes "c_faults c = []" "find_order a (or_id x) (App (Some a)) (c_durable c) = Some x"
  shows "hydrate_snapshot a (or_id x) c = (Ok (snapshot_of a x (c_durable c)), tenant_session a c)"
proof -
  have "tenant_session a c\<lparr>c_durable := c_durable c\<rparr> = tenant_session a c"
    by (simp add: tenant_session_def)
  then show ?thesis
    using assms by (simp add: hydrate_snapshot_def live_step live_simps snapshot_of_def)
qed

section \<open>Booking a fill\<close>

text \<open>An amount the column stores as it is.\<close>

definition storable :: "rat \<Rightarrow> bool" where
  "storable x \<longleftrightarrow> numeric_30_10 x = Some x"

lemma storableI: "on_grid x \<Longrightarrow> \<bar>x\<bar> < grid_bound \<Longrightarrow> storable x"
  unfolding storable_def by (rule numeric_on_grid) (auto simp: grid_bound_def)

lemma storable_abs: "on_grid x \<Longrightarrow> \<bar>x\<bar> < grid_bound \<Longrightarrow> storable \<bar>x\<bar>"
  using storableI [of x] storableI [of "- x"] by (cases "x < 0") simp_all

lemma storable_0 [simp]: "storable 0"
  by (simp add: storable_def)

definition fill_row_of :: "uuid \<Rightarrow> uuid \<Rightarrow> fill \<Rightarrow> fill_row" where
  "fill_row_of a oid f =
     \<lparr>fr_account_id = a, fr_order_id = oid, fr_exchange_trade_id = fl_exchange_trade_id f,
      fr_quantity = fl_quantity f, fr_price = fl_price f, fr_fee = fl_fee f, fr_fee_asset = fl_fee_asset f\<rparr>"

lemma live_insert_fill:
  assumes "live c" "c_role c = App (Some a)" "storable (fl_quantity f)" "storable (fl_price f)" "storable (fl_fee f)"
    "0 < fl_quantity f" "0 < fl_price f" "0 \<le> fl_fee f" "account_exists a (c_db c)" "oid \<in> or_id ` set (t_orders (c_db c))"
    "(a, fl_exchange_trade_id f) \<notin> (\<lambda>x. (fr_account_id x, fr_exchange_trade_id x)) ` set (t_order_fills (c_db c))"
  shows "insert_fill a oid f c =
    (Ok True, c\<lparr>c_db := (c_db c)\<lparr>t_order_fills := t_order_fills (c_db c) @ [fill_row_of a oid f]\<rparr>\<rparr>)"
proof -
  have new: "\<not> list_ex (\<lambda>x. fr_account_id x = a \<and> fr_exchange_trade_id x = fl_exchange_trade_id f) (t_order_fills (c_db c))"
    using assms(11) by (force simp: list_ex_iff)
  have order: "list_ex (\<lambda>x. or_id x = oid) (t_orders (c_db c))"
    using assms(10) by (auto simp: list_ex_iff)
  have "sql_insert_fill a oid f (c_role c) (c_db c) =
      Ok (1, (c_db c)\<lparr>t_order_fills := t_order_fills (c_db c) @ [fill_row_of a oid f]\<rparr>)"
    using assms(2-9) new order
    by (simp add: sql_insert_fill_def storable_def fill_check_def guard_def fill_row_of_def)
  from live_stmt [OF assms(1), of "sql_insert_fill a oid f", OF this] show ?thesis
    by (simp add: insert_fill_def live_step live_simps)
qed

section \<open>Moving the position\<close>

lemma live_open_position:
  assumes "live c" "c_role c = App (Some a)" "find_open_position a s (App (Some a)) (c_db c) = None"
    "delta \<noteq> 0" "storable \<bar>delta\<bar>" "storable price" "0 \<le> price" "account_exists a (c_db c)"
    "c_ids c (c_next c) \<notin> po_id ` set (t_positions (c_db c))"
  obtains ps where "apply_position_delta D a s delta price c =
    (Ok (), c\<lparr>c_db := (c_db c)\<lparr>t_positions := ps\<rparr>, c_next := Suc (c_next c)\<rparr>)"
proof -
  let ?row = "\<lparr>po_id = c_ids c (c_next c), po_account_id = a, po_symbol = s,
    po_side = (if delta > 0 then ''long'' else ''short''), po_quantity = \<bar>delta\<bar>, po_avg_entry_price = price,
    po_status = ''open'', po_closed_at = None\<rparr>"
  have "\<not> list_ex (\<lambda>x. po_id x = po_id ?row \<or> (po_account_id x = po_account_id ?row \<and>
      po_symbol x = po_symbol ?row \<and> po_status x = ''open'' \<and> po_status ?row = ''open'')) (t_positions (c_db c))"
    using assms(3,9) by (force simp: list_ex_iff find_open_position_None holds_def)
  then have "sql_insert_position ?row (App (Some a)) (c_db c) =
      Ok ((), (c_db c)\<lparr>t_positions := t_positions (c_db c) @ [?row]\<rparr>)"
    using assms(4-8)
    by (simp add: sql_insert_position_def storable_def position_check_def guard_def Let_def)
  with assms(1,2) have "stmt (sql_insert_position ?row) (c\<lparr>c_next := Suc (c_next c)\<rparr>) =
      (Ok (), c\<lparr>c_next := Suc (c_next c), c_db := (c_db c)\<lparr>t_positions := t_positions (c_db c) @ [?row]\<rparr>\<rparr>)"
    by (subst live_stmt) auto
  with assms(1-4) show thesis
    by (intro that [of "t_positions (c_db c) @ [?row]"])
      (simp add: apply_position_delta_def live_step live_simps)
qed

lemma live_change_position:
  assumes "live c" "c_role c = App (Some a)" "find_open_position a s (App (Some a)) (c_db c) = Some row"
    "delta \<noteq> 0" "dadd D (signed_quantity row) delta = Some ns" "ns \<noteq> 0" "storable \<bar>ns\<bar>" "storable price" "0 \<le> price"
    "storable (po_avg_entry_price row)" "positions_ok (t_positions (c_db c))"
  obtains ps where "apply_position_delta D a s delta price c = (Ok (), c\<lparr>c_db := (c_db c)\<lparr>t_positions := ps\<rparr>\<rparr>)"
proof -
  define avg where "avg = (if (po_side row = ''long'') = (ns > 0) then po_avg_entry_price row else price)"
  note row = find_open_position_Some [OF assms(3)]
  have uniq: "x = row" if "x \<in> set (t_positions (c_db c))" "po_id x = po_id row" for x
    using assms(11) row that by (auto simp: positions_ok_def distinct_map dest: inj_onD)
  have check: "position_check row" using assms(11) row by (simp add: positions_ok_def)
  have change: "position_change D row delta price = Some (SetPosition (side_of ns) \<bar>ns\<bar> avg)"
    using assms(5,6) by (simp add: position_change_def signed_quantity_def side_of_def avg_def Let_def)
  have avg: "storable avg" "0 \<le> avg" using assms(8-10) check by (auto simp: position_check_def avg_def)
  let ?f = "\<lambda>x. x\<lparr>po_side := side_of ns, po_quantity := \<bar>ns\<bar>, po_avg_entry_price := avg\<rparr>"
  let ?ps = "update_where (\<lambda>x. visible (App (Some a)) (po_account_id x) \<and> po_id x = po_id row) ?f (t_positions (c_db c))"
  have "position_check (?f row)"
    using check assms(6) avg(2) by (auto simp: position_check_def side_of_def)
  then have "position_check (?f x)" if "x \<in> set (t_positions (c_db c))" "po_id x = po_id row" for x
    using uniq [OF that] by simp
  then have "checked_update (\<lambda>x. visible (App (Some a)) (po_account_id x) \<and> po_id x = po_id row)
      (\<lambda>x. Some (?f x)) position_check (t_positions (c_db c)) = Ok ?ps"
    by (simp add: checked_update_Ok)
  then have "sql_update_position (po_id row) (side_of ns) \<bar>ns\<bar> avg (App (Some a)) (c_db c) =
      Ok ((), (c_db c)\<lparr>t_positions := ?ps\<rparr>)"
    using assms(7) avg(1) by (simp add: sql_update_position_def storable_def)
  then have "stmt (sql_update_position (po_id row) (side_of ns) \<bar>ns\<bar> avg) c = (Ok (), c\<lparr>c_db := (c_db c)\<lparr>t_positions := ?ps\<rparr>\<rparr>)"
    using assms(1,2) by (subst live_stmt) auto
  with assms(1-4) show thesis
    by (intro that [of ?ps]) (simp add: apply_position_delta_def live_step live_simps change)
qed

text \<open>
  A delta that does not close the position is applied, and adds to the net position.
\<close>

lemma live_delta:
  assumes D: "decimal_laws D" and c: "live c" "c_role c = App (Some a)"
    and ok: "positions_ok (t_positions (c_db c))" "\<forall>x\<in>set (t_positions (c_db c)). storable (po_avg_entry_price x)"
      "account_exists a (c_db c)" "c_ids c (c_next c) \<notin> po_id ` set (t_positions (c_db c))"
    and price: "storable price" "0 \<le> price"
    and delta: "delta \<noteq> 0" "on_grid delta" "\<bar>net_position a s (t_positions (c_db c))\<bar> + \<bar>delta\<bar> < grid_bound"
      "net_position a s (t_positions (c_db c)) + delta \<noteq> 0"
  obtains ps n where "apply_position_delta D a s delta price c =
      (Ok (), c\<lparr>c_db := (c_db c)\<lparr>t_positions := ps\<rparr>, c_next := n\<rparr>)" "n \<in> {c_next c, Suc (c_next c)}"
    "net_position a s ps = net_position a s (t_positions (c_db c)) + delta"
    "\<And>b u. (b, u) \<noteq> (a, s) \<Longrightarrow> net_position b u ps = net_position b u (t_positions (c_db c))"
proof -
  obtain ps n where run: "apply_position_delta D a s delta price c =
      (Ok (), c\<lparr>c_db := (c_db c)\<lparr>t_positions := ps\<rparr>, c_next := n\<rparr>)" "n \<in> {c_next c, Suc (c_next c)}"
  proof (cases "find_open_position a s (App (Some a)) (c_db c)")
    case None
    have "\<bar>delta\<bar> < grid_bound" using delta(3) by linarith
    with delta(2) have "storable \<bar>delta\<bar>" by (rule storable_abs)
    then obtain ps where "apply_position_delta D a s delta price c =
        (Ok (), c\<lparr>c_db := (c_db c)\<lparr>t_positions := ps\<rparr>, c_next := Suc (c_next c)\<rparr>)"
      by (rule live_open_position [OF c None delta(1) _ price ok(3,4)])
    then show thesis by (rule that) simp
  next
    case (Some row)
    note row = find_open_position_Some [OF Some]
    let ?q = "signed_quantity row"
    have net: "net_position a s (t_positions (c_db c)) = ?q"
      using net_position_single [OF ok(1)] row by blast
    have grid: "on_grid ?q" "on_grid (?q + delta)" using ok(1) row delta(2)
      by (simp_all add: on_grid_add positions_ok_def signed_quantity_def)
    have "\<bar>?q\<bar> < grid_bound" "\<bar>delta\<bar> < grid_bound" "\<bar>?q + delta\<bar> < grid_bound"
      using delta(3) net by linarith+
    then have dec: "is_dec ?q" "is_dec delta" "is_dec (?q + delta)"
      using grid delta(2) by (simp_all add: on_grid_is_dec)
    have "storable \<bar>?q + delta\<bar>"
      by (rule storable_abs) (fact grid(2) \<open>\<bar>?q + delta\<bar> < grid_bound\<close>)+
    moreover from dec have "dadd D ?q delta = Some (?q + delta)" by (intro decimal_lawsD(1) [OF D])
    moreover have "?q + delta \<noteq> 0" using delta(4) net by simp
    moreover have "storable (po_avg_entry_price row)" using ok(2) row by blast
    ultimately obtain ps where
      "apply_position_delta D a s delta price c = (Ok (), c\<lparr>c_db := (c_db c)\<lparr>t_positions := ps\<rparr>\<rparr>)"
      using live_change_position [OF c Some delta(1) _ _ _ price _ ok(1)] by blast
    moreover have "c\<lparr>c_db := (c_db c)\<lparr>t_positions := ps\<rparr>\<rparr> = c\<lparr>c_db := (c_db c)\<lparr>t_positions := ps\<rparr>, c_next := c_next c\<rparr>"
      by simp
    ultimately show thesis by (intro that [of "c_next c" ps]) simp_all
  qed
  have "position_moved D a s delta price (t_positions (c_db c)) ps"
    using specD(3) [OF apply_position_delta_spec [of a "\<lambda>_. True" "c_db c" D s delta price] run(1) c(2), of "()"] c(1)
    by (auto simp: live_def)
  from position_moved_net [OF D ok(1) this delta(2,3)] run that show thesis by blast
qed

section \<open>The transaction that books a result\<close>

lemma live_update_order:
  assumes "live c" "c_role c = App (Some a)" "storable q" "x \<in> set (t_orders (c_db c))" "or_id x = oid"
    "or_account_id x = a" "orders_ok (t_orders (c_db c))" "0 \<le> q" "q \<le> or_quantity x"
  shows "update_order_status a oid st q c =
    (Ok (), c\<lparr>c_db := (c_db c)\<lparr>t_orders := orders_set_to a oid st q (t_orders (c_db c))\<rparr>\<rparr>)"
proof -
  have uniq: "y = x" if "y \<in> set (t_orders (c_db c))" "or_id y = oid" for y
    using assms(4,5,7) that by (auto simp: orders_ok_def distinct_map dest: inj_onD)
  have "order_check x" using assms(4,7) by (simp add: orders_ok_def)
  then have "order_check (x\<lparr>or_status := status_str st, or_filled_quantity := q\<rparr>)"
    using assms(8,9) by (cases st) (simp_all add: order_check_def)
  moreover have where_eq: "(\<lambda>x. visible (App (Some a)) (or_account_id x) \<and> or_id x = oid \<and> or_account_id x = a) =
      (\<lambda>x. or_id x = oid \<and> or_account_id x = a)" by auto
  ultimately have "checked_update (\<lambda>x. visible (App (Some a)) (or_account_id x) \<and> or_id x = oid \<and> or_account_id x = a)
      (\<lambda>x. Some (x\<lparr>or_status := status_str st, or_filled_quantity := q\<rparr>)) order_check (t_orders (c_db c)) =
      Ok (orders_set_to a oid st q (t_orders (c_db c)))"
    unfolding checked_update_Ok orders_set_to_def where_eq using uniq by auto
  then have "sql_update_order_status a oid st q (App (Some a)) (c_db c) =
      Ok ((), (c_db c)\<lparr>t_orders := orders_set_to a oid st q (t_orders (c_db c))\<rparr>)"
    using assms(3) by (simp add: sql_update_order_status_def storable_def)
  with assms(1,2) show ?thesis
    unfolding update_order_status_def by (subst live_stmt) auto
qed

lemma live_event:
  assumes "live c" "c_role c = App (Some a)" "ty \<in> set risk_event_types" "account_exists a (c_db c)"
    "c_ids c (c_next c) \<notin> ev_id ` set (t_risk_events (c_db c))"
  obtains row where "insert_risk_event a ty pl c =
    (Ok (), c\<lparr>c_next := Suc (c_next c), c_db := (c_db c)\<lparr>t_risk_events := t_risk_events (c_db c) @ [row]\<rparr>\<rparr>)"
    "ev_account_id row = a" "ev_event_type row = ty" "ev_payload row = pl"
proof -
  let ?row = "\<lparr>ev_id = c_ids c (c_next c), ev_account_id = a, ev_event_type = ty, ev_payload = pl,
    ev_created_at = c_now c\<rparr>"
  have "\<not> list_ex (\<lambda>x. ev_id x = c_ids c (c_next c)) (t_risk_events (c_db c))"
    using assms(5) by (force simp: list_ex_iff)
  then have "sql_insert_risk_event ?row (App (Some a)) (c_db c) =
      Ok ((), (c_db c)\<lparr>t_risk_events := t_risk_events (c_db c) @ [?row]\<rparr>)"
    using assms(3,4) by (simp add: sql_insert_risk_event_def guard_def)
  with assms(1,2) have "stmt (sql_insert_risk_event ?row) (c\<lparr>c_next := Suc (c_next c)\<rparr>) =
      (Ok (), c\<lparr>c_next := Suc (c_next c), c_db := (c_db c)\<lparr>t_risk_events := t_risk_events (c_db c) @ [?row]\<rparr>\<rparr>)"
    by (subst live_stmt) auto
  with assms(1) show thesis
    by (intro that [of ?row]) (simp_all add: insert_risk_event_def live_step live_simps)
qed

text \<open>The fills of an order in the database add up to its filled quantity.\<close>

lemma snapshot_sum:
  assumes "decimal_laws D" "books_ok d" "x \<in> set (t_orders d)" "or_quantity x < grid_bound"
  shows "d_sum D (map fs_quantity (rs_fills (snapshot_of (or_account_id x) x d))) = Some (or_filled_quantity x)"
proof -
  have mine: "order_fill_rows (or_account_id x) (or_id x) (App (Some (or_account_id x))) d =
      filter (\<lambda>f. fr_order_id f = or_id x) (t_order_fills d)"
    unfolding order_fill_rows_def using assms(2,3) by (intro filter_cong) (auto simp: books_ok_def ledger_def)
  have "\<forall>f\<in>set (t_order_fills d). 0 \<le> fr_quantity f \<and> on_grid (fr_quantity f)"
    using assms(2) by (auto simp: books_ok_def tables_ok_def fills_ok_def fill_check_def)
  moreover have sum: "or_filled_quantity x = fills_sum (or_id x) (t_order_fills d)"
    using assms(2,3) by (simp add: books_ok_def ledger_def)
  moreover have "or_filled_quantity x \<le> or_quantity x"
    using assms(2,3) by (auto simp: books_ok_def tables_ok_def orders_ok_def order_check_def)
  ultimately show ?thesis
    using assms(4) d_sum_exact [OF assms(1), of "map fr_quantity (filter (\<lambda>f. fr_order_id f = or_id x) (t_order_fills d))"]
    by (simp add: snapshot_of_def mine comp_def fill_to_snapshot_def row_to_fill_def fills_sum_def)
qed

text \<open>The next two identifiers of the session are not in use: the transaction draws no more.\<close>

definition ids_unused :: "conn \<Rightarrow> bool" where
  "ids_unused c \<longleftrightarrow> (\<forall>n\<in>{c_next c, Suc (c_next c)}.
     c_ids c n \<notin> po_id ` set (t_positions (c_durable c)) \<and> c_ids c n \<notin> ev_id ` set (t_risk_events (c_durable c)))"

lemma filled_after:
  assumes D: "decimal_laws D" and x: "orders_ok rs" "x \<in> set rs"
    and f: "on_grid q" "0 < q" "or_filled_quantity x + q \<le> or_quantity x" "or_quantity x < grid_bound"
  shows "d_sum D [q] = Some q" "dadd D (or_filled_quantity x) q = Some (or_filled_quantity x + q)"
    "storable (or_filled_quantity x + q)" "0 \<le> or_filled_quantity x"
proof -
  have "order_check x" "on_grid (or_filled_quantity x)" using x by (simp_all add: orders_ok_def)
  then have filled: "0 \<le> or_filled_quantity x" "on_grid (or_filled_quantity x + q)" "on_grid (or_filled_quantity x)"
    using f(1) by (auto simp: order_check_def)
  have small: "\<bar>or_filled_quantity x\<bar> < grid_bound" "\<bar>q\<bar> < grid_bound" "\<bar>or_filled_quantity x + q\<bar> < grid_bound"
    using filled(1) f(2-4) by linarith+
  then have dec: "is_dec q" "is_dec (or_filled_quantity x)" "is_dec (or_filled_quantity x + q)"
    using filled f(1) by (auto intro: on_grid_is_dec)
  show "d_sum D [q] = Some q"
    using decimal_lawsD(1) [OF D is_dec_0 dec(1)] dec(1) by (simp add: d_sum_def)
  show "dadd D (or_filled_quantity x) q = Some (or_filled_quantity x + q)"
    by (rule decimal_lawsD(1) [OF D dec(2,1,3)])
  show "storable (or_filled_quantity x + q)" by (rule storableI [OF filled(2) small(3)])
  show "0 \<le> or_filled_quantity x" by (rule filled(1))
qed

lemma persist_changes_answers:
  assumes D: "decimal_laws D" and c: "live c" "c_role c = App (Some a)" "account_exists a (c_db c)"
    and ok: "orders_ok (t_orders (c_db c))" "positions_ok (t_positions (c_db c))"
      "\<forall>y\<in>set (t_positions (c_db c)). storable (po_avg_entry_price y)"
    and ids: "\<forall>n\<in>{c_next c, Suc (c_next c)}. c_ids c n \<notin> po_id ` set (t_positions (c_db c)) \<and>
      c_ids c n \<notin> ev_id ` set (t_risk_events (c_db c))"
    and x: "x \<in> set (t_orders (c_db c))" "or_id x = oid" "or_account_id x = a"
      "legal_transition (parse_status (or_status x)) st"
    and f: "on_grid (fl_quantity f)" "0 < fl_quantity f" "or_filled_quantity x + fl_quantity f \<le> or_quantity x"
      "or_quantity x < grid_bound" "storable (fl_price f)" "0 < fl_price f"
    and net: "\<bar>net_position a (or_symbol x) (t_positions (c_db c))\<bar> + fl_quantity f < grid_bound"
      "net_position a (or_symbol x) (t_positions (c_db c)) + signed_qty (parse_side (or_side x)) (fl_quantity f) \<noteq> 0"
    and r: "rr_positions_delta r = [\<lparr>pd_symbol = or_symbol x, pd_quantity_delta = signed_qty (parse_side (or_side x)) (fl_quantity f)\<rparr>]"
      "rr_new_status r = Some st" "rr_events r = [e]" "re_event_type e \<in> set risk_event_types"
  obtains ps row c' where "persist_changes D a oid r (row_to_order x) [f] c = (Ok (), c')"
    "c_durable c' = (c_db c)\<lparr>t_positions := ps,
       t_orders := orders_set_to a oid st (or_filled_quantity x + fl_quantity f) (t_orders (c_db c)),
       t_risk_events := t_risk_events (c_db c) @ [row]\<rparr>"
    "net_position a (or_symbol x) ps =
       net_position a (or_symbol x) (t_positions (c_db c)) + signed_qty (parse_side (or_side x)) (fl_quantity f)"
    "ev_account_id row = a" "ev_event_type row = re_event_type e" "ev_payload row = re_payload e" "c_faults c' = []"
proof -
  let ?delta = "signed_qty (parse_side (or_side x)) (fl_quantity f)" and ?q = "or_filled_quantity x + fl_quantity f"
  let ?d = "c_db c"
  have delta: "?delta \<noteq> 0" "on_grid ?delta" "\<bar>?delta\<bar> = fl_quantity f"
    using f(1,2) by (simp_all add: signed_qty_def split: order_side.split)
  note q = filled_after [OF D ok(1) x(1) f(1-4)]
  from f(6) have price: "0 \<le> fl_price f" by simp
  obtain ps n where ps: "apply_position_delta D a (or_symbol x) ?delta (fl_price f) c =
      (Ok (), c\<lparr>c_db := ?d\<lparr>t_positions := ps\<rparr>, c_next := n\<rparr>)" "n \<in> {c_next c, Suc (c_next c)}"
      "net_position a (or_symbol x) ps = net_position a (or_symbol x) (t_positions ?d) + ?delta"
    by (rule live_delta [OF D c(1,2) ok(2,3) c(3) _ f(5) price delta(1,2)]) (use net ids delta(3) in auto)
  let ?c1 = "c\<lparr>c_db := ?d\<lparr>t_positions := ps\<rparr>, c_next := n\<rparr>"
  let ?d2 = "?d\<lparr>t_positions := ps, t_orders := orders_set_to a oid st ?q (t_orders ?d)\<rparr>"
  let ?c2 = "c\<lparr>c_db := ?d2, c_next := n\<rparr>"
  have upd: "update_order_status a oid st ?q ?c1 = (Ok (), ?c2)"
    using live_update_order [of ?c1 a ?q x oid st] c x ok(1) q f by simp
  obtain row where ev: "insert_risk_event a (re_event_type e) (re_payload e) ?c2 =
      (Ok (), ?c2\<lparr>c_next := Suc n, c_db := ?d2\<lparr>t_risk_events := t_risk_events ?d @ [row]\<rparr>\<rparr>)"
      "ev_account_id row = a" "ev_event_type row = re_event_type e" "ev_payload row = re_payload e"
    by (rule live_event [of ?c2 a "re_event_type e" "re_payload e"])
      (use c r(4) ids ps(2) in \<open>auto simp: account_exists_def\<close>)
  have run: "persist_changes D a oid r (row_to_order x) [f] c =
      (Ok (), ?c2\<lparr>c_next := Suc n, c_db := ?d2\<lparr>t_risk_events := t_risk_events ?d @ [row]\<rparr>,
        c_durable := ?d2\<lparr>t_risk_events := t_risk_events ?d @ [row]\<rparr>\<rparr>)"
    using c(1) ps(1) upd ev(1) x(4) q(1,2)
    by (simp add: persist_changes_def persist_deltas_def persist_status_def persist_events_def r row_to_order_def
        live_step live_simps)
  show thesis by (rule that [OF run]) (use ps(3) ev c(1) in \<open>simp_all add: live_def\<close>)
qed

text \<open>The whole transaction: the check of the snapshot passes, the fill is new, and all of it is committed.\<close>

lemma persist_answers:
  assumes D: "decimal_laws D" and c: "c_faults c = []" "ids_unused c" "account_exists a (c_durable c)"
    and ok: "books_ok (c_durable c)" "\<forall>y\<in>set (t_positions (c_durable c)). storable (po_avg_entry_price y)"
    and x: "find_order a oid (App (Some a)) (c_durable c) = Some x"
      "legal_transition (parse_status (or_status x)) st"
    and f: "on_grid (fl_quantity f)" "0 < fl_quantity f" "or_filled_quantity x + fl_quantity f \<le> or_quantity x"
      "or_quantity x < grid_bound" "storable (fl_price f)" "0 < fl_price f" "fl_fee f = 0"
      "(a, fl_exchange_trade_id f) \<notin> (\<lambda>y. (fr_account_id y, fr_exchange_trade_id y)) ` set (t_order_fills (c_durable c))"
    and net: "\<bar>net_position a (or_symbol x) (t_positions (c_durable c))\<bar> + fl_quantity f < grid_bound"
      "net_position a (or_symbol x) (t_positions (c_durable c)) + signed_qty (parse_side (or_side x)) (fl_quantity f) \<noteq> 0"
    and r: "rr_fills_to_add r = [f]" "rr_positions_delta r =
        [\<lparr>pd_symbol = or_symbol x, pd_quantity_delta = signed_qty (parse_side (or_side x)) (fl_quantity f)\<rparr>]"
      "rr_new_status r = Some st" "rr_events r = [e]" "re_event_type e \<in> set risk_event_types"
  obtains ps row c' where
    "persist_reconcile_result D a oid (snapshot_of a x (c_durable c)) r c = (Ok (), c')" "c_faults c' = []"
    "c_durable c' = (c_durable c)\<lparr>t_positions := ps,
       t_orders := orders_set_to a oid st (or_filled_quantity x + fl_quantity f) (t_orders (c_durable c)),
       t_order_fills := t_order_fills (c_durable c) @ [fill_row_of a oid f],
       t_risk_events := t_risk_events (c_durable c) @ [row]\<rparr>"
    "net_position a (or_symbol x) ps =
       net_position a (or_symbol x) (t_positions (c_durable c)) + signed_qty (parse_side (or_side x)) (fl_quantity f)"
    "ev_account_id row = a" "ev_event_type row = re_event_type e" "ev_payload row = re_payload e"
proof -
  let ?d = "c_durable c" and ?t = "tenant_session a c"
  note x' = find_order_Some [OF x(1)]
  let ?c1 = "?t\<lparr>c_db := ?d\<lparr>t_order_fills := t_order_fills ?d @ [fill_row_of a oid f]\<rparr>\<rparr>"
  have tables: "orders_ok (t_orders ?d)" "positions_ok (t_positions ?d)"
    using ok(1) by (simp_all add: books_ok_def tables_ok_def)
  have small: "\<bar>fl_quantity f\<bar> < grid_bound"
    using filled_after(4) [OF D tables(1) _ f(1-4)] x' f(2-4) by linarith
  have "oid \<in> or_id ` set (t_orders ?d)" using x' by blast
  then have ins: "insert_fill a oid f ?t = (Ok True, ?c1)"
    using live_insert_fill [of ?t a f oid] c(1,3) f storableI [OF f(1) small] by simp
  have sum: "d_sum D (map fs_quantity (rs_fills (snapshot_of a x ?d))) = Some (or_filled_quantity x)"
    using snapshot_sum [OF D ok(1) _ f(4)] x' by blast
  obtain ps row c' where ps: "persist_changes D a oid r (row_to_order x) [f] ?c1 = (Ok (), c')"
    "c_durable c' = (c_db ?c1)\<lparr>t_positions := ps,
       t_orders := orders_set_to a oid st (or_filled_quantity x + fl_quantity f) (t_orders (c_db ?c1)),
       t_risk_events := t_risk_events (c_db ?c1) @ [row]\<rparr>"
    "net_position a (or_symbol x) ps =
       net_position a (or_symbol x) (t_positions (c_db ?c1)) + signed_qty (parse_side (or_side x)) (fl_quantity f)"
    "ev_account_id row = a" "ev_event_type row = re_event_type e" "ev_payload row = re_payload e" "c_faults c' = []"
    by (rule persist_changes_answers [of D ?c1 a x oid st f r e])
      (use assms x' tables in \<open>simp_all add: ids_unused_def account_exists_def\<close>)
  have run: "persist_reconcile_result D a oid (snapshot_of a x ?d) r c = (Ok (), c')"
    using c(1) x(1) ins ps(1) sum r(1)
    by (simp add: persist_reconcile_result_def persist_checked_def persist_fills_def live_step live_simps
        snapshot_of_def order_to_snapshot_def row_to_order_def)
  show thesis by (rule that [OF run ps(7)]) (use ps in simp_all)
qed

section \<open>The paper adapter's answer\<close>

text \<open>The order is open, and the feed has a fresh quote at which it may be filled.\<close>

definition crossing ::
    "market_data_provider \<Rightarrow> instant \<Rightarrow> order_row \<Rightarrow> conservative_price_estimate \<Rightarrow> bool" where
  "crossing md now x e \<longleftrightarrow>
     or_status x \<in> {''submitted'', ''partially_filled''} \<and> or_filled_quantity x < or_quantity x \<and>
     conservative_estimate md (or_symbol x) (parse_side (or_side x) = Buy) now = Some e \<and>
     fillable (parse_order_type (or_order_type x)) (parse_side (or_side x)) (or_price x) e"

text \<open>The fill of all that remains, as the adapter numbers it.\<close>

definition paper_fill :: "uuid \<Rightarrow> order_row \<Rightarrow> conservative_price_estimate \<Rightarrow> db \<Rightarrow> fill" where
  "paper_fill a x e d =
     \<lparr>fl_exchange_trade_id = or_client_order_id x @ '':paper:'' @
        show_nat (length (order_fill_rows a (or_id x) (App (Some a)) d)),
      fl_quantity = or_quantity x - or_filled_quantity x, fl_price = ce_price e, fl_fee = 0, fl_fee_asset = []\<rparr>"

lemma try_fill_fillable:
  "fillable ot sd lp e \<Longrightarrow> try_fill ot sd q lp (Some e) tid = Some
     \<lparr>fl_exchange_trade_id = tid, fl_quantity = q, fl_price = ce_price e, fl_fee = 0, fl_fee_asset = []\<rparr>"
  by (simp add: try_fill_Some)

lemma paper_answers:
  assumes D: "decimal_laws D" and ok: "books_ok d" "x \<in> set (t_orders d)" "or_account_id x = a"
    and cross: "crossing md now x e" and small: "or_quantity x < grid_bound"
  obtains r ev where "paper_reconcile_order D U md now (snapshot_of a x d) = Ok r"
    "rr_fills_to_add r = [paper_fill a x e d]" "rr_new_status r = Some Filled"
    "rr_positions_delta r = [\<lparr>pd_symbol = or_symbol x,
       pd_quantity_delta = signed_qty (parse_side (or_side x)) (or_quantity x - or_filled_quantity x)\<rparr>]"
    "rr_events r = [ev]" "re_event_type ev = ''order_filled''"
proof -
  have row: "order_check x" "on_grid (or_quantity x)" "on_grid (or_filled_quantity x)"
    using ok by (simp_all add: books_ok_def tables_ok_def orders_ok_def)
  let ?rem = "or_quantity x - or_filled_quantity x"
  have rem: "0 < ?rem" using cross by (simp add: crossing_def)
  have "0 \<le> or_filled_quantity x" using row(1) by (simp add: order_check_def)
  then have dec: "is_dec (or_quantity x)" "is_dec (or_filled_quantity x)" "is_dec ?rem"
    using row small rem by (auto intro!: on_grid_is_dec)
  have sums: "dsub D (or_quantity x) (or_filled_quantity x) = Some ?rem"
    "dadd D (or_filled_quantity x) ?rem = Some (or_quantity x)"
    using decimal_lawsD(2) [OF D dec] decimal_lawsD(1) [OF D dec(2,3)] dec(1) by simp_all
  have sum: "d_sum D (map fs_quantity (rs_fills (snapshot_of a x d))) = Some (or_filled_quantity x)"
    using snapshot_sum [OF D ok(1,2) small] ok(3) by simp
  have open_order: "parse_status (or_status x) \<in> {Submitted, PartiallyFilled}"
    using cross by (auto simp: crossing_def parse_status_def)
  obtain ev where ev: "paper_reconcile_order D U md now (snapshot_of a x d) = Ok
      \<lparr>rr_new_status = Some Filled, rr_fills_to_add = [paper_fill a x e d],
       rr_positions_delta = [\<lparr>pd_symbol = or_symbol x,
         pd_quantity_delta = signed_qty (parse_side (or_side x)) ?rem\<rparr>],
       rr_events = [ev], rr_command = None\<rparr>" "re_event_type ev = ''order_filled''"
  proof (rule that)
    show "paper_reconcile_order D U md now (snapshot_of a x d) = Ok
      \<lparr>rr_new_status = Some Filled, rr_fills_to_add = [paper_fill a x e d],
       rr_positions_delta = [\<lparr>pd_symbol = or_symbol x,
         pd_quantity_delta = signed_qty (parse_side (or_side x)) ?rem\<rparr>],
       rr_events = [\<lparr>re_event_type = ''order_filled'',
         re_payload = order_event_payload U (or_id x) ''new_status'' (debug_status Filled)\<rparr>], rr_command = None\<rparr>"
      using open_order sum sums rem cross
      by (auto simp: paper_reconcile_order_def Let_def snapshot_of_def order_to_snapshot_def row_to_order_def
          crossing_def try_fill_fillable paper_fill_def signed_qty_def split: order_side.split)
  qed simp
  show thesis by (rule that [OF ev(1)]) (use ev(2) in simp_all)
qed

section \<open>A command to reconcile an order that can be filled\<close>

text \<open>
  The database admits the fill: its price is positive and can be stored, its trade identifier is new, and it
  neither closes the position exactly nor takes it out of the range of exact decimals.
\<close>

definition admits :: "uuid \<Rightarrow> order_row \<Rightarrow> fill \<Rightarrow> db \<Rightarrow> bool" where
  "admits a x f d \<longleftrightarrow>
     account_exists a d \<and> storable (fl_price f) \<and> 0 < fl_price f \<and>
     (a, fl_exchange_trade_id f) \<notin> (\<lambda>y. (fr_account_id y, fr_exchange_trade_id y)) ` set (t_order_fills d) \<and>
     (\<forall>y\<in>set (t_positions d). storable (po_avg_entry_price y)) \<and>
     \<bar>net_position a (or_symbol x) (t_positions d)\<bar> + fl_quantity f < grid_bound \<and>
     net_position a (or_symbol x) (t_positions d) + signed_qty (parse_side (or_side x)) (fl_quantity f) \<noteq> 0"

text \<open>The durable state after the fill of all that remained of the order.\<close>

definition order_filled_by :: "uuid \<Rightarrow> order_row \<Rightarrow> fill \<Rightarrow> db \<Rightarrow> db \<Rightarrow> bool" where
  "order_filled_by a x f d d' \<longleftrightarrow>
     order_of (t_orders d') (or_id x) = Some (x\<lparr>or_status := ''filled'', or_filled_quantity := or_quantity x\<rparr>) \<and>
     t_order_fills d' = t_order_fills d @ [fill_row_of a (or_id x) f] \<and>
     net_position a (or_symbol x) (t_positions d') =
       net_position a (or_symbol x) (t_positions d) + signed_qty (parse_side (or_side x)) (fl_quantity f) \<and>
     (\<exists>row. t_risk_events d' = t_risk_events d @ [row] \<and> ev_account_id row = a \<and> ev_event_type row = ''order_filled'')"

lemma dispatch_fills:
  assumes D: "decimal_laws D" and c: "c_faults c = []" "ids_unused c" "books_ok (c_durable c)"
    and x: "x \<in> set (t_orders (c_durable c))" "or_account_id x = a" "or_quantity x < grid_bound" "crossing md now x e"
    and f: "admits a x (paper_fill a x e (c_durable c)) (c_durable c)"
    and cmd: "cc_command_type cmd = ''reconcile_order''" "cc_account_id cmd = a" "extract_order_id J U cmd = Some (or_id x)"
  obtains c' where "dispatch D J U (paper_adapter D U md now) cmd c = (Ok (), c')" "c_faults c' = []"
    "order_filled_by a x (paper_fill a x e (c_durable c)) (c_durable c) (c_durable c')"
proof -
  let ?d = "c_durable c" and ?t = "tenant_session a c" and ?f = "paper_fill a x e (c_durable c)"
  have orders: "orders_ok (t_orders ?d)" using c(3) by (simp add: books_ok_def tables_ok_def)
  have find: "find_order a (or_id x) (App (Some a)) ?d = Some x"
    unfolding find_order_def
    by (rule first_row_unique) (use x orders in \<open>auto simp: orders_ok_def distinct_map dest: inj_onD\<close>)
  have qty: "on_grid (fl_quantity ?f)" "0 < fl_quantity ?f" "or_filled_quantity x + fl_quantity ?f \<le> or_quantity x"
    "or_filled_quantity x + fl_quantity ?f = or_quantity x" "fl_fee ?f = 0"
    using x orders by (auto simp: paper_fill_def crossing_def orders_ok_def)
  have open_order: "legal_transition (parse_status (or_status x)) Filled"
    using x(4) by (auto simp: crossing_def parse_status_def)
  obtain r ev where r: "paper_reconcile_order D U md now (snapshot_of a x ?d) = Ok r"
    "rr_fills_to_add r = [?f]" "rr_new_status r = Some Filled"
    "rr_positions_delta r = [\<lparr>pd_symbol = or_symbol x,
       pd_quantity_delta = signed_qty (parse_side (or_side x)) (fl_quantity ?f)\<rparr>]"
    "rr_events r = [ev]" "re_event_type ev = ''order_filled''"
    by (rule paper_answers [OF D c(3) x(1,2,4,3), of U]) (simp add: paper_fill_def)
  have event: "re_event_type ev \<in> set risk_event_types" by (simp add: r(6) risk_event_types_def)
  obtain ps row c' where
    p: "persist_reconcile_result D a (or_id x) (snapshot_of a x ?d) r ?t = (Ok (), c')" "c_faults c' = []"
    "c_durable c' = ?d\<lparr>t_positions := ps,
       t_orders := orders_set_to a (or_id x) Filled (or_filled_quantity x + fl_quantity ?f) (t_orders ?d),
       t_order_fills := t_order_fills ?d @ [fill_row_of a (or_id x) ?f],
       t_risk_events := t_risk_events ?d @ [row]\<rparr>"
    "net_position a (or_symbol x) ps =
       net_position a (or_symbol x) (t_positions ?d) + signed_qty (parse_side (or_side x)) (fl_quantity ?f)"
    "ev_account_id row = a" "ev_event_type row = re_event_type ev"
    by (rule persist_answers [OF D _ _ _ _ _ _ open_order, of ?t a "or_id x" ?f r ev])
      (use c f x(3) find qty r(2-5) event in \<open>simp_all add: admits_def ids_unused_def\<close>)
  have run: "dispatch D J U (paper_adapter D U md now) cmd c = (Ok (), c')"
    using cmd hydrate_answers [OF c(1) find] r(1) p(1)
    by (simp add: dispatch_def paper_adapter_def live_step live_simps)
  have "order_of (t_orders (c_durable c')) (or_id x) =
      Some (x\<lparr>or_status := ''filled'', or_filled_quantity := or_quantity x\<rparr>)"
    using order_of_unique [OF orders x(1) refl] x(2) qty(4) by (simp add: p(3) orders_set_to_def order_of_update)
  with p(3-6) r(6) have "order_filled_by a x ?f ?d (c_durable c')"
    by (simp add: order_filled_by_def)
  with run p(2) show thesis by (rule that)
qed

section \<open>A command to submit an order\<close>

text \<open>The command to reconcile the order for the first time, as the worker writes it.\<close>

definition first_reconcile :: "uuid_ops \<Rightarrow> uuid \<Rightarrow> claimed_command \<Rightarrow> uuid \<Rightarrow> nat \<Rightarrow> command_row" where
  "first_reconcile U oid cmd cid now =
     \<lparr>cm_id = cid, cm_account_id = cc_account_id cmd, cm_command_type = ''reconcile_order'',
      cm_exchange_mode = mode_str (cc_exchange_mode cmd), cm_status = ''pending'',
      cm_idempotency_key = uuid_str U oid @ '':reconcile:initial'', cm_payload = order_ref U oid, cm_attempts = 0,
      cm_leased_until = None, cm_created_at = now\<rparr>"

lemma live_command:
  assumes "live c" "c_role c = App (Some (cc_account_id cmd))" "account_exists (cc_account_id cmd) (c_db c)"
    "c_ids c (c_next c) \<notin> cm_id ` set (t_exchange_commands (c_db c))"
    "(cc_account_id cmd, uuid_str U oid @ '':reconcile:initial'') \<notin>
       (\<lambda>y. (cm_account_id y, cm_idempotency_key y)) ` set (t_exchange_commands (c_db c))"
  shows "insert_exchange_command (cc_account_id cmd) ''reconcile_order'' (cc_exchange_mode cmd)
      (uuid_str U oid @ '':reconcile:initial'') (order_ref U oid) c =
    (Ok (), c\<lparr>c_next := Suc (c_next c), c_db := (c_db c)\<lparr>t_exchange_commands :=
       t_exchange_commands (c_db c) @ [first_reconcile U oid cmd (c_ids c (c_next c)) (c_now c)]\<rparr>\<rparr>)"
proof -
  let ?row = "first_reconcile U oid cmd (c_ids c (c_next c)) (c_now c)"
  have "\<not> list_ex (\<lambda>x. cm_account_id x = cc_account_id cmd \<and>
      cm_idempotency_key x = uuid_str U oid @ '':reconcile:initial'') (t_exchange_commands (c_db c))"
    "\<not> list_ex (\<lambda>x. cm_id x = c_ids c (c_next c)) (t_exchange_commands (c_db c))"
    using assms(4,5) by (force simp: list_ex_iff)+
  moreover have "mode_str (cc_exchange_mode cmd) \<in> {''paper'', ''live''}" by (cases "cc_exchange_mode cmd") simp_all
  ultimately have "sql_insert_exchange_command ?row (App (Some (cc_account_id cmd))) (c_db c) =
      Ok ((), (c_db c)\<lparr>t_exchange_commands := t_exchange_commands (c_db c) @ [?row]\<rparr>)"
    using assms(3) by (simp add: sql_insert_exchange_command_def guard_def command_check_def first_reconcile_def)
  with assms(1,2) have "stmt (sql_insert_exchange_command ?row) (c\<lparr>c_next := Suc (c_next c)\<rparr>) =
      (Ok (), c\<lparr>c_next := Suc (c_next c), c_db := (c_db c)\<lparr>t_exchange_commands :=
        t_exchange_commands (c_db c) @ [?row]\<rparr>\<rparr>)"
    by (subst live_stmt) auto
  with assms(1) show ?thesis
    by (simp add: insert_exchange_command_def live_step live_simps first_reconcile_def)
qed

lemma dispatch_submits:
  assumes c: "c_faults c = []" "orders_ok (t_orders (c_durable c))" "account_exists a (c_durable c)"
    "c_ids c (c_next c) \<notin> cm_id ` set (t_exchange_commands (c_durable c))"
    "(a, uuid_str U (or_id x) @ '':reconcile:initial'') \<notin>
       (\<lambda>y. (cm_account_id y, cm_idempotency_key y)) ` set (t_exchange_commands (c_durable c))"
    and x: "x \<in> set (t_orders (c_durable c))" "or_account_id x = a" "or_status x = ''pending''" "or_quantity x < grid_bound"
    and cmd: "cc_command_type cmd = ''submit_order''" "cc_account_id cmd = a" "extract_order_id J U cmd = Some (or_id x)"
  obtains c' where "dispatch D J U (paper_adapter D U md now) cmd c = (Ok (), c')" "c_faults c' = []"
    "c_durable c' = (c_durable c)\<lparr>
       t_orders := orders_set_to a (or_id x) Submitted (or_filled_quantity x) (t_orders (c_durable c)),
       t_exchange_commands := t_exchange_commands (c_durable c) @
         [first_reconcile U (or_id x) cmd (c_ids c (c_next c)) (c_now c)]\<rparr>"
proof -
  let ?d = "c_durable c" and ?t = "tenant_session a c"
  let ?d1 = "?d\<lparr>t_orders := orders_set_to a (or_id x) Submitted (or_filled_quantity x) (t_orders ?d)\<rparr>"
  have find: "find_order a (or_id x) (App (Some a)) ?d = Some x"
    unfolding find_order_def
    by (rule first_row_unique) (use x c(2) in \<open>auto simp: orders_ok_def distinct_map dest: inj_onD\<close>)
  have row: "0 \<le> or_filled_quantity x" "or_filled_quantity x \<le> or_quantity x" "on_grid (or_filled_quantity x)"
    using c(2) x(1) by (auto simp: orders_ok_def order_check_def)
  then have "storable (or_filled_quantity x)" using x(4) by (intro storableI) auto
  then have upd: "update_order_status a (or_id x) Submitted (or_filled_quantity x) ?t = (Ok (), ?t\<lparr>c_db := ?d1\<rparr>)"
    using live_update_order [of ?t a "or_filled_quantity x" x "or_id x" Submitted] c(1,2) x(1,2) row by simp
  let ?row = "first_reconcile U (or_id x) cmd (c_ids c (c_next c)) (c_now c)"
  have ins: "insert_exchange_command a ''reconcile_order'' (cc_exchange_mode cmd)
      (uuid_str U (or_id x) @ '':reconcile:initial'') (order_ref U (or_id x)) (?t\<lparr>c_db := ?d1\<rparr>) =
    (Ok (), ?t\<lparr>c_next := Suc (c_next c), c_db := ?d1\<lparr>t_exchange_commands := t_exchange_commands ?d @ [?row]\<rparr>\<rparr>)"
    using live_command [of "?t\<lparr>c_db := ?d1\<rparr>" cmd U "or_id x"] c cmd(2)
    by (simp add: account_exists_def)
  have tenant: "tenant_session a (tenant_session a c) = tenant_session a c" by (simp add: tenant_session_def)
  have pend: "parse_status (or_status x) = Pending" using x(3) by (simp add: parse_status_def)
  have "finish_submit U cmd (or_id x) ?t = (Ok (), ?t\<lparr>c_next := Suc (c_next c), c_db := ?d1\<lparr>t_exchange_commands :=
      t_exchange_commands ?d @ [?row]\<rparr>, c_durable := ?d1\<lparr>t_exchange_commands :=
      t_exchange_commands ?d @ [?row]\<rparr>\<rparr>)"
    using cmd(2) c(1) find upd ins
    by (simp add: finish_submit_def live_step live_simps tenant row_to_order_def pend)
  then have run: "dispatch D J U (paper_adapter D U md now) cmd c = (Ok (), ?t\<lparr>c_next := Suc (c_next c), c_db := ?d1\<lparr>t_exchange_commands :=
      t_exchange_commands ?d @ [?row]\<rparr>, c_durable := ?d1\<lparr>t_exchange_commands :=
      t_exchange_commands ?d @ [?row]\<rparr>\<rparr>)"
    using cmd hydrate_answers [OF c(1) find]
    by (simp add: dispatch_def paper_adapter_def paper_submit_def live_step live_simps)
  show thesis by (rule that [OF run]) (use c(1) in simp_all)
qed

text \<open>The command reads back as what it was written for.\<close>

lemma first_reconcile_order:
  assumes "json_laws J" "uuid_laws U"
  shows "extract_order_id J U (row_to_claimed (first_reconcile U oid cmd cid now)) = Some oid"
proof -
  have "j_get J (JObj [(k, v)]) k = Some v" "j_as_str J (JStr s) = Some s" for k v s
    using assms(1) by (simp_all add: json_laws_def)
  with assms(2) show ?thesis
    by (simp add: extract_order_id_def row_to_claimed_def first_reconcile_def order_ref_def str_field_def uuid_laws_def)
qed

section \<open>After the dispatch\<close>

lemma dispatched_delivered:
  assumes "resolve sv (cc_exchange_mode cmd) = Some ad" "dispatch D J U ad cmd c = (Ok (), c1)" "c_faults c1 = []"
    "process_command D J U sv cmd c = (z, c')"
  shows "z = Ok ()" "c_durable c' = (c_durable c1)\<lparr>t_exchange_commands := update_where (\<lambda>x. cm_id x = cc_id cmd)
       (\<lambda>x. x\<lparr>cm_status := ''delivered''\<rparr>) (t_exchange_commands (c_durable c1))\<rparr>"
proof -
  obtain c2 where m: "mark_command_delivered (cc_id cmd) c1 = (Ok (), c2)"
    "c_durable c2 = (c_durable c1)\<lparr>t_exchange_commands := update_where (\<lambda>x. cm_id x = cc_id cmd)
       (\<lambda>x. x\<lparr>cm_status := ''delivered''\<rparr>) (t_exchange_commands (c_durable c1))\<rparr>"
    using assms(3) by (simp add: mark_command_delivered_def auto_stmt_def io_def sql_set_command_status_def)
  have "acquire c1 = (Ok (), c1)" using assms(3) by (simp add: acquire_def io_def)
  then have "process_command D J U sv cmd c = (Ok (), c2)"
    using assms(1,2) m(1) by (simp add: process_command_def tx_handle_def live_step)
  with assms(4) m(2) show "z = Ok ()" "c_durable c' = (c_durable c1)\<lparr>t_exchange_commands :=
       update_where (\<lambda>x. cm_id x = cc_id cmd)
       (\<lambda>x. x\<lparr>cm_status := ''delivered''\<rparr>) (t_exchange_commands (c_durable c1))\<rparr>"
    by simp_all
qed

end
