(* ===== verification/Server_Main.thy ===== *)
theory Server_Main
  imports Router Binance_Rest Paper_Adapter
begin

text \<open>
  \<open>crates/server/src/main.rs\<close>: what the process wires together. Its caches start empty, one task
  refreshes the symbol metadata, one polls the quotes of the tradable symbols, one runs passes of the
  outbox worker, and the router serves requests, all on the same caches. The sleeps between the rounds
  of a task are left open: a round may come at any time.
\<close>

section \<open>The caches\<close>

definition main_state :: app_state where
  "main_state = \<lparr>app_symbols = store_new 120, app_market_data = md_new 10\<rparr>"

text \<open>\<open>routes::app\<close>, the router with caches of its own.\<close>

definition app_default_state :: app_state where
  "app_default_state = \<lparr>app_symbols = store_new 60, app_market_data = md_new 10\<rparr>"

definition market_client :: binance_config where
  "market_client = binance_testnet [] []"

text \<open>The fetch at start-up and one round of the metadata task; a failed fetch is only logged.\<close>

definition refresh_symbols ::
    "dec_ops \<Rightarrow> json_ops \<Rightarrow> http_client \<Rightarrow> instant \<Rightarrow> app_state \<Rightarrow> app_state" where
  "refresh_symbols D J N now st =
     (case fetch_exchange_info D J N market_client of
        Ok metas \<Rightarrow> st\<lparr>app_symbols := replace_all (app_symbols st) metas now\<rparr>
      | _ \<Rightarrow> st)"

text \<open>
  One round of the quote task: one request, one reading of the tradable set at \<open>t_sym\<close>, and one time
  \<open>now\<close> for all quotes.
\<close>

definition poll_quotes ::
    "dec_ops \<Rightarrow> json_ops \<Rightarrow> http_client \<Rightarrow> instant \<Rightarrow> instant \<Rightarrow> app_state \<Rightarrow> app_state" where
  "poll_quotes D J N t_sym now st =
     (case fetch_all_book_tickers D J N market_client of
        Ok tickers \<Rightarrow>
          (let tradable = tradable_symbols (app_symbols st) t_sym in
           st\<lparr>app_market_data := feed_batch md_update (\<lambda>s. s \<in> set tradable) now (app_market_data st) tickers\<rparr>)
      | _ \<Rightarrow> st)"

section \<open>The worker task\<close>

text \<open>Paper trading is wired, live trading is not.\<close>

definition main_supervisor :: "dec_ops \<Rightarrow> uuid_ops \<Rightarrow> app_state \<Rightarrow> instant \<Rightarrow> supervisor" where
  "main_supervisor D U st now =
     \<lparr>sv_paper_adapter = Some (paper_adapter D U (app_market_data st) now), sv_live_adapter = None\<rparr>"

definition worker_round :: "dec_ops \<Rightarrow> json_ops \<Rightarrow> uuid_ops \<Rightarrow> app_state \<Rightarrow> instant \<Rightarrow> nat tx" where
  "worker_round D J U st now = run_once D J U (main_supervisor D U st now) 20"

section \<open>What the caches hold\<close>

text \<open>The caches of the running process, with the time of the last round.\<close>

inductive caches :: "dec_ops \<Rightarrow> json_ops \<Rightarrow> app_state \<Rightarrow> instant \<Rightarrow> bool" for D J where
  started: "caches D J main_state t"
| refreshed: "caches D J st t \<Longrightarrow> t \<le> now \<Longrightarrow> caches D J (refresh_symbols D J N now st) now"
| polled: "caches D J st t \<Longrightarrow> t \<le> t_sym \<Longrightarrow> t_sym \<le> now \<Longrightarrow> caches D J (poll_quotes D J N t_sym now st) now"

text \<open>Every cached quote is a sane book, not newer than the last round.\<close>

definition quote_ok :: "instant \<Rightarrow> book_top \<Rightarrow> bool" where
  "quote_ok t b \<longleftrightarrow> 0 < bt_bid b \<and> bt_bid b \<le> bt_ask b \<and> bt_last_update b \<le> t"

definition caches_ok :: "app_state \<Rightarrow> instant \<Rightarrow> bool" where
  "caches_ok st t \<longleftrightarrow> store_wf (app_symbols st) \<and> st_max_age (app_symbols st) = 120 \<and>
     md_max_age (app_market_data st) = 10 \<and>
     (\<forall>r. st_last_refreshed (app_symbols st) = Some r \<longrightarrow> r \<le> t) \<and>
     (\<forall>s b. md_top (app_market_data st) s = Some b \<longrightarrow> quote_ok t b)"

lemma fetched_tickers_sane:
  assumes "fetch_all_book_tickers D J N cfg = Ok ts" "(s, bid, ask) \<in> set ts"
  shows "0 < bid \<and> bid \<le> ask"
proof -
  from assms(1) obtain body where "parse_all_book_tickers D J body = Ok ts"
    by (auto simp: fetch_all_book_tickers_def res_simps)
  then obtain arr where "ts = List.map_filter (parse_ticker D J) arr"
    by (auto simp: parse_all_book_tickers_def res_simps)
  with assms(2) obtain e where "parse_ticker D J e = Some (s, bid, ask)"
    by (auto simp: List.map_filter_def)
  from parse_ticker_sane [OF this] show ?thesis by simp
qed

lemma feed_batch_quotes:
  assumes "\<forall>(s, bid, ask)\<in>set ts. 0 < bid \<and> bid \<le> ask"
    "\<forall>s b. md_top md s = Some b \<longrightarrow> quote_ok t b"
  shows "\<forall>s b. md_top (feed_batch md_update tr t md ts) s = Some b \<longrightarrow> quote_ok t b"
  using assms
proof (induction ts arbitrary: md)
  case Nil
  then show ?case by simp
next
  case (Cons q ts)
  obtain u bid ask where q: "q = (u, bid, ask)" by (cases q) auto
  have "\<forall>s b. md_top (if tr u then md_update md u bid ask t else md) s = Some b \<longrightarrow> quote_ok t b"
    using Cons.prems q by (auto simp: md_top_def md_update_def quote_ok_def)
  with Cons q show ?case by simp
qed

lemma caches_invariant:
  assumes "caches D J st t"
  shows "caches_ok st t"
  using assms
proof induction
  case (started t)
  show ?case by (simp add: caches_ok_def main_state_def store_wf_def store_new_def md_new_def md_top_def)
next
  case (refreshed st t now N)
  show ?case
  proof (cases "fetch_exchange_info D J N market_client")
    case (Ok metas)
    with refreshed show ?thesis
      by (auto simp: caches_ok_def refresh_symbols_def metadata.wf_replace quote_ok_def intro: order_trans)
        (auto simp: replace_all_def)
  qed (use refreshed in \<open>auto simp: caches_ok_def refresh_symbols_def quote_ok_def intro: order_trans\<close>)
next
  case (polled st t t_sym now N)
  show ?case
  proof (cases "fetch_all_book_tickers D J N market_client")
    case (Ok ts)
    have old: "\<forall>s b. md_top (app_market_data st) s = Some b \<longrightarrow> quote_ok now b"
      using polled by (fastforce simp: caches_ok_def quote_ok_def)
    have "\<forall>(s, bid, ask)\<in>set ts. 0 < bid \<and> bid \<le> ask"
      using fetched_tickers_sane [OF Ok] by auto
    from feed_batch_quotes [OF this old] polled Ok show ?thesis
      by (fastforce simp: caches_ok_def poll_quotes_def Let_def feed.window_batch)
  qed (use polled in \<open>fastforce simp: caches_ok_def poll_quotes_def quote_ok_def\<close>)+
qed

text \<open>A stale metadata store refuses every order before the database is asked.\<close>

lemma stale_refuses:
  assumes "is_stale (app_symbols st) now"
  shows "\<exists>m. place_order D U st now t a body c = (Err (Invalid m), c)"
proof -
  have "store_get (app_symbols st) (pq_symbol body) now = None"
    by (rule metadata.lookup_stale [OF assms])
  then show ?thesis
    by (auto simp: place_order_def prevalidate_def tx_bind_def tx_handle_def tx_lift_def tx_fail_def)
qed

end
