(* ===== verification/Worker_Properties.thy ===== *)
theory Worker_Properties
  imports System_Properties Settling Progress Server_Main
begin

text \<open>
  The properties of the outbox worker and of the caches the process is started with. The witnesses are
  at the states of \<open>Scenario\<close>.
\<close>

section \<open>The outbox\<close>

text \<open>
  C24: A claim takes at most its limit of commands, each pending or with a lease that has run out, no
  claimable command left behind is older than one taken, and every command taken is leased for the
  whole lease.
\<close>

theorem claims_take_the_oldest:
  assumes "distinct (map cm_id (t_exchange_commands (c_durable c)))"
    "claim_pending_commands n secs c = (Ok cs, c')"
  shows "length cs \<le> n \<and>
    (\<forall>x\<in>set (t_exchange_commands (c_durable c)). cm_id x \<in> cc_id ` set cs \<longrightarrow> claimable (c_now c) x \<and>
       (\<forall>y\<in>set (t_exchange_commands (c_durable c)). claimable (c_now c) y \<and> cm_id y \<notin> cc_id ` set cs \<longrightarrow>
          cm_created_at x \<le> cm_created_at y)) \<and>
    (\<forall>x\<in>set (t_exchange_commands (c_durable c')). cm_id x \<in> cc_id ` set cs \<longrightarrow>
       cm_status x = ''leased'' \<and> cm_leased_until x = Some (c_now c + secs))"
proof -
  let ?rows = "t_exchange_commands (c_durable c)"
  let ?ids = "set (claim_ids (c_now c) n ?rows)"
  let ?s = "sort_key cm_created_at (filter (claimable (c_now c)) ?rows)"
  note ok = claim_Ok [OF assms(2)]
  have "cc_id (row_to_claimed x) = cm_id x" for x by (simp add: row_to_claimed_def)
  then have "cc_id ` set cs = cm_id ` {x \<in> set ?rows. cm_id x \<in> ?ids}"
    by (simp only: ok(1) set_map image_image set_filter)
  then have ids: "cm_id x \<in> cc_id ` set cs \<longleftrightarrow> cm_id x \<in> ?ids" if "x \<in> set ?rows" for x
    using that by auto
  have "length cs \<le> n" using claim_limit [OF assms(1)] by (simp add: ok(1))
  moreover have "claimable (c_now c) x \<and> (\<forall>y\<in>set ?rows. claimable (c_now c) y \<and> cm_id y \<notin> cc_id ` set cs \<longrightarrow>
      cm_created_at x \<le> cm_created_at y)" if x: "x \<in> set ?rows" "cm_id x \<in> cc_id ` set cs" for x
  proof -
    have taken: "x \<in> set (take n ?s)" using x ids chosen_rows [OF assms(1)] by simp
    then have "claimable (c_now c) x" by (auto dest: in_set_takeD)
    moreover have "cm_created_at x \<le> cm_created_at y"
      if "y \<in> set ?rows" "claimable (c_now c) y" "cm_id y \<notin> cc_id ` set cs" for y
      using that ids chosen_rows [OF assms(1)] by (intro claim_oldest [OF taken]) auto
    ultimately show ?thesis by blast
  qed
  moreover have "cm_status x = ''leased'' \<and> cm_leased_until x = Some (c_now c + secs)"
    if x: "x \<in> set (t_exchange_commands (c_durable c'))" "cm_id x \<in> cc_id ` set cs" for x
  proof -
    from x(1) obtain y where y: "y \<in> set ?rows" "x = (if cm_id y \<in> ?ids then leased_until (c_now c + secs) y else y)"
      by (auto simp: ok(2) set_update_where)
    have "cm_id x = cm_id y" using y(2) by (simp add: leased_until_def)
    then have "cm_id y \<in> ?ids" using x(2) ids [OF y(1)] by simp
    then show ?thesis using y(2) by (simp add: leased_until_def)
  qed
  ultimately show ?thesis by blast
qed

lemma sample_claim_distinct: "distinct (map cm_id (t_exchange_commands (c_durable (sess 6 db2))))"
  by (simp add: db2_def)

theorem claims_take_the_oldest_witness:
  "\<exists>c. claim_pending_commands 10 30 (sess 6 db2) = (Ok [sample_claimed], c) \<and>
     (\<forall>x\<in>set (t_exchange_commands (c_durable c)). cm_id x = 4 \<longrightarrow> cm_leased_until x = Some 1030)"
proof -
  obtain c where c: "claim_pending_commands 10 30 (sess 6 db2) = (Ok [sample_claimed], c)" "c_durable c = db3"
    by (rule command_claimed)
  from claims_take_the_oldest [OF sample_claim_distinct c(1)] c(1) show ?thesis
    by (auto simp: sample_claimed_def row_to_claimed_def sample_command_def)
qed




text \<open>
  C25: No command is lost with its worker: a leased command whose lease has run out is returned by the next
  claim that reaches the database and whose limit covers what is claimable.
\<close>

theorem lapsed_lease_is_reclaimed:
  assumes "x \<in> set (t_exchange_commands (c_durable c))" "cm_status x = ''leased''" "cm_leased_until x = Some t"
    "t < c_now c" "length (filter (claimable (c_now c)) (t_exchange_commands (c_durable c))) \<le> n"
    "claim_pending_commands n secs c = (Ok cs, c')"
  shows "row_to_claimed x \<in> set cs"
proof -
  have "claimable (c_now c) x" using assms(2-4) by (simp add: claimable_def)
  from claim_all [OF assms(5,1) this] assms(1) show ?thesis by (simp add: claim_Ok(1) [OF assms(6)])
qed

lemma sample_late_claim:
  obtains cs c where "claim_pending_commands 10 30 (sess 6 db3\<lparr>c_now := 2000\<rparr>) = (Ok cs, c)"
  by (simp add: run_defs claim_pending_commands_def sql_claim_pending_commands_def claim_ids_def claimable_def
      sess_def db2_def db3_def db1_def empty_db_def row_defs Let_def)

theorem lapsed_lease_is_reclaimed_witness:
  "\<exists>cs c. claim_pending_commands 10 30 (sess 6 db3\<lparr>c_now := 2000\<rparr>) = (Ok cs, c) \<and> sample_claimed \<in> set cs"
proof -
  obtain cs c where c: "claim_pending_commands 10 30 (sess 6 db3\<lparr>c_now := 2000\<rparr>) = (Ok cs, c)"
    by (rule sample_late_claim)
  have "sample_claimed \<in> set cs"
    unfolding sample_claimed_def
    by (rule lapsed_lease_is_reclaimed [where t = 1030, OF _ _ _ _ _ c])
      (simp_all add: db3_def sample_command_def sess_def)
  with c show ?thesis by blast
qed


definition idle_supervisor :: supervisor where
  "idle_supervisor = \<lparr>sv_paper_adapter = None, sv_live_adapter = None\<rparr>"

text \<open>
  C12: A pass ends: where the database answers and nothing panics, \<open>run_once\<close> returns the number of commands
  it claimed, and none of them is left leased; each is delivered, rejected, waiting for reconciliation, or
  pending again.
\<close>

theorem run_once_settles:
  assumes "tables_ok (c_durable c)" "c_faults c = []"
    "\<forall>x\<in>set (t_exchange_commands (c_durable c)). sint (cm_attempts x) < 2 ^ 31 - 1"
    "run_once D J U sv n c = (z, c')" "z \<noteq> Panic"
  shows "z = Ok (length (claim_ids (c_now c) n (t_exchange_commands (c_durable c)))) \<and>
    (\<forall>x\<in>set (t_exchange_commands (c_durable c')).
       cm_id x \<in> set (claim_ids (c_now c) n (t_exchange_commands (c_durable c))) \<longrightarrow>
       cm_status x \<in> {''pending'', ''delivered'', ''permanently_rejected'', ''reconciliation_required''})"
proof -
  have z: "z = Ok (length (claim_ids (c_now c) n (t_exchange_commands (c_durable c))))"
    by (rule run_once_returns [OF assms(1,2,4,5)])
  with run_once_settled [OF assms(1-3)] assms(4) show ?thesis
    by (auto simp: command_settled_def settled_states_def)
qed

lemma sample_tables: "tables_ok db2"
proof -
  from reachable_ok [OF ref_dec_laws sample_reachable_placed] show ?thesis
    by (simp add: system_ok_def books_ok_def)
qed

lemma sample_idle_pass:
  obtains c where "run_once ref_dec ref_json ref_uuid idle_supervisor 10 (sess 6 db2) = (Ok 1, c)"
  by (simp add: run_defs run_once_def claim_pending_commands_def sql_claim_pending_commands_def claim_ids_def
      claimable_def process_command_def resolve_def idle_supervisor_def parse_mode_def acquire_def audit_event_def
      mark_command_reconciliation_required_def sql_set_command_status_def row_to_claimed_def sample_command_def risk_event_types_def res_simps
      sess_def db2_def db1_def empty_db_def statement_defs row_defs Let_def)

theorem run_once_settles_witness:
  "\<exists>c. run_once ref_dec ref_json ref_uuid idle_supervisor 10 (sess 6 db2) = (Ok 1, c) \<and>
     filter (\<lambda>x. cm_id x = 4 \<and> cm_status x = ''leased'') (t_exchange_commands (c_durable c)) = []"
proof -
  obtain c where c: "run_once ref_dec ref_json ref_uuid idle_supervisor 10 (sess 6 db2) = (Ok 1, c)"
    by (rule sample_idle_pass)
  have "cm_id x = 4 \<longrightarrow> cm_status x \<noteq> ''leased''" if "x \<in> set (t_exchange_commands (c_durable c))" for x
    using run_once_settles [OF _ _ _ c] that sample_tables
    by (auto simp: sess_def db2_def sample_command_def claim_ids_def claimable_def)
  with c show ?thesis by (auto simp: filter_empty_conv)
qed

text \<open>
  C14: A submission leads to its reconciliation: where the database answers, the command to submit a pending
  paper order ends delivered, with the order submitted and nothing else of it changed, and leaves a pending
  command in the outbox, for the same account and mode, that reads back as the reconciliation of that order.
\<close>

theorem submission_schedules_reconciliation:
  assumes "json_laws J" "uuid_laws U" "c_faults c = []" "orders_ok (t_orders (c_durable c))"
    "account_exists a (c_durable c)"
    "c_ids c (c_next c) \<notin> cm_id ` set (t_exchange_commands (c_durable c))"
    "(a, uuid_str U (or_id x) @ '':reconcile:initial'') \<notin>
       (\<lambda>y. (cm_account_id y, cm_idempotency_key y)) ` set (t_exchange_commands (c_durable c))"
    "x \<in> set (t_orders (c_durable c))" "or_account_id x = a" "or_status x = ''pending''" "or_quantity x < grid_bound"
    "cc_command_type cmd = ''submit_order''" "cc_account_id cmd = a" "extract_order_id J U cmd = Some (or_id x)"
    "cc_id cmd \<in> cm_id ` set (t_exchange_commands (c_durable c))"
    "resolve sv (cc_exchange_mode cmd) = Some (paper_adapter D U md now)"
    "process_command D J U sv cmd c = (z, c')"
  shows "z = Ok () \<and> order_of (t_orders (c_durable c')) (or_id x) = Some (x\<lparr>or_status := ''submitted''\<rparr>) \<and>
    (\<forall>y\<in>set (t_exchange_commands (c_durable c')). cm_id y = cc_id cmd \<longrightarrow> cm_status y = ''delivered'') \<and>
    (\<exists>row\<in>set (t_exchange_commands (c_durable c')). cm_status row = ''pending'' \<and>
       cc_command_type (row_to_claimed row) = ''reconcile_order'' \<and> cc_account_id (row_to_claimed row) = a \<and>
       cc_exchange_mode (row_to_claimed row) = cc_exchange_mode cmd \<and>
       extract_order_id J U (row_to_claimed row) = Some (or_id x))"
proof -
  let ?row = "first_reconcile U (or_id x) cmd (c_ids c (c_next c)) (c_now c)"
  obtain c1 where d: "dispatch D J U (paper_adapter D U md now) cmd c = (Ok (), c1)" "c_faults c1 = []"
    "c_durable c1 = (c_durable c)\<lparr>
       t_orders := orders_set_to a (or_id x) Submitted (or_filled_quantity x) (t_orders (c_durable c)),
       t_exchange_commands := t_exchange_commands (c_durable c) @ [?row]\<rparr>"
    by (rule dispatch_submits [OF assms(3-14)])
  note p = dispatched_delivered [OF assms(16) d(1,2) assms(17)]
  have order: "order_of (t_orders (c_durable c')) (or_id x) = Some (x\<lparr>or_status := ''submitted''\<rparr>)"
    using order_of_unique [OF assms(4,8) refl] assms(9) by (simp add: p(2) d(3) orders_set_to_def order_of_update)
  have "cm_id ?row \<noteq> cc_id cmd" using assms(6,15) by (auto simp: first_reconcile_def)
  then have "?row \<in> set (t_exchange_commands (c_durable c'))"
    by (simp add: p(2) d(3) update_where_def)
  moreover have "cc_exchange_mode (row_to_claimed ?row) = cc_exchange_mode cmd"
    by (cases "cc_exchange_mode cmd") (simp_all add: row_to_claimed_def first_reconcile_def parse_mode_def)
  moreover have "cc_account_id cmd = a" by fact
  moreover have "cm_status y = ''delivered''"
    if "y \<in> set (t_exchange_commands (c_durable c'))" "cm_id y = cc_id cmd" for y
    using set_status_where that by (simp add: p(2))
  ultimately show ?thesis
    using p(1) order first_reconcile_order [OF assms(1,2), of "or_id x" cmd "c_ids c (c_next c)" "c_now c"]
    by (intro conjI bexI [of _ ?row] ballI impI) (simp_all add: row_to_claimed_def first_reconcile_def)
qed



definition sample_supervisor :: supervisor where
  "sample_supervisor = \<lparr>sv_paper_adapter =
     Some (paper_adapter ref_dec ref_uuid (app_market_data (se_state sample_env)) 101), sv_live_adapter = None\<rparr>"


theorem submission_schedules_reconciliation_witness:
  "order_of (t_orders (c_durable (snd (process_command ref_dec ref_json ref_uuid sample_supervisor sample_claimed
     (sess 6 db3))))) 3 = Some (sample_row ''submitted'' 0)"
proof -
  obtain z c where p: "process_command ref_dec ref_json ref_uuid sample_supervisor sample_claimed (sess 6 db3) = (z, c)"
    by fastforce
  have orders: "orders_ok (t_orders db3)"
    by (simp add: orders_ok_def order_check_def db3_def db2_def sample_row_def)
  have "cc_command_type sample_claimed = ''submit_order''" "cc_account_id sample_claimed = 1" "cc_id sample_claimed = 4"
    "extract_order_id ref_json ref_uuid sample_claimed = Some 3"
    "resolve sample_supervisor (cc_exchange_mode sample_claimed) =
       Some (paper_adapter ref_dec ref_uuid (app_market_data (se_state sample_env)) 101)"
    by (simp_all add: sample_claimed_def row_to_claimed_def sample_command_def extract_order_id_def
        order_id_payload_def str_field_def ref_json_def ref_uuid_laws [unfolded uuid_laws_def] parse_mode_def
        resolve_def sample_supervisor_def)
  with orders submission_schedules_reconciliation
    [OF ref_json_laws ref_uuid_laws _ _ _ _ _ _ _ _ _ _ _ _ _ _ p, of 1 "sample_row ''pending'' 0"] p
  show ?thesis
    by (simp add: sess_def account_exists_def db3_def db2_def db1_def sample_row_def sample_command_def grid_bound_def)
qed





text \<open>
  C28: A command whose mode has no adapter fails closed: nothing of orders, fills or positions changes,
  and where the database answers, the command ends in the state that asks for reconciliation.
\<close>

theorem missing_adapter_fails_closed:
  assumes "resolve sv (cc_exchange_mode cmd) = None" "process_command D J U sv cmd c = (z, c')"
  shows "same_trading (c_durable c) (c_durable c') \<and>
    (c_faults c = [] \<longrightarrow> (\<forall>cm\<in>set (t_exchange_commands (c_durable c')). cm_id cm = cc_id cmd \<longrightarrow>
       cm_status cm = ''reconciliation_required''))"
  using unrouted_command [OF assms] by blast

theorem missing_adapter_fails_closed_witness:
  "filter (\<lambda>cm. cm_id cm = 4 \<and> cm_status cm \<noteq> ''reconciliation_required'')
     (t_exchange_commands (c_durable (snd (process_command ref_dec ref_json ref_uuid idle_supervisor
        sample_claimed (sess 7 db3))))) = []"
proof -
  obtain z c where p: "process_command ref_dec ref_json ref_uuid idle_supervisor sample_claimed (sess 7 db3) = (z, c)"
    by fastforce
  have "resolve idle_supervisor (cc_exchange_mode sample_claimed) = None"
    by (simp add: resolve_def idle_supervisor_def split: exchange_mode.split)
  from missing_adapter_fails_closed [OF this p] p show ?thesis
    by (auto simp: sess_def sample_claimed_def row_to_claimed_def sample_command_def filter_empty_conv)
qed

text \<open>
  C27: A reconcile result that exactly closes the open position of an account in a symbol is never booked:
  the position's quantity would become zero, which the check on the table forbids, and the whole
  transaction, the fill with it, is rolled back.
\<close>

theorem closing_fill_never_booked:
  assumes "decimal_laws D" "positions_ok (t_positions (c_durable c))"
    "rr_positions_delta r = [\<lparr>pd_symbol = s, pd_quantity_delta = - net_position a s (t_positions (c_durable c))\<rparr>]"
    "net_position a s (t_positions (c_durable c)) \<noteq> 0" "\<bar>net_position a s (t_positions (c_durable c))\<bar> < grid_bound"
    "persist_reconcile_result D a oid snap r c = (z, c')"
  shows "c_durable c' = c_durable c"
  using closing_delta_stuck [OF assms(1,2,4,5)] persist_effect [OF assms(6)] assms(3)
  by (auto simp: persisted_def fills_appended_def)

definition closing_result :: reconcile_result where
  "closing_result = \<lparr>rr_new_status = None, rr_fills_to_add = [],
     rr_positions_delta = [\<lparr>pd_symbol = ''BTC'', pd_quantity_delta = - 2\<rparr>], rr_events = [], rr_command = None\<rparr>"

lemma db5_position: "positions_ok (t_positions db5)" "net_position 1 ''BTC'' (t_positions db5) = 2"
  by (simp_all add: db5_def positions_ok_def net_position_def holds_def signed_quantity_def position_check_def)

theorem closing_fill_never_booked_witness:
  "c_durable (snd (persist_reconcile_result ref_dec 1 3 sample_snap closing_result (sess 9 db5))) = db5"
proof -
  obtain z c where p: "persist_reconcile_result ref_dec 1 3 sample_snap closing_result (sess 9 db5) = (z, c)"
    by fastforce
  from closing_fill_never_booked [OF ref_dec_laws _ _ _ _ p, of "''BTC''"] p db5_position show ?thesis
    by (simp add: closing_result_def grid_bound_def)
qed

section \<open>The caches\<close>

text \<open>
  C34: Whatever the exchange answers to the polls of the running process, every quote in its cache is a
  book with a positive bid not above the ask, received at or before the last round, and the windows stay
  the configured ones.
\<close>

theorem cached_quotes_sane:
  assumes "caches D J st t" "md_top (app_market_data st) s = Some b"
  shows "0 < bt_bid b \<and> bt_bid b \<le> bt_ask b \<and> bt_last_update b \<le> t \<and>
    md_max_age (app_market_data st) = 10 \<and> st_max_age (app_symbols st) = 120"
  using caches_invariant [OF assms(1)] assms(2) unfolding caches_ok_def quote_ok_def by blast

lemma sample_refreshed:
  obtains m where "refresh_symbols ref_dec ref_json (sample_client (JObj [(''symbols'', JArr [bare_entry])])) 1 main_state =
      main_state\<lparr>app_symbols := replace_all (store_new 120) [m] 1\<rparr>" "sm_symbol m = ''BTC''" "sm_status m = Trading"
proof -
  obtain m where m: "parse_symbol_meta ref_dec ref_json bare_entry = Ok m" "sm_symbol m = ''BTC''" "sm_status m = Trading"
    by (auto simp: parse_symbol_meta_def bare_entry_def ref_json_def str_field_def array_field_def Let_def
        parse_symbol_status_def)
  have "array_field ref_json (JObj [(''symbols'', JArr [bare_entry])]) ''symbols'' = Some [bare_entry]"
    by (simp add: array_field_def ref_json_def)
  with m(1) have "fetch_exchange_info ref_dec ref_json (sample_client (JObj [(''symbols'', JArr [bare_entry])])) market_client
      = Ok [m]"
    by (simp add: fetch_exchange_info_def http_json_def sample_client_def)
  with m(2,3) show thesis
    by (intro that [of m]) (simp_all add: refresh_symbols_def main_state_def)
qed

lemma sample_cached:
  obtains st where "caches ref_dec ref_json st 2"
    "md_top (app_market_data st) ''BTC'' = Some \<lparr>bt_bid = 99, bt_ask = 101, bt_last_update = 2\<rparr>"
proof -
  obtain m where m: "refresh_symbols ref_dec ref_json (sample_client (JObj [(''symbols'', JArr [bare_entry])])) 1 main_state =
      main_state\<lparr>app_symbols := replace_all (store_new 120) [m] 1\<rparr>" "sm_symbol m = ''BTC''" "sm_status m = Trading"
    by (rule sample_refreshed)
  let ?st = "main_state\<lparr>app_symbols := replace_all (store_new 120) [m] 1\<rparr>"
  have "caches ref_dec ref_json ?st 1"
    using caches.refreshed [OF caches.started, of 0 1 ref_dec ref_json "sample_client (JObj [(''symbols'', JArr [bare_entry])])"] m(1)
    by simp
  then have "caches ref_dec ref_json (poll_quotes ref_dec ref_json (sample_client sample_tickers) 2 2 ?st) 2"
    by (rule caches.polled) simp_all
  moreover have "fetch_all_book_tickers ref_dec ref_json (sample_client sample_tickers) market_client = Ok [(''BTC'', 99, 101)]"
    by (simp add: fetch_all_book_tickers_def http_json_def sample_client_def sample_tickers_parsed)
  then have "md_top (app_market_data (poll_quotes ref_dec ref_json (sample_client sample_tickers) 2 2 ?st)) ''BTC''
      = Some \<lparr>bt_bid = 99, bt_ask = 101, bt_last_update = 2\<rparr>"
    using m(2,3) by (simp add: poll_quotes_def Let_def tradable_symbols_def replace_all_def is_stale_def store_new_def
        md_update_def md_top_def)
  ultimately show thesis by (rule that)
qed

theorem cached_quotes_sane_witness:
  "\<exists>st b. caches ref_dec ref_json st 2 \<and> md_top (app_market_data st) ''BTC'' = Some b \<and> bt_last_update b \<le> 2"
proof -
  obtain st where st: "caches ref_dec ref_json st 2"
    "md_top (app_market_data st) ''BTC'' = Some \<lparr>bt_bid = 99, bt_ask = 101, bt_last_update = 2\<rparr>"
    by (rule sample_cached)
  from cached_quotes_sane [OF st] st show ?thesis by blast
qed

text \<open>
  C35: When the metadata was never fetched, or the last fetch that succeeded is more than 120 seconds ago,
  the process refuses every order before it asks the database.
\<close>

theorem stale_metadata_places_nothing:
  assumes "caches D J st t" "\<forall>r. st_last_refreshed (app_symbols st) = Some r \<longrightarrow> r + 120 < now"
  shows "\<exists>m. place_order D U st now t' a body c = (Err (Invalid m), c)"
proof (rule stale_refuses)
  show "is_stale (app_symbols st) now"
    using caches_invariant [OF assms(1)] assms(2)
    by (cases "st_last_refreshed (app_symbols st)") (auto simp: caches_ok_def is_stale_def)
qed

theorem stale_metadata_places_nothing_witness:
  "\<exists>m. place_order ref_dec ref_uuid main_state 5 5 1 sample_request (sess 3 db1) = (Err (Invalid m), sess 3 db1)"
  by (rule stale_metadata_places_nothing [OF caches.started [of ref_dec ref_json 0]])
    (simp add: main_state_def store_new_def)

end
