(* ===== verification/Conformance_Core.thy ===== *)
theory Conformance_Core
  imports Risk_Engine Order_State Quantize
begin

text \<open>
  The unit tests of \<open>crates/core/src/engine.rs\<close>, \<open>exchange/src/order_state.rs\<close> and
  \<open>exchange/src/quantize.rs\<close>, transcribed with their fixtures and run on the model: every assertion of the
  repository about these functions holds of their definitions here, for all decimals that keep the laws.
\<close>

section \<open>Evaluation with lawful decimals\<close>

named_theorems test_defs \<open>fixtures and tests\<close>

lemma is_dec_fraction:
  assumes "(10 ^ 10 :: int) mod k = 0" "\<bar>m * (10 ^ 10 div k)\<bar> < 2 ^ 96" "k \<noteq> 0"
  shows "is_dec (of_int m / of_int k)"
proof (rule is_decI [OF assms(2), of 10])
  have "10 ^ 10 = (10 ^ 10 div k) * k" using assms(1) by auto
  then have "(10 ^ 10 :: rat) = of_int (10 ^ 10 div k) * of_int k"
    by (metis of_int_mult of_int_numeral of_int_power)
  moreover from this have "of_int (10 ^ 10 div k) \<noteq> (0 :: rat)" by (metis mult_zero_left power_not_zero zero_neq_numeral)
  ultimately show "of_int m / of_int k = (of_int (m * (10 ^ 10 div k)) / 10 ^ 10 :: rat)"
    using assms(3) by (simp add: divide_simps)
qed simp

lemma is_dec_fractions [simp]:
  "(10 ^ 10 :: int) mod numeral k = 0 \<Longrightarrow> numeral m * (10 ^ 10 div numeral k) < (2 ^ 96 :: int) \<Longrightarrow>
   is_dec (numeral m / numeral k)"
  "(10 ^ 10 :: int) mod numeral k = 0 \<Longrightarrow> is_dec (1 / numeral k)"
proof -
  have nonneg: "0 \<le> (10 ^ 10 :: int) div numeral k" by (intro iffD2 [OF pos_imp_zdiv_nonneg_iff]) simp_all
  show "(10 ^ 10 :: int) mod numeral k = 0 \<Longrightarrow> numeral m * (10 ^ 10 div numeral k) < (2 ^ 96 :: int) \<Longrightarrow>
      is_dec (numeral m / numeral k)"
    using is_dec_fraction [of "numeral k" "numeral m"] nonneg by (simp add: abs_mult)
  have "(10 ^ 10 :: int) div numeral k \<le> 10 ^ 10 div 1" by (rule zdiv_mono2) simp_all
  then show "(10 ^ 10 :: int) mod numeral k = 0 \<Longrightarrow> is_dec (1 / numeral k)"
    using is_dec_fraction [of "numeral k" 1] nonneg by simp
qed

lemma floor_fraction [simp]: "\<lfloor>numeral m / numeral k :: rat\<rfloor> = numeral m div numeral k"
  using floor_divide_of_int_eq [of "numeral m" "numeral k", where 'a = rat] by simp

section \<open>Fixtures of the engine's tests\<close>

definition test_cfg :: risk_config where
  "test_cfg = \<lparr>daily_max_loss_pct = 5, max_position_pct_equity = 10, max_concurrent_positions = 3,
     max_correlated_exposure_pct = 20\<rparr>"

definition test_snapshot :: account_snapshot where
  "test_snapshot = \<lparr>as_equity = 10000, as_today_realized_loss = 0, as_kill_switch_engaged = False,
     as_circuit_breaker_tripped = False, as_open_positions = [], as_correlation_groups = Map.empty\<rparr>"

definition test_intent :: "string \<Rightarrow> trade_side \<Rightarrow> rat \<Rightarrow> rat \<Rightarrow> trade_intent" where
  "test_intent symbol side qty price =
     \<lparr>ti_symbol = symbol, ti_side = side, ti_quantity = qty, ti_price = price\<rparr>"

definition test_buy :: "string \<Rightarrow> rat \<Rightarrow> trade_intent" where
  "test_buy symbol notional = test_intent symbol TBuy notional 1"

definition test_long :: "string \<Rightarrow> rat \<Rightarrow> open_position" where
  "test_long symbol notional =
     \<lparr>op_symbol = symbol, op_side = Long, op_quantity = notional, op_notional = notional\<rparr>"

definition correlated_snapshot :: account_snapshot where
  "correlated_snapshot = test_snapshot\<lparr>
     as_correlation_groups := [''BTC'' \<mapsto> ''majors'', ''ETH'' \<mapsto> ''majors'', ''XYZ'' \<mapsto> ''alts''],
     as_open_positions := [test_long ''BTC'' 1000]\<rparr>"

definition approves :: "dec_ops \<Rightarrow> trade_intent \<Rightarrow> account_snapshot \<Rightarrow> bool" where
  "approves D i s \<longleftrightarrow> map_option is_approved (evaluate D i s test_cfg) = Some True"

definition rejects :: "dec_ops \<Rightarrow> trade_intent \<Rightarrow> account_snapshot \<Rightarrow> bool" where
  "rejects D i s \<longleftrightarrow> map_option is_approved (evaluate D i s test_cfg) = Some False"

lemmas [test_defs] = test_cfg_def test_snapshot_def test_intent_def test_buy_def test_long_def
  correlated_snapshot_def approves_def rejects_def

lemmas engine_defs = evaluate_def circuit_breaker_should_trip_def pct_of_def reduces_existing_position_def
  check_position_size_def check_concurrent_positions_def check_correlated_exposure_def group_notionals_def
  intent_notional_def d_sum_def

section \<open>The kill switch and the breaker\<close>

definition kill_switch_rejects_everything_and_reports_nothing_else :: "dec_ops \<Rightarrow> bool" where
  "kill_switch_rejects_everything_and_reports_nothing_else D \<longleftrightarrow>
     evaluate D (test_buy ''BTC'' 999999)
       (test_snapshot\<lparr>as_kill_switch_engaged := True, as_circuit_breaker_tripped := True\<rparr>) test_cfg =
     Some (Rejected [KillSwitchEngaged])"

definition kill_switch_blocks_even_pure_position_closes :: "dec_ops \<Rightarrow> bool" where
  "kill_switch_blocks_even_pure_position_closes D \<longleftrightarrow>
     rejects D (test_intent ''BTC'' TSell 500 1)
       (test_snapshot\<lparr>as_kill_switch_engaged := True, as_open_positions := [test_long ''BTC'' 500]\<rparr>)"

definition circuit_breaker_trips_exactly_at_limit :: "dec_ops \<Rightarrow> bool" where
  "circuit_breaker_trips_exactly_at_limit D \<longleftrightarrow>
     (let s = test_snapshot\<lparr>as_today_realized_loss := 500\<rparr> in
      circuit_breaker_should_trip D s test_cfg = Some True \<and>
      evaluate D (test_buy ''BTC'' 100) s test_cfg = Some (Rejected [CircuitBreakerTripped 500 500]))"

definition circuit_breaker_does_not_trip_just_below_limit :: "dec_ops \<Rightarrow> bool" where
  "circuit_breaker_does_not_trip_just_below_limit D \<longleftrightarrow>
     (let s = test_snapshot\<lparr>as_today_realized_loss := 49999 / 100\<rparr> in
      circuit_breaker_should_trip D s test_cfg = Some False \<and> approves D (test_buy ''BTC'' 100) s)"

lemma breaker_tests:
  assumes "decimal_laws D"
  shows "kill_switch_rejects_everything_and_reports_nothing_else D"
    "kill_switch_blocks_even_pure_position_closes D" "circuit_breaker_trips_exactly_at_limit D"
    "circuit_breaker_does_not_trip_just_below_limit D"
  by (simp_all add: kill_switch_rejects_everything_and_reports_nothing_else_def
      kill_switch_blocks_even_pure_position_closes_def circuit_breaker_trips_exactly_at_limit_def
      circuit_breaker_does_not_trip_just_below_limit_def test_defs engine_defs decimal_lawsD [OF assms] Let_def)

definition already_tripped_flag_halts_trading_even_if_loss_recomputes_below :: "dec_ops \<Rightarrow> bool" where
  "already_tripped_flag_halts_trading_even_if_loss_recomputes_below D \<longleftrightarrow>
     rejects D (test_buy ''BTC'' 100)
       (test_snapshot\<lparr>as_circuit_breaker_tripped := True, as_today_realized_loss := 0\<rparr>)"

definition circuit_breaker_halts_closes_too :: "dec_ops \<Rightarrow> bool" where
  "circuit_breaker_halts_closes_too D \<longleftrightarrow>
     rejects D (test_intent ''BTC'' TSell 500 1)
       (test_snapshot\<lparr>as_circuit_breaker_tripped := True, as_open_positions := [test_long ''BTC'' 500]\<rparr>)"

section \<open>Position size\<close>

definition position_size_at_exact_limit_is_allowed :: "dec_ops \<Rightarrow> bool" where
  "position_size_at_exact_limit_is_allowed D \<longleftrightarrow> approves D (test_buy ''BTC'' 1000) test_snapshot"

definition position_size_above_limit_is_rejected :: "dec_ops \<Rightarrow> bool" where
  "position_size_above_limit_is_rejected D \<longleftrightarrow>
     evaluate D (test_buy ''BTC'' (100001 / 100)) test_snapshot test_cfg =
       Some (Rejected [PositionSizeExceeded (100001 / 100) 1000 10])"

definition zero_equity_rejects_any_trade :: "dec_ops \<Rightarrow> bool" where
  "zero_equity_rejects_any_trade D \<longleftrightarrow>
     evaluate D (test_buy ''BTC'' 1) (test_snapshot\<lparr>as_equity := 0\<rparr>) test_cfg = Some (Rejected [NonPositiveEquity 0])"

definition negative_equity_rejects_any_trade :: "dec_ops \<Rightarrow> bool" where
  "negative_equity_rejects_any_trade D \<longleftrightarrow> rejects D (test_buy ''BTC'' 1) (test_snapshot\<lparr>as_equity := - 50\<rparr>)"

definition zero_quantity_trade_is_approved_when_within_limits :: "dec_ops \<Rightarrow> bool" where
  "zero_quantity_trade_is_approved_when_within_limits D \<longleftrightarrow> approves D (test_buy ''BTC'' 0) test_snapshot"

lemma size_tests:
  assumes "decimal_laws D"
  shows "already_tripped_flag_halts_trading_even_if_loss_recomputes_below D" "circuit_breaker_halts_closes_too D"
    "position_size_at_exact_limit_is_allowed D" "position_size_above_limit_is_rejected D"
    "zero_equity_rejects_any_trade D" "negative_equity_rejects_any_trade D"
    "zero_quantity_trade_is_approved_when_within_limits D"
  by (simp_all add: already_tripped_flag_halts_trading_even_if_loss_recomputes_below_def
      circuit_breaker_halts_closes_too_def position_size_at_exact_limit_is_allowed_def
      position_size_above_limit_is_rejected_def zero_equity_rejects_any_trade_def
      negative_equity_rejects_any_trade_def zero_quantity_trade_is_approved_when_within_limits_def
      test_defs engine_defs decimal_lawsD [OF assms])

section \<open>Number of positions\<close>

definition opening_beyond_max_concurrent_is_rejected :: "dec_ops \<Rightarrow> bool" where
  "opening_beyond_max_concurrent_is_rejected D \<longleftrightarrow>
     evaluate D (test_buy ''AVAX'' 100) (test_snapshot\<lparr>as_open_positions :=
         [test_long ''BTC'' 100, test_long ''ETH'' 100, test_long ''SOL'' 100]\<rparr>) test_cfg =
       Some (Rejected [MaxConcurrentPositionsExceeded 3 3])"

definition adding_to_existing_position_does_not_count_as_new :: "dec_ops \<Rightarrow> bool" where
  "adding_to_existing_position_does_not_count_as_new D \<longleftrightarrow>
     approves D (test_buy ''BTC'' 100) (test_snapshot\<lparr>as_open_positions :=
       [test_long ''BTC'' 100, test_long ''ETH'' 100, test_long ''SOL'' 100]\<rparr>)"

definition opening_at_one_below_limit_is_allowed :: "dec_ops \<Rightarrow> bool" where
  "opening_at_one_below_limit_is_allowed D \<longleftrightarrow>
     approves D (test_buy ''SOL'' 100)
       (test_snapshot\<lparr>as_open_positions := [test_long ''BTC'' 100, test_long ''ETH'' 100]\<rparr>)"

lemma count_tests:
  assumes "decimal_laws D"
  shows "opening_beyond_max_concurrent_is_rejected D" "adding_to_existing_position_does_not_count_as_new D"
    "opening_at_one_below_limit_is_allowed D"
  by (simp_all add: opening_beyond_max_concurrent_is_rejected_def
      adding_to_existing_position_does_not_count_as_new_def opening_at_one_below_limit_is_allowed_def
      test_defs engine_defs decimal_lawsD [OF assms])

section \<open>Correlated exposure\<close>

definition correlated_exposure_at_exact_limit_is_allowed :: "dec_ops \<Rightarrow> bool" where
  "correlated_exposure_at_exact_limit_is_allowed D \<longleftrightarrow> approves D (test_buy ''ETH'' 1000) correlated_snapshot"

fun exceeds_exposure_of :: "string \<Rightarrow> violation \<Rightarrow> bool" where
  "exceeds_exposure_of g (CorrelatedExposureExceeded g' c l p) = (g' = g)"
| "exceeds_exposure_of g _ = False"

definition correlated_exposure_above_limit_is_rejected :: "dec_ops \<Rightarrow> bool" where
  "correlated_exposure_above_limit_is_rejected D \<longleftrightarrow>
     (case evaluate D (test_buy ''ETH'' (100001 / 100)) correlated_snapshot test_cfg of
        Some (Rejected vs) \<Rightarrow> list_ex (exceeds_exposure_of ''majors'') vs
      | _ \<Rightarrow> False)"

definition uncorrelated_symbol_ignores_group_exposure :: "dec_ops \<Rightarrow> bool" where
  "uncorrelated_symbol_ignores_group_exposure D \<longleftrightarrow> approves D (test_buy ''DOGE'' 1000) correlated_snapshot"

definition different_group_not_affected_by_majors_exposure :: "dec_ops \<Rightarrow> bool" where
  "different_group_not_affected_by_majors_exposure D \<longleftrightarrow> approves D (test_buy ''XYZ'' 900) correlated_snapshot"

fun rule_broken :: "violation \<Rightarrow> string" where
  "rule_broken KillSwitchEngaged = ''kill switch''"
| "rule_broken (InvalidIntent q p) = ''intent''"
| "rule_broken (CircuitBreakerTripped a b) = ''breaker''"
| "rule_broken (NonPositiveEquity e) = ''equity''"
| "rule_broken (PositionSizeExceeded a b c) = ''size''"
| "rule_broken (MaxConcurrentPositionsExceeded a b) = ''count''"
| "rule_broken (CorrelatedExposureExceeded g a b c) = ''exposure''"

definition all_violations_reported_not_just_first :: "dec_ops \<Rightarrow> bool" where
  "all_violations_reported_not_just_first D \<longleftrightarrow>
     (case evaluate D (test_buy ''ETH'' 1500) (correlated_snapshot\<lparr>as_open_positions :=
           [test_long ''BTC'' 1000, test_long ''SOL'' 100, test_long ''DOGE'' 100],
           as_today_realized_loss := 600\<rparr>) test_cfg of
        Some (Rejected vs) \<Rightarrow> length vs = 4 \<and>
          list_all (\<lambda>r. list_ex (\<lambda>v. rule_broken v = r) vs) [''breaker'', ''size'', ''count'', ''exposure'']
      | _ \<Rightarrow> False)"

lemma exposure_tests:
  assumes "decimal_laws D"
  shows "correlated_exposure_at_exact_limit_is_allowed D" "correlated_exposure_above_limit_is_rejected D"
    "uncorrelated_symbol_ignores_group_exposure D" "different_group_not_affected_by_majors_exposure D"
    "all_violations_reported_not_just_first D"
  by (simp_all add: correlated_exposure_at_exact_limit_is_allowed_def correlated_exposure_above_limit_is_rejected_def
      uncorrelated_symbol_ignores_group_exposure_def different_group_not_affected_by_majors_exposure_def
      all_violations_reported_not_just_first_def test_defs engine_defs decimal_lawsD [OF assms])

section \<open>Trades that reduce a position\<close>

definition pure_close_is_exempt_from_sizing_rules :: "dec_ops \<Rightarrow> bool" where
  "pure_close_is_exempt_from_sizing_rules D \<longleftrightarrow>
     approves D (test_intent ''BTC'' TSell 5000 1) (test_snapshot\<lparr>as_open_positions := [test_long ''BTC'' 5000]\<rparr>)"

definition partial_reduce_is_exempt_from_sizing_rules :: "dec_ops \<Rightarrow> bool" where
  "partial_reduce_is_exempt_from_sizing_rules D \<longleftrightarrow>
     approves D (test_intent ''BTC'' TSell 2000 1) (test_snapshot\<lparr>as_open_positions := [test_long ''BTC'' 5000]\<rparr>)"

definition flip_detection_uses_quantity_not_notional :: "dec_ops \<Rightarrow> bool" where
  "flip_detection_uses_quantity_not_notional D \<longleftrightarrow>
     (let s = test_snapshot\<lparr>as_open_positions :=
          [\<lparr>op_symbol = ''BTC'', op_side = Long, op_quantity = 100, op_notional = 5000\<rparr>]\<rparr> in
      rejects D (test_intent ''BTC'' TSell 150 30) s \<and> approves D (test_intent ''BTC'' TSell 100 80) s)"

definition negative_quantity_or_price_is_rejected :: "dec_ops \<Rightarrow> bool" where
  "negative_quantity_or_price_is_rejected D \<longleftrightarrow>
     list_all (\<lambda>(q, p). evaluate D (test_intent ''BTC'' TBuy q p) test_snapshot test_cfg =
       Some (Rejected [InvalidIntent q p])) [(- 1, 1), (1, - 1)]"

definition oversized_reversal_is_not_exempt :: "dec_ops \<Rightarrow> bool" where
  "oversized_reversal_is_not_exempt D \<longleftrightarrow>
     rejects D (test_intent ''BTC'' TSell 6000 1) (test_snapshot\<lparr>as_open_positions := [test_long ''BTC'' 500]\<rparr>)"

lemma reduction_tests:
  assumes "decimal_laws D"
  shows "pure_close_is_exempt_from_sizing_rules D" "partial_reduce_is_exempt_from_sizing_rules D"
    "flip_detection_uses_quantity_not_notional D" "negative_quantity_or_price_is_rejected D"
    "oversized_reversal_is_not_exempt D"
  by (simp_all add: pure_close_is_exempt_from_sizing_rules_def partial_reduce_is_exempt_from_sizing_rules_def
      flip_detection_uses_quantity_not_notional_def negative_quantity_or_price_is_rejected_def
      oversized_reversal_is_not_exempt_def test_defs engine_defs decimal_lawsD [OF assms] Let_def)

section \<open>Order states\<close>

abbreviation all_statuses :: "order_status list" where
  "all_statuses \<equiv> [Pending, Submitted, PartiallyFilled, Filled, CancelRequested, Cancelled, RejectedStatus]"

definition legal_happy_path :: bool where
  "legal_happy_path \<longleftrightarrow>
     is_ok (transition Pending Submitted) \<and> is_ok (transition Submitted PartiallyFilled) \<and>
     is_ok (transition PartiallyFilled Filled)"

definition terminal_states_reject_everything :: bool where
  "terminal_states_reject_everything \<longleftrightarrow>
     list_all (\<lambda>terminal. list_all (\<lambda>target. terminal = target \<or> \<not> is_ok (transition terminal target)) all_statuses)
       [Filled, Cancelled, RejectedStatus]"

definition cancel_requested_can_still_resolve_to_fill_or_partial :: bool where
  "cancel_requested_can_still_resolve_to_fill_or_partial \<longleftrightarrow>
     is_ok (transition CancelRequested Filled) \<and> is_ok (transition CancelRequested PartiallyFilled) \<and>
     is_ok (transition CancelRequested Cancelled)"

definition pending_cannot_jump_to_filled :: bool where
  "pending_cannot_jump_to_filled \<longleftrightarrow> \<not> is_ok (transition Pending Filled)"

definition cancelled_is_immutable :: bool where
  "cancelled_is_immutable \<longleftrightarrow> \<not> is_ok (transition Cancelled Pending) \<and> \<not> is_ok (transition Cancelled Filled)"

lemma order_state_tests:
  "legal_happy_path" "terminal_states_reject_everything" "cancel_requested_can_still_resolve_to_fill_or_partial"
  "pending_cannot_jump_to_filled" "cancelled_is_immutable"
  by (simp_all add: legal_happy_path_def terminal_states_reject_everything_def
      cancel_requested_can_still_resolve_to_fill_or_partial_def pending_cannot_jump_to_filled_def
      cancelled_is_immutable_def)

section \<open>Quantization\<close>

definition aligned_values_detected :: "dec_ops \<Rightarrow> bool" where
  "aligned_values_detected D \<longleftrightarrow>
     is_aligned D (15 / 10) (1 / 10) = Some True \<and> is_aligned D (155 / 100) (1 / 10) = Some False"

definition qdown_rounds_toward_nearest_valid_step :: "dec_ops \<Rightarrow> bool" where
  "qdown_rounds_toward_nearest_valid_step D \<longleftrightarrow>
     qdown D (155 / 100) (1 / 10) = Some (15 / 10) \<and> qdown D (15 / 10) (1 / 10) = Some (15 / 10)"

definition zero_step_never_aligned :: "dec_ops \<Rightarrow> bool" where
  "zero_step_never_aligned D \<longleftrightarrow> is_aligned D 1 0 = Some False"

lemma quantize_tests:
  assumes "decimal_laws D"
  shows "aligned_values_detected D" "qdown_rounds_toward_nearest_valid_step D" "zero_step_never_aligned D"
  by (simp_all add: aligned_values_detected_def qdown_rounds_toward_nearest_valid_step_def zero_step_never_aligned_def
      is_aligned_def qdown_def decimal_lawsD [OF assms] decimal_lawsD(6,7) [OF assms _ is_dec_0])

end
