(* ===== verification/Conformance_Exchange.thy ===== *)
theory Conformance_Exchange
  imports Conformance_Core Validators Paper_Adapter Paper_Account Symbol_Metadata Outbox_Worker
begin

text \<open>
  The unit tests of \<open>crates/exchange/src/paper\<close>, of \<open>crates/server/src/validators.rs\<close>,
  \<open>symbol_metadata.rs\<close> and \<open>outbox_worker.rs\<close>, transcribed with their fixtures and run on the model. Where a
  test sleeps, the clock has moved on; durations are in milliseconds.
\<close>

section \<open>Validation\<close>

definition lot_fixture :: lot_size_filter where
  "lot_fixture = \<lparr>ls_min_qty = 1 / 10000, ls_max_qty = 1000, ls_step_size = 1 / 10000\<rparr>"

definition test_meta :: symbol_meta where
  "test_meta = \<lparr>sm_symbol = ''BTCUSDT'', sm_base_asset = ''BTC'', sm_quote_asset = ''USDT'', sm_status = Trading,
     sm_allowed_order_types = [Limit, Market], sm_lot_size = lot_fixture, sm_market_lot_size = lot_fixture,
     sm_price_filter = \<lparr>pf_min_price = 1 / 100, pf_max_price = 1000000, pf_tick_size = 1 / 100\<rparr>,
     sm_notional = \<lparr>nf_min_notional = Some 10, nf_max_notional = Some 1000000, nf_apply_min_to_market = True,
       nf_apply_max_to_market = False, nf_avg_price_mins = 5\<rparr>,
     sm_percent_price = BySide (12 / 10) (8 / 10) (12 / 10) (8 / 10) 5\<rparr>"

definition est :: "rat \<Rightarrow> bool \<Rightarrow> price_estimate" where
  "est price is_fresh = \<lparr>pe_price = price, pe_source = BestAsk, pe_is_fresh = is_fresh\<rparr>"

definition limit_intent :: "order_side \<Rightarrow> rat \<Rightarrow> rat \<Rightarrow> order_intent" where
  "limit_intent side qty price =
     \<lparr>oi_symbol = ''BTCUSDT'', oi_side = side, oi_order_type = Limit, oi_quantity = qty, oi_price = Some price\<rparr>"

definition market_intent :: "order_side \<Rightarrow> rat \<Rightarrow> order_intent" where
  "market_intent side qty =
     \<lparr>oi_symbol = ''BTCUSDT'', oi_side = side, oi_order_type = Market, oi_quantity = qty, oi_price = None\<rparr>"

fun contains :: "string \<Rightarrow> string \<Rightarrow> bool" where
  "contains w [] = (w = [])"
| "contains w (c # cs) = (take (length w) (c # cs) = w \<or> contains w cs)"

fun fails :: "(message, unit) res \<Rightarrow> bool" where
  "fails (Err m) = True"
| "fails _ = False"

text \<open>The text of the message, before its values are put in, has the words.\<close>

fun fails_with :: "string \<Rightarrow> (message, unit) res \<Rightarrow> bool" where
  "fails_with w (Err (Fmt t args)) = contains w t"
| "fails_with w _ = False"

lemmas [test_defs] = lot_fixture_def test_meta_def est_def limit_intent_def market_intent_def

lemmas validator_defs = validate_order_def validate_limit_def validate_market_def check_percent_price_def
  check_notional_def order_lot_def is_aligned_def qdown_def res_simps

definition valid_limit_order_passes :: "dec_ops \<Rightarrow> bool" where
  "valid_limit_order_passes D \<longleftrightarrow> is_ok (validate_order D (limit_intent Buy 1 100) test_meta (Some (est 100 True)))"

definition non_trading_symbol_rejected :: "dec_ops \<Rightarrow> bool" where
  "non_trading_symbol_rejected D \<longleftrightarrow>
     fails (validate_order D (limit_intent Buy 1 100) (test_meta\<lparr>sm_status := Halt\<rparr>) None)"

definition misaligned_quantity_rejected :: "dec_ops \<Rightarrow> bool" where
  "misaligned_quantity_rejected D \<longleftrightarrow>
     fails (validate_order D (limit_intent Buy (100005 / 100000) 100) test_meta (Some (est 100 True)))"

definition market_order_requires_fresh_estimate :: "dec_ops \<Rightarrow> bool" where
  "market_order_requires_fresh_estimate D \<longleftrightarrow>
     fails_with ''stale'' (validate_order D (market_intent Buy 1) test_meta (Some (est 100 False)))"

definition market_order_no_estimate_rejected :: "dec_ops \<Rightarrow> bool" where
  "market_order_no_estimate_rejected D \<longleftrightarrow> fails (validate_order D (market_intent Buy 1) test_meta None)"

definition market_order_min_notional_applies_when_flag_set :: "dec_ops \<Rightarrow> bool" where
  "market_order_min_notional_applies_when_flag_set D \<longleftrightarrow>
     fails_with ''MIN_NOTIONAL'' (validate_order D (market_intent Buy (1 / 10000)) test_meta (Some (est 100 True)))"

definition market_order_max_notional_not_applied_when_flag_unset :: "dec_ops \<Rightarrow> bool" where
  "market_order_max_notional_not_applied_when_flag_unset D \<longleftrightarrow>
     is_ok (validate_order D (market_intent Buy 90000)
       (test_meta\<lparr>sm_market_lot_size := lot_fixture\<lparr>ls_max_qty := 100000\<rparr>\<rparr>) (Some (est 100 True)))"

definition meta_asymmetric_by_side :: symbol_meta where
  "meta_asymmetric_by_side = test_meta\<lparr>sm_percent_price := BySide (11 / 10) (9 / 10) (13 / 10) (7 / 10) 5\<rparr>"

definition limit_order_percent_price_by_side_buy_uses_bid_bounds :: "dec_ops \<Rightarrow> bool" where
  "limit_order_percent_price_by_side_buy_uses_bid_bounds D \<longleftrightarrow>
     (let check = (\<lambda>p. validate_order D (limit_intent Buy 1 p) meta_asymmetric_by_side (Some (est 100 True))) in
      is_ok (check 90) \<and> is_ok (check 110) \<and> fails_with ''PERCENT_PRICE_BY_SIDE'' (check 120) \<and> fails (check 85))"

definition limit_order_percent_price_by_side_sell_uses_ask_bounds :: "dec_ops \<Rightarrow> bool" where
  "limit_order_percent_price_by_side_sell_uses_ask_bounds D \<longleftrightarrow>
     (let check = (\<lambda>p. validate_order D (limit_intent Sell 1 p) meta_asymmetric_by_side (Some (est 100 True))) in
      is_ok (check 70) \<and> is_ok (check 130) \<and> is_ok (check 125) \<and>
      fails_with ''PERCENT_PRICE_BY_SIDE'' (check 135) \<and> fails (check 65))"

definition limit_order_percent_price_general_variant_checked_bidirectionally :: "dec_ops \<Rightarrow> bool" where
  "limit_order_percent_price_general_variant_checked_bidirectionally D \<longleftrightarrow>
     (let m = test_meta\<lparr>sm_percent_price := General (11 / 10) (9 / 10) 5\<rparr> in
      fails (validate_order D (limit_intent Buy 1 115) m (Some (est 100 True))) \<and>
      fails (validate_order D (limit_intent Sell 1 85) m (Some (est 100 True))))"

definition disallowed_order_type_rejected :: "dec_ops \<Rightarrow> bool" where
  "disallowed_order_type_rejected D \<longleftrightarrow>
     fails (validate_order D (market_intent Buy 1) (test_meta\<lparr>sm_allowed_order_types := [Limit]\<rparr>)
       (Some (est 100 True)))"

lemma validator_tests:
  assumes "decimal_laws D"
  shows "valid_limit_order_passes D" "non_trading_symbol_rejected D" "misaligned_quantity_rejected D"
    "market_order_requires_fresh_estimate D" "market_order_no_estimate_rejected D"
    "market_order_min_notional_applies_when_flag_set D" "market_order_max_notional_not_applied_when_flag_unset D"
    "disallowed_order_type_rejected D"
  by (simp_all add: valid_limit_order_passes_def non_trading_symbol_rejected_def misaligned_quantity_rejected_def
      market_order_requires_fresh_estimate_def market_order_no_estimate_rejected_def
      market_order_min_notional_applies_when_flag_set_def market_order_max_notional_not_applied_when_flag_unset_def
      disallowed_order_type_rejected_def test_defs validator_defs Let_def
      decimal_lawsD [OF assms] decimal_lawsD(6,7) [OF assms _ is_dec_0])

lemma percent_price_tests:
  assumes "decimal_laws D"
  shows "limit_order_percent_price_by_side_buy_uses_bid_bounds D"
    "limit_order_percent_price_by_side_sell_uses_ask_bounds D"
    "limit_order_percent_price_general_variant_checked_bidirectionally D"
  by (simp_all add: limit_order_percent_price_by_side_buy_uses_bid_bounds_def
      limit_order_percent_price_by_side_sell_uses_ask_bounds_def
      limit_order_percent_price_general_variant_checked_bidirectionally_def meta_asymmetric_by_side_def
      test_defs validator_defs Let_def decimal_lawsD [OF assms] decimal_lawsD(6,7) [OF assms _ is_dec_0])

section \<open>Quotes\<close>

definition fresh_feed_gives_fresh_estimate :: "instant \<Rightarrow> bool" where
  "fresh_feed_gives_fresh_estimate t0 \<longleftrightarrow>
     (let md = md_update (md_new 5000) ''BTCUSDT'' 100 101 t0 in
      conservative_estimate md ''BTCUSDT'' True t0 = Some \<lparr>ce_price = 101, ce_is_fresh = True\<rparr> \<and>
      map_option ce_price (conservative_estimate md ''BTCUSDT'' False t0) = Some 100)"

definition stale_feed_flagged_not_fresh :: "instant \<Rightarrow> bool" where
  "stale_feed_flagged_not_fresh t0 \<longleftrightarrow>
     map_option ce_is_fresh
       (conservative_estimate (md_update (md_new 1) ''BTCUSDT'' 100 101 t0) ''BTCUSDT'' True (t0 + 5)) = Some False"

definition unknown_symbol_has_no_estimate :: "instant \<Rightarrow> bool" where
  "unknown_symbol_has_no_estimate t0 \<longleftrightarrow> conservative_estimate (md_new 5000) ''XYZ'' True t0 = None"

lemma market_data_tests:
  "fresh_feed_gives_fresh_estimate t0" "stale_feed_flagged_not_fresh t0" "unknown_symbol_has_no_estimate t0"
  by (simp_all add: fresh_feed_gives_fresh_estimate_def stale_feed_flagged_not_fresh_def
      unknown_symbol_has_no_estimate_def md_update_def md_is_fresh_def md_new_def conservative_estimate_def md_top_def Let_def)

section \<open>Matching\<close>

definition fresh_quote :: "rat \<Rightarrow> conservative_price_estimate" where
  "fresh_quote price = \<lparr>ce_price = price, ce_is_fresh = True\<rparr>"

definition stale_quote :: "rat \<Rightarrow> conservative_price_estimate" where
  "stale_quote price = \<lparr>ce_price = price, ce_is_fresh = False\<rparr>"

definition market_order_fills_at_conservative_price :: bool where
  "market_order_fills_at_conservative_price \<longleftrightarrow>
     map_option (\<lambda>f. (fl_price f, fl_quantity f)) (try_fill Market Buy 1 None (Some (fresh_quote 101)) ''t1'') =
       Some (101, 1)"

definition market_order_stale_feed_no_fill :: bool where
  "market_order_stale_feed_no_fill \<longleftrightarrow> try_fill Market Buy 1 None (Some (stale_quote 101)) ''t1'' = None"

definition limit_buy_fills_when_price_at_or_below_limit :: bool where
  "limit_buy_fills_when_price_at_or_below_limit \<longleftrightarrow>
     map_option fl_price (try_fill Limit Buy 1 (Some 100) (Some (fresh_quote 99)) ''t1'') = Some 99"

definition limit_buy_no_fill_when_price_above_limit :: bool where
  "limit_buy_no_fill_when_price_above_limit \<longleftrightarrow>
     try_fill Limit Buy 1 (Some 100) (Some (fresh_quote 101)) ''t1'' = None"

definition limit_sell_fills_when_price_at_or_above_limit :: bool where
  "limit_sell_fills_when_price_at_or_above_limit \<longleftrightarrow>
     map_option fl_price (try_fill Limit Sell 1 (Some 100) (Some (fresh_quote 101)) ''t1'') = Some 101"

definition no_market_data_no_fill :: bool where
  "no_market_data_no_fill \<longleftrightarrow> try_fill Market Buy 1 None None ''t1'' = None"

lemma matching_tests:
  "market_order_fills_at_conservative_price" "market_order_stale_feed_no_fill"
  "limit_buy_fills_when_price_at_or_below_limit" "limit_buy_no_fill_when_price_above_limit"
  "limit_sell_fills_when_price_at_or_above_limit" "no_market_data_no_fill"
  by (simp_all add: market_order_fills_at_conservative_price_def market_order_stale_feed_no_fill_def
      limit_buy_fills_when_price_at_or_below_limit_def limit_buy_no_fill_when_price_above_limit_def
      limit_sell_fills_when_price_at_or_above_limit_def no_market_data_no_fill_def fresh_quote_def stale_quote_def
      try_fill_def touched_def)

section \<open>The paper adapter and its ledger\<close>

definition order_fixture :: "uuid \<Rightarrow> order_status \<Rightarrow> rat \<Rightarrow> order_snapshot" where
  "order_fixture oid status qty = \<lparr>os_order_id = oid, os_client_order_id = ''abc123'', os_symbol = ''BTCUSDT'',
     os_side = Buy, os_order_type = Market, os_quantity = qty, os_price = None, os_status = status\<rparr>"

definition market_order_fills_from_fresh_market_data :: "dec_ops \<Rightarrow> uuid_ops \<Rightarrow> uuid \<Rightarrow> instant \<Rightarrow> bool" where
  "market_order_fills_from_fresh_market_data D U oid t \<longleftrightarrow>
     (case paper_reconcile_order D U (md_update (md_new 5000) ''BTCUSDT'' 100 101 t) t
         \<lparr>rs_order = order_fixture oid Submitted 1, rs_fills = [], rs_positions = []\<rparr> of
        Ok r \<Rightarrow> rr_new_status r = Some Filled \<and> map fl_price (rr_fills_to_add r) = [101] \<and>
          pd_quantity_delta (hd (rr_positions_delta r)) = 1
      | _ \<Rightarrow> False)"

definition stale_market_data_yields_no_fill :: "dec_ops \<Rightarrow> uuid_ops \<Rightarrow> uuid \<Rightarrow> instant \<Rightarrow> bool" where
  "stale_market_data_yields_no_fill D U oid t \<longleftrightarrow>
     (case paper_reconcile_order D U (md_new 5000) t
         \<lparr>rs_order = order_fixture oid Submitted 1, rs_fills = [], rs_positions = []\<rparr> of
        Ok r \<Rightarrow> rr_new_status r = None \<and> rr_fills_to_add r = []
      | _ \<Rightarrow> False)"

definition terminal_order_never_reconciled :: "dec_ops \<Rightarrow> uuid_ops \<Rightarrow> uuid \<Rightarrow> instant \<Rightarrow> bool" where
  "terminal_order_never_reconciled D U oid t \<longleftrightarrow>
     (case paper_reconcile_order D U (md_update (md_new 5000) ''BTCUSDT'' 100 101 t) t
         \<lparr>rs_order = order_fixture oid Filled 1,
          rs_fills = [\<lparr>fs_exchange_trade_id = ''x'', fs_quantity = 1, fs_price = 100\<rparr>], rs_positions = []\<rparr> of
        Ok r \<Rightarrow> rr_new_status r = None
      | _ \<Rightarrow> False)"

lemma paper_tests:
  assumes "decimal_laws D"
  shows "market_order_fills_from_fresh_market_data D U oid t" "stale_market_data_yields_no_fill D U oid t"
    "terminal_order_never_reconciled D U oid t"
  by (simp_all add: market_order_fills_from_fresh_market_data_def stale_market_data_yields_no_fill_def
      terminal_order_never_reconciled_def order_fixture_def paper_reconcile_order_def Let_def d_sum_def
      decimal_lawsD [OF assms] md_update_def md_is_fresh_def md_new_def conservative_estimate_def md_top_def try_fill_def
      no_result_def res_simps)

definition reserve_reduces_free_balance :: "dec_ops \<Rightarrow> bool" where
  "reserve_reduces_free_balance D \<longleftrightarrow>
     (case reserve D (with_balance Map.empty ''USDT'' 1000) ''USDT'' 300 of
        Ok acct \<Rightarrow> free_balance acct ''USDT'' = 700 | _ \<Rightarrow> False)"

definition reserve_beyond_available_fails :: "dec_ops \<Rightarrow> bool" where
  "reserve_beyond_available_fails D \<longleftrightarrow>
     (case reserve D (with_balance Map.empty ''USDT'' 100) ''USDT'' 200 of
        Err (InsufficientBalance a r v) \<Rightarrow> True | _ \<Rightarrow> False)"

definition release_restores_balance :: "dec_ops \<Rightarrow> bool" where
  "release_restores_balance D \<longleftrightarrow>
     (case reserve D (with_balance Map.empty ''USDT'' 1000) ''USDT'' 300 of
        Ok acct \<Rightarrow> map_option (\<lambda>a. free_balance a ''USDT'') (release D acct ''USDT'' 300) = Some 1000 | _ \<Rightarrow> False)"

lemma account_tests:
  assumes "decimal_laws D"
  shows "reserve_reduces_free_balance D" "reserve_beyond_available_fails D" "release_restores_balance D"
  by (simp_all add: reserve_reduces_free_balance_def reserve_beyond_available_fails_def release_restores_balance_def
      reserve_def release_def with_balance_def free_balance_def Let_def decimal_lawsD [OF assms] res_simps)

section \<open>Symbol metadata\<close>

definition store_meta :: "string \<Rightarrow> symbol_meta" where
  "store_meta symbol = test_meta\<lparr>sm_symbol := symbol,
     sm_notional := \<lparr>nf_min_notional = Some 10, nf_max_notional = Some 9000000, nf_apply_min_to_market = True,
       nf_apply_max_to_market = False, nf_avg_price_mins = 5\<rparr>\<rparr>"

definition meta_with_status :: "string \<Rightarrow> symbol_status \<Rightarrow> symbol_meta" where
  "meta_with_status symbol status = (store_meta symbol)\<lparr>sm_status := status\<rparr>"

definition stale_before_first_refresh :: "instant \<Rightarrow> bool" where
  "stale_before_first_refresh t \<longleftrightarrow>
     is_stale (store_new 60000) t \<and> store_get (store_new 60000) ''BTCUSDT'' t = None"

definition fresh_after_refresh_returns_full_filter_shape :: "instant \<Rightarrow> bool" where
  "fresh_after_refresh_returns_full_filter_shape t \<longleftrightarrow>
     (let store = replace_all (store_new 60000) [store_meta ''BTCUSDT''] t in
      \<not> is_stale store t \<and>
      (case store_get store ''BTCUSDT'' t of
         Some m \<Rightarrow> ls_step_size (sm_market_lot_size m) = 1 / 10000 \<and> nf_min_notional (sm_notional m) = Some 10 \<and>
           nf_apply_min_to_market (sm_notional m) \<and> \<not> nf_apply_max_to_market (sm_notional m) \<and>
           (case sm_percent_price m of BySide bu bd au ad mins \<Rightarrow> ad = 8 / 10 | General u d mins \<Rightarrow> False)
       | None \<Rightarrow> False))"

definition unknown_symbol_absent_even_when_fresh :: "instant \<Rightarrow> bool" where
  "unknown_symbol_absent_even_when_fresh t \<longleftrightarrow>
     store_get (replace_all (store_new 60000) [store_meta ''BTCUSDT''] t) ''ETHUSDT'' t = None"

definition tradable_symbols_excludes_non_trading_status :: "instant \<Rightarrow> bool" where
  "tradable_symbols_excludes_non_trading_status t \<longleftrightarrow>
     tradable_symbols (replace_all (store_new 60000) [meta_with_status ''BTCUSDT'' Trading,
       meta_with_status ''ETHUSDT'' Halt, meta_with_status ''BNBUSDT'' Break] t) t = [''BTCUSDT'']"

definition tradable_symbols_empty_when_stale :: "instant \<Rightarrow> bool" where
  "tradable_symbols_empty_when_stale t \<longleftrightarrow>
     tradable_symbols (replace_all (store_new 1) [meta_with_status ''BTCUSDT'' Trading] t) (t + 5) = []"

lemma symbol_metadata_tests:
  "stale_before_first_refresh t" "fresh_after_refresh_returns_full_filter_shape t"
  "unknown_symbol_absent_even_when_fresh t" "tradable_symbols_excludes_non_trading_status t"
  "tradable_symbols_empty_when_stale t"
  by (simp_all add: stale_before_first_refresh_def fresh_after_refresh_returns_full_filter_shape_def
      unknown_symbol_absent_even_when_fresh_def tradable_symbols_excludes_non_trading_status_def
      tradable_symbols_empty_when_stale_def store_new_def replace_all_def store_get_def is_stale_def
      tradable_symbols_def meta_with_status_def store_meta_def test_defs Let_def)

section \<open>The supervisor\<close>

definition stub_adapter :: "exchange_mode \<Rightarrow> adapter" where
  "stub_adapter mode = \<lparr>ad_mode = mode, ad_submit = (\<lambda>_. Ok \<lparr>sr_accepted = True, sr_events = []\<rparr>),
     ad_cancel = (\<lambda>_. Ok ()), ad_reconcile_order = (\<lambda>_. Ok no_result),
     ad_reconcile_account = (\<lambda>_. Ok ()), ad_start = Ok (), ad_shutdown = Ok ()\<rparr>"

definition resolves_paper_and_live_independently :: bool where
  "resolves_paper_and_live_independently \<longleftrightarrow>
     (let sup = \<lparr>sv_paper_adapter = Some (stub_adapter Paper), sv_live_adapter = None\<rparr> in
      resolve sup Paper \<noteq> None \<and> resolve sup Live = None)"

definition missing_adapter_resolves_to_none_not_panic :: bool where
  "missing_adapter_resolves_to_none_not_panic \<longleftrightarrow>
     (let sup = \<lparr>sv_paper_adapter = None, sv_live_adapter = None\<rparr> in
      resolve sup Paper = None \<and> resolve sup Live = None)"

lemma supervisor_tests:
  "resolves_paper_and_live_independently" "missing_adapter_resolves_to_none_not_panic"
  by (simp_all add: resolves_paper_and_live_independently_def missing_adapter_resolves_to_none_not_panic_def
      resolve_def Let_def)

end
