(* ===== verification/Conformance_Binance.thy ===== *)
theory Conformance_Binance
  imports Conformance_Exchange Binance_Reconcile Binance_Ws Credentials
begin

text \<open>
  The unit tests of \<open>crates/exchange/src/binance\<close> and of \<open>config.rs\<close>, transcribed with their fixtures and run on
  the model with the concrete decimals and JSON values. Left out are the tests that ask the live exchange. What a test
  asks of the HMAC or of the cipher alone is a hypothesis of the lemma that the model passes it.
\<close>

unbundle bit_operations_syntax

section \<open>Order status\<close>

abbreviation reply :: "(string \<times> string) list \<Rightarrow> json" where
  "reply kvs \<equiv> JObj (map (\<lambda>(k, v). (k, JStr v)) kvs)"

definition binance_fixture :: "uuid \<Rightarrow> order_status \<Rightarrow> reconcile_snapshot" where
  "binance_fixture oid status = \<lparr>rs_order = \<lparr>os_order_id = oid, os_client_order_id = ''abc123'',
     os_symbol = ''BTCUSDT'', os_side = Buy, os_order_type = Limit, os_quantity = 1, os_price = Some 100,
     os_status = status\<rparr>, rs_fills = [], rs_positions = []\<rparr>"

definition origclientorderid_used_as_lookup_key :: "hmac \<Rightarrow> bool" where
  "origclientorderid_used_as_lookup_key H \<longleftrightarrow>
     (case order_status_query H (binance_testnet ''k'' ''s'') ''BTCUSDT'' ''abc123'' 1000 of
        Ok q \<Rightarrow> contains ''origClientOrderId=abc123'' q \<and> contains ''signature='' q
      | _ \<Rightarrow> False)"

definition filled_status_maps_to_fill_and_position_delta :: "uuid \<Rightarrow> bool" where
  "filled_status_maps_to_fill_and_position_delta oid \<longleftrightarrow>
     (case map_order_status_response ref_dec ref_json ref_uuid (binance_fixture oid Submitted)
         (reply [(''status'', ''FILLED''), (''executedQty'', ''1.00000000''), (''price'', ''100.00000000''),
           (''cummulativeQuoteQty'', ''100.00000000'')]) of
        Ok r \<Rightarrow> rr_new_status r = Some Filled \<and> length (rr_fills_to_add r) = 1 \<and>
          fl_quantity (rr_fills_to_add r ! 0) = 1 \<and> fl_price (rr_fills_to_add r ! 0) = 100 \<and>
          pd_quantity_delta (rr_positions_delta r ! 0) = 1
      | _ \<Rightarrow> False)"

definition market_order_fill_price_derived_from_quote_qty_not_submitted_price :: "uuid \<Rightarrow> bool" where
  "market_order_fill_price_derived_from_quote_qty_not_submitted_price oid \<longleftrightarrow>
     (case map_order_status_response ref_dec ref_json ref_uuid (binance_fixture oid Submitted)
         (reply [(''status'', ''FILLED''), (''executedQty'', ''2.00000000''), (''price'', ''0.00000000''),
           (''cummulativeQuoteQty'', ''205.00000000'')]) of
        Ok r \<Rightarrow> fl_price (rr_fills_to_add r ! 0) = 1025 / 10
      | _ \<Rightarrow> False)"

definition second_partial_fill_priced_from_incremental_quote :: "uuid \<Rightarrow> bool" where
  "second_partial_fill_priced_from_incremental_quote oid \<longleftrightarrow>
     (case map_order_status_response ref_dec ref_json ref_uuid ((binance_fixture oid PartiallyFilled)\<lparr>rs_fills :=
           [\<lparr>fs_exchange_trade_id = ''abc123:reconcile:0'', fs_quantity = 4 / 10, fs_price = 100\<rparr>]\<rparr>)
         (reply [(''status'', ''FILLED''), (''executedQty'', ''0.6''), (''price'', ''0''),
           (''cummulativeQuoteQty'', ''62.5'')]) of
        Ok r \<Rightarrow> fl_quantity (rr_fills_to_add r ! 0) = 2 / 10 \<and> fl_price (rr_fills_to_add r ! 0) = 1125 / 10
      | _ \<Rightarrow> False)"

definition unchanged_status_is_a_noop :: "uuid \<Rightarrow> bool" where
  "unchanged_status_is_a_noop oid \<longleftrightarrow>
     (case map_order_status_response ref_dec ref_json ref_uuid (binance_fixture oid Submitted)
         (reply [(''status'', ''NEW''), (''executedQty'', ''0''), (''price'', ''100'')]) of
        Ok r \<Rightarrow> rr_new_status r = None \<and> rr_fills_to_add r = []
      | _ \<Rightarrow> False)"

definition rejected_status_maps_to_rejected :: "uuid \<Rightarrow> bool" where
  "rejected_status_maps_to_rejected oid \<longleftrightarrow>
     (case map_order_status_response ref_dec ref_json ref_uuid (binance_fixture oid Submitted)
         (reply [(''status'', ''REJECTED''), (''executedQty'', ''0''), (''price'', ''100'')]) of
        Ok r \<Rightarrow> rr_new_status r = Some RejectedStatus
      | _ \<Rightarrow> False)"

text \<open>Whatever the client would have answered.\<close>

definition terminal_order_short_circuits_before_any_http_call :: "hmac \<Rightarrow> http_client \<Rightarrow> uuid \<Rightarrow> bool" where
  "terminal_order_short_circuits_before_any_http_call H N oid \<longleftrightarrow>
     (case binance_reconcile_order ref_dec ref_json ref_uuid H N (binance_testnet ''k'' ''s'') 0
         (binance_fixture oid Filled) of
        Ok r \<Rightarrow> rr_new_status r = None
      | _ \<Rightarrow> False)"

lemmas reply_defs = map_order_status_response_def binance_fixture_def str_field_def dec_field_or_zero_def
  dec_field_opt_def ref_json_def parse_binance_status_def new_fills_def fill_price_def no_result_def d_sum_def Let_def

lemma parse_unsigned_points:
  "dparse ref_dec ''1.00000000'' = Some 1" "dparse ref_dec ''2.00000000'' = Some 2"
  "dparse ref_dec ''100.00000000'' = Some 100" "dparse ref_dec ''205.00000000'' = Some 205"
  "dparse ref_dec ''0.00000000'' = Some 0" "dparse ref_dec ''0.6'' = Some (6 / 10)"
  "dparse ref_dec ''62.5'' = Some (625 / 10)" "dparse ref_dec ''0'' = Some 0" "dparse ref_dec ''100'' = Some 100"
  by (simp_all add: ref_dec_def parse_unsigned_def read_nat_def digit_val_def)

lemma reconcile_tests:
  "filled_status_maps_to_fill_and_position_delta oid"
  "market_order_fill_price_derived_from_quote_qty_not_submitted_price oid"
  "second_partial_fill_priced_from_incremental_quote oid" "unchanged_status_is_a_noop oid"
  "rejected_status_maps_to_rejected oid" "terminal_order_short_circuits_before_any_http_call H N oid"
  by (simp_all add: filled_status_maps_to_fill_and_position_delta_def
      market_order_fill_price_derived_from_quote_qty_not_submitted_price_def
      second_partial_fill_priced_from_incremental_quote_def unchanged_status_is_a_noop_def
      rejected_status_maps_to_rejected_def terminal_order_short_circuits_before_any_http_call_def
      binance_reconcile_order_def reply_defs parse_unsigned_points ref_dec_exact)

lemma lookup_key_test:
  assumes "H ''s'' ''symbol=BTCUSDT&origClientOrderId=abc123&timestamp=1000'' = Ok mac"
  shows "origclientorderid_used_as_lookup_key H"
proof -
  have "show_int 1000 = ''1000''"
    by code_simp
  with assms show ?thesis
    by (simp add: origclientorderid_used_as_lookup_key_def order_status_query_def sign_query_def binance_testnet_def)
qed

section \<open>URLs and signatures\<close>

definition testnet_and_live_urls_are_origin_only :: bool where
  "testnet_and_live_urls_are_origin_only \<longleftrightarrow>
     (let testnet = binance_testnet ''k'' ''s''; live = binance_live ''k'' ''s'' in
      exchange_info_url testnet = ''https://testnet.binance.vision/api/v3/exchangeInfo'' \<and>
      order_url testnet = ''https://testnet.binance.vision/api/v3/order'' \<and>
      open_orders_url testnet = ''https://testnet.binance.vision/api/v3/openOrders'' \<and>
      account_url testnet = ''https://testnet.binance.vision/api/v3/account'' \<and>
      all_orders_url testnet = ''https://testnet.binance.vision/api/v3/allOrders'' \<and>
      my_trades_url testnet = ''https://testnet.binance.vision/api/v3/myTrades'' \<and>
      user_data_stream_url testnet = ''https://testnet.binance.vision/api/v3/userDataStream'' \<and>
      exchange_info_url live = ''https://api.binance.com/api/v3/exchangeInfo'' \<and>
      order_url live = ''https://api.binance.com/api/v3/order'')"

definition is_ascii_hexdigit :: "char \<Rightarrow> bool" where
  "is_ascii_hexdigit c \<longleftrightarrow> c \<in> set ''0123456789abcdefABCDEF''"

definition hmac_signature_is_deterministic_hex :: "hmac \<Rightarrow> bool" where
  "hmac_signature_is_deterministic_hex H \<longleftrightarrow>
     (case sign_query H ''secret'' ''symbol=BTCUSDT&side=BUY'' of
        Ok sig \<Rightarrow> list_all is_ascii_hexdigit sig \<and> length sig = 64
      | _ \<Rightarrow> False)"

lemma hex_digit_hexdigit: "n < 16 \<Longrightarrow> is_ascii_hexdigit (hex_digit n)"
proof -
  have "list_all (\<lambda>n. is_ascii_hexdigit (hex_digit n)) [0..<16]" by code_simp
  then show "n < 16 \<Longrightarrow> is_ascii_hexdigit (hex_digit n)" by (simp only: list_all_iff set_upt) simp
qed

lemma hex_encode_hexdigits: "list_all is_ascii_hexdigit (hex_encode bs)"
proof -
  have "unat b < 256" for b :: byte using unsigned_less [of b] by simp
  then have "unat b div 16 < 16" for b :: byte by (simp add: less_mult_imp_div_less)
  then show ?thesis by (induction bs) (simp_all add: hex_encode_def hex_byte_def hex_digit_hexdigit)
qed

lemma rest_tests:
  "testnet_and_live_urls_are_origin_only"
  "\<exists>mac. H ''secret'' ''symbol=BTCUSDT&side=BUY'' = Ok mac \<and> length mac = 32 \<Longrightarrow> hmac_signature_is_deterministic_hex H"
  by (auto simp: testnet_and_live_urls_are_origin_only_def binance_testnet_def binance_live_def url_def
      exchange_info_url_def order_url_def open_orders_url_def account_url_def all_orders_url_def my_trades_url_def
      user_data_stream_url_def hmac_signature_is_deterministic_hex_def sign_query_def hex_encode_hexdigits
      length_hex_encode)

definition different_queries_produce_different_signatures :: "hmac \<Rightarrow> bool" where
  "different_queries_produce_different_signatures H \<longleftrightarrow>
     (case (sign_query H ''secret'' ''symbol=BTCUSDT'', sign_query H ''secret'' ''symbol=ETHUSDT'') of
        (Ok sig1, Ok sig2) \<Rightarrow> sig1 \<noteq> sig2
      | _ \<Rightarrow> False)"

lemma hex_encode_inject: "hex_encode a = hex_encode b \<longleftrightarrow> a = b"
  by (metis hex_decode_encode res.inject(1))

lemma signature_test:
  assumes "H ''secret'' ''symbol=BTCUSDT'' = Ok mac1" "H ''secret'' ''symbol=ETHUSDT'' = Ok mac2" "mac1 \<noteq> mac2"
  shows "different_queries_produce_different_signatures H"
  using assms by (simp add: different_queries_produce_different_signatures_def sign_query_def hex_encode_inject)

section \<open>Exchange metadata and tickers\<close>

definition sample_entry :: "json \<Rightarrow> json" where
  "sample_entry percent_price_filter = JObj [
     (''symbol'', JStr ''BTCUSDT''), (''baseAsset'', JStr ''BTC''), (''quoteAsset'', JStr ''USDT''),
     (''status'', JStr ''TRADING''), (''orderTypes'', JArr [JStr ''LIMIT'', JStr ''MARKET'']),
     (''filters'', JArr [
        reply [(''filterType'', ''LOT_SIZE''), (''minQty'', ''0.00001000''), (''maxQty'', ''9000.00000000''),
          (''stepSize'', ''0.00001000'')],
        reply [(''filterType'', ''MARKET_LOT_SIZE''), (''minQty'', ''0.00001000''), (''maxQty'', ''100.00000000''),
          (''stepSize'', ''0.00001000'')],
        reply [(''filterType'', ''PRICE_FILTER''), (''minPrice'', ''0.01000000''), (''maxPrice'', ''1000000.00000000''),
          (''tickSize'', ''0.01000000'')],
        JObj [(''filterType'', JStr ''NOTIONAL''), (''minNotional'', JStr ''5.00000000''),
          (''maxNotional'', JStr ''9000000.00000000''), (''applyMinToMarket'', JBool True),
          (''applyMaxToMarket'', JBool False), (''avgPriceMins'', JNum 5)],
        percent_price_filter])]"

definition parses_market_lot_size_and_full_notional_shape :: bool where
  "parses_market_lot_size_and_full_notional_shape \<longleftrightarrow>
     (case parse_symbol_meta ref_dec ref_json (sample_entry (JObj [(''filterType'', JStr ''PERCENT_PRICE''),
         (''multiplierUp'', JStr ''1.2000''), (''multiplierDown'', JStr ''0.8000''), (''avgPriceMins'', JNum 5)])) of
        Ok m \<Rightarrow> ls_step_size (sm_market_lot_size m) = 1 / 100000 \<and> nf_min_notional (sm_notional m) = Some 5 \<and>
          nf_max_notional (sm_notional m) = Some 9000000 \<and> nf_apply_min_to_market (sm_notional m) \<and>
          \<not> nf_apply_max_to_market (sm_notional m)
      | _ \<Rightarrow> False)"

definition parses_percent_price_by_side_variant_specifically :: bool where
  "parses_percent_price_by_side_variant_specifically \<longleftrightarrow>
     (case parse_symbol_meta ref_dec ref_json (sample_entry (JObj [(''filterType'', JStr ''PERCENT_PRICE_BY_SIDE''),
         (''bidMultiplierUp'', JStr ''1.2000''), (''bidMultiplierDown'', JStr ''0.8000''),
         (''askMultiplierUp'', JStr ''1.2000''), (''askMultiplierDown'', JStr ''0.8000''), (''avgPriceMins'', JNum 5)])) of
        Ok m \<Rightarrow> (case sm_percent_price m of BySide bu bd au ad mins \<Rightarrow> ad = 8 / 10 | General u d mins \<Rightarrow> False)
      | _ \<Rightarrow> False)"

definition all_book_tickers_parsed_and_bad_entries_skipped :: bool where
  "all_book_tickers_parsed_and_bad_entries_skipped \<longleftrightarrow>
     (case parse_all_book_tickers ref_dec ref_json (JArr [
         reply [(''symbol'', ''BTCUSDT''), (''bidPrice'', ''100.0''), (''askPrice'', ''101.0'')],
         reply [(''symbol'', ''DEADUSDT''), (''bidPrice'', ''0.00000000''), (''askPrice'', ''0.00000000'')],
         reply [(''symbol'', ''ETHUSDT''), (''bidPrice'', ''10''), (''askPrice'', ''11'')],
         reply [(''bidPrice'', ''1''), (''askPrice'', ''2'')]]) of
        Ok out \<Rightarrow> map fst out = [''BTCUSDT'', ''ETHUSDT'']
      | _ \<Rightarrow> False) \<and>
     (case parse_all_book_tickers ref_dec ref_json (JObj [(''code'', JNum (- 1))]) of Err e \<Rightarrow> True | _ \<Rightarrow> False)"

lemma parse_more_points:
  "dparse ref_dec ''0.00001000'' = Some (1 / 100000)" "dparse ref_dec ''9000.00000000'' = Some 9000"
  "dparse ref_dec ''0.01000000'' = Some (1 / 100)" "dparse ref_dec ''1000000.00000000'' = Some 1000000"
  "dparse ref_dec ''5.00000000'' = Some 5" "dparse ref_dec ''9000000.00000000'' = Some 9000000"
  "dparse ref_dec ''1.2000'' = Some (12 / 10)" "dparse ref_dec ''0.8000'' = Some (8 / 10)"
  "dparse ref_dec ''100.0'' = Some 100" "dparse ref_dec ''101.0'' = Some 101" "dparse ref_dec ''10'' = Some 10"
  "dparse ref_dec ''11'' = Some 11" "dparse ref_dec ''1'' = Some 1" "dparse ref_dec ''2'' = Some 2"
  by (simp_all add: ref_dec_def parse_unsigned_def read_nat_def digit_val_def)

lemma parser_tests:
  "parses_market_lot_size_and_full_notional_shape" "parses_percent_price_by_side_variant_specifically"
  "all_book_tickers_parsed_and_bad_entries_skipped"
  by (simp_all add: parses_market_lot_size_and_full_notional_shape_def
      parses_percent_price_by_side_variant_specifically_def all_book_tickers_parsed_and_bad_entries_skipped_def
      parse_symbol_meta_def sample_entry_def apply_filter_def parse_lot_def parse_price_filter_def parse_notional_def
      parse_by_side_def parse_general_def dec_field_def dec_field_opt_def str_field_def array_field_def
      bool_field_or_false_def u32_field_or_zero_def ref_json_def parse_all_book_tickers_def parse_ticker_def
      List.map_filter_def parse_unsigned_points parse_more_points Let_def)

section \<open>Streams\<close>

definition public_stream_url_uses_origin_only_base :: bool where
  "public_stream_url_uses_origin_only_base \<longleftrightarrow>
     public_stream_url True [''btcusdt@bookTicker''] =
       ''wss://testnet.binance.vision/stream?streams=btcusdt@bookTicker'' \<and>
     public_stream_url False [''btcusdt@bookTicker''] =
       ''wss://stream.binance.com:9443/stream?streams=btcusdt@bookTicker''"

definition user_data_stream_url_uses_origin_only_base :: bool where
  "user_data_stream_url_uses_origin_only_base \<longleftrightarrow>
     ws_user_data_stream_url True ''abc123'' = ''wss://testnet.binance.vision/ws/abc123''"

text \<open>The texts parse to the documents they spell.\<close>

definition json_reading :: "json \<Rightarrow> json_ops" where
  "json_reading v = ref_json\<lparr>j_parse := \<lambda>_. Ok v\<rparr>"

definition parses_book_ticker_event :: "string \<Rightarrow> bool" where
  "parses_book_ticker_event raw \<longleftrightarrow>
     parse_public_event ref_dec (json_reading (JObj [(''data'', reply [(''e'', ''bookTicker''), (''s'', ''BTCUSDT''),
       (''b'', ''100.00''), (''a'', ''101.00'')])])) raw = Ok (BookTicker ''BTCUSDT'' 100 101)"

definition parses_trade_event :: "string \<Rightarrow> bool" where
  "parses_trade_event raw \<longleftrightarrow>
     parse_public_event ref_dec (json_reading (JObj [(''data'', reply [(''e'', ''trade''), (''s'', ''BTCUSDT''),
       (''p'', ''100.50'')])])) raw = Ok (Trade ''BTCUSDT'' (1005 / 10))"

lemma stream_tests:
  "public_stream_url_uses_origin_only_base" "user_data_stream_url_uses_origin_only_base"
  "parses_book_ticker_event raw" "parses_trade_event raw"
  by (simp_all add: public_stream_url_uses_origin_only_base_def user_data_stream_url_uses_origin_only_base_def
      public_stream_url_def ws_user_data_stream_url_def ws_base_url_def parses_book_ticker_event_def
      parses_trade_event_def parse_public_event_def json_reading_def ref_json_def str_field_def parse_book_ticker_def
      parse_trade_def parse_decimal_field_def symbol_or_empty_def ref_dec_def parse_unsigned_def read_nat_def
      digit_val_def Let_def)

section \<open>Credentials\<close>

definition wrong_aad_fails_to_decrypt :: "aead \<Rightarrow> bool" where
  "wrong_aad_fails_to_decrypt A \<longleftrightarrow>
     (let key = replicate 32 7; nonce = replicate NONCE_LEN 2; bytes = map (\<lambda>c. of_char c :: byte) in
      case encrypt A key (bytes ''secret'') (bytes ''account-1'') nonce of
        Ok ct \<Rightarrow> (case decrypt A key ct (bytes ''account-2'') of Err e \<Rightarrow> True | _ \<Rightarrow> False)
      | _ \<Rightarrow> False)"

text \<open>\<open>ct.windows(n).any(|w| w == s)\<close>.\<close>

fun has_window :: "byte list \<Rightarrow> byte list \<Rightarrow> bool" where
  "has_window w [] = (w = [])"
| "has_window w (b # bs) = (take (length w) (b # bs) = w \<or> has_window w bs)"

definition roundtrip_recovers_plaintext :: "aead \<Rightarrow> bool" where
  "roundtrip_recovers_plaintext A \<longleftrightarrow>
     (let key = replicate 32 7; nonce = replicate NONCE_LEN 1; bytes = map (\<lambda>c. of_char c :: byte) in
      case encrypt A key (bytes ''api-secret-value'') (bytes ''account-123'') nonce of
        Ok ct \<Rightarrow> \<not> has_window (bytes ''api-secret-value'') ct \<and>
          decrypt A key ct (bytes ''account-123'') = Ok (bytes ''api-secret-value'')
      | _ \<Rightarrow> False)"

definition tampered_ciphertext_fails_to_decrypt :: "aead \<Rightarrow> bool" where
  "tampered_ciphertext_fails_to_decrypt A \<longleftrightarrow>
     (let key = replicate 32 7; nonce = replicate NONCE_LEN 3; bytes = map (\<lambda>c. of_char c :: byte) in
      case encrypt A key (bytes ''secret'') (bytes ''acct'') nonce of
        Ok ct \<Rightarrow> (let last_ix = length ct - 1; ct' = ct[last_ix := (ct ! last_ix) XOR 0xFF] in
          \<not> is_ok (decrypt A key ct' (bytes ''acct'')))
      | _ \<Rightarrow> False)"

text \<open>
  The end of what the cipher returns is its authentication tag, a function of the rest: with another
  last byte it does not decrypt.
\<close>

definition aead_tag_law :: "aead \<Rightarrow> bool" where
  "aead_tag_law A \<longleftrightarrow>
     (\<forall>k n m aad ct b. ae_encrypt A k n m aad = Ok ct \<longrightarrow>
        ct \<noteq> [] \<and> (b \<noteq> last ct \<longrightarrow> \<not> is_ok (ae_decrypt A k n (butlast ct @ [b]) aad)))"

lemma byte_complement_differs: "(b :: byte) XOR 0xFF \<noteq> b"
proof
  assume "b XOR 0xFF = b"
  then have "b XOR b XOR 0xFF = b XOR b" by (simp only: xor.assoc)
  then show False by simp
qed

lemma roundtrip_test:
  assumes "aead_laws A"
    "ae_encrypt A (replicate 32 7) (replicate NONCE_LEN 1) (map of_char ''api-secret-value'') (map of_char ''account-123'') = Ok ct"
    "\<not> has_window (map of_char ''api-secret-value'') (replicate NONCE_LEN 1 @ ct)"
  shows "roundtrip_recovers_plaintext A"
proof -
  have "ae_decrypt A (replicate 32 7) (replicate NONCE_LEN 1) ct (map of_char ''account-123'')
      = Ok (map of_char ''api-secret-value'')"
    using assms(1,2) unfolding aead_laws_def by blast
  with assms(2,3) show ?thesis
    unfolding roundtrip_recovers_plaintext_def Let_def encrypt_def decrypt_def by (simp add: NONCE_LEN_def)
qed

lemma tampered_test:
  assumes "aead_tag_law A"
    "ae_encrypt A (replicate 32 7) (replicate NONCE_LEN 3) (map of_char ''secret'') (map of_char ''acct'') = Ok ct"
  shows "tampered_ciphertext_fails_to_decrypt A"
proof -
  from assms have ne: "ct \<noteq> []"
    and bad: "\<not> is_ok (ae_decrypt A (replicate 32 7) (replicate NONCE_LEN 3)
        (butlast ct @ [last ct XOR 0xFF]) (map of_char ''acct''))"
    using byte_complement_differs unfolding aead_tag_law_def by blast+
  let ?blob = "replicate NONCE_LEN 3 @ ct"
  have "?blob[length ?blob - 1 := (?blob ! (length ?blob - 1)) XOR 0xFF] =
      replicate NONCE_LEN 3 @ (butlast ct @ [last ct XOR 0xFF])"
    using ne by (cases ct rule: rev_cases) (simp_all add: nth_append list_update_append)
  with assms(2) bad show ?thesis
    unfolding tampered_ciphertext_fails_to_decrypt_def Let_def encrypt_def decrypt_def
    by (cases "ae_decrypt A (replicate 32 7) (replicate NONCE_LEN 3) (butlast ct @ [last ct XOR 0xFF]) (map of_char ''acct'')")
      (simp_all add: NONCE_LEN_def)
qed

lemma credential_tests:
  assumes "aead_laws A" "\<And>k n m aad. is_ok (ae_encrypt A k n m aad)"
  shows "wrong_aad_fails_to_decrypt A"
proof -
  let ?key = "replicate 32 7 :: byte list" and ?nonce = "replicate NONCE_LEN 2 :: byte list"
  let ?m = "map of_char ''secret'' :: byte list" and ?aad = "map of_char ''account-1'' :: byte list"
  let ?aad' = "map of_char ''account-2'' :: byte list"
  obtain ct where ct: "ae_encrypt A ?key ?nonce ?m ?aad = Ok ct"
    using assms(2) [of ?key ?nonce ?m ?aad] by (cases "ae_encrypt A ?key ?nonce ?m ?aad") auto
  have "?aad' \<noteq> ?aad" by simp
  with ct assms(1) have no: "\<not> is_ok (ae_decrypt A ?key ?nonce ct ?aad')" "ae_decrypt A ?key ?nonce ct ?aad' \<noteq> Panic"
    unfolding aead_laws_def by blast+
  then obtain e where "ae_decrypt A ?key ?nonce ct ?aad' = Err e"
    by (cases "ae_decrypt A ?key ?nonce ct ?aad'") auto
  with ct show ?thesis
    unfolding wrong_aad_fails_to_decrypt_def Let_def encrypt_def decrypt_def by (simp add: NONCE_LEN_def)
qed

end
