(* ===== verification/Conformance_Api.thy ===== *)
theory Conformance_Api
  imports Conformance_Core Scenario
begin

text \<open>
  The integration tests of \<open>crates/server/tests/api.rs\<close>, transcribed and run on the model: the requests of a
  test are the handlers, one after another, on a session of their own that starts on the empty database.
  Left out is the part of one test that asks for PostgreSQL's grants.
\<close>

section \<open>The client\<close>

definition check :: "bool \<Rightarrow> unit tx" where
  "check b = (if b then tx_return () else tx_fail (Invalid (Msg ''assertion failed'')))"

definition expect_status :: "nat \<Rightarrow> 'a tx \<Rightarrow> unit tx" where
  "expect_status n m =
     tx_handle m (\<lambda>x. tx_fail (Invalid (Msg ''assertion failed''))) (\<lambda>e. check (api_status e = n))"

definition passes :: "unit tx \<Rightarrow> bool" where
  "passes m \<longleftrightarrow> fst (m (sess 1 empty_db)) = Ok ()"

definition new_account :: "rat \<Rightarrow> uuid tx" where
  "new_account equity =
     tx_bind (create_account ref_uuid (Some (Some equity))) (\<lambda>(status, v).
     tx_bind (check (status = 201)) (\<lambda>_. tx_return (av_id v)))"

definition evaluated :: "uuid \<Rightarrow> trade_intent \<Rightarrow> decision tx" where
  "evaluated aid i = evaluate_trade ref_dec ref_uuid aid i"

definition buy :: "string \<Rightarrow> rat \<Rightarrow> rat \<Rightarrow> trade_intent" where
  "buy symbol qty price = \<lparr>ti_symbol = symbol, ti_side = TBuy, ti_quantity = qty, ti_price = price\<rparr>"

definition limits :: "rat \<Rightarrow> rat \<Rightarrow> i32 \<Rightarrow> rat \<Rightarrow> i32 \<Rightarrow> risk_config_view" where
  "limits loss per_trade n exposure version = \<lparr>rv_cfg = \<lparr>daily_max_loss_pct = loss, max_position_pct_equity = per_trade,
     max_concurrent_positions = n, max_correlated_exposure_pct = exposure\<rparr>, rv_version = version\<rparr>"

definition insert_position :: "uuid \<Rightarrow> string \<Rightarrow> rat \<Rightarrow> rat \<Rightarrow> unit tx" where
  "insert_position aid symbol qty price =
     tx_bind (tenant_tx aid) (\<lambda>_.
     tx_bind fresh_id (\<lambda>pid.
     tx_bind (stmt (sql_insert_position \<lparr>po_id = pid, po_account_id = aid, po_symbol = symbol, po_side = ''long'',
       po_quantity = qty, po_avg_entry_price = price, po_status = ''open'', po_closed_at = None\<rparr>)) (\<lambda>_.
     commit_tx)))"

text \<open>The loss that one test books, and what it reads back.\<close>

definition book_loss :: "uuid \<Rightarrow> rat \<Rightarrow> unit tx" where
  "book_loss aid loss =
     tx_bind (tenant_tx aid) (\<lambda>_.
     tx_bind get_today (\<lambda>day.
     tx_bind (stmt (\<lambda>r d. Ok ((), d\<lparr>t_daily_pnl := t_daily_pnl d @ [\<lparr>dp_account_id = aid,
       dp_trading_date = day, dp_realized_loss = loss, dp_circuit_breaker_tripped_at = None\<rparr>]\<rparr>))) (\<lambda>_.
     commit_tx)))"

definition breaker_tripped :: "uuid \<Rightarrow> bool tx" where
  "breaker_tripped aid =
     tx_bind (tenant_tx aid) (\<lambda>_.
     tx_bind get_today (\<lambda>day.
     tx_bind (stmt (sql_read (find_daily_pnl aid day))) (\<lambda>row.
     tx_bind commit_tx (\<lambda>_.
     tx_return (case row of Some x \<Rightarrow> dp_circuit_breaker_tripped_at x \<noteq> None | None \<Rightarrow> False)))))"

definition rule_name :: "violation \<Rightarrow> string" where
  "rule_name v = (case str_field ref_json (ser_violation ref_uuid v) ''rule'' of Some s \<Rightarrow> s | None \<Rightarrow> ''?'')"

fun rules :: "decision \<Rightarrow> string list" where
  "rules Approved = []"
| "rules (Rejected vs) = map rule_name vs"

definition event_types :: "uuid \<Rightarrow> string list tx" where
  "event_types aid =
     tx_bind (list_risk_events aid \<lparr>eq_limit = None, eq_before = None\<rparr>) (\<lambda>vs. tx_return (map ew_event_type vs))"

section \<open>The tests\<close>

definition lifecycle_defaults_config_update_and_evaluate :: bool where
  "lifecycle_defaults_config_update_and_evaluate \<longleftrightarrow> passes (
     tx_bind (new_account 10000) (\<lambda>aid.
     tx_bind (get_risk_config aid) (\<lambda>v.
     tx_bind (check (rv_version v = 1 \<and> max_concurrent_positions (rv_cfg v) = 5)) (\<lambda>_.
     tx_bind (evaluated aid (buy ''BTC'' 1 100)) (\<lambda>dec.
     tx_bind (check (dec = Approved)) (\<lambda>_.
     tx_bind (evaluated aid (buy ''BTC'' 1 501)) (\<lambda>dec.
     tx_bind (check (rules dec = [''position_size_exceeded''])) (\<lambda>_.
     tx_bind (put_risk_config ref_uuid aid (limits 2 10 3 20 1)) (\<lambda>v.
     tx_bind (check (rv_version v = 2)) (\<lambda>_.
     tx_bind (expect_status 409 (put_risk_config ref_uuid aid (limits 2 10 3 20 1))) (\<lambda>_.
     tx_bind (evaluated aid (buy ''BTC'' 10 100)) (\<lambda>dec.
     tx_bind (check (dec = Approved)) (\<lambda>_.
     expect_status 422 (put_risk_config ref_uuid aid (limits 0 10 3 20 2)))))))))))))))"

definition kill_switch_engage_release_and_audit_trail :: bool where
  "kill_switch_engage_release_and_audit_trail \<longleftrightarrow> passes (
     tx_bind (new_account 10000) (\<lambda>aid.
     tx_bind (engage_kill_switch aid) (\<lambda>v.
     tx_bind (check (av_kill_switch_engaged v \<and> av_status v = ''killed'')) (\<lambda>_.
     tx_bind (evaluated aid (buy ''BTC'' 1 1)) (\<lambda>dec.
     tx_bind (check (rules dec = [''kill_switch_engaged''])) (\<lambda>_.
     tx_bind (engage_kill_switch aid) (\<lambda>_.
     tx_bind (release_kill_switch aid) (\<lambda>v.
     tx_bind (check (\<not> av_kill_switch_engaged v)) (\<lambda>_.
     tx_bind (evaluated aid (buy ''BTC'' 1 1)) (\<lambda>dec.
     tx_bind (check (dec = Approved)) (\<lambda>_.
     tx_bind (event_types aid) (\<lambda>types.
     check (count_list types ''kill_switch_engaged'' = 1 \<and> count_list types ''kill_switch_released'' = 1 \<and>
       count_list types ''trade_evaluated'' = 2 \<and> count_list types ''account_created'' = 1)))))))))))))"

definition circuit_breaker_trips_and_persists :: bool where
  "circuit_breaker_trips_and_persists \<longleftrightarrow> passes (
     tx_bind (new_account 10000) (\<lambda>aid.
     tx_bind (book_loss aid 200) (\<lambda>_.
     tx_bind (evaluated aid (buy ''BTC'' 1 1)) (\<lambda>dec.
     tx_bind (check (rules dec = [''circuit_breaker_tripped''])) (\<lambda>_.
     tx_bind (breaker_tripped aid) (\<lambda>tripped.
     tx_bind (check tripped) (\<lambda>_.
     tx_bind (evaluated aid (buy ''ETH'' 1 1)) (\<lambda>dec.
     tx_bind (check (\<not> is_approved dec)) (\<lambda>_.
     tx_bind (event_types aid) (\<lambda>types.
     check (count_list types ''circuit_breaker_tripped'' = 1)))))))))))"

definition concurrent_positions_and_correlated_exposure :: bool where
  "concurrent_positions_and_correlated_exposure \<longleftrightarrow> passes (
     tx_bind (new_account 100000) (\<lambda>aid.
     tx_bind (tx_each (\<lambda>(s, price). insert_position aid s 1 price)
       [(''AAA'', 100), (''BBB'', 200), (''CCC'', 300), (''DDD'', 400), (''EEE'', 500)]) (\<lambda>_.
     tx_bind (evaluated aid (buy ''FFF'' 1 100)) (\<lambda>dec.
     tx_bind (check (rules dec = [''max_concurrent_positions_exceeded''])) (\<lambda>_.
     tx_bind (evaluated aid (buy ''AAA'' 1 100)) (\<lambda>dec.
     tx_bind (check (dec = Approved)) (\<lambda>_.
     tx_bind (put_risk_config ref_uuid aid (limits 2 15 5 10 1)) (\<lambda>_.
     tx_bind (put_correlation_groups aid [\<lparr>gd_name = ''pair'', gd_symbols = [''AAA'', ''BBB'']\<rparr>]) (\<lambda>n.
     tx_bind (check (n = 204)) (\<lambda>_.
     tx_bind (evaluated aid (buy ''AAA'' 97 100)) (\<lambda>dec.
     tx_bind (check (dec = Approved)) (\<lambda>_.
     tx_bind (evaluated aid (buy ''AAA'' (9701 / 100) 100)) (\<lambda>dec.
     check (rules dec = [''correlated_exposure_exceeded'']))))))))))))))"

definition rls_blocks_cross_tenant_reads :: bool where
  "rls_blocks_cross_tenant_reads \<longleftrightarrow> passes (
     tx_bind (new_account 1000) (\<lambda>a.
     tx_bind (new_account 1000) (\<lambda>b.
     tx_bind (tenant_tx b) (\<lambda>_.
     tx_bind (stmt (sql_read (find_account a))) (\<lambda>row.
     tx_bind (check (row = None)) (\<lambda>_.
     tx_bind (stmt (sql_read (select_risk_events a None 500))) (\<lambda>events.
     check (events = []))))))))"

definition evaluate_rejects_malformed_intents_at_the_boundary :: bool where
  "evaluate_rejects_malformed_intents_at_the_boundary \<longleftrightarrow> passes (
     tx_bind (new_account 10000) (\<lambda>aid.
     tx_bind (expect_status 422 (evaluated aid (buy [] 1 1))) (\<lambda>_.
     tx_bind (expect_status 422 (evaluated aid (buy ''BTC'' (- 1) 1))) (\<lambda>_.
     tx_bind (expect_status 422 (evaluated aid (buy ''BTC'' 1 (- 1)))) (\<lambda>_.
     tx_bind (fresh_id) (\<lambda>ghost.
     expect_status 404 (evaluated ghost (buy ''BTC'' 1 1))))))))"

definition equity_updates_are_validated_and_audited :: bool where
  "equity_updates_are_validated_and_audited \<longleftrightarrow> passes (
     tx_bind (new_account 1000) (\<lambda>aid.
     tx_bind (expect_status 422 (put_equity ref_uuid aid (- 5000))) (\<lambda>_.
     tx_bind (put_equity ref_uuid aid 2500) (\<lambda>n.
     tx_bind (check (n = 204)) (\<lambda>_.
     tx_bind (get_account aid) (\<lambda>v.
     tx_bind (check (av_equity v = 2500)) (\<lambda>_.
     tx_bind (list_risk_events aid \<lparr>eq_limit = None, eq_before = None\<rparr>) (\<lambda>events.
     let changes = filter (\<lambda>e. ew_event_type e = ''equity_changed'') events in
     check (length changes = 1 \<and> j_get ref_json (ew_payload (changes ! 0)) ''new'' = Some (ser_dec ref_uuid 2500))))))))))"

section \<open>The model passes them\<close>

lemma symbols_not_blank:
  "\<not> is_blank ''BTC''" "\<not> is_blank ''ETH''" "\<not> is_blank ''AAA''" "\<not> is_blank ''BBB''" "\<not> is_blank ''FFF''"
  "\<not> is_blank ''pair''" "is_blank []"
  by code_simp+

lemma on_grid_1: "on_grid 1"
  unfolding on_grid_def by (rule exI [of _ "10 ^ 10"]) simp

lemma percentages:
  "numeric_8_4 2 = Some 2" "numeric_8_4 5 = Some 5" "numeric_8_4 10 = Some 10" "numeric_8_4 15 = Some 15"
  "numeric_8_4 20 = Some 20"
proof -
  have "numeric_8_4 (of_int k) = Some (of_int k)" if "\<bar>k\<bar> < 10000" for k
    using that round_half_away_int [of "k * 10000"] by (simp add: numeric_def Let_def)
  from this [of 2] this [of 5] this [of 10] this [of 15] this [of 20]
  show "numeric_8_4 2 = Some 2" "numeric_8_4 5 = Some 5" "numeric_8_4 10 = Some 10" "numeric_8_4 15 = Some 15"
    "numeric_8_4 20 = Some 20" by simp_all
qed

lemmas client_defs = passes_def check_def expect_status_def new_account_def evaluated_def buy_def limits_def
  insert_position_def book_loss_def breaker_tripped_def rule_name_def event_types_def

lemmas handler_defs = create_account_def get_account_def put_equity_def get_risk_config_def put_risk_config_def
  put_correlation_groups_def engage_kill_switch_def release_kill_switch_def evaluate_trade_def list_risk_events_def

lemmas table_defs = sess_def empty_db_def statement_defs sql_insert_account_def sql_insert_risk_config_def
  sql_engage_kill_switch_def sql_release_kill_switch_def sql_update_account_def sql_set_equity_def
  sql_update_risk_config_def stored_config_def sql_insert_position_def sql_trip_circuit_breaker_def
  trip_circuit_breaker_def sql_delete_groups_def sql_insert_group_def sql_insert_group_asset_def insert_group_def_def
  select_risk_events_def page_limit_def risk_event_to_view_def row_to_position_def numeric_on_grid on_grid_1 percentages account_check_def
  position_check_def risk_config_check_def pct_check_def pct_def risk_event_types_def default_risk_config_def

lemmas run_simps = run_defs client_defs handler_defs table_defs engine_defs decimal_lawsD [OF ref_dec_laws] ref_dec_exact
  symbols_not_blank str_field_def ref_json_def Let_def res_simps

lemma lifecycle_defaults_config_update_and_evaluate_holds: "lifecycle_defaults_config_update_and_evaluate"
  unfolding lifecycle_defaults_config_update_and_evaluate_def by (simp add: run_simps)

lemma kill_switch_engage_release_and_audit_trail_holds: "kill_switch_engage_release_and_audit_trail"
  unfolding kill_switch_engage_release_and_audit_trail_def by (simp add: run_simps)

lemma circuit_breaker_trips_and_persists_holds: "circuit_breaker_trips_and_persists"
  unfolding circuit_breaker_trips_and_persists_def by (simp add: run_simps)

lemma concurrent_positions_and_correlated_exposure_holds: "concurrent_positions_and_correlated_exposure"
  unfolding concurrent_positions_and_correlated_exposure_def by (simp add: run_simps)

lemma rls_blocks_cross_tenant_reads_holds: "rls_blocks_cross_tenant_reads"
  unfolding rls_blocks_cross_tenant_reads_def by (simp add: run_simps)

lemma evaluate_rejects_malformed_intents_at_the_boundary_holds: "evaluate_rejects_malformed_intents_at_the_boundary"
  unfolding evaluate_rejects_malformed_intents_at_the_boundary_def by (simp add: run_simps)

lemma equity_updates_are_validated_and_audited_holds: "equity_updates_are_validated_and_audited"
  unfolding equity_updates_are_validated_and_audited_def by (simp add: run_simps)

end
