(* ===== verification/Conformance_Phase2.thy ===== *)
theory Conformance_Phase2
  imports Conformance_Api Server_Main
begin

text \<open>
  The integration tests of \<open>crates/server/tests/phase2_exchange.rs\<close>, transcribed and run on the model: orders,
  fills, the outbox, the mode-switch guard and tenant isolation, and two passes of the worker from an order
  to its fill. Statements that a test sends itself are the model's where the code sends the same.
\<close>

section \<open>Fixtures\<close>

definition p2_account :: "rat \<Rightarrow> uuid tx" where
  "p2_account equity =
     tx_bind fresh_id (\<lambda>aid.
     tx_bind (tenant_tx aid) (\<lambda>_.
     tx_bind (stmt (sql_insert_account aid equity)) (\<lambda>_.
     tx_bind (stmt (sql_insert_risk_config aid)) (\<lambda>_.
     tx_bind commit_tx (\<lambda>_.
     tx_return aid)))))"

definition p2_order :: "uuid \<Rightarrow> order_status \<Rightarrow> uuid tx" where
  "p2_order aid status =
     tx_bind fresh_id (\<lambda>oid.
     tx_bind (stmt (sql_insert_order \<lparr>or_id = oid, or_account_id = aid,
       or_client_order_id = client_order_id_of ref_uuid oid, or_symbol = ''BTCUSDT'', or_side = ''buy'',
       or_order_type = ''limit'', or_quantity = 1, or_price = Some 100, or_status = status_str status,
       or_exchange_mode = ''paper'', or_filled_quantity = 0\<rparr>)) (\<lambda>_.
     tx_return oid))"

definition p2_fill :: "string \<Rightarrow> fill" where
  "p2_fill trade = \<lparr>fl_exchange_trade_id = trade, fl_quantity = 1, fl_price = 100, fl_fee = 0, fl_fee_asset = []\<rparr>"

definition p2_command :: "uuid \<Rightarrow> exchange_mode \<Rightarrow> string \<Rightarrow> nat option \<Rightarrow> string \<Rightarrow> uuid tx" where
  "p2_command aid mode status lease key =
     tx_bind fresh_id (\<lambda>cid.
     tx_bind (tenant_tx aid) (\<lambda>_.
     tx_bind (stmt (sql_insert_exchange_command \<lparr>cm_id = cid, cm_account_id = aid,
       cm_command_type = ''submit_order'', cm_exchange_mode = mode_str mode, cm_status = status,
       cm_idempotency_key = key, cm_payload = JObj [], cm_attempts = 0, cm_leased_until = lease,
       cm_created_at = 1000\<rparr>)) (\<lambda>_.
     tx_bind commit_tx (\<lambda>_.
     tx_return cid))))"

text \<open>The claim of one command by the owner, as two tests send it.\<close>

definition take_command :: "uuid \<Rightarrow> string \<Rightarrow> nat option \<Rightarrow> uuid list tx" where
  "take_command cid status lease =
     tx_bind get_now (\<lambda>now.
     auto_stmt Owner (\<lambda>r d.
       let chosen = (\<lambda>x. cm_id x = cid \<and> claimable now x) in
       Ok (map cm_id (filter chosen (t_exchange_commands d)),
           d\<lparr>t_exchange_commands := update_where chosen
               (\<lambda>x. x\<lparr>cm_status := status, cm_leased_until := lease\<rparr>) (t_exchange_commands d)\<rparr>)))"

definition paper_row :: "uuid \<Rightarrow> exchange_config_row" where
  "paper_row aid = \<lparr>ec_account_id = aid, ec_mode = ''paper'', ec_testnet = True, ec_api_key_ciphertext = None,
     ec_api_secret_ciphertext = None, ec_version = 1\<rparr>"

definition trigger_blocks :: "unit tx \<Rightarrow> unit tx" where
  "trigger_blocks m = tx_handle m (\<lambda>_. check False)
     (\<lambda>e. check (case e of DbErr (TriggerException msg) \<Rightarrow> True | _ \<Rightarrow> False))"

definition visible_orders :: "uuid \<Rightarrow> role \<Rightarrow> db \<Rightarrow> order_row list" where
  "visible_orders a r d = filter (\<lambda>x. visible r (or_account_id x) \<and> or_account_id x = a) (t_orders d)"

definition visible_fills :: "uuid \<Rightarrow> role \<Rightarrow> db \<Rightarrow> fill_row list" where
  "visible_fills a r d = filter (\<lambda>x. visible r (fr_account_id x) \<and> fr_account_id x = a) (t_order_fills d)"

definition visible_commands :: "uuid \<Rightarrow> role \<Rightarrow> db \<Rightarrow> command_row list" where
  "visible_commands a r d = filter (\<lambda>x. visible r (cm_account_id x) \<and> cm_account_id x = a) (t_exchange_commands d)"

definition visible_events :: "uuid \<Rightarrow> role \<Rightarrow> db \<Rightarrow> risk_event_row list" where
  "visible_events a r d = filter (\<lambda>x. visible r (ev_account_id x) \<and> ev_account_id x = a) (t_risk_events d)"

definition p2_supervisor :: supervisor where
  "p2_supervisor = \<lparr>sv_paper_adapter =
       Some (paper_adapter ref_dec ref_uuid (md_update (md_new 30) ''BTCUSDT'' 100 101 1000) 1000),
     sv_live_adapter = None\<rparr>"

section \<open>The tests\<close>

definition duplicate_fill_is_a_true_noop :: bool where
  "duplicate_fill_is_a_true_noop \<longleftrightarrow> passes (
     tx_bind (p2_account 10000) (\<lambda>aid.
     tx_bind (tenant_tx aid) (\<lambda>_.
     tx_bind (p2_order aid Submitted) (\<lambda>oid.
     tx_bind (insert_fill aid oid (p2_fill ''trade-1'')) (\<lambda>_.
     tx_bind (commit_tx) (\<lambda>_.
     tx_bind (tenant_tx aid) (\<lambda>_.
     tx_bind (fill_exists aid ''trade-1'') (\<lambda>seen.
     tx_bind (check seen) (\<lambda>_.
     tx_bind (insert_fill aid oid (p2_fill ''trade-1'')) (\<lambda>_.
     tx_bind (stmt (sql_read (\<lambda>r d. length (filter (\<lambda>x. fr_exchange_trade_id x = ''trade-1'') (visible_fills aid r d))))) (\<lambda>n.
     tx_bind (check (n = 1)) (\<lambda>_.
     commit_tx))))))))))))"

definition novel_fill_for_terminal_order_triggers_reconciliation :: bool where
  "novel_fill_for_terminal_order_triggers_reconciliation \<longleftrightarrow> passes (
     tx_bind (p2_account 10000) (\<lambda>aid.
     tx_bind (tenant_tx aid) (\<lambda>_.
     tx_bind (p2_order aid Filled) (\<lambda>oid.
     tx_bind (fill_exists aid ''novel-trade'') (\<lambda>seen.
     tx_bind (check (\<not> seen)) (\<lambda>_.
     tx_bind (insert_exchange_command aid ''reconcile_order'' Paper
       (uuid_str ref_uuid oid @ '':reconcile:novel_fill:novel-trade'') (JObj [])) (\<lambda>_.
     tx_bind (insert_risk_event aid ''exchange_reconciliation_required'' (JObj [])) (\<lambda>_.
     tx_bind (commit_tx) (\<lambda>_.
     tx_bind (tenant_tx aid) (\<lambda>_.
     tx_bind (stmt (sql_read (\<lambda>r d. length (filter (\<lambda>x. cm_command_type x = ''reconcile_order'') (visible_commands aid r d))))) (\<lambda>n.
     tx_bind (check (n = 1)) (\<lambda>_.
     tx_bind (stmt (sql_read (\<lambda>r d. length (filter (\<lambda>x. ev_event_type x = ''exchange_reconciliation_required'')
       (visible_events aid r d))))) (\<lambda>m.
     tx_bind (check (m = 1)) (\<lambda>_.
     commit_tx))))))))))))))"

definition permanently_rejected_command_is_not_claimable :: bool where
  "permanently_rejected_command_is_not_claimable \<longleftrightarrow> passes (
     tx_bind (p2_account 10000) (\<lambda>aid.
     tx_bind (p2_command aid Live ''permanently_rejected'' None ''test:permrej'') (\<lambda>cid.
     tx_bind (take_command cid ''leased'' (Some 1030)) (\<lambda>claimed.
     check (claimed = [])))))"

definition leased_command_past_expiry_becomes_claimable_again :: bool where
  "leased_command_past_expiry_becomes_claimable_again \<longleftrightarrow> passes (
     tx_bind (p2_account 10000) (\<lambda>aid.
     tx_bind (p2_command aid Paper ''leased'' (Some 940) ''test:expiredlease'') (\<lambda>cid.
     tx_bind (take_command cid ''reconciliation_required'' (Some 940)) (\<lambda>claimed.
     tx_bind (check (length claimed = 1)) (\<lambda>_.
     tx_bind (auto_stmt Owner (sql_read (\<lambda>r d. map cm_status (filter (\<lambda>x. cm_id x = cid) (t_exchange_commands d))))) (\<lambda>statuses.
     check (statuses = [''reconciliation_required''])))))))"

definition mode_switch_app_layer_rejects_when_open_order_exists :: bool where
  "mode_switch_app_layer_rejects_when_open_order_exists \<longleftrightarrow> passes (
     tx_bind (p2_account 10000) (\<lambda>aid.
     tx_bind (tenant_tx aid) (\<lambda>_.
     tx_bind (stmt (sql_insert_exchange_config (paper_row aid))) (\<lambda>_.
     tx_bind (p2_order aid Submitted) (\<lambda>oid.
     tx_bind (commit_tx) (\<lambda>_.
     tx_bind (tenant_tx aid) (\<lambda>_.
     tx_bind (stmt (sql_read (open_orders aid))) (\<lambda>orders.
     tx_bind (check (length orders = 1)) (\<lambda>_.
     commit_tx)))))))))"

definition mode_switch_trigger_blocks_under_app_role_and_rls :: bool where
  "mode_switch_trigger_blocks_under_app_role_and_rls \<longleftrightarrow> passes (
     tx_bind (p2_account 10000) (\<lambda>aid.
     tx_bind (tenant_tx aid) (\<lambda>_.
     tx_bind (stmt (sql_insert_exchange_config (paper_row aid))) (\<lambda>_.
     tx_bind (p2_order aid Submitted) (\<lambda>oid.
     tx_bind (commit_tx) (\<lambda>_.
     tx_bind (tenant_tx aid) (\<lambda>_.
     tx_bind (trigger_blocks (stmt (sql_update_exchange_config aid ''live'' True None None 2 1))) (\<lambda>_.
     tx_bind (tenant_tx aid) (\<lambda>_.
     tx_bind (stmt (sql_update_exchange_config aid ''paper'' False None None 2 1)) (\<lambda>_.
     commit_tx))))))))))"

definition mode_switch_trigger_allows_switch_once_orders_are_terminal :: bool where
  "mode_switch_trigger_allows_switch_once_orders_are_terminal \<longleftrightarrow> passes (
     tx_bind (p2_account 10000) (\<lambda>aid.
     tx_bind (tenant_tx aid) (\<lambda>_.
     tx_bind (stmt (sql_insert_exchange_config (paper_row aid))) (\<lambda>_.
     tx_bind (p2_order aid Filled) (\<lambda>oid.
     tx_bind (commit_tx) (\<lambda>_.
     tx_bind (tenant_tx aid) (\<lambda>_.
     tx_bind (stmt (sql_update_exchange_config aid ''live'' True None None 2 1)) (\<lambda>_.
     commit_tx))))))))"

definition rls_isolates_orders_fills_and_commands_across_tenants :: bool where
  "rls_isolates_orders_fills_and_commands_across_tenants \<longleftrightarrow> passes (
     tx_bind (p2_account 10000) (\<lambda>a.
     tx_bind (p2_account 10000) (\<lambda>b.
     tx_bind (tenant_tx a) (\<lambda>_.
     tx_bind (p2_order a Submitted) (\<lambda>oid.
     tx_bind (insert_fill a oid (p2_fill ''iso-trade'')) (\<lambda>_.
     tx_bind (insert_exchange_command a ''submit_order'' Paper ''iso:submit'' (JObj [])) (\<lambda>_.
     tx_bind (commit_tx) (\<lambda>_.
     tx_bind (tenant_tx b) (\<lambda>_.
     tx_bind (stmt (sql_read (visible_orders a))) (\<lambda>orders.
     tx_bind (stmt (sql_read (visible_fills a))) (\<lambda>fills.
     tx_bind (stmt (sql_read (visible_commands a))) (\<lambda>commands.
     tx_bind (check (orders = [] \<and> fills = [] \<and> commands = [])) (\<lambda>_.
     commit_tx)))))))))))))"

definition non_terminal_orders_are_found_for_reconciliation_after_restart :: bool where
  "non_terminal_orders_are_found_for_reconciliation_after_restart \<longleftrightarrow> passes (
     tx_bind (p2_account 10000) (\<lambda>aid.
     tx_bind (tenant_tx aid) (\<lambda>_.
     tx_bind (p2_order aid Submitted) (\<lambda>submitted.
     tx_bind (p2_order aid PartiallyFilled) (\<lambda>part.
     tx_bind (p2_order aid Filled) (\<lambda>full.
     tx_bind (commit_tx) (\<lambda>_.
     tx_bind (tenant_tx aid) (\<lambda>_.
     tx_bind (stmt (sql_read (open_orders aid))) (\<lambda>rows.
     let ids = map or_id rows in check (length ids = 2 \<and> submitted \<in> set ids \<and> part \<in> set ids))))))))))"

definition paper_full_flow_order_to_fill_to_position_via_outbox_worker :: bool where
  "paper_full_flow_order_to_fill_to_position_via_outbox_worker \<longleftrightarrow> passes (
     tx_bind (p2_account 10000) (\<lambda>aid.
     tx_bind (fresh_id) (\<lambda>oid.
     tx_bind (tenant_tx aid) (\<lambda>_.
     tx_bind (insert_order oid aid (client_order_id_of ref_uuid oid) ''BTCUSDT'' Buy Market 1 None Paper) (\<lambda>_.
     tx_bind (insert_exchange_command aid ''submit_order'' Paper (uuid_str ref_uuid oid @ '':submit'') (order_id_payload ref_uuid oid)) (\<lambda>_.
     tx_bind (commit_tx) (\<lambda>_.
     tx_bind (run_once ref_dec ref_json ref_uuid p2_supervisor 20) (\<lambda>n.
     tx_bind (check (n \<ge> 1)) (\<lambda>_.
     tx_bind (run_once ref_dec ref_json ref_uuid p2_supervisor 20) (\<lambda>n.
     tx_bind (check (n \<ge> 1)) (\<lambda>_.
     tx_bind (tenant_tx aid) (\<lambda>_.
     tx_bind (lock_order aid oid) (\<lambda>row.
     tx_bind (check (od_status row = Filled \<and> od_filled_quantity row = 1)) (\<lambda>_.
     tx_bind (load_fills_for_order aid oid) (\<lambda>fills.
     tx_bind (check (length fills = 1)) (\<lambda>_.
     tx_bind (stmt (sql_read (find_open_position aid ''BTCUSDT''))) (\<lambda>pos.
     tx_bind (check (case pos of Some x \<Rightarrow> po_side x = ''long'' \<and> po_quantity x = 1 | None \<Rightarrow> False)) (\<lambda>_.
     tx_bind (stmt (sql_read (\<lambda>r d. length (filter (\<lambda>x. ev_event_type x = ''order_filled'') (visible_events aid r d))))) (\<lambda>m.
     tx_bind (check (m = 1)) (\<lambda>_.
     commit_tx))))))))))))))))))))"

definition no_float_arithmetic_for_money_sanity_check :: bool where
  "no_float_arithmetic_for_money_sanity_check \<longleftrightarrow> dadd ref_dec (11 / 10) (22 / 10) = Some (33 / 10)"

section \<open>The model passes them\<close>

lemmas p2_defs = p2_account_def p2_order_def p2_fill_def p2_command_def take_command_def paper_row_def
  trigger_blocks_def visible_orders_def visible_fills_def visible_commands_def visible_events_def
  passes_def check_def fill_exists_def insert_fill_def sql_insert_fill_def fill_check_def order_check_def
  command_check_def mode_check_def sql_insert_exchange_config_def sql_update_exchange_config_def
  mode_switch_trigger_def open_orders_def open_positions_def claimable_def coalesce_def numeric_opt_def

lemma client_ids:
  "client_order_id_of ref_uuid 2 = ''2''" "client_order_id_of ref_uuid 3 = ''3''" "client_order_id_of ref_uuid 4 = ''4''"
proof -
  have "show_nat (unat (2 :: uuid)) = ''2''" "show_nat (unat (3 :: uuid)) = ''3''" "show_nat (unat (4 :: uuid)) = ''4''"
    by code_simp+
  then show "client_order_id_of ref_uuid 2 = ''2''" "client_order_id_of ref_uuid 3 = ''3''" "client_order_id_of ref_uuid 4 = ''4''"
    by (simp_all add: client_order_id_of_def ref_uuid_def)
qed

lemmas p2_simps = run_defs p2_defs table_defs client_ids Let_def res_simps

lemma uuid_read: "uuid_parse ref_uuid (uuid_str ref_uuid u) = Some u"
  using ref_uuid_laws by (simp add: uuid_laws_def)

lemmas worker_defs = p2_supervisor_def run_once_def process_command_def dispatch_def after_dispatch_def resolve_def
  claim_pending_commands_def sql_claim_pending_commands_def claim_ids_def row_to_claimed_def parse_mode_def
  extract_order_id_def str_field_def ref_json_def uuid_read order_id_payload_def order_ref_def
  hydrate_snapshot_def finish_submit_def acquire_def mark_command_delivered_def sql_set_command_status_def
  paper_adapter_def paper_submit_def paper_reconcile_order_def order_to_snapshot_def row_to_order_def
  parse_status_def parse_side_def parse_order_type_def d_sum_def ref_dec_exact feed.est_upd_same md_new_def
  try_fill_def touched_def persist_reconcile_result_def persist_checked_def persist_fills_def persist_changes_def
  persist_deltas_def persist_status_def persist_events_def apply_position_delta_def find_open_position_def
  update_order_status_def sql_update_order_status_def parse_status_def no_result_def

lemma duplicate_fill_is_a_true_noop_holds: "duplicate_fill_is_a_true_noop"
  unfolding duplicate_fill_is_a_true_noop_def by (simp add: p2_simps)

lemma novel_fill_for_terminal_order_triggers_reconciliation_holds: "novel_fill_for_terminal_order_triggers_reconciliation"
  unfolding novel_fill_for_terminal_order_triggers_reconciliation_def by (simp add: p2_simps)

lemma permanently_rejected_command_is_not_claimable_holds: "permanently_rejected_command_is_not_claimable"
  unfolding permanently_rejected_command_is_not_claimable_def by (simp add: p2_simps)

lemma leased_command_past_expiry_becomes_claimable_again_holds: "leased_command_past_expiry_becomes_claimable_again"
  unfolding leased_command_past_expiry_becomes_claimable_again_def by (simp add: p2_simps)

lemma mode_switch_app_layer_rejects_when_open_order_exists_holds: "mode_switch_app_layer_rejects_when_open_order_exists"
  unfolding mode_switch_app_layer_rejects_when_open_order_exists_def by (simp add: p2_simps)

lemma mode_switch_trigger_blocks_under_app_role_and_rls_holds: "mode_switch_trigger_blocks_under_app_role_and_rls"
  unfolding mode_switch_trigger_blocks_under_app_role_and_rls_def by (simp add: p2_simps)

lemma mode_switch_trigger_allows_switch_once_orders_are_terminal_holds: "mode_switch_trigger_allows_switch_once_orders_are_terminal"
  unfolding mode_switch_trigger_allows_switch_once_orders_are_terminal_def by (simp add: p2_simps)

lemma rls_isolates_orders_fills_and_commands_across_tenants_holds: "rls_isolates_orders_fills_and_commands_across_tenants"
  unfolding rls_isolates_orders_fills_and_commands_across_tenants_def by (simp add: p2_simps)

lemma non_terminal_orders_are_found_for_reconciliation_after_restart_holds: "non_terminal_orders_are_found_for_reconciliation_after_restart"
  unfolding non_terminal_orders_are_found_for_reconciliation_after_restart_def by (simp add: p2_simps)

lemma paper_full_flow_order_to_fill_to_position_via_outbox_worker_holds: "paper_full_flow_order_to_fill_to_position_via_outbox_worker"
  unfolding paper_full_flow_order_to_fill_to_position_via_outbox_worker_def by (simp add: p2_simps worker_defs)

lemma no_float_arithmetic_for_money_sanity_check_holds: "no_float_arithmetic_for_money_sanity_check"
  unfolding no_float_arithmetic_for_money_sanity_check_def by (simp add: ref_dec_exact)

end
