(* ===== verification/Divergences.thy ===== *)
theory Divergences
  imports Claim_Effects Route_Effects Server_Main Scenario
begin

text \<open>
  Where the code does something else than what it, or a comment on it, says it means to: one lemma for
  each such place, on the model of the code as it is. Fills that close a position and the empty
  metadata store of a failed start are properties of \<open>Worker_Properties\<close>.
\<close>

section \<open>The Binance adapter\<close>

text \<open>
  \<open>binance/reconcile.rs\<close>, line 67: where the status is unchanged the answer is not looked at further,
  however much the exchange says was executed.
\<close>

lemma unchanged_status_books_nothing:
  assumes "os_status (rs_order s) = PartiallyFilled" "str_field J resp ''status'' = Some ''PARTIALLY_FILLED''"
  shows "map_order_status_response D J U s resp = Ok no_result"
  using assms by (simp add: map_order_status_response_def parse_binance_status_def)

text \<open>
  Line 57: a cancellation or expiry on the exchange's own account maps to a status that no open order
  may move to before a cancellation was requested here, so the result is refused.
\<close>

lemma exchange_cancellation_refused:
  assumes "od_status locked = Submitted \<or> od_status locked = PartiallyFilled"
  shows "parse_binance_status ''CANCELED'' = Ok Cancelled" "parse_binance_status ''EXPIRED'' = Ok Cancelled"
    "persist_status D a oid locked ins (Some Cancelled) = tx_fail ReconciliationRequired"
proof -
  show "parse_binance_status ''CANCELED'' = Ok Cancelled" "parse_binance_status ''EXPIRED'' = Ok Cancelled"
    by (simp_all add: parse_binance_status_def)
  have "\<not> is_ok (transition (od_status locked) Cancelled)" using assms by auto
  then show "persist_status D a oid locked ins (Some Cancelled) = tx_fail ReconciliationRequired"
    by (simp add: persist_status_def)
qed

text \<open>Line 107: without a cumulative quote and a price in the answer a new fill has the price 0.\<close>

lemma unpriced_fill_has_price_zero:
  assumes "dec_field_or_zero D J resp ''cummulativeQuoteQty'' = 0" "dec_field_or_zero D J resp ''price'' = 0"
    "rs_fills s = []" "dsub D 0 0 = Some 0" "0 < delta"
  shows "\<exists>f. new_fills D J s resp delta = Some [f] \<and> fl_price f = 0"
  using assms by (simp add: new_fills_def fill_price_def)

section \<open>Orders and limits\<close>

text \<open>
  \<open>routes_orders.rs\<close>, line 84: the risk engine judges a market order at the price the client sent, if
  it sent one; at a price near zero it approves any quantity.
\<close>

lemma market_order_at_clients_price:
  assumes "pq_price body = Some p"
  shows "ti_price (request_core_intent body est) = p"
  using assms by (simp add: request_core_intent_def)

lemma million_units_approved:
  "evaluate ref_dec (placed_intent\<lparr>ti_quantity := 1000000, ti_price := 1 / 100000000\<rparr>) new_snapshot
     default_risk_config = Some Approved"
proof -
  let ?t = "placed_intent\<lparr>ti_quantity := 1000000, ti_price := 1 / 100000000\<rparr>"
  have "engine_representable ?t new_snapshot default_risk_config"
    using is_decI [of 1 8] is_decI [of 1 2]
    by (auto simp: engine_representable_def pct_representable_def placed_intent_def new_snapshot_def
        default_risk_config_def group_notionals_def)
  moreover have "violations_spec ?t new_snapshot default_risk_config = []"
    by (simp add: violations_spec_def breaker_violations_def breaker_spec_def placed_intent_def new_snapshot_def
      default_risk_config_def reduces_existing_position_def size_violations_def size_spec_def
      count_violations_def count_spec_def exposure_violations_def exposure_spec_def group_notionals_def)
  ultimately show ?thesis by (simp add: evaluate_exact [OF ref_dec_laws])
qed

text \<open>
  Line 92: a request for an order never stores a breaker trip, also where it is refused because
  the breaker should trip.
\<close>

lemma place_order_stores_no_trip:
  assumes "place_order D U st t1 t2 a body c = (z, c')"
  shows "t_daily_pnl (c_durable c') = t_daily_pnl (c_durable c)"
  by (rule place_order_effect [OF assms])
    (auto simp: events_appended_def order_accepted_def order_written_def order_inserted_def command_enqueued_def)

text \<open>
  \<open>routes.rs\<close>, line 199: a percentage can pass the check of the route and be 0 at the scale of its column.
\<close>

lemma tiny_percentage_rounds_to_zero:
  "pct name (1 / 100000) = Ok () \<and> numeric_8_4 (1 / 100000) = Some 0 \<and> \<not> pct_check 0"
proof -
  have "round_half_away (1 / 10) = 0" by code_simp
  then show ?thesis by (simp add: pct_def numeric_def pct_check_def)
qed

text \<open>
  Line 293: two groups of one name pass the check of the route and violate the unique constraint of the
  table, a server error.
\<close>

lemma same_group_name_twice:
  assumes "\<not> is_blank n" "\<not> is_blank s" "\<not> is_blank u" "s \<noteq> u"
  shows "check_groups [] [\<lparr>gd_name = n, gd_symbols = [s]\<rparr>, \<lparr>gd_name = n, gd_symbols = [u]\<rparr>] = Ok ()"
    "\<lparr>cg_id = g, cg_account_id = a, cg_name = n\<rparr> \<in> set (t_correlation_groups d) \<Longrightarrow>
      sql_insert_group \<lparr>cg_id = h, cg_account_id = a, cg_name = n\<rparr> (App (Some a)) d = Err UniqueViolation"
    "api_status (DbErr UniqueViolation) = 500"
  using assms by (force simp: sql_insert_group_def guard_def list_ex_iff res_simps)+

text \<open>
  \<open>routes_exchange.rs\<close>, line 110: an account without a configuration trades in paper mode, and its first
  configuration is stored without the guard, and as an \<open>INSERT\<close> without the trigger: here it goes live
  with an open paper order.
\<close>

lemma first_configuration_skips_the_guard:
  obtains v c row where
    "put_exchange_config A U env n1 n2 1 \<lparr>px_mode = ''live'', px_testnet = True, px_api_key = None,
       px_api_secret = None, px_version = ver\<rparr> (sess 6 db2) = (Ok v, c)"
    "open_orders 1 (App (Some 1)) (c_durable (sess 6 db2)) \<noteq> []"
    "find_exchange_config 1 (App (Some 1)) (c_durable c) = Some row" "ec_mode row = ''live''"
  by (simp add: run_defs put_exchange_config_def sess_def db2_def db1_def empty_db_def open_orders_def
      statement_defs row_defs config_guard_def encrypt_credentials_def sql_insert_exchange_config_def mode_check_def
      config_event_type_def risk_event_types_def Let_def res_simps)

section \<open>The worker\<close>

text \<open>
  \<open>outbox_worker.rs\<close>, line 150: a command that is put back can be claimed at once.
\<close>

lemma requeued_is_claimable:
  assumes "requeue_command cid c = (Ok u, c')" "x \<in> set (t_exchange_commands (c_durable c'))" "cm_id x = cid"
  shows "claimable now x"
  using requeue_Ok [OF assms] by (simp add: claimable_def)

text \<open>
  Line 76: what a reconciliation persists never adds a command, whatever the result asks for; an order
  that found no fill is not looked at again.
\<close>

lemma reconciliation_enqueues_nothing:
  assumes "persist_reconcile_result D a oid snap r c = (z, c')"
  shows "t_exchange_commands (c_durable c') = t_exchange_commands (c_durable c)"
proof -
  have set: "t_exchange_commands d' = t_exchange_commands d" if "status_persisted D a oid x ins ns d d'" for x ins ns d d'
    using that by (auto simp: status_persisted_def order_set_def split: option.splits)
  from persist_effect [OF assms] show ?thesis
  proof
    assume "persisted D a oid snap r (c_durable c) (c_durable c')"
    then obtain x ins d1 d2 d3 where "fills_appended a oid ins (c_durable c) d1" "but_positions d1 d2"
        "status_persisted D a oid x ins (rr_new_status r) d2 d3" "events_appended d3 (c_durable c')"
      unfolding persisted_def by blast
    moreover from this(2) have "t_exchange_commands d2 = t_exchange_commands d1"
      unfolding but_positions_def by (metis db.ext_inject db.surjective db.update_convs(5))
    ultimately show ?thesis
      using set [of x ins _ d2 d3] by (auto simp: fills_appended_def events_appended_def)
  qed simp
qed

text \<open>
  Line 292: an audit event that fails inside the transaction takes the whole transaction with it, and
  the commit after it reports success.
\<close>

lemma failed_audit_event_undoes_silently:
  assumes "insert_risk_event a ty pl c = (Err e, c1)" "c_aborted c1" "c_faults c1 = []"
  shows "tx_bind (tx_ignore (insert_risk_event a ty pl)) (\<lambda>_. commit_tx) c = (Ok (), c1)"
  using assms by (simp add: tx_ignore_def tx_bind_def tx_handle_def commit_tx_def io_def tx_return_def)

text \<open>
  \<open>db.rs\<close>, line 611: the position is read without a lock and written back as an absolute value. Here a
  session adds 1 and another 2 to a long position of 5. Where both have read before one has written, each
  computes its new value from 5, and whichever writes last leaves the position without the other's fill.
\<close>

lemma apply_position_delta_reads_then_writes:
  assumes "stmt (sql_read (find_open_position a s)) c = (Ok (Some row), c1)" "delta \<noteq> 0"
    "position_change D row delta price = Some (SetPosition side q p)"
  shows "apply_position_delta D a s delta price c = stmt (sql_update_position (po_id row) side q p) c1"
  using assms by (simp add: apply_position_delta_def tx_bind_def tx_handle_def tx_lift_def tx_return_def)

definition long_btc :: "rat \<Rightarrow> position_row" where
  "long_btc q = \<lparr>po_id = 7, po_account_id = 1, po_symbol = ''BTC'', po_side = ''long'', po_quantity = q,
     po_avg_entry_price = 100, po_status = ''open'', po_closed_at = None\<rparr>"

definition long_btc_db :: "rat \<Rightarrow> db" where
  "long_btc_db q = empty_db\<lparr>t_positions := [long_btc q]\<rparr>"

lemma lost_position_update:
  "find_open_position 1 ''BTC'' (App (Some 1)) (long_btc_db 5) = Some (long_btc 5)"
  "position_change ref_dec (long_btc 5) 1 price = Some (SetPosition ''long'' 6 100)"
  "position_change ref_dec (long_btc 5) 2 price = Some (SetPosition ''long'' 7 100)"
  "sql_update_position 7 ''long'' 6 100 (App (Some 1)) (long_btc_db 5) = Ok ((), long_btc_db 6)"
  "sql_update_position 7 ''long'' 7 100 (App (Some 1)) (long_btc_db 6) = Ok ((), long_btc_db 7)"
  "net_position 1 ''BTC'' (t_positions (long_btc_db 7)) \<noteq> net_position 1 ''BTC'' (t_positions (long_btc_db 5)) + 1 + 2"
  by (simp_all add: long_btc_db_def long_btc_def empty_db_def find_open_position_def first_row_def
      position_change_def ref_dec_exact sql_update_position_def checked_update_def update_where_def numeric_on_grid position_check_def
      net_position_def holds_def signed_quantity_def res_simps)

text \<open>
  \<open>outbox_worker.rs\<close>, line 311: whether the adapter accepted the order is not looked at.
\<close>

lemma refused_submission_counts_as_submitted:
  assumes "ad_submit ad = (\<lambda>_. Ok \<lparr>sr_accepted = b, sr_events = es\<rparr>)"
    "ad_submit ad' = (\<lambda>_. Ok \<lparr>sr_accepted = \<not> b, sr_events = es'\<rparr>)" "cc_command_type cmd = ''submit_order''"
  shows "dispatch D J U ad cmd = dispatch D J U ad' cmd"
  using assms by (simp add: dispatch_def bind_lift_Ok split: option.split)

section \<open>The key text\<close>

text \<open>
  \<open>routes_exchange.rs\<close>, line 55: a sign is accepted inside a pair of digits, and a character of several
  bytes that a pair splits is a panic.
\<close>

lemma hex_decode_oddities:
  "hex_decode ''+a'' = Ok [10]"
  "hex_decode [CHR ''0'', CHR 0xC3, CHR 0xA9, CHR ''0''] = Panic"
  by code_simp+

end
