(* ===== verification/Start_Up.thy ===== *)
theory Start_Up
  imports Server_Main
begin

text \<open>
  \<open>main\<close> of \<open>crates/server/src/main.rs\<close> up to the point where it serves, and
  \<open>crates/server/src/bin/migrate.rs\<close>. The operating system and the libraries are parameters: how to
  connect a pool (by its size and URL), to bind a listener and to run the migrations.
\<close>

section \<open>The environment\<close>

text \<open>
  The variables of the process that are texts, and those that \<open>dotenvy\<close> read from the project's
  \<open>.env\<close>, if there is one.
\<close>

record process_env =
  pe_vars :: "string \<Rightarrow> string option"
  pe_dotenv :: "string \<Rightarrow> string option"

text \<open>\<open>dotenv_override\<close>: the file wins over what the shell exported.\<close>

definition dotenv_override :: "process_env \<Rightarrow> string \<Rightarrow> string option" where
  "dotenv_override env = pe_vars env ++ pe_dotenv env"

text \<open>What \<open>main\<close> returns in its \<open>Box<dyn Error>\<close>.\<close>

datatype start_error =
    VarError
  | PoolError string
  | BindError string
  | MigrateError string

definition env_var :: "(string \<Rightarrow> string option) \<Rightarrow> string \<Rightarrow> (start_error, string) res" where
  "env_var vars name = ok_or (vars name) VarError"

section \<open>The server\<close>

record ('p, 'l) os_ops =
  os_pool :: "nat \<Rightarrow> string \<Rightarrow> (string, 'p) res"
  os_bind :: "string \<Rightarrow> (string, 'l) res"

record ('p, 'l) server =
  sv_pool :: 'p
  sv_owner_pool :: 'p
  sv_state :: app_state
  sv_listener :: 'l

text \<open>The pool of the application role, then that of the owner, for the outbox.\<close>

definition open_pools ::
    "('p, 'l) os_ops \<Rightarrow> (string \<Rightarrow> string option) \<Rightarrow> (start_error, 'p \<times> 'p) res" where
  "open_pools S vars =
     res_bind (env_var vars ''APP_DATABASE_URL'') (\<lambda>url.
     res_bind (map_err PoolError (os_pool S 5 url)) (\<lambda>pool.
     res_bind (env_var vars ''DATABASE_URL'') (\<lambda>owner_url.
     res_bind (map_err PoolError (os_pool S 2 owner_url)) (\<lambda>owner_pool.
     Ok (pool, owner_pool)))))"

definition listen_addr :: "(string \<Rightarrow> string option) \<Rightarrow> string" where
  "listen_addr vars = (case vars ''LISTEN_ADDR'' of Some a \<Rightarrow> a | None \<Rightarrow> ''127.0.0.1:8080'')"

text \<open>
  From the environment to the listener. The fetch of the symbol metadata before the tasks start, at
  \<open>now\<close>, may fail without consequence.
\<close>

definition main_start ::
    "dec_ops \<Rightarrow> json_ops \<Rightarrow> http_client \<Rightarrow> ('p, 'l) os_ops \<Rightarrow> process_env \<Rightarrow> instant \<Rightarrow>
     (start_error, ('p, 'l) server) res" where
  "main_start D J N S env now =
     (let vars = dotenv_override env in
      res_bind (open_pools S vars) (\<lambda>(pool, owner_pool).
      let state = refresh_symbols D J N now main_state in
      res_bind (map_err BindError (os_bind S (listen_addr vars))) (\<lambda>listener.
      Ok \<lparr>sv_pool = pool, sv_owner_pool = owner_pool, sv_state = state, sv_listener = listener\<rparr>)))"

section \<open>The migration program\<close>

definition migrate_main ::
    "('p, 'l) os_ops \<Rightarrow> ('p \<Rightarrow> (string, unit) res) \<Rightarrow> process_env \<Rightarrow> (start_error, unit) res" where
  "migrate_main S run env =
     res_bind (env_var (dotenv_override env) ''DATABASE_URL'') (\<lambda>url.
     res_bind (map_err PoolError (os_pool S 1 url)) (\<lambda>pool.
     map_err MigrateError (run pool)))"

section \<open>Lemmas\<close>

lemma env_var_Ok: "env_var vars name = Ok v \<longleftrightarrow> vars name = Some v"
  by (cases "vars name") (simp_all add: env_var_def)

text \<open>A variable of the file is used whatever the shell says; the shell's is used where the file has none.\<close>

lemma dotenv_is_authoritative:
  "pe_dotenv env name = Some v \<Longrightarrow> dotenv_override env name = Some v"
  "pe_dotenv env name = None \<Longrightarrow> dotenv_override env name = pe_vars env name"
  by (simp_all add: dotenv_override_def map_add_def)

text \<open>
  The server starts exactly where both databases are named and answer and the address can be bound.
  Whether the exchange answers plays no part.
\<close>

lemma server_starts_iff:
  "is_ok (main_start D J N S env now) \<longleftrightarrow>
     (\<exists>url owner_url pool owner_pool listener.
        dotenv_override env ''APP_DATABASE_URL'' = Some url \<and> os_pool S 5 url = Ok pool \<and>
        dotenv_override env ''DATABASE_URL'' = Some owner_url \<and> os_pool S 2 owner_url = Ok owner_pool \<and>
        os_bind S (listen_addr (dotenv_override env)) = Ok listener)"
proof -
  have ok: "is_ok r \<longleftrightarrow> (\<exists>x. r = Ok x)" for r :: "('e, 'x) res" by (cases r) auto
  show ?thesis by (auto simp: main_start_def open_pools_def Let_def ok res_simps env_var_Ok)
qed

text \<open>The server that starts holds the caches of one refresh round, so the invariant of the caches holds.\<close>

lemma started_caches:
  assumes "main_start D J N S env now = Ok sv"
  shows "sv_state sv = refresh_symbols D J N now main_state" "caches D J (sv_state sv) now"
proof -
  show "sv_state sv = refresh_symbols D J N now main_state"
    using assms by (auto simp: main_start_def Let_def res_simps)
  then show "caches D J (sv_state sv) now"
    using caches.refreshed [OF caches.started [of D J now] order_refl] by simp
qed

text \<open>
  With a failed first fetch the server starts on an empty store, where every order is refused.
\<close>

lemma failed_fetch_starts_closed:
  assumes "main_start D J N S env now = Ok sv" "\<not> is_ok (fetch_exchange_info D J N market_client)"
  shows "sv_state sv = main_state" "is_stale (app_symbols (sv_state sv)) t"
proof -
  show eq: "sv_state sv = main_state"
    using started_caches(1) [OF assms(1)] assms(2)
    by (cases "fetch_exchange_info D J N market_client") (simp_all add: refresh_symbols_def)
  show "is_stale (app_symbols (sv_state sv)) t"
    by (simp add: eq main_state_def store_new_def is_stale_def)
qed

end
