(* ===== verification/Spec2Isabelle.thy ===== *)
theory Spec2Isabelle
  imports Core_Properties Exchange_Properties Server_Properties Worker_Properties Conformance_Binance
    Conformance_Phase2 Divergences Start_Up
begin

text \<open>
  Verification of the Confluence trading server, the Rust workspace under src/crates: a risk engine
  (crate core), exchange adapters (crate exchange) and an HTTP server with an outbox worker on a
  PostgreSQL database (crate server).

  \<^bold>\<open>The program.\<close> A request to place an order is validated against cached exchange metadata and quotes
  (server/src/validators.rs, symbol_metadata.rs, exchange/src/paper/market_data.rs), judged by the risk
  engine (core/src/engine.rs) on the account's state in the database, and written, in one transaction,
  with a command in an outbox table and an audit event (server/src/routes_orders.rs). The worker
  (server/src/outbox_worker.rs) claims commands under a lease, reads the order, asks an adapter outside any
  transaction, and persists the answer with a check that the order is still the one it had read: fills,
  positions, status and audit events in one transaction. Adapters are the paper adapter
  (exchange/src/paper) and the Binance adapter (exchange/src/binance). Other routes keep accounts, limits,
  correlation groups, the kill switch and encrypted exchange credentials (server/src/routes.rs,
  routes_exchange.rs, exchange/src/config.rs). Row-level security separates the tenants
  (server/migrations, server/src/db.rs).

  \<^bold>\<open>Theories.\<close>
  \<^item> Prelude: results with errors and panics, messages, tables as lists of rows, shared lemmas.
  \<^item> Decimal: the decimal crate as a parameter \<open>dec_ops\<close> with its documented laws, and the grid of
    \<open>numeric(30,10)\<close>; \<open>ref_dec\<close> is an instance.
  \<^item> Risk_Engine (core/src/types.rs, engine.rs); Lifecycle and Order_State (exchange/src/order_state.rs;
    a locale of life cycles, interpreted by the order states); Exchange_Types (exchange/src/types.rs,
    error.rs, adapter.rs); Quantize (quantize.rs).
  \<^item> Market_Data, Paper_Account, Paper_Adapter (exchange/src/paper); Adapter_Contract states as a locale
    what the worker relies on of an adapter, interpreted by both adapters.
  \<^item> Json_Ops, Binance_Rest, Binance_Ws, Binance_Reconcile (exchange/src/binance): URLs, signed queries,
    parsers, the mapping of an order-status answer. JSON access, HMAC, HTTP and the
    WebSocket library are parameters.
  \<^item> Credentials (exchange/src/config.rs and the key parser of routes_exchange.rs); the cipher is a
    parameter with laws.
  \<^item> Symbol_Metadata, Validators (server/src).
  \<^item> Schema: the tables of the migrations with checks, keys and row-level security, and the session
    state \<open>conn\<close> with the primitives of transactions. Database (db.rs), Routes (routes.rs, error.rs),
    Routes_Orders, Routes_Exchange, Outbox_Worker: every function of these files as a transaction.
  \<^item> Statement_Invariants (a locale: what every statement of a tenant keeps, every handler keeps, on every
    path; a second locale asks that of the worker alone, and the first gives it), Table_Invariants and
    Schema_Invariants (the constraints of the schema).
  \<^item> Tx_Logic: specifications \<open>tx_spec\<close> of transaction fragments, with a rule per primitive; a transaction is
    all or nothing whatever statements fail and whichever round trips are lost. Worker_Effects, Claim_Effects,
    Route_Effects, Evaluate_Effects: the exact effects of the worker's and the routes' transactions.
    Settling: a pass of the worker without faults fails nowhere and leaves no command leased. Progress: its
    submissions and fills run through statement by statement, none of which fails.
  \<^item> Ledger: an abstract book of fills and its invariant. Router: the dispatch of \<open>app_with_state\<close>.
  \<^item> System: any number of requests and workers interleaved at the granularity of transactions, as an
    inductive step relation on the database and the snapshots that workers hold; System_Books proves its
    invariant, System_Runs that the code of the worker refines its steps.
  \<^item> Server_Main (main.rs): the caches, their refresh rounds, and the wiring of the worker. Start_Up (main.rs,
    bin/migrate.rs): the environment, the pools, the first fetch and the listener; the operating system and
    the libraries are parameters.
  \<^item> Scenario: a concrete run, from the empty database to a filled order, which the witnesses use.
  \<^item> Core_Properties, Exchange_Properties, System_Properties, Server_Properties, Worker_Properties: the
    properties, each with a witness at a concrete input.
  \<^item> Divergences: where the code does something else than it means to, a lemma for each place.
  \<^item> Conformance_Core, Conformance_Exchange, Conformance_Binance: the inline unit tests of the crates, with
    their fixtures, as executable predicates under the names they have in the source, and the proofs that
    the model passes them; where a test computes with decimals only, for all decimals that keep the laws.
    Conformance_Api, Conformance_Phase2: the integration tests (server/tests) as programs over the handlers and
    the worker, run from the empty database.

  \<^bold>\<open>What is shown.\<close> The engine reports exactly the rules that are broken and approves exactly what they
  admit. In every state that the system can reach, the constraints of the schema hold, every order's
  filled quantity is the sum of its fills and at most what was ordered, and every net position is the
  net of the account's fills; orders move along legal transitions only; the audit log is
  append-only; requests touch their own tenant's rows only; a snapshot that was overtaken books
  nothing. Orders enter the database only approved, never after the kill switch or a breaker trip; claims
  are exclusive under their leases and recover lapsed ones, and a pass that is not cut off settles all it
  claimed; where the database answers, a submission schedules the reconciliation of its order, and a
  reconciliation at a crossing quote fills it; metadata and quotes fail closed; stored
  credentials decrypt for their account only.

  \<^bold>\<open>Modelling decisions.\<close>
  \<^item> Decimals are rationals; every operation goes through \<open>dec_ops\<close> and may fail (a panic). The laws promise
    exact results where the result is a decimal of 96 bits and scale 28. The system invariants assume
    amounts below \<open>10 ^ 18\<close> on the stored grid, below \<open>grid_bound\<close> (about \<open>7.9 * 10 ^ 18\<close>), where that holds.
  \<^item> A handler is a function of the session; each round trip is answered, lost before the database saw
    it, or answered with the reply lost (\<open>c_faults\<close>), as the list of faults says. An error aborts the
    transaction and the commit of an aborted one rolls back while it reports success, as PostgreSQL does.
  \<^item> Transactions are serial: a handler's statements see no other transaction between its begin and
    its commit. The worker's phases are transactions of their own, so they interleave freely.
  \<^item> \<open>i32\<close> versions wrap as in a release build; clocks are seconds as natural numbers; identifiers and
    times come from the session; texts are lists of UTF-8 bytes; error messages keep their format.
  \<^item> Loops run over lists and end by structural recursion; no fuel is needed. The worker's loop is
    modelled by its pass \<open>run_once\<close> and the system's runs; a pass is total by construction, and it is proved
    that it returns the number of commands it claimed, each settled, where the database answers.

  \<^bold>\<open>Not modelled.\<close> Logging, the sleeps of the background tasks, axum's extractors (a body that does not
  parse never reaches a handler), the grants and the indexes that are not unique of the schema, and lock
  waits and weaker isolation between statements of concurrent transactions: Divergences takes one pair of
  statements apart, where the lack of a lock shows. What is left of the files are their imports, module lists
  and derived traits, and the two tests that ask the live exchange.
\<close>

end
